(* ===== verification/Exec_Prelude.thy ===== *)
theory Exec_Prelude
  imports Main "HOL-Library.AList"
begin

text \<open>
  The shared prelude of the development.  It holds

  \<^item> the collections of rules the component theories extend (\<open>wp_simps\<close> for the
    weakest-precondition calculus, \<open>dict_simps\<close> for Python dictionaries);
  \<^item> pure computations that may raise (\<open>'e + 'a\<close>, with \<open>Inl\<close> the raised exception);
  \<^item> stateful computations that may raise (\<open>'s \<Rightarrow> ('e + 'a) \<times> 's\<close>): the state at the
    moment of the raise is kept, as in Python, where an exception does not undo the
    assignments made before it;
  \<^item> a weakest-precondition calculus over them;
  \<^item> dictionaries as association lists.
\<close>

named_theorems wp_simps \<open>weakest preconditions of the monad's combinators and of the operations\<close>
named_theorems dict_simps \<open>reading back a dictionary after an assignment\<close>


section \<open>Computations that may raise\<close>

type_synonym ('e, 'a) res = "'e + 'a"

definition bindR :: "('e, 'a) res \<Rightarrow> ('a \<Rightarrow> ('e, 'b) res) \<Rightarrow> ('e, 'b) res" where
  "bindR r f = (case r of Inl e \<Rightarrow> Inl e | Inr x \<Rightarrow> f x)"

text \<open>\<open>if b: raise e\<close>\<close>

definition raise_if :: "bool \<Rightarrow> 'e \<Rightarrow> ('e, unit) res" where
  "raise_if b e = (if b then Inl e else Inr ())"

fun mapR :: "('a \<Rightarrow> ('e, 'b) res) \<Rightarrow> 'a list \<Rightarrow> ('e, 'b list) res" where
  "mapR f [] = Inr []"
| "mapR f (x # xs) = bindR (f x) (\<lambda>y. bindR (mapR f xs) (\<lambda>ys. Inr (y # ys)))"

definition isOk :: "('e, 'a) res \<Rightarrow> bool" where
  "isOk r = (case r of Inl _ \<Rightarrow> False | Inr _ \<Rightarrow> True)"

lemma bindR_simps [simp]:
  "bindR (Inl e) f = Inl e"
  "bindR (Inr x) f = f x"
  by (simp_all add: bindR_def)

lemma bindR_eq_Inr: "bindR r f = Inr y \<longleftrightarrow> (\<exists>x. r = Inr x \<and> f x = Inr y)"
  by (cases r) auto

lemma bindR_eq_Inl: "bindR r f = Inl e \<longleftrightarrow> r = Inl e \<or> (\<exists>x. r = Inr x \<and> f x = Inl e)"
  by (cases r) auto

lemma raise_if_simps [simp]:
  "raise_if True e = Inl e"
  "raise_if False e = Inr ()"
  by (simp_all add: raise_if_def)

lemma raise_if_eq [simp]:
  "raise_if b e = Inr u \<longleftrightarrow> \<not> b"
  "raise_if b e = Inl e' \<longleftrightarrow> b \<and> e' = e"
  by (auto simp: raise_if_def)

lemma isOk_simps [simp]: "isOk (Inl e) = False" "isOk (Inr x) = True"
  by (simp_all add: isOk_def)

lemma isOk_iff: "isOk r \<longleftrightarrow> (\<exists>x. r = Inr x)"
  by (cases r) auto

lemma mapR_length: "mapR f xs = Inr ys \<Longrightarrow> length ys = length xs"
  by (induction xs arbitrary: ys) (auto simp: bindR_eq_Inr)

lemma mapR_nth: "mapR f xs = Inr ys \<Longrightarrow> i < length xs \<Longrightarrow> f (xs ! i) = Inr (ys ! i)"
proof (induction xs arbitrary: ys i)
  case Nil
  then show ?case by simp
next
  case (Cons x xs)
  then show ?case by (cases i) (auto simp: bindR_eq_Inr)
qed

lemma mapR_set: "mapR f xs = Inr ys \<Longrightarrow> y \<in> set ys \<Longrightarrow> \<exists>x \<in> set xs. f x = Inr y"
  by (induction xs arbitrary: ys) (auto simp: bindR_eq_Inr)


section \<open>Stateful computations that may raise\<close>

type_synonym ('s, 'e, 'a) act = "'s \<Rightarrow> ('e + 'a) \<times> 's"

definition returnM :: "'a \<Rightarrow> ('s, 'e, 'a) act" where
  "returnM x = (\<lambda>s. (Inr x, s))"

definition raiseM :: "'e \<Rightarrow> ('s, 'e, 'a) act" where
  "raiseM e = (\<lambda>s. (Inl e, s))"

definition bindM :: "('s, 'e, 'a) act \<Rightarrow> ('a \<Rightarrow> ('s, 'e, 'b) act) \<Rightarrow> ('s, 'e, 'b) act" where
  "bindM m f = (\<lambda>s. case m s of (Inl e, s') \<Rightarrow> (Inl e, s') | (Inr x, s') \<Rightarrow> f x s')"

definition getM :: "('s \<Rightarrow> 'a) \<Rightarrow> ('s, 'e, 'a) act" where
  "getM f = (\<lambda>s. (Inr (f s), s))"

definition modifyM :: "('s \<Rightarrow> 's) \<Rightarrow> ('s, 'e, unit) act" where
  "modifyM f = (\<lambda>s. (Inr (), f s))"

definition liftR :: "('e, 'a) res \<Rightarrow> ('s, 'e, 'a) act" where
  "liftR r = (\<lambda>s. (r, s))"

definition raiseM_if :: "bool \<Rightarrow> 'e \<Rightarrow> ('s, 'e, unit) act" where
  "raiseM_if b e = (if b then raiseM e else returnM ())"

text \<open>
  \<open>try: m except: h\<close>, where the handler table \<open>h\<close> sees every exception and answers
  \<open>None\<close> for the ones it does not catch; \<open>try: m finally: g\<close> runs \<open>g\<close> on both exits.
\<close>

definition tryM :: "('s, 'e, 'a) act \<Rightarrow> ('e \<Rightarrow> ('s, 'e, 'a) act option) \<Rightarrow> ('s, 'e, 'a) act" where
  "tryM m h = (\<lambda>s. case m s of
     (Inl e, s') \<Rightarrow> (case h e of None \<Rightarrow> (Inl e, s') | Some m' \<Rightarrow> m' s')
   | (Inr x, s') \<Rightarrow> (Inr x, s'))"

text \<open>
  \<open>try: x = m except: h \<dots>\<close> followed by code that runs only when \<open>m\<close> returned: the
  \<open>else\<close> part is outside the protection of the handlers, as the statements after a Python
  \<open>try\<close> block are.
\<close>

definition try_elseM ::
  "('s, 'e, 'a) act \<Rightarrow> ('e \<Rightarrow> ('s, 'e, 'b) act option) \<Rightarrow> ('a \<Rightarrow> ('s, 'e, 'b) act)
    \<Rightarrow> ('s, 'e, 'b) act" where
  "try_elseM m h k = (\<lambda>s. case m s of
     (Inl e, s') \<Rightarrow> (case h e of None \<Rightarrow> (Inl e, s') | Some m' \<Rightarrow> m' s')
   | (Inr x, s') \<Rightarrow> k x s')"

text \<open>\<open>try: m finally: g\<close>: \<open>g\<close> runs on both exits, and an exception it raises replaces the outcome.\<close>

definition finallyM :: "('s, 'e, 'a) act \<Rightarrow> ('s, 'e, unit) act \<Rightarrow> ('s, 'e, 'a) act" where
  "finallyM m g = (\<lambda>s. case m s of
     (r, s') \<Rightarrow> (case g s' of (Inl e, s'') \<Rightarrow> (Inl e, s'') | (Inr _, s'') \<Rightarrow> (r, s'')))"


section \<open>Weakest preconditions\<close>

text \<open>
  \<open>wp m Q s\<close>: running \<open>m\<close> from \<open>s\<close> ends, by returning or by raising, in a result and a
  state that satisfy \<open>Q\<close>.  Every computation of the model is total, so this is total
  correctness.
\<close>

definition wp :: "('s, 'e, 'a) act \<Rightarrow> ('e + 'a \<Rightarrow> 's \<Rightarrow> bool) \<Rightarrow> 's \<Rightarrow> bool" where
  "wp m Q s = (case m s of (r, s') \<Rightarrow> Q r s')"

lemma wpD: "wp m Q s \<Longrightarrow> m s = (r, s') \<Longrightarrow> Q r s'"
  by (simp add: wp_def)

lemma wpI: "(\<And>r s'. m s = (r, s') \<Longrightarrow> Q r s') \<Longrightarrow> wp m Q s"
  by (cases "m s") (simp add: wp_def)

lemma wp_conseq: "wp m P s \<Longrightarrow> (\<And>r s'. P r s' \<Longrightarrow> Q r s') \<Longrightarrow> wp m Q s"
  by (simp add: wp_def split: prod.splits)

lemma wp_conj: "wp m (\<lambda>r s'. P r s' \<and> Q r s') s \<longleftrightarrow> wp m P s \<and> wp m Q s"
  by (simp add: wp_def split: prod.splits)

lemma wp_returnM [wp_simps]: "wp (returnM x) Q s = Q (Inr x) s"
  by (simp add: wp_def returnM_def)

lemma wp_raiseM [wp_simps]: "wp (raiseM e) Q s = Q (Inl e) s"
  by (simp add: wp_def raiseM_def)

lemma wp_getM [wp_simps]: "wp (getM f) Q s = Q (Inr (f s)) s"
  by (simp add: wp_def getM_def)

lemma wp_modifyM [wp_simps]: "wp (modifyM f) Q s = Q (Inr ()) (f s)"
  by (simp add: wp_def modifyM_def)

lemma wp_liftR [wp_simps]: "wp (liftR r) Q s = Q r s"
  by (simp add: wp_def liftR_def)

lemma wp_raiseM_if [wp_simps]:
  "wp (raiseM_if b e) Q s = (if b then Q (Inl e) s else Q (Inr ()) s)"
  by (simp add: raiseM_if_def wp_simps)

lemma wp_bindM [wp_simps]:
  "wp (bindM m f) Q s =
     wp m (\<lambda>r s'. case r of Inl e \<Rightarrow> Q (Inl e) s' | Inr x \<Rightarrow> wp (f x) Q s') s"
  by (simp add: wp_def bindM_def split: prod.splits sum.splits)

lemma wp_tryM [wp_simps]:
  "wp (tryM m h) Q s =
     wp m (\<lambda>r s'. case r of
        Inl e \<Rightarrow> (case h e of None \<Rightarrow> Q (Inl e) s' | Some m' \<Rightarrow> wp m' Q s')
      | Inr x \<Rightarrow> Q (Inr x) s') s"
  by (simp add: wp_def tryM_def split: prod.splits sum.splits option.splits)

lemma wp_try_elseM [wp_simps]:
  "wp (try_elseM m h k) Q s =
     wp m (\<lambda>r s'. case r of
        Inl e \<Rightarrow> (case h e of None \<Rightarrow> Q (Inl e) s' | Some m' \<Rightarrow> wp m' Q s')
      | Inr x \<Rightarrow> wp (k x) Q s') s"
  by (simp add: wp_def try_elseM_def split: prod.splits sum.splits option.splits)

lemma wp_finallyM [wp_simps]:
  "wp (finallyM m g) Q s =
     wp m (\<lambda>r s'. wp g (\<lambda>r' s''. case r' of Inl e \<Rightarrow> Q (Inl e) s'' | Inr _ \<Rightarrow> Q r s'') s') s"
  by (simp add: wp_def finallyM_def split: prod.splits sum.splits)

lemma wp_if [wp_simps]:
  "wp (if b then m else m') Q s = (if b then wp m Q s else wp m' Q s)"
  by simp

text \<open>
  The rule for a relation \<open>R\<close> between the state before and the state after that every
  step of a computation keeps: it is enough that \<open>R\<close> is reflexive, transitive and kept by
  each part.
\<close>

definition keeps :: "('s \<Rightarrow> 's \<Rightarrow> bool) \<Rightarrow> ('s, 'e, 'a) act \<Rightarrow> bool" where
  "keeps R m \<longleftrightarrow> (\<forall>s r s'. m s = (r, s') \<longrightarrow> R s s')"

locale step_preorder =
  fixes R :: "'s \<Rightarrow> 's \<Rightarrow> bool"
  assumes R_refl: "R s s"
    and R_trans: "R s t \<Longrightarrow> R t u \<Longrightarrow> R s u"
begin

lemma keeps_returnM: "keeps R (returnM x)"
  by (simp add: keeps_def returnM_def R_refl)

lemma keeps_raiseM: "keeps R (raiseM e)"
  by (simp add: keeps_def raiseM_def R_refl)

lemma keeps_getM: "keeps R (getM f)"
  by (simp add: keeps_def getM_def R_refl)

lemma keeps_liftR: "keeps R (liftR r)"
  by (simp add: keeps_def liftR_def R_refl)

lemma keeps_raiseM_if: "keeps R (raiseM_if b e)"
  by (simp add: raiseM_if_def keeps_raiseM keeps_returnM)

lemma keeps_bindM: "keeps R m \<Longrightarrow> (\<And>x. keeps R (f x)) \<Longrightarrow> keeps R (bindM m f)"
  unfolding keeps_def bindM_def
  by (force split: prod.splits sum.splits intro: R_trans)

lemma keeps_tryM:
  "keeps R m \<Longrightarrow> (\<And>e m'. h e = Some m' \<Longrightarrow> keeps R m') \<Longrightarrow> keeps R (tryM m h)"
  unfolding keeps_def tryM_def
  by (force split: prod.splits sum.splits option.splits intro: R_trans)

lemma keeps_try_elseM:
  "keeps R m \<Longrightarrow> (\<And>e m'. h e = Some m' \<Longrightarrow> keeps R m') \<Longrightarrow> (\<And>x. keeps R (k x))
    \<Longrightarrow> keeps R (try_elseM m h k)"
  unfolding keeps_def try_elseM_def
  by (force split: prod.splits sum.splits option.splits intro: R_trans)

lemma keeps_finallyM: "keeps R m \<Longrightarrow> keeps R g \<Longrightarrow> keeps R (finallyM m g)"
  unfolding keeps_def finallyM_def
  by (force split: prod.splits sum.splits intro: R_trans)

lemma keeps_if: "(b \<Longrightarrow> keeps R m) \<Longrightarrow> (\<not> b \<Longrightarrow> keeps R m') \<Longrightarrow> keeps R (if b then m else m')"
  by simp

lemmas keeps_intros =
  keeps_returnM keeps_raiseM keeps_getM keeps_liftR keeps_raiseM_if keeps_bindM keeps_tryM
  keeps_try_elseM keeps_finallyM keeps_if

end

lemma keepsD: "keeps R m \<Longrightarrow> m s = (r, s') \<Longrightarrow> R s s'"
  by (simp add: keeps_def)

lemma keeps_modifyM: "(\<And>s. R s (f s)) \<Longrightarrow> keeps R (modifyM f)"
  by (simp add: keeps_def modifyM_def)


section \<open>Triples\<close>

text \<open>
  \<open>triple P m Q E\<close>: from every state that satisfies \<open>P\<close>, \<open>m\<close> either returns some \<open>x\<close> in a
  state that satisfies \<open>Q x\<close> or raises in a state that satisfies \<open>E\<close>.
\<close>

definition triple ::
  "('s \<Rightarrow> bool) \<Rightarrow> ('s, 'e, 'a) act \<Rightarrow> ('a \<Rightarrow> 's \<Rightarrow> bool) \<Rightarrow> ('s \<Rightarrow> bool) \<Rightarrow> bool" where
  "triple P m Q E \<longleftrightarrow>
     (\<forall>s. P s \<longrightarrow> wp m (\<lambda>r s'. case r of Inl _ \<Rightarrow> E s' | Inr x \<Rightarrow> Q x s') s)"

lemma tripleI:
  assumes "\<And>s x s'. P s \<Longrightarrow> m s = (Inr x, s') \<Longrightarrow> Q x s'"
    and "\<And>s e s'. P s \<Longrightarrow> m s = (Inl e, s') \<Longrightarrow> E s'"
  shows "triple P m Q E"
  unfolding triple_def by (auto intro!: wpI simp: assms split: sum.split)

lemma tripleD_Inr: "triple P m Q E \<Longrightarrow> P s \<Longrightarrow> m s = (Inr x, s') \<Longrightarrow> Q x s'"
  by (fastforce simp: triple_def wp_def)

lemma tripleD_Inl: "triple P m Q E \<Longrightarrow> P s \<Longrightarrow> m s = (Inl e, s') \<Longrightarrow> E s'"
  by (fastforce simp: triple_def wp_def)

lemma triple_state:
  "triple P m (\<lambda>_. Q) Q \<Longrightarrow> P s \<Longrightarrow> m s = (r, s') \<Longrightarrow> Q s'"
  by (cases r) (auto dest: tripleD_Inr tripleD_Inl)

lemma triple_conseq:
  assumes "triple P m Q E" and "\<And>s. P' s \<Longrightarrow> P s" and "\<And>x s. Q x s \<Longrightarrow> Q' x s"
    and "\<And>s. E s \<Longrightarrow> E' s"
  shows "triple P' m Q' E'"
proof (rule tripleI)
  fix s x s'
  assume "P' s" and "m s = (Inr x, s')"
  with assms(2,3) tripleD_Inr [OF assms(1)] show "Q' x s'" by blast
next
  fix s e s'
  assume "P' s" and "m s = (Inl e, s')"
  with assms(2,4) tripleD_Inl [OF assms(1)] show "E' s'" by blast
qed

lemma triple_returnM: "(\<And>s. P s \<Longrightarrow> Q x s) \<Longrightarrow> triple P (returnM x) Q E"
  by (simp add: triple_def wp_simps)

lemma triple_raiseM: "(\<And>s. P s \<Longrightarrow> E s) \<Longrightarrow> triple P (raiseM e) Q E"
  by (simp add: triple_def wp_simps)

lemma triple_getM: "(\<And>s. P s \<Longrightarrow> Q (f s) s) \<Longrightarrow> triple P (getM f) Q E"
  by (simp add: triple_def wp_simps)

lemma triple_modifyM: "(\<And>s. P s \<Longrightarrow> Q () (f s)) \<Longrightarrow> triple P (modifyM f) Q E"
  by (simp add: triple_def wp_simps)

lemma triple_liftR:
  "(\<And>s x. P s \<Longrightarrow> r = Inr x \<Longrightarrow> Q x s) \<Longrightarrow> (\<And>s. P s \<Longrightarrow> E s) \<Longrightarrow> triple P (liftR r) Q E"
  by (auto simp: triple_def wp_simps split: sum.split)

lemma triple_raiseM_if:
  "(\<And>s. P s \<Longrightarrow> \<not> b \<Longrightarrow> Q () s) \<Longrightarrow> (\<And>s. P s \<Longrightarrow> E s) \<Longrightarrow> triple P (raiseM_if b e) Q E"
  by (simp add: triple_def wp_simps)

lemma triple_bindM:
  "triple P m Q E \<Longrightarrow> (\<And>x. triple (Q x) (f x) R E) \<Longrightarrow> triple P (bindM m f) R E"
  by (fastforce simp: triple_def wp_def bindM_def split: prod.splits sum.splits)

lemma triple_tryM:
  "triple P m Q E' \<Longrightarrow> (\<And>e m'. h e = Some m' \<Longrightarrow> triple E' m' Q E) \<Longrightarrow> (\<And>s. E' s \<Longrightarrow> E s)
    \<Longrightarrow> triple P (tryM m h) Q E"
  by (fastforce simp: triple_def wp_def tryM_def split: prod.splits sum.splits option.splits)

lemma triple_try_elseM:
  "triple P m Q E' \<Longrightarrow> (\<And>e m'. h e = Some m' \<Longrightarrow> triple E' m' R E) \<Longrightarrow> (\<And>s. E' s \<Longrightarrow> E s)
    \<Longrightarrow> (\<And>x. triple (Q x) (k x) R E) \<Longrightarrow> triple P (try_elseM m h k) R E"
  by (fastforce simp: triple_def wp_def try_elseM_def split: prod.splits sum.splits option.splits)

lemma triple_finallyM:
  "triple P m Q E' \<Longrightarrow> triple E' g (\<lambda>_. E) E \<Longrightarrow> (\<And>x. triple (Q x) g (\<lambda>_. R x) E)
    \<Longrightarrow> triple P (finallyM m g) R E"
  by (fastforce simp: triple_def wp_def finallyM_def split: prod.splits sum.splits)

lemma triple_if:
  "(b \<Longrightarrow> triple P m Q E) \<Longrightarrow> (\<not> b \<Longrightarrow> triple P m' Q E) \<Longrightarrow> triple P (if b then m else m') Q E"
  by simp

text \<open>Steps that do not touch the state keep the precondition.\<close>

lemma triple_check: "(\<And>s. P s \<Longrightarrow> E s) \<Longrightarrow> triple P (raiseM_if b e) (\<lambda>_. P) E"
  by (rule triple_raiseM_if)

lemma triple_lift: "(\<And>s. P s \<Longrightarrow> E s) \<Longrightarrow> triple P (liftR r) (\<lambda>_. P) E"
  by (rule triple_liftR)

lemma triple_read: "triple P (getM f) (\<lambda>_. P) E"
  by (rule triple_getM)

lemma triple_bind_lift:
  "(\<And>s. P s \<Longrightarrow> E s) \<Longrightarrow> (\<And>x. r = Inr x \<Longrightarrow> triple P (f x) Q E) \<Longrightarrow> triple P (bindM (liftR r) f) Q E"
  by (cases r) (auto simp: triple_def wp_def bindM_def liftR_def)

text \<open>A part of the precondition that does not depend on the state.\<close>

lemma triple_pure: "(c \<Longrightarrow> triple P m Q E) \<Longrightarrow> triple (\<lambda>s. P s \<and> c) m Q E"
  by (auto simp: triple_def)

lemma triple_keeps: "keeps (\<lambda>s s'. P s \<longrightarrow> Q s') m \<Longrightarrow> triple P m (\<lambda>_. Q) Q"
  by (auto simp: keeps_def intro!: tripleI)


section \<open>Dictionaries\<close>

text \<open>
  A Python dictionary with string keys: \<open>d.get(k)\<close> is \<^term>\<open>map_of d k\<close>, \<open>d[k] = v\<close> is
  \<^term>\<open>AList.update k v d\<close>, \<open>k in d\<close> is \<^term>\<open>map_of d k \<noteq> None\<close>, \<open>set(d)\<close> is the set of
  the keys.
\<close>

type_synonym 'v dict = "(string \<times> 'v) list"

abbreviation dget :: "'v dict \<Rightarrow> string \<Rightarrow> 'v option" where
  "dget d k \<equiv> map_of d k"

abbreviation dset :: "string \<Rightarrow> 'v \<Rightarrow> 'v dict \<Rightarrow> 'v dict" where
  "dset k v d \<equiv> AList.update k v d"

lemma dget_dset [dict_simps, simp]:
  "dget (dset k v d) k' = (if k' = k then Some v else dget d k')"
  by (simp add: update_conv)


section \<open>Lists\<close>

text \<open>Python's \<open>xs[-n:]\<close>: the last \<open>n\<close> elements.\<close>

definition last_n :: "int \<Rightarrow> 'a list \<Rightarrow> 'a list" where
  "last_n n xs = drop (nat (int (length xs) - n)) xs"

lemma length_last_n: "0 \<le> n \<Longrightarrow> int (length (last_n n xs)) = min n (int (length xs))"
  by (auto simp: last_n_def)

lemma last_n_short [simp]: "int (length xs) \<le> n \<Longrightarrow> last_n n xs = xs"
  by (simp add: last_n_def)

lemma set_last_n_subset: "set (last_n n xs) \<subseteq> set xs"
  by (simp add: last_n_def set_drop_subset)

lemma last_n_snoc_mem: "0 < n \<Longrightarrow> x \<in> set (last_n n (xs @ [x]))"
  by (simp add: last_n_def)

lemma distinct_last_n: "distinct xs \<Longrightarrow> distinct (last_n n xs)"
  by (simp add: last_n_def)

text \<open>The one element of a list that satisfies \<open>P\<close>, as in \<open>matches = [\<dots>]; len(matches) != 1\<close>.\<close>

lemma filter_singleton_unique:
  assumes "filter P xs = [x]" and "y \<in> set xs" and "P y"
  shows "y = x"
proof -
  from assms(2,3) have "y \<in> set (filter P xs)" by simp
  with assms(1) show ?thesis by simp
qed

lemma filter_singleton_sound: "filter P xs = [x] \<Longrightarrow> x \<in> set xs \<and> P x"
  by (metis list.set_intros(1) mem_Collect_eq set_filter)

end
