(* ===== verification/Py_Float.thy ===== *)
theory Py_Float
  imports Exec_Prelude Complex_Main "HOL-Library.Log_Nat"
begin

text \<open>
  Python's \<open>float\<close>: IEEE-754 binary64 with round-to-nearest, ties to even, over exact
  rationals.  A finite float is the rational it stands for (the sign of a zero is not
  kept); every arithmetic operation computes the exact result and rounds it once.

  The interface the cash computations rely on is the locale \<open>rounding\<close> (a monotone, odd,
  idempotent function with a relative error bound); binary64 rounding is shown to provide it.
\<close>

section \<open>Rounding to binary64\<close>

datatype pyfloat = Finite rat | PosInf | NegInf | NaN

text \<open>The exponent of the binade of a positive rational: \<open>2 powi ilog2 x \<le> x < 2 powi (ilog2 x + 1)\<close>.\<close>

definition ilog2 :: "rat \<Rightarrow> int" where
  "ilog2 x =
     (let (p, q) = quotient_of x; e = bitlen p - bitlen q
      in if 2 powi e \<le> x then e else e - 1)"

definition round_half_even :: "rat \<Rightarrow> int" where
  "round_half_even x =
     (let f = \<lfloor>x\<rfloor>; d = x - of_int f
      in if d < 1 / 2 then f else if d > 1 / 2 then f + 1 else if even f then f else f + 1)"

text \<open>The spacing of the floats around \<open>x\<close>: 53 significant bits, never finer than \<open>2 powi -1074\<close>.\<close>

definition ulp_exp :: "rat \<Rightarrow> int" where
  "ulp_exp x = max (ilog2 \<bar>x\<bar> - 52) (- 1074)"

definition rnd64 :: "rat \<Rightarrow> rat" where
  "rnd64 x =
     (if x = 0 then 0
      else of_int (round_half_even (x / 2 powi ulp_exp x)) * 2 powi ulp_exp x)"

definition round64 :: "rat \<Rightarrow> pyfloat" where
  "round64 x =
     (let r = rnd64 x
      in if 2 ^ 1024 \<le> r then PosInf else if r \<le> - (2 ^ 1024) then NegInf else Finite r)"

text \<open>For evaluation: a small result is finite, without a comparison with \<open>2 ^ 1024\<close>.\<close>

lemma round64_code [code]:
  "round64 x =
     (let r = rnd64 x
      in if \<bar>r\<bar> < 18446744073709551616 then Finite r
         else if 2 ^ 1024 \<le> r then PosInf else if r \<le> - (2 ^ 1024) then NegInf else Finite r)"
proof -
  have "(18446744073709551616 :: rat) \<le> 2 ^ 1024" by simp
  then show ?thesis by (auto simp: round64_def Let_def)
qed


section \<open>Arithmetic and comparison\<close>

fun fadd :: "pyfloat \<Rightarrow> pyfloat \<Rightarrow> pyfloat" where
  "fadd (Finite a) (Finite b) = round64 (a + b)"
| "fadd NaN _ = NaN"
| "fadd _ NaN = NaN"
| "fadd PosInf NegInf = NaN"
| "fadd NegInf PosInf = NaN"
| "fadd PosInf _ = PosInf"
| "fadd NegInf _ = NegInf"
| "fadd (Finite _) x = x"

fun fneg :: "pyfloat \<Rightarrow> pyfloat" where
  "fneg (Finite a) = Finite (- a)"
| "fneg PosInf = NegInf"
| "fneg NegInf = PosInf"
| "fneg NaN = NaN"

definition fsub :: "pyfloat \<Rightarrow> pyfloat \<Rightarrow> pyfloat" where
  "fsub a b = fadd a (fneg b)"

text \<open>An infinity with the sign of \<open>x\<close>; \<open>0 * inf\<close> is not a number.\<close>

definition inf_sign :: "rat \<Rightarrow> pyfloat" where
  "inf_sign x = (if x = 0 then NaN else if 0 < x then PosInf else NegInf)"

fun fmul :: "pyfloat \<Rightarrow> pyfloat \<Rightarrow> pyfloat" where
  "fmul (Finite a) (Finite b) = round64 (a * b)"
| "fmul NaN _ = NaN"
| "fmul _ NaN = NaN"
| "fmul (Finite a) PosInf = inf_sign a"
| "fmul (Finite a) NegInf = inf_sign (- a)"
| "fmul PosInf (Finite b) = inf_sign b"
| "fmul NegInf (Finite b) = inf_sign (- b)"
| "fmul PosInf x = x"
| "fmul NegInf PosInf = NegInf"
| "fmul NegInf NegInf = PosInf"

fun flt :: "pyfloat \<Rightarrow> pyfloat \<Rightarrow> bool" where
  "flt (Finite a) (Finite b) = (a < b)"
| "flt (Finite _) PosInf = True"
| "flt NegInf (Finite _) = True"
| "flt NegInf PosInf = True"
| "flt _ _ = False"

definition fle :: "pyfloat \<Rightarrow> pyfloat \<Rightarrow> bool" where
  "fle a b = (flt a b \<or> (a = b \<and> a \<noteq> NaN))"

fun fabs :: "pyfloat \<Rightarrow> pyfloat" where
  "fabs (Finite a) = Finite \<bar>a\<bar>"
| "fabs NaN = NaN"
| "fabs _ = PosInf"

text \<open>Python's \<open>max(a, b)\<close>: \<open>b\<close> only when \<open>b > a\<close>.\<close>

definition fmax :: "pyfloat \<Rightarrow> pyfloat \<Rightarrow> pyfloat" where
  "fmax a b = (if flt a b then b else a)"

fun isfinite :: "pyfloat \<Rightarrow> bool" where
  "isfinite (Finite _) = True"
| "isfinite _ = False"

text \<open>The value of a finite float; used in statements only, on floats known to be finite.\<close>

fun val_of :: "pyfloat \<Rightarrow> rat" where
  "val_of (Finite r) = r"
| "val_of _ = 0"


section \<open>The rounding interface\<close>

locale rounding =
  fixes rnd :: "rat \<Rightarrow> rat" and rel :: rat and tiny :: rat
  assumes rnd_mono: "x \<le> y \<Longrightarrow> rnd x \<le> rnd y"
    and rnd_idem: "rnd (rnd x) = rnd x"
    and rnd_zero: "rnd 0 = 0"
    and rnd_error: "\<bar>rnd x - x\<bar> \<le> rel * \<bar>x\<bar> + tiny"
begin

lemma rnd_nonneg: "0 \<le> x \<Longrightarrow> 0 \<le> rnd x"
  using rnd_mono [of 0 x] rnd_zero by simp

lemma rnd_add_ge: "rnd a = a \<Longrightarrow> 0 \<le> b \<Longrightarrow> a \<le> rnd (a + b)"
  using rnd_mono [of a "a + b"] by simp

text \<open>
  A comparison \<open>r \<le> fl (fl (a - s) + e)\<close> made in floating point implies the exact
  comparison up to the two rounding errors it makes.
\<close>

lemma guarded_sum_bound:
  assumes "r \<le> rnd (rnd (a - s) + e)"
  shows "r + s \<le> a + e + (rel * \<bar>rnd (a - s) + e\<bar> + tiny) + (rel * \<bar>a - s\<bar> + tiny)"
  using assms rnd_error [of "a - s"] rnd_error [of "rnd (a - s) + e"] by linarith

end


section \<open>Binary64 rounding provides the interface\<close>

lemma powi2_pos: "(0::rat) < 2 powi e"
  by simp

lemma powi2_mono: "e \<le> f \<Longrightarrow> (2::rat) powi e \<le> 2 powi f"
  by (rule power_int_increasing) auto

lemma powi2_less: "e < f \<Longrightarrow> (2::rat) powi e < 2 powi f"
  by (rule power_int_strict_increasing) auto

lemma powi2_succ: "(2::rat) powi (e + 1) = 2 * 2 powi e"
  by (simp add: power_int_add_1')

lemma powi2_diff: "(2::rat) powi (e - f) = 2 powi e / 2 powi f"
  by (simp add: power_int_diff)

lemma bitlen_powi_bounds:
  assumes "0 < (p::int)"
  shows "2 powi (bitlen p - 1) \<le> (of_int p :: rat)" and "(of_int p :: rat) < 2 powi (bitlen p)"
proof -
  have pos: "0 < bitlen p"
    using assms bitlen_eq_zero_iff [of p] bitlen_nonneg [of p] by linarith
  from bitlen_bounds [OF assms] have "2 ^ nat (bitlen p - 1) \<le> p" "p < 2 ^ nat (bitlen p)"
    by auto
  then have "(of_int (2 ^ nat (bitlen p - 1)) :: rat) \<le> of_int p"
    and "(of_int p :: rat) < of_int (2 ^ nat (bitlen p))"
    by (simp_all only: of_int_le_iff of_int_less_iff)
  with pos show "2 powi (bitlen p - 1) \<le> (of_int p :: rat)" and "(of_int p :: rat) < 2 powi (bitlen p)"
    by (simp_all add: power_int_nonneg_exp)
qed

lemma ilog2_bounds:
  assumes "0 < x"
  shows "2 powi (ilog2 x) \<le> x" and "x < 2 powi (ilog2 x + 1)"
proof -
  obtain p q where pq: "quotient_of x = (p, q)" by force
  from pq have q: "0 < q" by (rule quotient_of_denom_pos)
  from pq have x: "x = of_int p / of_int q" by (rule quotient_of_div)
  with assms q have p: "0 < p" by (simp add: zero_less_divide_iff)
  define e where "e = bitlen p - bitlen q"
  note P = bitlen_powi_bounds [OF p] and Q = bitlen_powi_bounds [OF q]
  have lo: "2 powi (e - 1) \<le> x"
  proof -
    have "2 powi (e - 1) * of_int q \<le> 2 powi (e - 1) * (2 powi (bitlen q) :: rat)"
      using Q(2) by (intro mult_left_mono) auto
    also have "\<dots> = 2 powi (bitlen p - 1)"
      by (simp add: e_def flip: power_int_add)
    finally show ?thesis using P(1) q by (simp add: x field_simps)
  qed
  have hi: "x < 2 powi (e + 1)"
  proof -
    have "(of_int p :: rat) < 2 powi (e + 1) * 2 powi (bitlen q - 1)"
      using P(2) by (simp add: e_def flip: power_int_add)
    also have "\<dots> \<le> 2 powi (e + 1) * of_int q"
      using Q(1) by (intro mult_left_mono) auto
    finally show ?thesis using q by (simp add: x field_simps)
  qed
  show "2 powi (ilog2 x) \<le> x" and "x < 2 powi (ilog2 x + 1)"
    using lo hi by (auto simp: ilog2_def pq Let_def simp flip: e_def)
qed

lemma ilog2_le: "0 < x \<Longrightarrow> x < 2 powi (e + 1) \<Longrightarrow> ilog2 x \<le> e"
  using ilog2_bounds(1) [of x] powi2_mono [of "e + 1" "ilog2 x"] by force

lemma ilog2_mono: "0 < x \<Longrightarrow> x \<le> y \<Longrightarrow> ilog2 x \<le> ilog2 y"
  using ilog2_le [of x "ilog2 y"] ilog2_bounds(2) [of y] by linarith

lemma round_half_even_of_int [simp]: "round_half_even (of_int n) = n"
  by (simp add: round_half_even_def)

lemma round_half_even_error: "\<bar>of_int (round_half_even x) - x\<bar> \<le> 1 / 2"
proof -
  have "of_int \<lfloor>x\<rfloor> \<le> x" and "x < of_int \<lfloor>x\<rfloor> + 1" by linarith+
  then show ?thesis
    by (simp add: round_half_even_def Let_def abs_le_iff split: if_split)
qed

lemma round_half_even_mono:
  assumes "x \<le> y"
  shows "round_half_even x \<le> round_half_even y"
proof (cases "\<lfloor>x\<rfloor> = \<lfloor>y\<rfloor>")
  case True
  with assms show ?thesis by (auto simp: round_half_even_def Let_def)
next
  case False
  with floor_mono [OF assms] have "\<lfloor>x\<rfloor> + 1 \<le> \<lfloor>y\<rfloor>" by linarith
  then show ?thesis by (auto simp: round_half_even_def Let_def)
qed

lemma round_half_even_le: "x \<le> of_int n \<Longrightarrow> round_half_even x \<le> n"
  using round_half_even_mono [of x "of_int n"] by simp

lemma round_half_even_ge: "of_int n \<le> x \<Longrightarrow> n \<le> round_half_even x"
  using round_half_even_mono [of "of_int n" x] by simp

lemma round_half_even_minus: "round_half_even (- x) = - round_half_even x"
proof (cases "x = of_int \<lfloor>x\<rfloor>")
  case True
  then show ?thesis by (metis round_half_even_of_int of_int_minus)
next
  case False
  then have "\<lfloor>- x\<rfloor> = - \<lfloor>x\<rfloor> - 1"
    by linarith
  then show ?thesis by (auto simp: round_half_even_def Let_def)
qed

lemma ulp_exp_minus [simp]: "ulp_exp (- x) = ulp_exp x"
  by (simp add: ulp_exp_def)

lemma rnd64_minus: "rnd64 (- x) = - rnd64 x"
  by (simp add: rnd64_def round_half_even_minus)

lemma powi2_of_int: "0 \<le> e \<Longrightarrow> (2::rat) powi e = of_int (2 ^ nat e)"
  by (simp add: power_int_nonneg_exp)

lemma scaled_le_iff: "x / 2 powi k \<le> of_int n \<longleftrightarrow> x \<le> of_int n * (2::rat) powi k"
  by (simp add: pos_divide_le_eq)

text \<open>Every multiple \<open>n * 2 powi k\<close> with at most 53 significant bits is a float.\<close>

lemma rnd64_scaled_small:
  assumes "\<bar>n\<bar> < 2 ^ 53" and "- 1074 \<le> k"
  shows "rnd64 (of_int n * 2 powi k) = of_int n * 2 powi k"
proof (cases "n = 0")
  case True
  then show ?thesis by (simp add: rnd64_def)
next
  case False
  define x where "x = (of_int n :: rat) * 2 powi k"
  have nz: "x \<noteq> 0" using False by (simp add: x_def)
  have "\<bar>x\<bar> < 2 powi 53 * 2 powi k"
    using assms(1) by (simp add: x_def abs_mult)
  then have "\<bar>x\<bar> < 2 powi (k + 52 + 1)"
    by (simp add: power_int_add)
  then have "ilog2 \<bar>x\<bar> \<le> k + 52" using nz by (intro ilog2_le) auto
  then have le: "ulp_exp x \<le> k" using assms(2) by (simp add: ulp_exp_def)
  have "x / 2 powi ulp_exp x = of_int n * 2 powi (k - ulp_exp x)"
    by (simp add: x_def powi2_diff)
  also have "\<dots> = of_int (n * 2 ^ nat (k - ulp_exp x))"
    using le by (simp add: power_int_nonneg_exp)
  finally have "round_half_even (x / 2 powi ulp_exp x) = n * 2 ^ nat (k - ulp_exp x)"
    by (simp only: round_half_even_of_int)
  then have "rnd64 x = of_int n * (2 powi (k - ulp_exp x) * 2 powi ulp_exp x)"
    using nz le by (simp add: rnd64_def power_int_nonneg_exp)
  also have "\<dots> = x" by (simp add: x_def flip: power_int_add)
  finally show ?thesis by (simp add: x_def)
qed

lemma rnd64_scaled:
  assumes "\<bar>n\<bar> \<le> 2 ^ 53" and "- 1074 \<le> k"
  shows "rnd64 (of_int n * 2 powi k) = of_int n * 2 powi k"
proof (cases "\<bar>n\<bar> = 2 ^ 53")
  case False
  with assms show ?thesis by (intro rnd64_scaled_small) auto
next
  case True
  define m :: int where "m = (if 0 < n then 2 ^ 52 else - (2 ^ 52))"
  from True have n: "n = m * 2" by (auto simp: m_def abs_if split: if_splits)
  have "(of_int n :: rat) * 2 powi k = of_int m * 2 powi (k + 1)"
    by (simp add: n powi2_succ)
  moreover have "\<bar>m\<bar> < 2 ^ 53" by (simp add: m_def)
  ultimately show ?thesis using assms(2) rnd64_scaled_small [of m "k + 1"] by simp
qed

lemma scaled_bound: "x \<noteq> 0 \<Longrightarrow> \<bar>round_half_even (x / 2 powi ulp_exp x)\<bar> \<le> 2 ^ 53"
proof -
  assume "x \<noteq> 0"
  then have "\<bar>x\<bar> < 2 powi (ilog2 \<bar>x\<bar> + 1)" by (intro ilog2_bounds) auto
  also have "\<dots> \<le> 2 powi (53 + ulp_exp x)"
    by (rule powi2_mono) (simp add: ulp_exp_def)
  finally have "\<bar>x\<bar> \<le> of_int (2 ^ 53) * 2 powi ulp_exp x"
    by (simp add: power_int_add)
  then have "x / 2 powi ulp_exp x \<le> of_int (2 ^ 53)" and "of_int (- (2 ^ 53)) \<le> x / 2 powi ulp_exp x"
    by (simp_all add: pos_divide_le_eq pos_le_divide_eq abs_le_iff)
  from round_half_even_le [OF this(1)] round_half_even_ge [OF this(2)] show ?thesis
    by (simp add: abs_le_iff)
qed

lemma rnd64_idem: "rnd64 (rnd64 x) = rnd64 x"
proof (cases "x = 0")
  case False
  then show ?thesis
    using rnd64_scaled [OF scaled_bound, of x "ulp_exp x"]
    by (simp add: rnd64_def [of x] ulp_exp_def)
qed (simp add: rnd64_def)

lemma rnd64_error_ulp: "x \<noteq> 0 \<Longrightarrow> \<bar>rnd64 x - x\<bar> \<le> 2 powi ulp_exp x / 2"
proof -
  assume "x \<noteq> 0"
  let ?u = "(2::rat) powi ulp_exp x"
  have "rnd64 x - x = (of_int (round_half_even (x / ?u)) - x / ?u) * ?u"
    using \<open>x \<noteq> 0\<close> by (simp add: rnd64_def left_diff_distrib)
  then have "\<bar>rnd64 x - x\<bar> = \<bar>of_int (round_half_even (x / ?u)) - x / ?u\<bar> * ?u"
    by (simp add: abs_mult)
  also have "\<dots> \<le> 1 / 2 * ?u"
    by (rule mult_right_mono [OF round_half_even_error]) (simp add: less_imp_le)
  finally show ?thesis by simp
qed

lemma rnd64_error: "\<bar>rnd64 x - x\<bar> \<le> 1 / 2 ^ 53 * \<bar>x\<bar> + 1 / 2 ^ 1075"
proof (cases "x = 0")
  case False
  then have lo: "2 powi ilog2 \<bar>x\<bar> \<le> \<bar>x\<bar>" by (intro ilog2_bounds) auto
  have "(2::rat) powi ulp_exp x \<le> 2 powi (ilog2 \<bar>x\<bar> - 52) + 2 powi (- 1074)"
    by (auto simp: ulp_exp_def max_def less_imp_le)
  also have "2 powi (ilog2 \<bar>x\<bar> - 52) = 2 powi ilog2 \<bar>x\<bar> / (2 ^ 52 :: rat)"
    by (simp add: powi2_diff)
  finally have "(2::rat) powi ulp_exp x \<le> \<bar>x\<bar> / 2 ^ 52 + 1 / 2 ^ 1074"
    using divide_right_mono [OF lo, of "2 ^ 52"] by (simp add: power_int_minus_divide)
  with rnd64_error_ulp [OF False] show ?thesis
    by (simp add: field_simps)
qed (simp add: rnd64_def)

lemma rnd64_mono_pos:
  assumes "0 < x" and "x \<le> y"
  shows "rnd64 x \<le> rnd64 y"
proof (cases "ulp_exp x = ulp_exp y")
  case True
  have "x / 2 powi ulp_exp y \<le> y / 2 powi ulp_exp y"
    using assms(2) by (rule divide_right_mono) (simp add: less_imp_le)
  then have "of_int (round_half_even (x / 2 powi ulp_exp y)) * 2 powi ulp_exp y
      \<le> (of_int (round_half_even (y / 2 powi ulp_exp y)) * 2 powi ulp_exp y :: rat)"
    by (intro mult_right_mono) (simp_all only: of_int_le_iff round_half_even_mono powi2_pos less_imp_le)
  then show ?thesis using assms True by (simp add: rnd64_def)
next
  case False
  from ilog2_mono [OF assms] have "ulp_exp x \<le> ulp_exp y"
    using assms by (simp add: ulp_exp_def)
  with False have lt: "ulp_exp x < ulp_exp y" by simp
  define f where "f = ilog2 y"
  have ey: "ulp_exp y = f - 52" and ef: "ilog2 x < f"
    using lt assms by (auto simp: ulp_exp_def f_def max_def split: if_splits)
  have "x < 2 powi (ilog2 x + 1)" using assms(1) by (rule ilog2_bounds(2))
  also have "\<dots> \<le> 2 powi f" using ef by (intro powi2_mono) simp
  finally have "x \<le> 2 powi (f - ulp_exp x) * 2 powi ulp_exp x"
    by (simp flip: power_int_add)
  then have "x \<le> of_int (2 ^ nat (f - ulp_exp x)) * 2 powi ulp_exp x"
    using lt ey by (simp add: power_int_nonneg_exp)
  then have "round_half_even (x / 2 powi ulp_exp x) \<le> 2 ^ nat (f - ulp_exp x)"
    by (intro round_half_even_le) (simp add: pos_divide_le_eq)
  then have "rnd64 x \<le> of_int (2 ^ nat (f - ulp_exp x)) * 2 powi ulp_exp x"
    using assms(1) by (simp only: rnd64_def) (auto intro!: mult_right_mono simp: less_imp_le
        simp del: of_int_power of_int_numeral)
  also have "\<dots> = 2 powi f"
    using lt ey by (simp add: power_int_nonneg_exp powi2_diff flip: power_int_add)
      (simp add: powi2_diff flip: power_int_nonneg_exp)
  also have "\<dots> \<le> rnd64 y"
  proof -
    have "2 powi f \<le> y" unfolding f_def using assms by (intro ilog2_bounds(1)) auto
    then have "of_int (2 ^ 52) \<le> y / 2 powi ulp_exp y"
      by (simp add: ey pos_le_divide_eq powi2_diff)
    then have "2 ^ 52 \<le> round_half_even (y / 2 powi ulp_exp y)"
      by (rule round_half_even_ge)
    then have "(of_int (2 ^ 52) :: rat) * 2 powi ulp_exp y \<le> rnd64 y"
      using assms by (simp only: rnd64_def) (auto intro!: mult_right_mono simp: less_imp_le
          simp del: of_int_power of_int_numeral)
    then show ?thesis by (simp add: ey powi2_diff)
  qed
  finally show ?thesis .
qed

lemma rnd64_nonneg: "0 \<le> x \<Longrightarrow> 0 \<le> rnd64 x"
  using round_half_even_ge [of 0 "x / 2 powi ulp_exp x"]
  by (simp add: rnd64_def less_imp_le)

lemma rnd64_mono: "x \<le> y \<Longrightarrow> rnd64 x \<le> rnd64 y"
proof -
  assume le: "x \<le> y"
  consider "0 < x" | "x \<le> 0" "0 \<le> y" | "y < 0" by linarith
  then show ?thesis
  proof cases
    case 1
    then show ?thesis using le by (rule rnd64_mono_pos)
  next
    case 2
    then show ?thesis
      using rnd64_nonneg [of "- x"] rnd64_nonneg [of y] by (simp add: rnd64_minus)
  next
    case 3
    then show ?thesis
      using rnd64_mono_pos [of "- y" "- x"] le by (simp add: rnd64_minus)
  qed
qed

interpretation binary64: rounding rnd64 "1 / 2 ^ 53" "1 / 2 ^ 1075"
  by unfold_locales (fact rnd64_mono rnd64_idem rnd64_error | simp add: rnd64_def)+


section \<open>Facts about the operations\<close>

text \<open>A float that arithmetic can produce: its value is representable and in range.\<close>

fun wf_float :: "pyfloat \<Rightarrow> bool" where
  "wf_float (Finite r) = (rnd64 r = r \<and> \<bar>r\<bar> < 2 ^ 1024)"
| "wf_float _ = True"

lemma wf_float_code [code]:
  "wf_float (Finite r) = (rnd64 r = r \<and> (\<bar>r\<bar> < 18446744073709551616 \<or> \<bar>r\<bar> < 2 ^ 1024))"
  "wf_float PosInf = True" "wf_float NegInf = True" "wf_float NaN = True"
proof -
  have "(18446744073709551616 :: rat) \<le> 2 ^ 1024" by simp
  then show "wf_float (Finite r) = (rnd64 r = r \<and> (\<bar>r\<bar> < 18446744073709551616 \<or> \<bar>r\<bar> < 2 ^ 1024))"
    by auto
qed simp_all

lemma wf_round64: "wf_float (round64 x)"
  by (auto simp: round64_def Let_def rnd64_idem abs_less_iff)

lemma round64_Finite: "round64 x = Finite r \<Longrightarrow> r = rnd64 x"
  by (simp add: round64_def Let_def split: if_splits)

lemma round64_exact: "wf_float (Finite r) \<Longrightarrow> round64 r = Finite r"
  by (auto simp: round64_def Let_def abs_less_iff)

lemma fadd_zero_right: "wf_float x \<Longrightarrow> fadd x (Finite 0) = x"
  by (cases x) (simp_all add: round64_exact)

lemma fle_refl: "x \<noteq> NaN \<Longrightarrow> fle x x"
  by (simp add: fle_def)

lemma fle_Finite [simp]: "fle (Finite a) (Finite b) \<longleftrightarrow> a \<le> b"
  by (auto simp: fle_def)

lemma not_flt_fadd_nonneg: "wf_float x \<Longrightarrow> 0 \<le> e \<Longrightarrow> \<not> flt (fadd x (Finite e)) x"
  by (cases x) (auto simp: round64_def Let_def dest: binary64.rnd_add_ge)

end
