(* ===== verification/Py_Runtime.thy ===== *)
theory Py_Runtime
  imports Py_Float
begin

text \<open>
  What the program uses of the Python runtime: dynamically typed values (validators take
  them, JSON files hold them), conversions, and exceptions with their class hierarchy
  (\<open>exceptions.py\<close> and the exception classes declared in the other modules).

  A Python \<open>str\<close> is its UTF-8 encoding: equality, emptiness, concatenation, the ASCII test
  and the length of an ASCII string agree with Python's.
\<close>

section \<open>Values\<close>

text \<open>
  \<open>PyObj\<close> is an object of any other type, told apart by a number; \<open>PyDict\<close> has string
  keys, as every dictionary of the program does.
\<close>

datatype pyval =
    PyNone
  | PyBool bool
  | PyInt int
  | PyFloat pyfloat
  | PyStr string
  | PyList "pyval list"
  | PyDict "(string \<times> pyval) list"
  | PyObj nat

type_synonym pydict = "pyval dict"

fun truthy :: "pyval \<Rightarrow> bool" where
  "truthy PyNone = False"
| "truthy (PyBool b) = b"
| "truthy (PyInt n) = (n \<noteq> 0)"
| "truthy (PyFloat x) = (x \<noteq> Finite 0)"
| "truthy (PyStr s) = (s \<noteq> [])"
| "truthy (PyList xs) = (xs \<noteq> [])"
| "truthy (PyDict d) = (d \<noteq> [])"
| "truthy (PyObj _) = True"

text \<open>The tests \<open>type(v) is bool\<close>, \<open>type(v) is int\<close>, \<open>type(v) is str\<close> (a \<open>bool\<close> is not an \<open>int\<close> here).\<close>

fun is_bool :: "pyval \<Rightarrow> bool" where
  "is_bool (PyBool _) = True"
| "is_bool _ = False"

fun is_int :: "pyval \<Rightarrow> bool" where
  "is_int (PyInt _) = True"
| "is_int _ = False"

fun is_str :: "pyval \<Rightarrow> bool" where
  "is_str (PyStr _) = True"
| "is_str _ = False"

fun is_list :: "pyval \<Rightarrow> bool" where
  "is_list (PyList _) = True"
| "is_list _ = False"

fun as_dict :: "pyval \<Rightarrow> pydict option" where
  "as_dict (PyDict d) = Some d"
| "as_dict _ = None"

text \<open>\<open>type(v) in (int, float) and not isinstance(v, bool)\<close>\<close>

fun is_number :: "pyval \<Rightarrow> bool" where
  "is_number (PyInt _) = True"
| "is_number (PyFloat _) = True"
| "is_number _ = False"


section \<open>Exceptions\<close>

datatype exn_class =
    PyException | TypeError | ValueError | KeyError | IndexError | AttributeError | ImportError | RuntimeError
  | OSError | PermissionError | FileNotFoundError | OverflowError | UnicodeEncodeError
  | SqliteError | KeyboardInterrupt | LoopFuel
  | InvalidTransition | InvariantViolation
  | JournalError | JournalIntegrityError | ConcurrentExecutionError
  | ExecutionCoreError | SessionClosedError
  | BrokerError | BrokerExecutionDisabled | BrokerSubmissionRejected
  | BrokerSubmissionAmbiguous | BrokerQueryAmbiguous
  | RecoveryAmbiguous | RuntimeConfigurationError | AccountBindingError
  | EventQueueUnhealthy | RuntimeConfirmationError
  | CoordinationError | SymbolClaimConflict | CashReservationRejected
  | SessionIdUnavailable | RuntimeAuthorityError | CoordinationIdentityError

text \<open>
  The base classes of a class (its method resolution order below \<open>BaseException\<close>);
  \<open>KeyboardInterrupt\<close> is not an \<open>Exception\<close>, so \<open>except Exception\<close> lets it through; it also
  stands for the end of the process at that point.  \<open>LoopFuel\<close> is not a Python class: it marks
  a loop of the model that was still running when its fuel ended.
\<close>

fun exn_bases :: "exn_class \<Rightarrow> exn_class list" where
  "exn_bases PyException = []"
| "exn_bases KeyboardInterrupt = []"
| "exn_bases LoopFuel = []"
| "exn_bases PermissionError = [OSError, PyException]"
| "exn_bases FileNotFoundError = [OSError, PyException]"
| "exn_bases UnicodeEncodeError = [ValueError, PyException]"
| "exn_bases InvalidTransition = [RuntimeError, PyException]"
| "exn_bases InvariantViolation = [RuntimeError, PyException]"
| "exn_bases JournalError = [RuntimeError, PyException]"
| "exn_bases JournalIntegrityError = [JournalError, RuntimeError, PyException]"
| "exn_bases ConcurrentExecutionError = [RuntimeError, PyException]"
| "exn_bases ExecutionCoreError = [RuntimeError, PyException]"
| "exn_bases SessionClosedError = [ExecutionCoreError, RuntimeError, PyException]"
| "exn_bases BrokerError = [ExecutionCoreError, RuntimeError, PyException]"
| "exn_bases BrokerExecutionDisabled = [BrokerError, ExecutionCoreError, RuntimeError, PyException]"
| "exn_bases BrokerSubmissionRejected = [BrokerError, ExecutionCoreError, RuntimeError, PyException]"
| "exn_bases BrokerSubmissionAmbiguous = [BrokerError, ExecutionCoreError, RuntimeError, PyException]"
| "exn_bases BrokerQueryAmbiguous = [BrokerError, ExecutionCoreError, RuntimeError, PyException]"
| "exn_bases RecoveryAmbiguous = [ExecutionCoreError, RuntimeError, PyException]"
| "exn_bases RuntimeConfigurationError = [ExecutionCoreError, RuntimeError, PyException]"
| "exn_bases AccountBindingError = [ExecutionCoreError, RuntimeError, PyException]"
| "exn_bases EventQueueUnhealthy = [ExecutionCoreError, RuntimeError, PyException]"
| "exn_bases RuntimeConfirmationError = [ExecutionCoreError, RuntimeError, PyException]"
| "exn_bases CoordinationError = [ExecutionCoreError, RuntimeError, PyException]"
| "exn_bases SymbolClaimConflict = [CoordinationError, ExecutionCoreError, RuntimeError, PyException]"
| "exn_bases CashReservationRejected = [CoordinationError, ExecutionCoreError, RuntimeError, PyException]"
| "exn_bases SessionIdUnavailable =
     [RuntimeConfigurationError, ExecutionCoreError, RuntimeError, PyException]"
| "exn_bases RuntimeAuthorityError = [ExecutionCoreError, RuntimeError, PyException]"
| "exn_bases CoordinationIdentityError =
     [CoordinationError, ExecutionCoreError, RuntimeError, PyException]"
| "exn_bases _ = [PyException]"

text \<open>A raised exception: its class and its message (\<open>str(exc)\<close>).\<close>

datatype exn = Exn (exn_kind: exn_class) (exn_msg: string)

definition isinstance_exn :: "exn \<Rightarrow> exn_class \<Rightarrow> bool" where
  "isinstance_exn e c = (exn_kind e = c \<or> c \<in> set (exn_bases (exn_kind e)))"

lemma isinstance_exn_Exn [simp]:
  "isinstance_exn (Exn k m) c = (k = c \<or> c \<in> set (exn_bases k))"
  by (simp add: isinstance_exn_def)

lemma isinstance_PyException:
  "isinstance_exn e PyException \<longleftrightarrow> exn_kind e \<notin> {KeyboardInterrupt, LoopFuel}"
  by (cases "exn_kind e") (simp_all add: isinstance_exn_def)

type_synonym 'a pyres = "(exn, 'a) res"
type_synonym ('s, 'a) pyact = "('s, exn, 'a) act"


section \<open>Comparisons and containers\<close>

text \<open>\<open>d.get(k)\<close>, and \<open>v == n\<close> for an integer \<open>n\<close> (a boolean and an integral float compare equal to it).\<close>

definition pyget :: "pydict \<Rightarrow> string \<Rightarrow> pyval" where
  "pyget d k = (case dget d k of None \<Rightarrow> PyNone | Some v \<Rightarrow> v)"

fun py_eq_int :: "pyval \<Rightarrow> int \<Rightarrow> bool" where
  "py_eq_int (PyInt m) n = (m = n)"
| "py_eq_int (PyBool b) n = (n = (if b then 1 else 0))"
| "py_eq_int (PyFloat (Finite r)) n = (r = of_int n)"
| "py_eq_int _ n = False"

text \<open>\<open>list(v)\<close>\<close>

fun py_list :: "pyval \<Rightarrow> pyval list pyres" where
  "py_list (PyList xs) = Inr xs"
| "py_list (PyDict d) = Inr (map (\<lambda>kv. PyStr (fst kv)) d)"
| "py_list (PyStr s) = Inr (map (\<lambda>c. PyStr [c]) s)"
| "py_list _ = Inl (Exn TypeError ''TypeError'')"

text \<open>
  What \<open>json.dump\<close> accepts; reading the file back gives an equal value (keys are strings,
  floats are written so that they read back exactly).
\<close>

fun json_ok :: "pyval \<Rightarrow> bool" where
  "json_ok (PyList xs) = (\<forall>x \<in> set xs. json_ok x)"
| "json_ok (PyDict d) = (\<forall>kv \<in> set d. json_ok (snd kv))"
| "json_ok (PyObj n) = False"
| "json_ok _ = True"

lemma pyget_dset [simp]: "pyget (dset k v d) k' = (if k' = k then v else pyget d k')"
  by (simp add: pyget_def)


section \<open>Conversions\<close>

text \<open>\<open>str(n)\<close> for an integer.\<close>

fun nat_repr :: "nat \<Rightarrow> string" where
  "nat_repr n =
     (if n < 10 then [char_of (48 + n)] else nat_repr (n div 10) @ [char_of (48 + n mod 10)])"

declare nat_repr.simps [simp del]

definition int_repr :: "int \<Rightarrow> string" where
  "int_repr n = (if n < 0 then ''-'' @ nat_repr (nat (- n)) else nat_repr (nat n))"

text \<open>
  \<open>int(s)\<close> for a string: optional ASCII white space around, a sign, decimal digits with
  single underscores between them.  Digits of other scripts are not modelled.
\<close>

definition is_space :: "char \<Rightarrow> bool" where
  "is_space c = (of_char c \<in> {9, 10, 11, 12, 13, 28, 29, 30, 31, 32 :: int})"

definition strip_ascii :: "string \<Rightarrow> string" where
  "strip_ascii s = rev (dropWhile is_space (rev (dropWhile is_space s)))"

definition is_digit :: "char \<Rightarrow> bool" where
  "is_digit c = (48 \<le> (of_char c :: int) \<and> of_char c \<le> (57 :: int))"

fun parse_digits :: "nat \<Rightarrow> string \<Rightarrow> nat option" where
  "parse_digits acc [] = Some acc"
| "parse_digits acc (c # cs) =
     (if is_digit c then parse_digits (acc * 10 + (of_char c - 48)) cs
      else if c = CHR ''_'' then
        (case cs of
           [] \<Rightarrow> None
         | d # ds \<Rightarrow>
             if is_digit d then parse_digits (acc * 10 + (of_char d - 48)) ds else None)
      else None)"

definition parse_nat :: "string \<Rightarrow> nat option" where
  "parse_nat s =
     (case s of [] \<Rightarrow> None | c # cs \<Rightarrow> if is_digit c then parse_digits 0 s else None)"

definition parse_int :: "string \<Rightarrow> int option" where
  "parse_int s =
     (case strip_ascii s of
        [] \<Rightarrow> None
      | c # cs \<Rightarrow>
          if c = CHR ''-'' then map_option (\<lambda>n. - int n) (parse_nat cs)
          else if c = CHR ''+'' then map_option int (parse_nat cs)
          else map_option int (parse_nat (c # cs)))"

text \<open>
  \<open>int(v)\<close>.  The messages of exceptions that the interpreter itself raises are shortened
  to the class's name.
\<close>

fun py_int :: "pyval \<Rightarrow> int pyres" where
  "py_int (PyInt n) = Inr n"
| "py_int (PyBool b) = Inr (if b then 1 else 0)"
| "py_int (PyFloat (Finite r)) = Inr (if 0 \<le> r then \<lfloor>r\<rfloor> else \<lceil>r\<rceil>)"
| "py_int (PyFloat NaN) = Inl (Exn ValueError ''ValueError'')"
| "py_int (PyFloat _) = Inl (Exn OverflowError ''OverflowError'')"
| "py_int (PyStr s) =
     (case parse_int s of Some n \<Rightarrow> Inr n | None \<Rightarrow> Inl (Exn ValueError ''ValueError''))"
| "py_int _ = Inl (Exn TypeError ''TypeError'')"

text \<open>
  \<open>str(v)\<close>; the text of a float or of a container is \<open>rp v\<close>, a parameter of the callers.
\<close>

fun py_str :: "(pyval \<Rightarrow> string) \<Rightarrow> pyval \<Rightarrow> string" where
  "py_str rp (PyStr s) = s"
| "py_str rp (PyInt n) = int_repr n"
| "py_str rp (PyBool b) = (if b then ''True'' else ''False'')"
| "py_str rp PyNone = ''None''"
| "py_str rp v = rp v"

text \<open>
  \<open>float(s)\<close> for a string: a sign, then \<open>inf\<close>, \<open>infinity\<close>, \<open>nan\<close> or a decimal literal with an
  optional fraction and exponent, rounded once to binary64.
\<close>

definition to_lower :: "char \<Rightarrow> char" where
  "to_lower c =
     (if 65 \<le> (of_char c :: int) \<and> of_char c \<le> (90 :: int) then char_of (of_char c + 32 :: int)
      else c)"

definition digit_run :: "string \<Rightarrow> string" where
  "digit_run s = takeWhile (\<lambda>c. is_digit c \<or> c = CHR ''_'') s"

text \<open>The value of a run of digits, with the number of its digits; an empty run is 0.\<close>

definition digits_value :: "string \<Rightarrow> (nat \<times> nat) option" where
  "digits_value s =
     (if s = [] then Some (0, 0)
      else map_option (\<lambda>n. (n, length (filter is_digit s))) (parse_nat s))"

definition parse_exponent :: "string \<Rightarrow> int option" where
  "parse_exponent s =
     (case s of
        [] \<Rightarrow> Some 0
      | c # cs \<Rightarrow>
          if c \<noteq> CHR ''e'' then None
          else (case cs of
             [] \<Rightarrow> None
           | d # ds \<Rightarrow>
               if d = CHR ''-'' then map_option (\<lambda>n. - int n) (parse_nat ds)
               else if d = CHR ''+'' then map_option int (parse_nat ds)
               else map_option int (parse_nat cs)))"

definition parse_decimal :: "string \<Rightarrow> rat option" where
  "parse_decimal s =
     (let ip = digit_run s; r = drop (length ip) s;
          fp = (if r \<noteq> [] \<and> hd r = CHR ''.'' then digit_run (tl r) else []);
          r' = (if r \<noteq> [] \<and> hd r = CHR ''.'' then drop (length fp) (tl r) else r)
      in if ip = [] \<and> fp = [] then None
         else case (digits_value ip, digits_value fp, parse_exponent r') of
             (Some (i, _), Some (f, k), Some e) \<Rightarrow>
               Some ((of_nat i + of_nat f / 10 ^ k) * 10 powi e)
           | _ \<Rightarrow> None)"

definition parse_float :: "string \<Rightarrow> pyfloat option" where
  "parse_float s =
     (let t = map to_lower (strip_ascii s);
          neg = (t \<noteq> [] \<and> hd t = CHR ''-'');
          u = (if t \<noteq> [] \<and> (hd t = CHR ''-'' \<or> hd t = CHR ''+'') then tl t else t)
      in if u = ''inf'' \<or> u = ''infinity'' then Some (if neg then NegInf else PosInf)
         else if u = ''nan'' then Some NaN
         else map_option (\<lambda>r. round64 (if neg then - r else r)) (parse_decimal u))"

text \<open>
  \<open>float(v)\<close> (an integer too large for a float raises), and \<open>qty * x\<close> for an
  integer and a float.
\<close>

definition float_of_int :: "int \<Rightarrow> pyfloat pyres" where
  "float_of_int n =
     (case round64 (of_int n) of
        Finite r \<Rightarrow> Inr (Finite r)
      | _ \<Rightarrow> Inl (Exn OverflowError ''OverflowError''))"

fun py_float :: "pyval \<Rightarrow> pyfloat pyres" where
  "py_float (PyFloat x) = Inr x"
| "py_float (PyInt n) = float_of_int n"
| "py_float (PyBool b) = Inr (Finite (if b then 1 else 0))"
| "py_float (PyStr s) =
     (case parse_float s of Some x \<Rightarrow> Inr x | None \<Rightarrow> Inl (Exn ValueError ''ValueError''))"
| "py_float _ = Inl (Exn TypeError ''TypeError'')"

definition int_mul_float :: "int \<Rightarrow> pyfloat \<Rightarrow> pyfloat pyres" where
  "int_mul_float n x = bindR (float_of_int n) (\<lambda>m. Inr (fmul m x))"

text \<open>Sign tests against 0, exact on integers and on floats (false on NaN).\<close>

fun num_pos :: "pyval \<Rightarrow> bool" where
  "num_pos (PyInt n) = (0 < n)"
| "num_pos (PyFloat x) = flt (Finite 0) x"
| "num_pos _ = False"

fun num_neg :: "pyval \<Rightarrow> bool" where
  "num_neg (PyInt n) = (n < 0)"
| "num_neg (PyFloat x) = flt x (Finite 0)"
| "num_neg _ = False"

lemma float_of_int_Inr:
  assumes "float_of_int n = Inr x"
  shows "x = Finite (rnd64 (of_int n))" and "wf_float x"
proof -
  from assms obtain r where "round64 (of_int n) = Finite r" and "x = Finite r"
    by (auto simp: float_of_int_def split: pyfloat.splits)
  then show "x = Finite (rnd64 (of_int n))" and "wf_float x"
    using round64_Finite wf_round64 by metis+
qed

text \<open>A Python literal such as \<open>1e-9\<close> is the float nearest to the decimal.\<close>

definition float_lit :: "rat \<Rightarrow> pyfloat" where
  "float_lit r = round64 r"

end
