(* ===== verification/Trade_Domain.thy ===== *)
theory Trade_Domain
  imports Py_Runtime
begin

text \<open>
  \<open>domain.py\<close>: the enumerations, the evidence records and their \<open>validate\<close> methods, the
  execution request, the broker's orders, assets, positions and trades with the checks of
  their \<open>__post_init__\<close> methods.

  A constructor whose arguments are checked is a function \<open>mk_<Class>\<close> from dynamically
  typed arguments to the record or the exception; \<open>wf_<Class>\<close> is the invariant that the
  checks establish.  A member of a \<open>str\<close> enumeration is passed as the string it equals.
\<close>

section \<open>Enumerations\<close>

datatype Side = BUY | SELL

datatype TradeState =
    IDLE | WAIT_TRIGGER | TRIGGER | PRE_CHECK | SUBMITTED | ACCEPTED | WORKING | UNKNOWN
  | PARTIALLY_FILLED | PENDING_CANCEL | CANCELLING | FILLED | CANCELLED | REJECTED
  | CANCEL_REJECTED | FAILED

datatype TradeEvent =
    SESSION_READY | TRIGGERED | BEGIN_PRECHECK | PRECHECK_VERIFIED | PRECHECK_REJECTED
  | INTENT_PERSISTED | PRE_BROKER_REJECTED | PRE_BROKER_ABORTED
  | SUBMIT_ACCEPTED | SUBMIT_REJECTED | SUBMIT_AMBIGUOUS
  | ORDER_WORKING | ORDER_PARTIAL | ORDER_FILLED | ORDER_REJECTED
  | CANCEL_REQUESTED | CANCEL_SENT | CANCEL_REQUEST_REJECTED | CANCEL_STILL_PENDING
  | CANCEL_CONFIRMED | QUERY_AMBIGUOUS
  | RECOVERY_ACCEPTED | RECOVERY_WORKING | RECOVERY_PARTIAL | RECOVERY_CANCELLING
  | RECOVERY_FILLED | RECOVERY_CANCELLED | RECOVERY_REJECTED | RECOVERY_FAILED
  | RESTART_RECOVERY | NEXT_CYCLE | FATAL

text \<open>The members that \<open>TradeState\<close> also has carry the prefix \<open>B_\<close>.\<close>

datatype BrokerOrderStatus =
    B_ACCEPTED | B_WORKING | B_PARTIALLY_FILLED | B_CANCEL_PENDING | B_PARTIAL_CANCELLED
  | B_CANCELLED | B_FILLED | B_REJECTED | B_UNKNOWN

datatype CancelRequestResult = CR_ACCEPTED | CR_REJECTED

fun Side_value :: "Side \<Rightarrow> string" where
  "Side_value BUY = ''BUY''"
| "Side_value SELL = ''SELL''"

fun TradeState_value :: "TradeState \<Rightarrow> string" where
  "TradeState_value IDLE = ''idle''"
| "TradeState_value WAIT_TRIGGER = ''wait_trigger''"
| "TradeState_value TRIGGER = ''trigger''"
| "TradeState_value PRE_CHECK = ''pre_check''"
| "TradeState_value SUBMITTED = ''submitted''"
| "TradeState_value ACCEPTED = ''accepted''"
| "TradeState_value WORKING = ''working''"
| "TradeState_value UNKNOWN = ''unknown''"
| "TradeState_value PARTIALLY_FILLED = ''partially_filled''"
| "TradeState_value PENDING_CANCEL = ''pending_cancel''"
| "TradeState_value CANCELLING = ''cancelling''"
| "TradeState_value FILLED = ''filled''"
| "TradeState_value CANCELLED = ''cancelled''"
| "TradeState_value REJECTED = ''rejected''"
| "TradeState_value CANCEL_REJECTED = ''cancel_rejected''"
| "TradeState_value FAILED = ''failed''"

fun TradeEvent_value :: "TradeEvent \<Rightarrow> string" where
  "TradeEvent_value SESSION_READY = ''session_ready''"
| "TradeEvent_value TRIGGERED = ''triggered''"
| "TradeEvent_value BEGIN_PRECHECK = ''begin_precheck''"
| "TradeEvent_value PRECHECK_VERIFIED = ''precheck_verified''"
| "TradeEvent_value PRECHECK_REJECTED = ''precheck_rejected''"
| "TradeEvent_value INTENT_PERSISTED = ''intent_persisted''"
| "TradeEvent_value PRE_BROKER_REJECTED = ''pre_broker_rejected''"
| "TradeEvent_value PRE_BROKER_ABORTED = ''pre_broker_aborted''"
| "TradeEvent_value SUBMIT_ACCEPTED = ''submit_accepted''"
| "TradeEvent_value SUBMIT_REJECTED = ''submit_rejected''"
| "TradeEvent_value SUBMIT_AMBIGUOUS = ''submit_ambiguous''"
| "TradeEvent_value ORDER_WORKING = ''order_working''"
| "TradeEvent_value ORDER_PARTIAL = ''order_partial''"
| "TradeEvent_value ORDER_FILLED = ''order_filled''"
| "TradeEvent_value ORDER_REJECTED = ''order_rejected''"
| "TradeEvent_value CANCEL_REQUESTED = ''cancel_requested''"
| "TradeEvent_value CANCEL_SENT = ''cancel_sent''"
| "TradeEvent_value CANCEL_REQUEST_REJECTED = ''cancel_request_rejected''"
| "TradeEvent_value CANCEL_STILL_PENDING = ''cancel_still_pending''"
| "TradeEvent_value CANCEL_CONFIRMED = ''cancel_confirmed''"
| "TradeEvent_value QUERY_AMBIGUOUS = ''query_ambiguous''"
| "TradeEvent_value RECOVERY_ACCEPTED = ''recovery_accepted''"
| "TradeEvent_value RECOVERY_WORKING = ''recovery_working''"
| "TradeEvent_value RECOVERY_PARTIAL = ''recovery_partial''"
| "TradeEvent_value RECOVERY_CANCELLING = ''recovery_cancelling''"
| "TradeEvent_value RECOVERY_FILLED = ''recovery_filled''"
| "TradeEvent_value RECOVERY_CANCELLED = ''recovery_cancelled''"
| "TradeEvent_value RECOVERY_REJECTED = ''recovery_rejected''"
| "TradeEvent_value RECOVERY_FAILED = ''recovery_failed''"
| "TradeEvent_value RESTART_RECOVERY = ''restart_recovery''"
| "TradeEvent_value NEXT_CYCLE = ''next_cycle''"
| "TradeEvent_value FATAL = ''fatal''"

fun BrokerOrderStatus_value :: "BrokerOrderStatus \<Rightarrow> string" where
  "BrokerOrderStatus_value B_ACCEPTED = ''accepted''"
| "BrokerOrderStatus_value B_WORKING = ''working''"
| "BrokerOrderStatus_value B_PARTIALLY_FILLED = ''partially_filled''"
| "BrokerOrderStatus_value B_CANCEL_PENDING = ''cancel_pending''"
| "BrokerOrderStatus_value B_PARTIAL_CANCELLED = ''partial_cancelled''"
| "BrokerOrderStatus_value B_CANCELLED = ''cancelled''"
| "BrokerOrderStatus_value B_FILLED = ''filled''"
| "BrokerOrderStatus_value B_REJECTED = ''rejected''"
| "BrokerOrderStatus_value B_UNKNOWN = ''unknown''"

definition all_TradeStates :: "TradeState list" where
  "all_TradeStates =
     [IDLE, WAIT_TRIGGER, TRIGGER, PRE_CHECK, SUBMITTED, ACCEPTED, WORKING, UNKNOWN,
      PARTIALLY_FILLED, PENDING_CANCEL, CANCELLING, FILLED, CANCELLED, REJECTED,
      CANCEL_REJECTED, FAILED]"

definition all_BrokerOrderStatuses :: "BrokerOrderStatus list" where
  "all_BrokerOrderStatuses =
     [B_ACCEPTED, B_WORKING, B_PARTIALLY_FILLED, B_CANCEL_PENDING, B_PARTIAL_CANCELLED,
      B_CANCELLED, B_FILLED, B_REJECTED, B_UNKNOWN]"

text \<open>\<open>Enum(value)\<close>: the member with that value, or \<open>ValueError\<close>.\<close>

definition enum_of :: "('a \<Rightarrow> string) \<Rightarrow> 'a list \<Rightarrow> pyval \<Rightarrow> 'a pyres" where
  "enum_of val members v =
     (case v of
        PyStr s \<Rightarrow> (case find (\<lambda>m. val m = s) members of
                    Some m \<Rightarrow> Inr m
                  | None \<Rightarrow> Inl (Exn ValueError ''ValueError''))
      | _ \<Rightarrow> Inl (Exn ValueError ''ValueError''))"

definition Side_of :: "pyval \<Rightarrow> Side pyres" where
  "Side_of = enum_of Side_value [BUY, SELL]"

definition TradeState_of :: "pyval \<Rightarrow> TradeState pyres" where
  "TradeState_of = enum_of TradeState_value all_TradeStates"

definition BrokerOrderStatus_of :: "pyval \<Rightarrow> BrokerOrderStatus pyres" where
  "BrokerOrderStatus_of = enum_of BrokerOrderStatus_value all_BrokerOrderStatuses"

lemma enum_of_sound: "enum_of val members v = Inr m \<Longrightarrow> m \<in> set members \<and> v = PyStr (val m)"
  by (auto simp: enum_of_def find_Some_iff split: pyval.splits option.splits)

lemma all_TradeStates_complete [simp]: "s \<in> set all_TradeStates"
  by (cases s) (simp_all add: all_TradeStates_def)

lemma Side_of_value [simp]: "Side_of (PyStr (Side_value s)) = Inr s"
  by (cases s) (simp_all add: Side_of_def enum_of_def)

lemma TradeState_of_value [simp]: "TradeState_of (PyStr (TradeState_value s)) = Inr s"
  by (cases s) (simp_all add: TradeState_of_def enum_of_def all_TradeStates_def)

lemma BrokerOrderStatus_of_value [simp]:
  "BrokerOrderStatus_of (PyStr (BrokerOrderStatus_value s)) = Inr s"
  by (cases s) (simp_all add: BrokerOrderStatus_of_def enum_of_def all_BrokerOrderStatuses_def)

lemma Side_of_Inr: "Side_of v = Inr s \<longleftrightarrow> v = PyStr (Side_value s)"
  using enum_of_sound [of Side_value] by (auto simp: Side_of_def [symmetric])
    (auto simp: Side_of_def)

lemma TradeState_of_Inr: "TradeState_of v = Inr s \<longleftrightarrow> v = PyStr (TradeState_value s)"
  using enum_of_sound [of TradeState_value] by (auto simp: TradeState_of_def [symmetric])
    (auto simp: TradeState_of_def)

lemma Side_value_inj [simp]: "Side_value a = Side_value b \<longleftrightarrow> a = b"
  by (cases a; cases b) simp_all


section \<open>Safety facts and evidence\<close>

record SafetyFacts =
  environment_verified :: bool
  account_verified :: bool
  broker_snapshot_verified :: bool
  position_verified :: bool
  cash_verified :: bool
  quote_verified :: bool
  intent_persisted :: bool
  reservation_persisted :: bool
  unresolved_order :: bool
  terminal_order_confirmed :: bool
  submitted_once :: bool
  cancel_intent_persisted :: bool

definition no_facts :: SafetyFacts where
  "no_facts =
     \<lparr>environment_verified = False, account_verified = False, broker_snapshot_verified = False,
      position_verified = False, cash_verified = False, quote_verified = False,
      intent_persisted = False, reservation_persisted = False, unresolved_order = False,
      terminal_order_confirmed = False, submitted_once = False, cancel_intent_persisted = False\<rparr>"

text \<open>Evidence comes from project code, so its fields are values of any type until validated.\<close>

record SessionEvidence =
  se_ready :: pyval
  se_environment_verified :: pyval
  se_account_verified :: pyval
  se_reason :: pyval

record PrecheckEvidence =
  pe_allowed :: pyval
  pe_environment_verified :: pyval
  pe_account_verified :: pyval
  pe_broker_snapshot_verified :: pyval
  pe_position_verified :: pyval
  pe_cash_verified :: pyval
  pe_quote_verified :: pyval
  pe_reason :: pyval

text \<open>\<open>for name in names: if not ok(getattr(self, name)): raise \<dots>\<close>\<close>

fun check_fields ::
  "(pyval \<Rightarrow> bool) \<Rightarrow> exn_class \<Rightarrow> string \<Rightarrow> (string \<times> pyval) list \<Rightarrow> unit pyres" where
  "check_fields ok cls msg [] = Inr ()"
| "check_fields ok cls msg ((name, v) # rest) =
     (if ok v then check_fields ok cls msg rest else Inl (Exn cls (name @ msg)))"

lemma check_fields_Inr [simp]:
  "check_fields ok cls msg fs = Inr u \<longleftrightarrow> (\<forall>(name, v) \<in> set fs. ok v)"
  by (induction fs) (auto split: if_splits)

declare check_fields.simps [simp del]

definition SessionEvidence_validate :: "SessionEvidence \<Rightarrow> unit pyres" where
  "SessionEvidence_validate e =
     bindR (check_fields is_bool TypeError '' must be a plain bool''
       [(''ready'', se_ready e), (''environment_verified'', se_environment_verified e),
        (''account_verified'', se_account_verified e)]) (\<lambda>_.
     bindR (raise_if (\<not> is_str (se_reason e)) (Exn TypeError ''reason must be a string'')) (\<lambda>_.
     raise_if (truthy (se_ready e) \<and>
               \<not> (truthy (se_environment_verified e) \<and> truthy (se_account_verified e)))
       (Exn ValueError ''ready session must carry environment/account verification'')))"

definition PrecheckEvidence_validate :: "PrecheckEvidence \<Rightarrow> unit pyres" where
  "PrecheckEvidence_validate e =
     bindR (check_fields is_bool TypeError '' must be a plain bool''
       [(''allowed'', pe_allowed e), (''environment_verified'', pe_environment_verified e),
        (''account_verified'', pe_account_verified e),
        (''broker_snapshot_verified'', pe_broker_snapshot_verified e),
        (''position_verified'', pe_position_verified e),
        (''cash_verified'', pe_cash_verified e), (''quote_verified'', pe_quote_verified e)]) (\<lambda>_.
     bindR (raise_if (\<not> is_str (pe_reason e)) (Exn TypeError ''reason must be a string'')) (\<lambda>_.
     raise_if (truthy (pe_allowed e) \<and>
               \<not> (truthy (pe_environment_verified e) \<and> truthy (pe_account_verified e)
                   \<and> truthy (pe_broker_snapshot_verified e) \<and> truthy (pe_position_verified e)
                   \<and> truthy (pe_cash_verified e) \<and> truthy (pe_quote_verified e)))
       (Exn ValueError ''allowed precheck must carry complete verification evidence'')))"


section \<open>Requests\<close>

record ExecutionRequest =
  client_order_id :: string
  symbol :: string
  side :: Side
  qty :: int
  limit_price :: pyval
  strategy_id :: string
  order_remark :: string

definition nonempty_str :: "pyval \<Rightarrow> bool" where
  "nonempty_str v = (case v of PyStr s \<Rightarrow> s \<noteq> [] | _ \<Rightarrow> False)"

definition pos_int :: "pyval \<Rightarrow> bool" where
  "pos_int v = (case v of PyInt n \<Rightarrow> 0 < n | _ \<Rightarrow> False)"

text \<open>The payload of a value already known to be a string or an integer.\<close>

fun the_str :: "pyval \<Rightarrow> string" where
  "the_str (PyStr s) = s"
| "the_str _ = []"

fun the_int :: "pyval \<Rightarrow> int" where
  "the_int (PyInt n) = n"
| "the_int _ = 0"

definition mk_ExecutionRequest ::
  "pyval \<Rightarrow> pyval \<Rightarrow> pyval \<Rightarrow> pyval \<Rightarrow> pyval \<Rightarrow> pyval \<Rightarrow> pyval \<Rightarrow> ExecutionRequest pyres" where
  "mk_ExecutionRequest cid smb sd q price strat remark =
     bindR (check_fields nonempty_str ValueError '' must be a non-empty string''
       [(''client_order_id'', cid), (''symbol'', smb), (''strategy_id'', strat),
        (''order_remark'', remark)]) (\<lambda>_.
     bindR (Side_of sd) (\<lambda>s.
     bindR (raise_if (\<not> pos_int q) (Exn ValueError ''qty must be a positive plain int'')) (\<lambda>_.
     bindR (raise_if (\<not> is_number price)
              (Exn ValueError ''limit_price must be a plain number'')) (\<lambda>_.
     bindR (py_float price) (\<lambda>f.
     bindR (raise_if (\<not> isfinite f \<or> \<not> num_pos price)
              (Exn ValueError ''limit_price must be finite and positive'')) (\<lambda>_.
     Inr \<lparr>client_order_id = the_str cid, symbol = the_str smb, side = s, qty = the_int q,
          limit_price = price, strategy_id = the_str strat, order_remark = the_str remark\<rparr>))))))"

definition finite_number :: "pyval \<Rightarrow> bool" where
  "finite_number v =
     (is_number v \<and> (case py_float v of Inl _ \<Rightarrow> False | Inr f \<Rightarrow> isfinite f))"

definition wf_ExecutionRequest :: "ExecutionRequest \<Rightarrow> bool" where
  "wf_ExecutionRequest r \<longleftrightarrow>
     client_order_id r \<noteq> [] \<and> symbol r \<noteq> [] \<and> strategy_id r \<noteq> [] \<and> order_remark r \<noteq> [] \<and>
     0 < qty r \<and> finite_number (limit_price r) \<and> num_pos (limit_price r)"

lemma nonempty_str_iff: "nonempty_str v \<longleftrightarrow> (\<exists>s. v = PyStr s \<and> s \<noteq> [])"
  by (auto simp: nonempty_str_def split: pyval.splits)

lemma pos_int_iff: "pos_int v \<longleftrightarrow> (\<exists>n. v = PyInt n \<and> 0 < n)"
  by (auto simp: pos_int_def split: pyval.splits)

lemma mk_ExecutionRequest_wf:
  "mk_ExecutionRequest cid smb sd q price strat remark = Inr r \<Longrightarrow> wf_ExecutionRequest r"
  by (auto simp: mk_ExecutionRequest_def wf_ExecutionRequest_def bindR_eq_Inr nonempty_str_iff
      pos_int_iff finite_number_def)

lemma mk_ExecutionRequest_complete:
  "wf_ExecutionRequest r \<Longrightarrow>
   mk_ExecutionRequest (PyStr (client_order_id r)) (PyStr (symbol r))
     (PyStr (Side_value (side r))) (PyInt (qty r)) (limit_price r) (PyStr (strategy_id r))
     (PyStr (order_remark r)) = Inr r"
  by (cases r)
    (auto simp: mk_ExecutionRequest_def wf_ExecutionRequest_def finite_number_def
      check_fields.simps nonempty_str_def pos_int_def split: sum.splits)


section \<open>Broker facts\<close>

record BrokerOrder =
  bo_order_id :: int
  bo_symbol :: string
  bo_side :: Side
  bo_qty :: int
  bo_filled_qty :: int
  bo_status :: BrokerOrderStatus
  bo_order_remark :: string
  bo_client_order_id :: string
  bo_strategy_name :: string
  bo_order_sysid :: string
  bo_status_message :: string
  bo_average_fill_price :: pyval

definition check_average :: "pyval \<Rightarrow> unit pyres" where
  "check_average v =
     (if v = PyNone then Inr ()
      else bindR (raise_if (\<not> is_number v)
                    (Exn ValueError ''average_fill_price must be numeric or None'')) (\<lambda>_.
           bindR (py_float v) (\<lambda>f.
           raise_if (\<not> isfinite f \<or> num_neg v)
             (Exn ValueError ''average_fill_price must be finite and non-negative''))))"

text \<open>Arguments in the order of the fields; the keyword defaults are the callers' business.\<close>

definition mk_BrokerOrder ::
  "pyval \<Rightarrow> pyval \<Rightarrow> pyval \<Rightarrow> pyval \<Rightarrow> pyval \<Rightarrow> pyval \<Rightarrow> pyval \<Rightarrow> pyval \<Rightarrow> pyval \<Rightarrow> pyval \<Rightarrow> pyval \<Rightarrow> pyval
    \<Rightarrow> BrokerOrder pyres" where
  "mk_BrokerOrder oid smb sd q fq st remark cid strat sysid msg avg =
     bindR (raise_if (\<not> pos_int oid) (Exn ValueError ''order_id must be a positive plain int'')) (\<lambda>_.
     bindR (raise_if (\<not> nonempty_str smb) (Exn ValueError ''symbol must be a non-empty string'')) (\<lambda>_.
     bindR (Side_of sd) (\<lambda>s.
     bindR (raise_if (\<not> pos_int q) (Exn ValueError ''qty must be a positive plain int'')) (\<lambda>_.
     bindR (raise_if (\<not> (is_int fq \<and> 0 \<le> the_int fq \<and> the_int fq \<le> the_int q))
              (Exn ValueError ''filled_qty must be within [0, qty]'')) (\<lambda>_.
     bindR (BrokerOrderStatus_of st) (\<lambda>status.
     bindR (check_fields is_str ValueError '' must be a string''
       [(''order_remark'', remark), (''client_order_id'', cid), (''strategy_name'', strat),
        (''order_sysid'', sysid), (''status_message'', msg)]) (\<lambda>_.
     bindR (check_average avg) (\<lambda>_.
     Inr \<lparr>bo_order_id = the_int oid, bo_symbol = the_str smb, bo_side = s, bo_qty = the_int q,
          bo_filled_qty = the_int fq, bo_status = status, bo_order_remark = the_str remark,
          bo_client_order_id = the_str cid, bo_strategy_name = the_str strat,
          bo_order_sysid = the_str sysid, bo_status_message = the_str msg,
          bo_average_fill_price = avg\<rparr>))))))))"

definition wf_BrokerOrder :: "BrokerOrder \<Rightarrow> bool" where
  "wf_BrokerOrder b \<longleftrightarrow>
     0 < bo_order_id b \<and> bo_symbol b \<noteq> [] \<and> 0 < bo_qty b \<and>
     0 \<le> bo_filled_qty b \<and> bo_filled_qty b \<le> bo_qty b \<and>
     (bo_average_fill_price b = PyNone \<or>
      finite_number (bo_average_fill_price b) \<and> \<not> num_neg (bo_average_fill_price b))"

lemma mk_BrokerOrder_wf:
  "mk_BrokerOrder oid smb sd q fq st remark cid strat sysid msg avg = Inr b \<Longrightarrow> wf_BrokerOrder b"
  by (auto simp: mk_BrokerOrder_def wf_BrokerOrder_def bindR_eq_Inr nonempty_str_iff
      pos_int_iff check_average_def finite_number_def split: if_splits)

text \<open>\<open>for name in names: numeric, finite and non-negative\<close>, as three of the classes check it.\<close>

definition check_amount :: "string \<Rightarrow> pyval \<Rightarrow> unit pyres" where
  "check_amount name v =
     bindR (raise_if (\<not> is_number v) (Exn ValueError (name @ '' must be numeric''))) (\<lambda>_.
     bindR (py_float v) (\<lambda>f.
     raise_if (\<not> isfinite f \<or> num_neg v)
       (Exn ValueError (name @ '' must be finite and non-negative''))))"

definition amount_ok :: "pyval \<Rightarrow> bool" where
  "amount_ok v \<longleftrightarrow> finite_number v \<and> \<not> num_neg v"

lemma check_amount_Inr: "check_amount name v = Inr u \<longleftrightarrow> amount_ok v"
  by (auto simp: check_amount_def amount_ok_def finite_number_def bindR_eq_Inr split: sum.splits)

record BrokerAsset =
  ba_cash :: pyval
  ba_frozen_cash :: pyval
  ba_market_value :: pyval
  ba_total_asset :: pyval

definition mk_BrokerAsset :: "pyval \<Rightarrow> pyval \<Rightarrow> pyval \<Rightarrow> pyval \<Rightarrow> BrokerAsset pyres" where
  "mk_BrokerAsset cash frozen mv tot =
     bindR (check_amount ''cash'' cash) (\<lambda>_.
     bindR (check_amount ''frozen_cash'' frozen) (\<lambda>_.
     bindR (check_amount ''market_value'' mv) (\<lambda>_.
     bindR (check_amount ''total_asset'' tot) (\<lambda>_.
     Inr \<lparr>ba_cash = cash, ba_frozen_cash = frozen, ba_market_value = mv, ba_total_asset = tot\<rparr>))))"

definition wf_BrokerAsset :: "BrokerAsset \<Rightarrow> bool" where
  "wf_BrokerAsset a \<longleftrightarrow>
     amount_ok (ba_cash a) \<and> amount_ok (ba_frozen_cash a) \<and> amount_ok (ba_market_value a) \<and>
     amount_ok (ba_total_asset a)"

lemma mk_BrokerAsset_wf: "mk_BrokerAsset c f m t = Inr a \<Longrightarrow> wf_BrokerAsset a"
  by (auto simp: mk_BrokerAsset_def wf_BrokerAsset_def bindR_eq_Inr check_amount_Inr)

record BrokerPosition =
  bp_symbol :: string
  bp_volume :: int
  bp_can_use_volume :: int
  bp_frozen_volume :: int
  bp_market_value :: pyval
  bp_average_price :: pyval

definition nonneg_int :: "pyval \<Rightarrow> bool" where
  "nonneg_int v = (is_int v \<and> 0 \<le> the_int v)"

definition mk_BrokerPosition ::
  "pyval \<Rightarrow> pyval \<Rightarrow> pyval \<Rightarrow> pyval \<Rightarrow> pyval \<Rightarrow> pyval \<Rightarrow> BrokerPosition pyres" where
  "mk_BrokerPosition smb vol can frozen mv avg =
     bindR (raise_if (\<not> nonempty_str smb) (Exn ValueError ''symbol must be a non-empty string'')) (\<lambda>_.
     bindR (check_fields nonneg_int ValueError '' must be a non-negative plain int''
       [(''volume'', vol), (''can_use_volume'', can), (''frozen_volume'', frozen)]) (\<lambda>_.
     bindR (raise_if (the_int can > the_int vol)
              (Exn ValueError ''can_use_volume cannot exceed volume'')) (\<lambda>_.
     bindR (check_amount ''market_value'' mv) (\<lambda>_.
     bindR (check_amount ''average_price'' avg) (\<lambda>_.
     Inr \<lparr>bp_symbol = the_str smb, bp_volume = the_int vol, bp_can_use_volume = the_int can,
          bp_frozen_volume = the_int frozen, bp_market_value = mv, bp_average_price = avg\<rparr>)))))"

definition wf_BrokerPosition :: "BrokerPosition \<Rightarrow> bool" where
  "wf_BrokerPosition p \<longleftrightarrow>
     bp_symbol p \<noteq> [] \<and> 0 \<le> bp_can_use_volume p \<and> bp_can_use_volume p \<le> bp_volume p \<and>
     0 \<le> bp_frozen_volume p \<and> amount_ok (bp_market_value p) \<and> amount_ok (bp_average_price p)"

lemma mk_BrokerPosition_wf:
  "mk_BrokerPosition smb vol can frozen mv avg = Inr p \<Longrightarrow> wf_BrokerPosition p"
  by (auto simp: mk_BrokerPosition_def wf_BrokerPosition_def bindR_eq_Inr check_amount_Inr
      nonempty_str_iff nonneg_int_def)

record BrokerTrade =
  bt_order_id :: int
  bt_symbol :: string
  bt_side :: Side
  bt_traded_volume :: int
  bt_traded_price :: pyval
  bt_traded_amount :: pyval
  bt_traded_id :: string
  bt_strategy_name :: string
  bt_order_remark :: string

definition mk_BrokerTrade ::
  "pyval \<Rightarrow> pyval \<Rightarrow> pyval \<Rightarrow> pyval \<Rightarrow> pyval \<Rightarrow> pyval \<Rightarrow> pyval \<Rightarrow> pyval \<Rightarrow> pyval \<Rightarrow> BrokerTrade pyres" where
  "mk_BrokerTrade oid smb sd vol price amount tid strat remark =
     bindR (raise_if (\<not> pos_int oid) (Exn ValueError ''order_id must be a positive plain int'')) (\<lambda>_.
     bindR (raise_if (\<not> nonempty_str smb) (Exn ValueError ''symbol must be non-empty'')) (\<lambda>_.
     bindR (Side_of sd) (\<lambda>s.
     bindR (raise_if (\<not> pos_int vol) (Exn ValueError ''traded_volume must be positive'')) (\<lambda>_.
     bindR (check_amount ''traded_price'' price) (\<lambda>_.
     bindR (check_amount ''traded_amount'' amount) (\<lambda>_.
     bindR (check_fields is_str ValueError '' must be a string''
       [(''traded_id'', tid), (''strategy_name'', strat), (''order_remark'', remark)]) (\<lambda>_.
     Inr \<lparr>bt_order_id = the_int oid, bt_symbol = the_str smb, bt_side = s,
          bt_traded_volume = the_int vol, bt_traded_price = price, bt_traded_amount = amount,
          bt_traded_id = the_str tid, bt_strategy_name = the_str strat,
          bt_order_remark = the_str remark\<rparr>)))))))"

definition wf_BrokerTrade :: "BrokerTrade \<Rightarrow> bool" where
  "wf_BrokerTrade t \<longleftrightarrow>
     0 < bt_order_id t \<and> bt_symbol t \<noteq> [] \<and> 0 < bt_traded_volume t \<and>
     amount_ok (bt_traded_price t) \<and> amount_ok (bt_traded_amount t)"

lemma mk_BrokerTrade_wf:
  "mk_BrokerTrade oid smb sd vol price amount tid strat remark = Inr t \<Longrightarrow> wf_BrokerTrade t"
  by (auto simp: mk_BrokerTrade_def wf_BrokerTrade_def bindR_eq_Inr check_amount_Inr
      nonempty_str_iff pos_int_iff)


section \<open>What a session reports\<close>

record ExecutionSnapshot =
  es_state :: TradeState
  es_client_order_id :: "pyval"
  es_broker_order_id :: "int option"
  es_ordered_qty :: int
  es_filled_qty :: int
  es_average_fill_price :: pyval
  es_reason :: string

end
