(* ===== verification/State_Machine.thy ===== *)
theory State_Machine
  imports Trade_Domain
begin

text \<open>
  \<open>state_machine.py\<close>: the transition table, \<open>advance\<close> and \<open>assert_invariants\<close>.

  The lemmas show that the invariants the code checks at run time are inductive: on every
  snapshot reachable from the initial one by \<open>advance\<close>, with any evidence, the run-time
  check of \<open>assert_invariants\<close> never fires, and the states from which a new order can be
  sent carry no unresolved order.
\<close>

section \<open>Definitions\<close>

record MachineSnapshot =
  state :: TradeState
  facts :: SafetyFacts

definition initial_snapshot :: MachineSnapshot where
  "initial_snapshot = \<lparr>state = IDLE, facts = no_facts\<rparr>"

fun TRANSITIONS :: "TradeState \<Rightarrow> (TradeEvent \<times> TradeState) list" where
  "TRANSITIONS IDLE = [(SESSION_READY, WAIT_TRIGGER), (FATAL, FAILED)]"
| "TRANSITIONS WAIT_TRIGGER = [(TRIGGERED, TRIGGER), (FATAL, FAILED)]"
| "TRANSITIONS TRIGGER = [(BEGIN_PRECHECK, PRE_CHECK), (FATAL, FAILED)]"
| "TRANSITIONS PRE_CHECK =
     [(PRECHECK_VERIFIED, PRE_CHECK), (PRECHECK_REJECTED, REJECTED),
      (INTENT_PERSISTED, SUBMITTED), (FATAL, FAILED)]"
| "TRANSITIONS SUBMITTED =
     [(PRE_BROKER_REJECTED, REJECTED), (PRE_BROKER_ABORTED, FAILED),
      (SUBMIT_ACCEPTED, ACCEPTED), (SUBMIT_REJECTED, REJECTED), (SUBMIT_AMBIGUOUS, UNKNOWN),
      (RESTART_RECOVERY, UNKNOWN), (FATAL, FAILED)]"
| "TRANSITIONS ACCEPTED =
     [(ORDER_WORKING, WORKING), (ORDER_PARTIAL, PARTIALLY_FILLED), (ORDER_FILLED, FILLED),
      (ORDER_REJECTED, REJECTED), (CANCEL_REQUESTED, PENDING_CANCEL),
      (CANCEL_CONFIRMED, CANCELLED), (QUERY_AMBIGUOUS, UNKNOWN), (RESTART_RECOVERY, UNKNOWN),
      (FATAL, FAILED)]"
| "TRANSITIONS WORKING =
     [(ORDER_WORKING, WORKING), (ORDER_PARTIAL, PARTIALLY_FILLED), (ORDER_FILLED, FILLED),
      (ORDER_REJECTED, REJECTED), (CANCEL_REQUESTED, PENDING_CANCEL),
      (CANCEL_CONFIRMED, CANCELLED), (QUERY_AMBIGUOUS, UNKNOWN), (RESTART_RECOVERY, UNKNOWN),
      (FATAL, FAILED)]"
| "TRANSITIONS PARTIALLY_FILLED =
     [(ORDER_PARTIAL, PARTIALLY_FILLED), (ORDER_FILLED, FILLED),
      (CANCEL_REQUESTED, PENDING_CANCEL), (CANCEL_CONFIRMED, CANCELLED),
      (QUERY_AMBIGUOUS, UNKNOWN), (RESTART_RECOVERY, UNKNOWN), (FATAL, FAILED)]"
| "TRANSITIONS PENDING_CANCEL =
     [(CANCEL_SENT, CANCELLING), (CANCEL_REQUEST_REJECTED, CANCEL_REJECTED),
      (ORDER_WORKING, WORKING), (ORDER_PARTIAL, PARTIALLY_FILLED),
      (CANCEL_CONFIRMED, CANCELLED), (ORDER_FILLED, FILLED), (QUERY_AMBIGUOUS, UNKNOWN),
      (RESTART_RECOVERY, UNKNOWN), (FATAL, FAILED)]"
| "TRANSITIONS CANCELLING =
     [(CANCEL_STILL_PENDING, CANCELLING), (CANCEL_CONFIRMED, CANCELLED),
      (ORDER_WORKING, WORKING), (ORDER_PARTIAL, PARTIALLY_FILLED), (ORDER_FILLED, FILLED),
      (QUERY_AMBIGUOUS, UNKNOWN), (RESTART_RECOVERY, UNKNOWN), (FATAL, FAILED)]"
| "TRANSITIONS CANCEL_REJECTED =
     [(RECOVERY_WORKING, WORKING), (RECOVERY_PARTIAL, PARTIALLY_FILLED),
      (RECOVERY_CANCELLING, CANCELLING), (RECOVERY_FILLED, FILLED),
      (RECOVERY_CANCELLED, CANCELLED), (RECOVERY_REJECTED, REJECTED),
      (RECOVERY_FAILED, FAILED), (QUERY_AMBIGUOUS, UNKNOWN), (RESTART_RECOVERY, UNKNOWN)]"
| "TRANSITIONS UNKNOWN =
     [(RECOVERY_ACCEPTED, ACCEPTED), (RECOVERY_WORKING, WORKING),
      (RECOVERY_PARTIAL, PARTIALLY_FILLED), (RECOVERY_CANCELLING, CANCELLING),
      (RECOVERY_FILLED, FILLED), (RECOVERY_CANCELLED, CANCELLED),
      (RECOVERY_REJECTED, REJECTED), (RECOVERY_FAILED, FAILED), (QUERY_AMBIGUOUS, UNKNOWN)]"
| "TRANSITIONS FILLED = [(NEXT_CYCLE, WAIT_TRIGGER)]"
| "TRANSITIONS CANCELLED = [(NEXT_CYCLE, WAIT_TRIGGER)]"
| "TRANSITIONS REJECTED = [(NEXT_CYCLE, WAIT_TRIGGER)]"
| "TRANSITIONS FAILED = []"

definition TERMINAL_STATES :: "TradeState set" where
  "TERMINAL_STATES = {FILLED, CANCELLED, REJECTED, FAILED}"

text \<open>\<open>event in TRANSITIONS[state]\<close>\<close>

definition declared :: "TradeState \<Rightarrow> TradeEvent \<Rightarrow> bool" where
  "declared s e = (map_of (TRANSITIONS s) e \<noteq> None)"

definition assert_invariants :: "MachineSnapshot \<Rightarrow> unit pyres" where
  "assert_invariants snap =
     (let f = facts snap; s = state snap in
      bindR (raise_if (submitted_once f \<and> \<not> (intent_persisted f \<and> reservation_persisted f))
        (Exn InvariantViolation ''broker submission lacks durable intent/reservation'')) (\<lambda>_.
      bindR (raise_if
        (s \<in> {SUBMITTED, ACCEPTED, WORKING, UNKNOWN, PARTIALLY_FILLED, PENDING_CANCEL, CANCELLING,
               CANCEL_REJECTED, FILLED, CANCELLED}
         \<and> \<not> (environment_verified f \<and> account_verified f))
        (Exn InvariantViolation ''execution path lacks environment/account verification'')) (\<lambda>_.
      bindR (raise_if
        (s = SUBMITTED
         \<and> \<not> (broker_snapshot_verified f \<and> position_verified f \<and> cash_verified f
              \<and> quote_verified f \<and> intent_persisted f \<and> reservation_persisted f))
        (Exn InvariantViolation ''SUBMITTED lacks verified precheck or durable intent'')) (\<lambda>_.
      bindR (raise_if (s \<in> {WAIT_TRIGGER, TRIGGER, PRE_CHECK} \<and> unresolved_order f)
        (Exn InvariantViolation ''unresolved order reached new-order path'')) (\<lambda>_.
      bindR (raise_if
        (s \<in> {PENDING_CANCEL, CANCELLING, CANCEL_REJECTED} \<and> \<not> cancel_intent_persisted f)
        (Exn InvariantViolation ''cancel path lacks durable cancel intent'')) (\<lambda>_.
      bindR (raise_if
        (s \<in> {FILLED, CANCELLED} \<and> (unresolved_order f \<or> \<not> terminal_order_confirmed f))
        (Exn InvariantViolation ''successful terminal state lacks broker confirmation'')) (\<lambda>_.
      raise_if (s = UNKNOWN \<and> \<not> unresolved_order f)
        (Exn InvariantViolation ''UNKNOWN must preserve unresolved-order evidence''))))))))"

text \<open>The two guards of \<open>advance\<close> that come before the facts are updated.\<close>

definition advance_guards :: "SafetyFacts \<Rightarrow> TradeEvent \<Rightarrow> unit pyres" where
  "advance_guards f event =
     bindR (raise_if (event = RECOVERY_CANCELLING \<and> \<not> cancel_intent_persisted f)
       (Exn InvalidTransition ''cannot recover CANCEL_PENDING without durable cancel intent'')) (\<lambda>_.
     raise_if
       (event = INTENT_PERSISTED
        \<and> \<not> (broker_snapshot_verified f \<and> position_verified f \<and> cash_verified f \<and> quote_verified f))
       (Exn InvalidTransition ''INTENT_PERSISTED requires a verified current-cycle precheck''))"

text \<open>The \<open>if\<close>/\<open>elif\<close> chain of \<open>advance\<close> over the event.\<close>

definition advance_facts ::
  "SafetyFacts \<Rightarrow> TradeEvent \<Rightarrow> SessionEvidence option \<Rightarrow> PrecheckEvidence option
    \<Rightarrow> SafetyFacts pyres" where
  "advance_facts f event session_evidence precheck_evidence =
     (if event = SESSION_READY then
        (case session_evidence of
           None \<Rightarrow> Inl (Exn InvariantViolation ''SESSION_READY requires SessionEvidence'')
         | Some ev \<Rightarrow>
             bindR (SessionEvidence_validate ev) (\<lambda>_.
             bindR (raise_if (\<not> truthy (se_ready ev))
               (Exn InvariantViolation ''SESSION_READY requires ready evidence'')) (\<lambda>_.
             Inr (f\<lparr>environment_verified := truthy (se_environment_verified ev),
                    account_verified := truthy (se_account_verified ev)\<rparr>))))
      else if event = PRECHECK_VERIFIED then
        (case precheck_evidence of
           None \<Rightarrow> Inl (Exn InvariantViolation ''PRECHECK_VERIFIED requires PrecheckEvidence'')
         | Some ev \<Rightarrow>
             bindR (PrecheckEvidence_validate ev) (\<lambda>_.
             bindR (raise_if (\<not> truthy (pe_allowed ev))
               (Exn InvariantViolation ''PRECHECK_VERIFIED requires allowed evidence'')) (\<lambda>_.
             Inr (f\<lparr>environment_verified := truthy (pe_environment_verified ev),
                    account_verified := truthy (pe_account_verified ev),
                    broker_snapshot_verified := truthy (pe_broker_snapshot_verified ev),
                    position_verified := truthy (pe_position_verified ev),
                    cash_verified := truthy (pe_cash_verified ev),
                    quote_verified := truthy (pe_quote_verified ev)\<rparr>))))
      else Inr
       (if event = INTENT_PERSISTED then
          f\<lparr>intent_persisted := True, reservation_persisted := True\<rparr>
        else if event \<in> {PRE_BROKER_REJECTED, PRE_BROKER_ABORTED} then
          f\<lparr>submitted_once := False, unresolved_order := False, terminal_order_confirmed := True\<rparr>
        else if event = SUBMIT_ACCEPTED then
          f\<lparr>submitted_once := True, unresolved_order := True\<rparr>
        else if event = SUBMIT_AMBIGUOUS then
          f\<lparr>submitted_once := True, unresolved_order := True\<rparr>
        else if event = SUBMIT_REJECTED then
          f\<lparr>submitted_once := True, unresolved_order := False, terminal_order_confirmed := True\<rparr>
        else if event \<in> {ORDER_WORKING, ORDER_PARTIAL, RECOVERY_ACCEPTED, RECOVERY_WORKING,
                         RECOVERY_PARTIAL, RECOVERY_CANCELLING, CANCEL_STILL_PENDING} then
          f\<lparr>submitted_once := True, unresolved_order := True\<rparr>
        else if event = CANCEL_REQUESTED then
          f\<lparr>cancel_intent_persisted := True, unresolved_order := True\<rparr>
        else if event = CANCEL_SENT then
          f\<lparr>cancel_intent_persisted := True, unresolved_order := True\<rparr>
        else if event = CANCEL_REQUEST_REJECTED then
          f\<lparr>cancel_intent_persisted := True, unresolved_order := True\<rparr>
        else if event \<in> {ORDER_FILLED, CANCEL_CONFIRMED, RECOVERY_FILLED, RECOVERY_CANCELLED,
                         RECOVERY_REJECTED, ORDER_REJECTED} then
          f\<lparr>submitted_once := True, unresolved_order := False, terminal_order_confirmed := True\<rparr>
        else if event \<in> {QUERY_AMBIGUOUS, RESTART_RECOVERY} then
          f\<lparr>broker_snapshot_verified := False, cash_verified := False, quote_verified := False,
            unresolved_order := (unresolved_order f \<or> submitted_once f \<or> intent_persisted f),
            terminal_order_confirmed := False\<rparr>
        else if event = RECOVERY_FAILED then f\<lparr>unresolved_order := True\<rparr>
        else if event = NEXT_CYCLE then
          no_facts\<lparr>environment_verified := environment_verified f,
                   account_verified := account_verified f\<rparr>
        else f))"

definition advance ::
  "MachineSnapshot \<Rightarrow> TradeEvent \<Rightarrow> SessionEvidence option \<Rightarrow> PrecheckEvidence option
    \<Rightarrow> MachineSnapshot pyres" where
  "advance snap event session_evidence precheck_evidence =
     (case map_of (TRANSITIONS (state snap)) event of
        None \<Rightarrow>
          Inl (Exn InvalidTransition
                (''event '' @ [CHR 0x27] @ TradeEvent_value event @ [CHR 0x27] @ '' invalid from ''
                 @ [CHR 0x27] @ TradeState_value (state snap) @ [CHR 0x27]))
      | Some next_state \<Rightarrow>
          bindR (advance_guards (facts snap) event) (\<lambda>_.
          bindR (advance_facts (facts snap) event session_evidence precheck_evidence) (\<lambda>f.
          bindR (assert_invariants \<lparr>state = next_state, facts = f\<rparr>) (\<lambda>_.
          Inr \<lparr>state = next_state, facts = f\<rparr>))))"


section \<open>Reachable snapshots and their invariant\<close>

inductive reachable :: "MachineSnapshot \<Rightarrow> bool" where
  start: "reachable initial_snapshot"
| step: "reachable s \<Longrightarrow> advance s e se pe = Inr t \<Longrightarrow> reachable t"

text \<open>
  The inductive invariant.  It is stronger than what \<open>assert_invariants\<close> checks: it says in
  every state what is known of the order, and in particular that before \<open>SUBMITTED\<close> no
  intent exists and that from \<open>ACCEPTED\<close> on the order is known to have been sent.
\<close>

fun state_ok :: "TradeState \<Rightarrow> SafetyFacts \<Rightarrow> bool" where
  "state_ok IDLE f =
     (\<not> intent_persisted f \<and> \<not> cancel_intent_persisted f \<and> \<not> terminal_order_confirmed f)"
| "state_ok WAIT_TRIGGER f =
     (environment_verified f \<and> account_verified f \<and> \<not> intent_persisted f
      \<and> \<not> cancel_intent_persisted f \<and> \<not> terminal_order_confirmed f)"
| "state_ok TRIGGER f =
     (environment_verified f \<and> account_verified f \<and> \<not> intent_persisted f
      \<and> \<not> cancel_intent_persisted f \<and> \<not> terminal_order_confirmed f)"
| "state_ok PRE_CHECK f =
     (environment_verified f \<and> account_verified f \<and> \<not> intent_persisted f
      \<and> \<not> cancel_intent_persisted f \<and> \<not> terminal_order_confirmed f)"
| "state_ok SUBMITTED f =
     (environment_verified f \<and> account_verified f \<and> broker_snapshot_verified f
      \<and> position_verified f \<and> cash_verified f \<and> quote_verified f \<and> intent_persisted f
      \<and> \<not> submitted_once f \<and> \<not> unresolved_order f \<and> \<not> cancel_intent_persisted f
      \<and> \<not> terminal_order_confirmed f)"
| "state_ok ACCEPTED f =
     (environment_verified f \<and> account_verified f \<and> unresolved_order f \<and> submitted_once f)"
| "state_ok WORKING f =
     (environment_verified f \<and> account_verified f \<and> unresolved_order f \<and> submitted_once f)"
| "state_ok PARTIALLY_FILLED f =
     (environment_verified f \<and> account_verified f \<and> unresolved_order f \<and> submitted_once f)"
| "state_ok PENDING_CANCEL f =
     (environment_verified f \<and> account_verified f \<and> unresolved_order f \<and> submitted_once f
      \<and> cancel_intent_persisted f)"
| "state_ok CANCELLING f =
     (environment_verified f \<and> account_verified f \<and> unresolved_order f \<and> submitted_once f
      \<and> cancel_intent_persisted f)"
| "state_ok CANCEL_REJECTED f =
     (environment_verified f \<and> account_verified f \<and> unresolved_order f \<and> submitted_once f
      \<and> cancel_intent_persisted f)"
| "state_ok UNKNOWN f =
     (environment_verified f \<and> account_verified f \<and> unresolved_order f)"
| "state_ok FILLED f =
     (environment_verified f \<and> account_verified f \<and> \<not> unresolved_order f \<and> submitted_once f
      \<and> terminal_order_confirmed f)"
| "state_ok CANCELLED f =
     (environment_verified f \<and> account_verified f \<and> \<not> unresolved_order f \<and> submitted_once f
      \<and> terminal_order_confirmed f)"
| "state_ok REJECTED f =
     (environment_verified f \<and> account_verified f \<and> \<not> unresolved_order f
      \<and> (submitted_once f \<longrightarrow> terminal_order_confirmed f))"
| "state_ok FAILED f = True"

definition sm_inv :: "MachineSnapshot \<Rightarrow> bool" where
  "sm_inv snap \<longleftrightarrow>
     (submitted_once (facts snap) \<longrightarrow> intent_persisted (facts snap))
     \<and> (intent_persisted (facts snap) \<longleftrightarrow> reservation_persisted (facts snap))
     \<and> (unresolved_order (facts snap) \<longrightarrow> intent_persisted (facts snap))
     \<and> state_ok (state snap) (facts snap)"

lemma map_of_TRANSITIONS: "map_of (TRANSITIONS s) e = Some t \<Longrightarrow> (e, t) \<in> set (TRANSITIONS s)"
  by (rule map_of_SomeD)

lemma evidence_ok:
  "SessionEvidence_validate ev = Inr u \<Longrightarrow> truthy (se_ready ev) \<Longrightarrow>
   truthy (se_environment_verified ev) \<and> truthy (se_account_verified ev)"
  by (auto simp: SessionEvidence_validate_def bindR_eq_Inr)

lemma precheck_ok:
  "PrecheckEvidence_validate ev = Inr u \<Longrightarrow> truthy (pe_allowed ev) \<Longrightarrow>
   truthy (pe_environment_verified ev) \<and> truthy (pe_account_verified ev)
   \<and> truthy (pe_broker_snapshot_verified ev) \<and> truthy (pe_position_verified ev)
   \<and> truthy (pe_cash_verified ev) \<and> truthy (pe_quote_verified ev)"
  by (auto simp: PrecheckEvidence_validate_def bindR_eq_Inr)

lemma advance_Inr:
  "advance snap e se pe = Inr t \<longleftrightarrow>
     map_of (TRANSITIONS (state snap)) e = Some (state t)
     \<and> advance_guards (facts snap) e = Inr ()
     \<and> advance_facts (facts snap) e se pe = Inr (facts t)
     \<and> assert_invariants t = Inr ()"
  by (cases t) (auto simp: advance_def bindR_eq_Inr split: option.splits)

lemma advance_guards_Inr:
  "advance_guards f e = Inr () \<longleftrightarrow>
     (e = RECOVERY_CANCELLING \<longrightarrow> cancel_intent_persisted f)
     \<and> (e = INTENT_PERSISTED \<longrightarrow>
          broker_snapshot_verified f \<and> position_verified f \<and> cash_verified f \<and> quote_verified f)"
  by (auto simp: advance_guards_def bindR_eq_Inr)

lemma assert_invariants_Inr:
  "assert_invariants s = Inr () \<longleftrightarrow>
     (submitted_once (facts s) \<longrightarrow> intent_persisted (facts s) \<and> reservation_persisted (facts s))
     \<and> (state s \<in> {SUBMITTED, ACCEPTED, WORKING, UNKNOWN, PARTIALLY_FILLED, PENDING_CANCEL,
                    CANCELLING, CANCEL_REJECTED, FILLED, CANCELLED} \<longrightarrow>
          environment_verified (facts s) \<and> account_verified (facts s))
     \<and> (state s = SUBMITTED \<longrightarrow>
          broker_snapshot_verified (facts s) \<and> position_verified (facts s) \<and> cash_verified (facts s)
          \<and> quote_verified (facts s) \<and> intent_persisted (facts s) \<and> reservation_persisted (facts s))
     \<and> (state s \<in> {WAIT_TRIGGER, TRIGGER, PRE_CHECK} \<longrightarrow> \<not> unresolved_order (facts s))
     \<and> (state s \<in> {PENDING_CANCEL, CANCELLING, CANCEL_REJECTED} \<longrightarrow>
          cancel_intent_persisted (facts s))
     \<and> (state s \<in> {FILLED, CANCELLED} \<longrightarrow>
          \<not> unresolved_order (facts s) \<and> terminal_order_confirmed (facts s))
     \<and> (state s = UNKNOWN \<longrightarrow> unresolved_order (facts s))"
  unfolding assert_invariants_def Let_def bindR_eq_Inr raise_if_eq by blast

lemma sm_inv_assert: "sm_inv s \<Longrightarrow> assert_invariants s = Inr ()"
  unfolding assert_invariants_Inr sm_inv_def by (cases "state s") auto

lemma advance_facts_SESSION_READY:
  "advance_facts f SESSION_READY se pe = Inr f' \<Longrightarrow>
   f' = f\<lparr>environment_verified := True, account_verified := True\<rparr>"
  by (auto simp: advance_facts_def bindR_eq_Inr dest!: evidence_ok split: option.splits)

lemma advance_facts_PRECHECK_VERIFIED:
  "advance_facts f PRECHECK_VERIFIED se pe = Inr f' \<Longrightarrow>
   f' = f\<lparr>environment_verified := True, account_verified := True, broker_snapshot_verified := True,
         position_verified := True, cash_verified := True, quote_verified := True\<rparr>"
  by (auto simp: advance_facts_def bindR_eq_Inr dest!: precheck_ok split: option.splits)


lemma advance_facts_other:
  "e \<noteq> SESSION_READY \<Longrightarrow> e \<noteq> PRECHECK_VERIFIED \<Longrightarrow>
   advance_facts f e se pe = Inr (projr (advance_facts f e None None))"
  by (cases e) (simp_all add: advance_facts_def)

lemma sm_inv_step_pure:
  "sm_inv s \<Longrightarrow> (e, st') \<in> set (TRANSITIONS (state s)) \<Longrightarrow> advance_guards (facts s) e = Inr () \<Longrightarrow>
   e \<noteq> SESSION_READY \<Longrightarrow> e \<noteq> PRECHECK_VERIFIED \<Longrightarrow>
   sm_inv \<lparr>state = st', facts = projr (advance_facts (facts s) e None None)\<rparr>"
  unfolding advance_guards_Inr sm_inv_def
  by (cases "state s"; simp; elim disjE conjE; simp add: advance_facts_def no_facts_def)

lemma sm_inv_step:
  assumes inv: "sm_inv s" and tr: "map_of (TRANSITIONS (state s)) e = Some st'"
    and g: "advance_guards (facts s) e = Inr ()"
    and f: "advance_facts (facts s) e se pe = Inr f'"
  shows "sm_inv \<lparr>state = st', facts = f'\<rparr>"
proof -
  consider "e = SESSION_READY" | "e = PRECHECK_VERIFIED"
    | "e \<noteq> SESSION_READY" "e \<noteq> PRECHECK_VERIFIED"
    by blast
  then show ?thesis
  proof cases
    case 1
    with tr have "state s = IDLE" "st' = WAIT_TRIGGER" by (cases "state s"; simp)+
    with inv f show ?thesis unfolding 1
      by (auto simp: sm_inv_def dest!: advance_facts_SESSION_READY)
  next
    case 2
    with tr have "state s = PRE_CHECK" "st' = PRE_CHECK" by (cases "state s"; simp)+
    with inv f show ?thesis unfolding 2
      by (auto simp: sm_inv_def dest!: advance_facts_PRECHECK_VERIFIED)
  next
    case 3
    with f have "f' = projr (advance_facts (facts s) e None None)"
      using advance_facts_other [OF 3, of "facts s" se pe] by simp
    with sm_inv_step_pure [OF inv map_of_TRANSITIONS [OF tr] g 3] show ?thesis by simp
  qed
qed

lemma sm_inv_advance: "sm_inv s \<Longrightarrow> advance s e se pe = Inr t \<Longrightarrow> sm_inv t"
  using sm_inv_step [of s e "state t" se pe "facts t"] by (cases t) (simp add: advance_Inr)

lemma sm_inv_initial: "sm_inv initial_snapshot"
  by (simp add: sm_inv_def initial_snapshot_def no_facts_def)

lemma reachable_sm_inv: "reachable s \<Longrightarrow> sm_inv s"
  by (induction rule: reachable.induct) (auto intro: sm_inv_initial sm_inv_advance)

lemma advance_total:
  assumes "sm_inv s" and "map_of (TRANSITIONS (state s)) e = Some st'"
    and "advance_guards (facts s) e = Inr ()" and "advance_facts (facts s) e se pe = Inr f'"
  shows "advance s e se pe = Inr \<lparr>state = st', facts = f'\<rparr>"
  using sm_inv_assert [OF sm_inv_step [OF assms]] assms by (simp add: advance_Inr)


section \<open>Sequences of events\<close>

type_synonym machine_input = "TradeEvent \<times> SessionEvidence option \<times> PrecheckEvidence option"

primrec advance_all :: "MachineSnapshot \<Rightarrow> machine_input list \<Rightarrow> MachineSnapshot pyres" where
  "advance_all s [] = Inr s"
| "advance_all s (i # is) =
     (case i of (e, se, pe) \<Rightarrow> bindR (advance s e se pe) (\<lambda>t. advance_all t is))"

lemma advance_all_append:
  "advance_all s (is @ js) = bindR (advance_all s is) (\<lambda>t. advance_all t js)"
proof (induction "is" arbitrary: s)
  case Nil
  then show ?case by simp
next
  case (Cons i "is")
  obtain e se pe where i: "i = (e, se, pe)" by (cases i)
  show ?case using Cons by (cases "advance s e se pe") (simp_all add: i)
qed

lemma reachable_advance_all: "reachable s \<Longrightarrow> advance_all s is = Inr t \<Longrightarrow> reachable t"
proof (induction "is" arbitrary: s)
  case Nil
  then show ?case by simp
next
  case (Cons i "is")
  then show ?case by (cases i) (auto simp: bindR_eq_Inr dest: reachable.step)
qed

lemma advance_INTENT_PERSISTED:
  assumes "advance s INTENT_PERSISTED se pe = Inr t"
  shows "state s = PRE_CHECK" "state t = SUBMITTED"
    "facts t = (facts s)\<lparr>intent_persisted := True, reservation_persisted := True\<rparr>"
  using assms by (cases "state s"; simp add: advance_Inr advance_facts_def)+

lemma advance_keeps_intent:
  assumes "advance s e se pe = Inr t" and "e \<noteq> NEXT_CYCLE" and "intent_persisted (facts s)"
  shows "intent_persisted (facts t)"
proof (cases "e = SESSION_READY \<or> e = PRECHECK_VERIFIED")
  case True
  with assms show ?thesis
    by (auto simp: advance_Inr dest!: advance_facts_SESSION_READY advance_facts_PRECHECK_VERIFIED)
next
  case False
  then have "facts t = projr (advance_facts (facts s) e None None)"
    using assms(1) advance_facts_other [of e "facts s" se pe] by (simp add: advance_Inr)
  with assms(2,3) False show ?thesis by (cases e) (simp_all add: advance_facts_def)
qed

lemma advance_all_keeps_intent:
  "advance_all s is = Inr t \<Longrightarrow> NEXT_CYCLE \<notin> fst ` set is \<Longrightarrow> intent_persisted (facts s)
    \<Longrightarrow> intent_persisted (facts t)"
proof (induction "is" arbitrary: s)
  case Nil
  then show ?case by simp
next
  case (Cons i "is")
  obtain e se pe where i: "i = (e, se, pe)" by (cases i)
  from Cons.prems i obtain u where u: "advance s e se pe = Inr u" "advance_all u is = Inr t"
    by (auto simp: bindR_eq_Inr)
  from Cons.prems i have "e \<noteq> NEXT_CYCLE" "NEXT_CYCLE \<notin> fst ` set is" by auto
  with Cons.IH [OF u(2)] advance_keeps_intent [OF u(1)] Cons.prems(3) show ?case by blast
qed

lemma advance_NEXT_CYCLE:
  assumes "advance s NEXT_CYCLE se pe = Inr t"
  shows "state s \<in> {FILLED, CANCELLED, REJECTED}" "state t = WAIT_TRIGGER"
  using assms by (cases "state s"; simp add: advance_Inr)+


section \<open>Properties\<close>

text \<open>
  C18: the run-time invariant check of \<open>advance\<close> is redundant.  From every reachable snapshot,
  a declared event whose own guards and evidence are accepted always succeeds: the
  \<open>InvariantViolation\<close>s of \<open>assert_invariants\<close> are never raised.
\<close>

theorem advance_never_violates_invariants:
  assumes "reachable s"
    and "map_of (TRANSITIONS (state s)) e = Some st'"
    and "advance_guards (facts s) e = Inr ()"
    and "advance_facts (facts s) e se pe = Inr f'"
  shows "advance s e se pe = Inr \<lparr>state = st', facts = f'\<rparr>
         \<and> assert_invariants \<lparr>state = st', facts = f'\<rparr> = Inr ()"
  using advance_total [OF reachable_sm_inv [OF assms(1)] assms(2-4)]
  by (simp add: advance_Inr)

definition ready_evidence :: SessionEvidence where
  "ready_evidence = \<lparr>se_ready = PyBool True, se_environment_verified = PyBool True,
     se_account_verified = PyBool True, se_reason = PyStr ''''\<rparr>"

theorem advance_never_violates_invariants_witness:
  "advance initial_snapshot SESSION_READY (Some ready_evidence) None =
     Inr \<lparr>state = WAIT_TRIGGER,
          facts = no_facts\<lparr>environment_verified := True, account_verified := True\<rparr>\<rparr>"
  using advance_never_violates_invariants [OF reachable.start, of SESSION_READY WAIT_TRIGGER
      "Some ready_evidence" None "no_facts\<lparr>environment_verified := True, account_verified := True\<rparr>"]
  by (simp add: initial_snapshot_def advance_guards_def advance_facts_def ready_evidence_def
      SessionEvidence_validate_def check_fields.simps no_facts_def)

text \<open>
  C9: no blind resend.  Between two successful \<open>INTENT_PERSISTED\<close> events (each of which opens
  the way to one submission) there is a \<open>NEXT_CYCLE\<close>, and it is taken from a terminal state
  in which no order is unresolved.
\<close>

theorem intent_needs_settled_cycle:
  assumes "reachable s"
    and "advance_all s ((INTENT_PERSISTED, a, b) # is @ [(INTENT_PERSISTED, c, d)]) = Inr t"
  shows "\<exists>js ks u x y. is = js @ (NEXT_CYCLE, x, y) # ks
           \<and> advance_all s ((INTENT_PERSISTED, a, b) # js) = Inr u
           \<and> state u \<in> {FILLED, CANCELLED, REJECTED} \<and> \<not> unresolved_order (facts u)"
proof -
  from assms(2) obtain v w where v: "advance s INTENT_PERSISTED a b = Inr v"
    and w: "advance_all v is = Inr w" and t: "advance w INTENT_PERSISTED c d = Inr t"
    by (auto simp: advance_all_append bindR_eq_Inr)
  have "reachable v" using assms(1) v by (rule reachable.step)
  then have "reachable w" using w by (rule reachable_advance_all)
  then have "\<not> intent_persisted (facts w)"
    using advance_INTENT_PERSISTED(1) [OF t] reachable_sm_inv [of w] by (auto simp: sm_inv_def)
  moreover have "intent_persisted (facts v)" using advance_INTENT_PERSISTED(3) [OF v] by simp
  ultimately have "NEXT_CYCLE \<in> fst ` set is" using advance_all_keeps_intent [OF w] by blast
  then obtain x y where "(NEXT_CYCLE, x, y) \<in> set is" by force
  then obtain js ks where "is": "is = js @ (NEXT_CYCLE, x, y) # ks" by (meson split_list)
  from w obtain u u' where u: "advance_all v js = Inr u" "advance u NEXT_CYCLE x y = Inr u'"
    unfolding "is" by (auto simp add: advance_all_append bindR_eq_Inr)
  have "sm_inv u" using \<open>reachable v\<close> u(1) by (rule reachable_sm_inv [OF reachable_advance_all])
  then have "\<not> unresolved_order (facts u)"
    using advance_NEXT_CYCLE(1) [OF u(2)] by (auto simp: sm_inv_def)
  moreover have "advance_all s ((INTENT_PERSISTED, a, b) # js) = Inr u" using v u(1) by simp
  ultimately show ?thesis using "is" advance_NEXT_CYCLE(1) [OF u(2)] by blast
qed


definition allowed_evidence :: PrecheckEvidence where
  "allowed_evidence = \<lparr>pe_allowed = PyBool True, pe_environment_verified = PyBool True,
     pe_account_verified = PyBool True, pe_broker_snapshot_verified = PyBool True,
     pe_position_verified = PyBool True, pe_cash_verified = PyBool True,
     pe_quote_verified = PyBool True, pe_reason = PyStr ''''\<rparr>"

definition precheck_inputs :: "machine_input list" where
  "precheck_inputs =
     [(TRIGGERED, None, None), (BEGIN_PRECHECK, None, None),
      (PRECHECK_VERIFIED, None, Some allowed_evidence)]"

definition checked_snapshot :: MachineSnapshot where
  "checked_snapshot = \<lparr>state = PRE_CHECK,
     facts = no_facts\<lparr>environment_verified := True, account_verified := True,
       broker_snapshot_verified := True, position_verified := True, cash_verified := True,
       quote_verified := True\<rparr>\<rparr>"

lemma reachable_checked_snapshot: "reachable checked_snapshot"
proof (rule reachable_advance_all [OF reachable.start])
  show "advance_all initial_snapshot ((SESSION_READY, Some ready_evidence, None) # precheck_inputs)
      = Inr checked_snapshot"
    by code_simp
qed

theorem intent_needs_settled_cycle_witness:
  "\<exists>js ks u x y.
     [(PRE_BROKER_REJECTED, None, None), (NEXT_CYCLE, None, None)] @ precheck_inputs
       = js @ (NEXT_CYCLE, x, y) # ks
     \<and> advance_all checked_snapshot ((INTENT_PERSISTED, None, None) # js) = Inr u
     \<and> state u \<in> {FILLED, CANCELLED, REJECTED} \<and> \<not> unresolved_order (facts u)"
proof (rule intent_needs_settled_cycle [OF reachable_checked_snapshot])
  show "advance_all checked_snapshot
      ((INTENT_PERSISTED, None, None)
       # ([(PRE_BROKER_REJECTED, None, None), (NEXT_CYCLE, None, None)] @ precheck_inputs)
       @ [(INTENT_PERSISTED, None, None)])
      = Inr \<lparr>state = SUBMITTED, facts = (facts checked_snapshot)\<lparr>intent_persisted := True,
          reservation_persisted := True\<rparr>\<rparr>"
    by code_simp
qed

text \<open>
  A new order is prepared only from a clean state.  When \<open>INTENT_PERSISTED\<close> succeeds
  from a reachable snapshot, every check of the current cycle is verified, no order was sent
  in this cycle and none is unresolved.
\<close>

theorem intent_only_from_clean_precheck:
  assumes "reachable s" and "advance s INTENT_PERSISTED se pe = Inr t"
  shows "environment_verified (facts t) \<and> account_verified (facts t)
    \<and> broker_snapshot_verified (facts t) \<and> position_verified (facts t) \<and> cash_verified (facts t)
    \<and> quote_verified (facts t) \<and> intent_persisted (facts t) \<and> reservation_persisted (facts t)
    \<and> \<not> submitted_once (facts t) \<and> \<not> unresolved_order (facts t)
    \<and> \<not> cancel_intent_persisted (facts t)"
  using reachable_sm_inv [OF reachable.step [OF assms]] advance_INTENT_PERSISTED(2) [OF assms(2)]
  by (auto simp: sm_inv_def)

theorem intent_only_from_clean_precheck_witness:
  "\<not> unresolved_order (facts \<lparr>state = SUBMITTED, facts = (facts checked_snapshot)\<lparr>
       intent_persisted := True, reservation_persisted := True\<rparr>\<rparr>)"
  using intent_only_from_clean_precheck [OF reachable_checked_snapshot, of None None
      "\<lparr>state = SUBMITTED, facts = (facts checked_snapshot)\<lparr>
       intent_persisted := True, reservation_persisted := True\<rparr>\<rparr>"]
  by (simp add: checked_snapshot_def advance_Inr advance_guards_Inr advance_facts_def
      assert_invariants_Inr no_facts_def)

text \<open>
  The evidence of an unresolved order is dropped only by a broker-confirmed end of the
  order: the event is one of the terminal observations, and the snapshot after it is a
  terminal state with \<open>terminal_order_confirmed\<close>.
\<close>

theorem unresolved_cleared_only_by_confirmation:
  assumes "reachable s" and "advance s e se pe = Inr t"
    and "unresolved_order (facts s)" and "\<not> unresolved_order (facts t)"
  shows "e \<in> {ORDER_FILLED, CANCEL_CONFIRMED, ORDER_REJECTED, RECOVERY_FILLED,
              RECOVERY_CANCELLED, RECOVERY_REJECTED}
    \<and> state t \<in> {FILLED, CANCELLED, REJECTED} \<and> terminal_order_confirmed (facts t)"
proof (cases "e = SESSION_READY \<or> e = PRECHECK_VERIFIED")
  case True
  with assms(2-4) show ?thesis
    by (auto simp: advance_Inr dest!: advance_facts_SESSION_READY advance_facts_PRECHECK_VERIFIED)
next
  case False
  then have f: "facts t = projr (advance_facts (facts s) e None None)"
    using assms(2) advance_facts_other [of e "facts s" se pe] by (simp add: advance_Inr)
  have tr: "map_of (TRANSITIONS (state s)) e = Some (state t)" using assms(2) by (simp add: advance_Inr)
  have "sm_inv s" using assms(1) by (rule reachable_sm_inv)
  then show ?thesis using map_of_TRANSITIONS [OF tr] assms(3,4) f
    unfolding sm_inv_def
    by (cases "state s"; simp; elim disjE conjE; simp add: advance_facts_def)
qed

definition working_facts :: SafetyFacts where
  "working_facts = no_facts\<lparr>environment_verified := True, account_verified := True,
     broker_snapshot_verified := True, position_verified := True, cash_verified := True,
     quote_verified := True, intent_persisted := True, reservation_persisted := True,
     submitted_once := True, unresolved_order := True\<rparr>"

lemma reachable_working: "reachable \<lparr>state = ACCEPTED, facts = working_facts\<rparr>"
proof (rule reachable_advance_all [OF reachable_checked_snapshot])
  show "advance_all checked_snapshot [(INTENT_PERSISTED, None, None), (SUBMIT_ACCEPTED, None, None)]
      = Inr \<lparr>state = ACCEPTED, facts = working_facts\<rparr>"
    by code_simp
qed

theorem unresolved_cleared_only_by_confirmation_witness:
  "reachable \<lparr>state = ACCEPTED, facts = working_facts\<rparr>
   \<and> terminal_order_confirmed
       (working_facts\<lparr>unresolved_order := False, terminal_order_confirmed := True\<rparr>)"
proof -
  have "advance \<lparr>state = ACCEPTED, facts = working_facts\<rparr> ORDER_FILLED None None =
      Inr \<lparr>state = FILLED,
           facts = working_facts\<lparr>unresolved_order := False, terminal_order_confirmed := True\<rparr>\<rparr>"
    by code_simp
  from unresolved_cleared_only_by_confirmation [OF reachable_working this] reachable_working show ?thesis
    by (simp add: working_facts_def)
qed

end
