(* ===== verification/Execution_Journal.thy ===== *)
theory Execution_Journal
  imports State_Machine
begin

text \<open>
  \<open>journal.py\<close>: the durable journal of one execution.

  The state holds the payload in memory (\<open>self.payload\<close>) and the content of the journal file;
  what the operating system does (clock, temporary file, \<open>os.replace\<close>) is a record of
  functions on a world, so that every failure and every interruption is an outcome of them.
  The memory is changed before the file is written, as in the code: after a failed write the
  memory is ahead of the file.
\<close>

section \<open>State and environment\<close>

text \<open>
  The journal file: missing, with a text that is not JSON, or with a JSON value.
\<close>

datatype journal_file = NoFile | NotJson | FileJson pyval

record 'w journal_state =
  world :: 'w
  disk :: journal_file
  payload :: "pydict option"

text \<open>
  How a call of \<open>os.replace\<close> ends: it returns, and then the file is replaced; or it raises,
  and then the file is left as it was or, when the process is interrupted at that moment,
  is already replaced.
\<close>

datatype replace_outcome = Replaced | ReplaceRaised exn bool

text \<open>
  What the journal uses of the system: \<open>datetime.now()\<close>, reading the file, creating the
  directory, writing and syncing the temporary file, \<open>os.replace\<close>, \<open>time.sleep\<close> and the removal of the temporary file.
\<close>

record 'w journal_env =
  execution_id :: string
  now :: "('w, string) pyact"
  read_file :: "('w, unit) pyact"
  make_parent :: "('w, unit) pyact"
  write_temporary :: "('w, unit) pyact"
  os_replace :: "'w \<Rightarrow> replace_outcome \<times> 'w"
  sleep :: "('w, unit) pyact"
  remove_temporary :: "('w, unit) pyact"

definition JOURNAL_SCHEMA_VERSION :: int where
  "JOURNAL_SCHEMA_VERSION = 1"

definition MAX_HISTORY :: int where
  "MAX_HISTORY = 1000"

text \<open>A call of an external function: it acts on the world only.\<close>

definition on_world :: "('w, 'b) pyact \<Rightarrow> (('w, 'a) journal_state_scheme, 'b) pyact" where
  "on_world m = (\<lambda>s. case m (world s) of (r, w) \<Rightarrow> (r, s\<lparr>world := w\<rparr>))"


section \<open>Encoding of the machine snapshot\<close>

definition facts_payload :: "SafetyFacts \<Rightarrow> pydict" where
  "facts_payload f =
     [(''environment_verified'', PyBool (environment_verified f)),
      (''account_verified'', PyBool (account_verified f)),
      (''broker_snapshot_verified'', PyBool (broker_snapshot_verified f)),
      (''position_verified'', PyBool (position_verified f)),
      (''cash_verified'', PyBool (cash_verified f)),
      (''quote_verified'', PyBool (quote_verified f)),
      (''intent_persisted'', PyBool (intent_persisted f)),
      (''reservation_persisted'', PyBool (reservation_persisted f)),
      (''unresolved_order'', PyBool (unresolved_order f)),
      (''terminal_order_confirmed'', PyBool (terminal_order_confirmed f)),
      (''submitted_once'', PyBool (submitted_once f)),
      (''cancel_intent_persisted'', PyBool (cancel_intent_persisted f))]"

definition snapshot_payload :: "MachineSnapshot \<Rightarrow> pyval" where
  "snapshot_payload snap =
     PyDict [(''state'', PyStr (TradeState_value (state snap))),
             (''facts'', PyDict (facts_payload (facts snap)))]"

definition fact_names :: "string list" where
  "fact_names = map fst (facts_payload no_facts)"

text \<open>\<open>SafetyFacts(**facts_payload)\<close>, for a dictionary with exactly the fields, all booleans.\<close>

definition mk_SafetyFacts :: "pydict \<Rightarrow> SafetyFacts" where
  "mk_SafetyFacts d =
     \<lparr>environment_verified = truthy (pyget d ''environment_verified''),
      account_verified = truthy (pyget d ''account_verified''),
      broker_snapshot_verified = truthy (pyget d ''broker_snapshot_verified''),
      position_verified = truthy (pyget d ''position_verified''),
      cash_verified = truthy (pyget d ''cash_verified''),
      quote_verified = truthy (pyget d ''quote_verified''),
      intent_persisted = truthy (pyget d ''intent_persisted''),
      reservation_persisted = truthy (pyget d ''reservation_persisted''),
      unresolved_order = truthy (pyget d ''unresolved_order''),
      terminal_order_confirmed = truthy (pyget d ''terminal_order_confirmed''),
      submitted_once = truthy (pyget d ''submitted_once''),
      cancel_intent_persisted = truthy (pyget d ''cancel_intent_persisted'')\<rparr>"

text \<open>\<open>d[k]\<close>\<close>

definition subscript :: "pydict \<Rightarrow> string \<Rightarrow> pyval pyres" where
  "subscript d k = (case dget d k of
        None \<Rightarrow> Inl (Exn KeyError ([CHR 0x27] @ k @ [CHR 0x27])) | Some v \<Rightarrow> Inr v)"

text \<open>The \<open>try\<close> block of \<open>machine_snapshot\<close>: any exception in it is an invalid snapshot.\<close>

definition parse_snapshot :: "pydict \<Rightarrow> MachineSnapshot pyres" where
  "parse_snapshot machine =
     bindR (subscript machine ''state'') (\<lambda>sv.
     bindR (TradeState_of sv) (\<lambda>st.
     bindR (subscript machine ''facts'') (\<lambda>fv.
     (case as_dict fv of
        None \<Rightarrow> Inl (Exn TypeError '''')
      | Some d \<Rightarrow>
          bindR (raise_if (set (map fst d) \<noteq> set fact_names) (Exn ValueError '''')) (\<lambda>_.
          bindR (raise_if (\<not> (\<forall>k \<in> set fact_names. is_bool (pyget d k))) (Exn TypeError '''')) (\<lambda>_.
          Inr \<lparr>state = st, facts = mk_SafetyFacts d\<rparr>))))))"

definition machine_snapshot_of :: "pydict \<Rightarrow> MachineSnapshot pyres" where
  "machine_snapshot_of p =
     (case as_dict (pyget p ''machine'') of
        None \<Rightarrow> Inl (Exn JournalIntegrityError ''journal machine payload missing'')
      | Some machine \<Rightarrow>
          (case parse_snapshot machine of
             Inl _ \<Rightarrow> Inl (Exn JournalIntegrityError ''invalid machine snapshot'')
           | Inr snap \<Rightarrow> bindR (assert_invariants snap) (\<lambda>_. Inr snap)))"


section \<open>Writing\<close>

definition require_payload :: "(('w, 'a) journal_state_scheme, pydict) pyact" where
  "require_payload =
     bindM (getM payload) (\<lambda>p.
       case p of None \<Rightarrow> raiseM (Exn JournalError ''journal is not open'') | Some d \<Rightarrow> returnM d)"

text \<open>One \<open>os.replace\<close> of the temporary file, whose content is the payload.\<close>

definition replace_once ::
  "('w, 'b) journal_env_scheme \<Rightarrow> pydict \<Rightarrow> (('w, 'a) journal_state_scheme, unit) pyact" where
  "replace_once env p =
     (\<lambda>s. case os_replace env (world s) of
        (Replaced, w) \<Rightarrow> (Inr (), s\<lparr>world := w, disk := FileJson (PyDict p)\<rparr>)
      | (ReplaceRaised e done, w) \<Rightarrow>
          (Inl e, if done then s\<lparr>world := w, disk := FileJson (PyDict p)\<rparr> else s\<lparr>world := w\<rparr>))"

text \<open>
  \<open>for attempt in range(20)\<close>, with the number of attempts left: a \<open>PermissionError\<close> is tried
  again after a pause, the last one is raised.
\<close>

primrec replace_loop ::
  "('w, 'b) journal_env_scheme \<Rightarrow> pydict \<Rightarrow> nat \<Rightarrow> (('w, 'a) journal_state_scheme, unit) pyact" where
  "replace_loop env p 0 = returnM ()"
| "replace_loop env p (Suc k) =
     tryM (replace_once env p) (\<lambda>e.
       if isinstance_exn e PermissionError then
         Some (if k = 0 then raiseM e
               else bindM (on_world (sleep env)) (\<lambda>_. replace_loop env p k))
       else None)"

definition journal_write ::
  "('w, 'b) journal_env_scheme \<Rightarrow> (('w, 'a) journal_state_scheme, unit) pyact" where
  "journal_write env =
     bindM require_payload (\<lambda>p.
     bindM (on_world (make_parent env)) (\<lambda>_.
     finallyM
       (bindM (raiseM_if (\<not> json_ok (PyDict p)) (Exn TypeError ''TypeError'')) (\<lambda>_.
        bindM (on_world (write_temporary env)) (\<lambda>_.
        replace_loop env p 20)))
       (tryM (on_world (remove_temporary env))
          (\<lambda>e. if isinstance_exn e OSError then Some (returnM ()) else None))))"

definition set_payload :: "pydict \<Rightarrow> (('w, 'a) journal_state_scheme, unit) pyact" where
  "set_payload p = modifyM (\<lambda>s. s\<lparr>payload := Some p\<rparr>)"

definition journal_data :: "(('w, 'a) journal_state_scheme, pydict) pyact" where
  "journal_data =
     bindM require_payload (\<lambda>p.
       case as_dict (pyget p ''data'') of
         None \<Rightarrow> raiseM (Exn JournalIntegrityError ''journal data is invalid'')
       | Some d \<Rightarrow> returnM d)"

definition write_data ::
  "('w, 'b) journal_env_scheme \<Rightarrow> pydict \<Rightarrow> (('w, 'a) journal_state_scheme, unit) pyact" where
  "write_data env d =
     bindM require_payload (\<lambda>p.
     bindM (set_payload (dset ''data'' (PyDict d) p)) (\<lambda>_.
     bindM (on_world (now env)) (\<lambda>t.
     bindM (set_payload (dset ''updated_at'' (PyStr t) (dset ''data'' (PyDict d) p))) (\<lambda>_.
     journal_write env))))"


section \<open>Operations\<close>

text \<open>\<open>_validate_payload\<close>\<close>

definition validate_payload :: "string \<Rightarrow> pyval \<Rightarrow> pydict pyres" where
  "validate_payload eid v =
     (case as_dict v of
        None \<Rightarrow> Inl (Exn JournalIntegrityError ''journal root must be an object'')
      | Some p \<Rightarrow>
          bindR (raise_if (\<not> py_eq_int (pyget p ''schema_version'') JOURNAL_SCHEMA_VERSION)
            (Exn JournalIntegrityError ''journal schema mismatch'')) (\<lambda>_.
          bindR (raise_if (pyget p ''execution_id'' \<noteq> PyStr eid)
            (Exn JournalIntegrityError ''journal execution_id mismatch'')) (\<lambda>_.
          bindR (raise_if (\<not> is_list (pyget p ''history''))
            (Exn JournalIntegrityError ''journal history invalid'')) (\<lambda>_.
          bindR (raise_if (as_dict (pyget p ''data'') = None)
            (Exn JournalIntegrityError ''journal data invalid'')) (\<lambda>_.
          Inr p)))))"

definition initial_payload :: "string \<Rightarrow> string \<Rightarrow> pydict" where
  "initial_payload eid t =
     [(''schema_version'', PyInt JOURNAL_SCHEMA_VERSION), (''execution_id'', PyStr eid),
      (''created_at'', PyStr t), (''updated_at'', PyStr t), (''event_count'', PyInt 0),
      (''machine'', snapshot_payload initial_snapshot), (''history'', PyList []),
      (''data'', PyDict [])]"

text \<open>
  \<open>json.loads(self.path.read_text())\<close> with its handler: a failed read and a malformed text
  (whose \<open>JSONDecodeError\<close> has the same handler) are integrity errors.
\<close>

definition load_file ::
  "('w, 'b) journal_env_scheme \<Rightarrow> (('w, 'a) journal_state_scheme, pyval) pyact" where
  "load_file env =
     tryM
       (bindM (on_world (read_file env)) (\<lambda>_.
        bindM (getM disk) (\<lambda>f.
          case f of
            FileJson v \<Rightarrow> returnM v
          | _ \<Rightarrow> raiseM (Exn OSError ''unreadable''))))
       (\<lambda>e. if isinstance_exn e OSError
            then Some (raiseM (Exn JournalIntegrityError ''journal is unreadable'')) else None)"

definition journal_open ::
  "('w, 'b) journal_env_scheme
    \<Rightarrow> (('w, 'a) journal_state_scheme, MachineSnapshot \<times> bool) pyact" where
  "journal_open env =
     bindM (getM payload) (\<lambda>p0.
     bindM (raiseM_if (p0 \<noteq> None) (Exn JournalError ''journal already open'')) (\<lambda>_.
     bindM (getM disk) (\<lambda>f.
     if f \<noteq> NoFile then
       bindM (load_file env) (\<lambda>v.
       bindM (liftR (validate_payload (execution_id env) v)) (\<lambda>p.
       bindM (set_payload p) (\<lambda>_.
       bindM (liftR (machine_snapshot_of p)) (\<lambda>snap.
       returnM (snap, True)))))
     else
       bindM (on_world (now env)) (\<lambda>t.
       bindM (set_payload (initial_payload (execution_id env) t)) (\<lambda>_.
       bindM (journal_write env) (\<lambda>_.
       returnM (initial_snapshot, False)))))))"

definition history_entry :: "int \<Rightarrow> string \<Rightarrow> TradeEvent \<Rightarrow> MachineSnapshot \<Rightarrow> pydict \<Rightarrow> pyval" where
  "history_entry n t event snap details =
     PyDict [(''sequence'', PyInt n), (''at'', PyStr t), (''event'', PyStr (TradeEvent_value event)),
             (''state'', PyStr (TradeState_value (state snap))), (''details'', PyDict details)]"

text \<open>\<open>payload.get("event_count", 0)\<close>\<close>

definition event_count :: "pydict \<Rightarrow> int pyres" where
  "event_count p = (case dget p ''event_count'' of None \<Rightarrow> Inr 0 | Some v \<Rightarrow> py_int v)"

definition transition_payload ::
  "pydict \<Rightarrow> pyval list \<Rightarrow> int \<Rightarrow> string \<Rightarrow> TradeEvent \<Rightarrow> MachineSnapshot \<Rightarrow> pydict \<Rightarrow> pydict" where
  "transition_payload p history n t event snap details =
     dset ''updated_at'' (PyStr t)
      (dset ''machine'' (snapshot_payload snap)
        (dset ''event_count'' (PyInt n)
          (dset ''history''
             (PyList (last_n MAX_HISTORY (history @ [history_entry n t event snap details]))) p)))"

definition journal_transition ::
  "('w, 'b) journal_env_scheme \<Rightarrow> TradeEvent \<Rightarrow> MachineSnapshot \<Rightarrow> pydict
    \<Rightarrow> (('w, 'a) journal_state_scheme, unit) pyact" where
  "journal_transition env event snap details =
     bindM require_payload (\<lambda>p.
       case pyget p ''history'' of
         PyList history \<Rightarrow>
           bindM (liftR (event_count p)) (\<lambda>c.
           bindM (on_world (now env)) (\<lambda>t.
           bindM (set_payload (transition_payload p history (c + 1) t event snap details)) (\<lambda>_.
           journal_write env)))
       | _ \<Rightarrow> raiseM (Exn JournalIntegrityError ''journal history is invalid''))"

text \<open>\<open>list(data.get(key) or [])\<close>\<close>

definition used_list :: "pydict \<Rightarrow> string \<Rightarrow> pyval list pyres" where
  "used_list d key = (let v = pyget d key in if truthy v then py_list v else Inr [])"

definition identity_unused :: "pydict \<Rightarrow> ExecutionRequest \<Rightarrow> unit pyres" where
  "identity_unused d request =
     bindR (used_list d ''used_client_order_ids'') (\<lambda>ids.
     bindR (raise_if (PyStr (client_order_id request) \<in> set ids)
       (Exn JournalIntegrityError
          ''client_order_id was already used by an earlier durable cycle'')) (\<lambda>_.
     bindR (used_list d ''used_order_remarks'') (\<lambda>remarks.
     raise_if (PyStr (order_remark request) \<in> set remarks)
       (Exn JournalIntegrityError
          ''order_remark was already used by an earlier durable cycle''))))"

definition assert_identity_unused ::
  "ExecutionRequest \<Rightarrow> (('w, 'a) journal_state_scheme, unit) pyact" where
  "assert_identity_unused request =
     bindM journal_data (\<lambda>d. liftR (identity_unused d request))"

definition intent_payload :: "ExecutionRequest \<Rightarrow> pyfloat \<Rightarrow> pyval" where
  "intent_payload request price =
     PyDict [(''client_order_id'', PyStr (client_order_id request)),
             (''symbol'', PyStr (symbol request)),
             (''side'', PyStr (Side_value (side request))),
             (''qty'', PyInt (qty request)),
             (''limit_price'', PyFloat price),
             (''strategy_id'', PyStr (strategy_id request)),
             (''order_remark'', PyStr (order_remark request))]"

definition reservation_payload :: "ExecutionRequest \<Rightarrow> pyfloat \<Rightarrow> pyval" where
  "reservation_payload request notional =
     PyDict [(''qty'', PyInt (qty request)), (''notional'', PyFloat notional),
             (''persisted'', PyBool True)]"

definition USED_WINDOW :: int where
  "USED_WINDOW = 10000"

text \<open>The dictionary that \<open>persist_intent\<close> builds from a copy of the data.\<close>

definition intent_data :: "pydict \<Rightarrow> ExecutionRequest \<Rightarrow> pydict pyres" where
  "intent_data d request =
     bindR (identity_unused d request) (\<lambda>_.
     bindR (raise_if (dget d ''intent'' \<noteq> None)
       (Exn JournalIntegrityError ''journal already contains an intent'')) (\<lambda>_.
     bindR (used_list d ''used_client_order_ids'') (\<lambda>ids.
     bindR (used_list d ''used_order_remarks'') (\<lambda>remarks.
     bindR (raise_if (PyStr (client_order_id request) \<in> set ids)
       (Exn JournalIntegrityError
          ''client_order_id was already used by an earlier durable cycle'')) (\<lambda>_.
     bindR (raise_if (PyStr (order_remark request) \<in> set remarks)
       (Exn JournalIntegrityError
          ''order_remark was already used by an earlier durable cycle'')) (\<lambda>_.
     bindR (py_float (limit_price request)) (\<lambda>price.
     bindR (int_mul_float (qty request) price) (\<lambda>notional.
     Inr (dset ''reservation'' (reservation_payload request notional)
           (dset ''intent'' (intent_payload request price)
             (dset ''used_order_remarks''
                (PyList (last_n USED_WINDOW (remarks @ [PyStr (order_remark request)])))
               (dset ''used_client_order_ids''
                  (PyList (last_n USED_WINDOW (ids @ [PyStr (client_order_id request)]))) d))))
     ))))))))"

definition persist_intent ::
  "('w, 'b) journal_env_scheme \<Rightarrow> ExecutionRequest \<Rightarrow> (('w, 'a) journal_state_scheme, unit) pyact" where
  "persist_intent env request =
     bindM journal_data (\<lambda>d.
     bindM (liftR (intent_data d request)) (\<lambda>d'. write_data env d'))"

definition persist_broker_order_id ::
  "('w, 'b) journal_env_scheme \<Rightarrow> pyval \<Rightarrow> (('w, 'a) journal_state_scheme, unit) pyact" where
  "persist_broker_order_id env order_id =
     bindM (raiseM_if (\<not> pos_int order_id)
       (Exn ValueError ''broker order id must be a positive plain int'')) (\<lambda>_.
     bindM journal_data (\<lambda>d.
     let existing = pyget d ''broker_order_id'' in
     bindM (raiseM_if (existing \<noteq> PyNone \<and> \<not> py_eq_int existing (the_int order_id))
       (Exn JournalIntegrityError ''broker order id changed for one execution'')) (\<lambda>_.
     write_data env (dset ''broker_order_id'' order_id d))))"

definition persist_cancel_intent ::
  "('w, 'b) journal_env_scheme \<Rightarrow> (('w, 'a) journal_state_scheme, unit) pyact" where
  "persist_cancel_intent env =
     bindM journal_data (\<lambda>d.
     bindM (on_world (now env)) (\<lambda>t.
     write_data env
       (dset ''cancel_intent'' (PyDict [(''persisted'', PyBool True), (''at'', PyStr t)]) d)))"

text \<open>
  \<open>dict(data.get("last_observation") or {})\<close>: the journal only ever stores a dictionary
  there; any other non-empty value is refused, as \<open>dict\<close> refuses a number or a plain list.
\<close>

definition observation_dict :: "pydict \<Rightarrow> pydict pyres" where
  "observation_dict d =
     (let v = pyget d ''last_observation'' in
      case as_dict v of
        Some o' \<Rightarrow> Inr o'
      | None \<Rightarrow> if truthy v then Inl (Exn TypeError ''TypeError'') else Inr [])"

definition update_observation ::
  "('w, 'b) journal_env_scheme \<Rightarrow> pydict \<Rightarrow> (('w, 'a) journal_state_scheme, unit) pyact" where
  "update_observation env updates =
     bindM journal_data (\<lambda>d.
     bindM (liftR (observation_dict d)) (\<lambda>ob.
     write_data env
       (dset ''last_observation'' (PyDict (fold (\<lambda>(k, v). dset k v) updates ob)) d)))"

definition is_sha256 :: "string \<Rightarrow> bool" where
  "is_sha256 s = (length s = 64 \<and> list_all (\<lambda>c. c \<in> set ''0123456789abcdef'') (map to_lower s))"

definition bind_verification ::
  "('w, 'b) journal_env_scheme \<Rightarrow> string \<Rightarrow> string \<Rightarrow> (('w, 'a) journal_state_scheme, unit) pyact" where
  "bind_verification env spec_hash source_hash =
     bindM (raiseM_if (\<not> is_sha256 spec_hash)
       (Exn ValueError ''transition_spec_sha256 must be a SHA-256 hex digest'')) (\<lambda>_.
     bindM (raiseM_if (\<not> is_sha256 source_hash)
       (Exn ValueError ''execution_source_sha256 must be a SHA-256 hex digest'')) (\<lambda>_.
     bindM journal_data (\<lambda>d.
     write_data env
       (dset ''formal_verification''
          (PyDict [(''transition_spec_sha256'', PyStr (map to_lower spec_hash)),
                   (''execution_source_sha256'', PyStr (map to_lower source_hash))]) d))))"

definition verification_matches :: "pydict \<Rightarrow> string \<Rightarrow> string \<Rightarrow> bool" where
  "verification_matches d spec_hash source_hash =
     (case as_dict (pyget d ''formal_verification'') of
        None \<Rightarrow> False
      | Some bound \<Rightarrow> pyget bound ''transition_spec_sha256'' = PyStr spec_hash
                     \<and> pyget bound ''execution_source_sha256'' = PyStr source_hash)"

definition preserved_keys :: "string list" where
  "preserved_keys = [''formal_verification'', ''used_client_order_ids'', ''used_order_remarks'']"

definition preserved_data :: "pydict \<Rightarrow> pydict" where
  "preserved_data d =
     List.map_filter (\<lambda>k. map_option (\<lambda>v. (k, v)) (dget d k)) preserved_keys"

definition clear_cycle_data ::
  "('w, 'b) journal_env_scheme \<Rightarrow> (('w, 'a) journal_state_scheme, unit) pyact" where
  "clear_cycle_data env =
     bindM journal_data (\<lambda>d. write_data env (preserved_data d))"


section \<open>What the operations change\<close>

text \<open>
  Every journal operation changes the world, the file and the payload only; the fields that
  an extension of the state adds are left alone.
\<close>

definition jstep :: "('w, 'a) journal_state_scheme \<Rightarrow> ('w, 'a) journal_state_scheme \<Rightarrow> bool" where
  "jstep s s' \<longleftrightarrow> s' = s\<lparr>world := world s', disk := disk s', payload := payload s'\<rparr>"

lemma jstep_more: "jstep s s' \<longleftrightarrow> journal_state.more s' = journal_state.more s"
  by (cases s; cases s') (auto simp: jstep_def)

interpretation jp: step_preorder jstep
  by unfold_locales (simp_all add: jstep_more)

lemma keeps_on_world: "keeps jstep (on_world m)"
  by (auto simp: keeps_def on_world_def jstep_def split: prod.splits)

lemma keeps_set_payload: "keeps jstep (set_payload p)"
  unfolding set_payload_def by (rule keeps_modifyM) (simp add: jstep_def)

lemma keeps_require_payload: "keeps jstep require_payload"
  unfolding require_payload_def by (intro jp.keeps_intros) (auto intro: jp.keeps_intros split: option.split)



text \<open>
  The effect of a write: the file is left as it was or gets the payload, and it has the
  payload when the write returns.
\<close>

definition wrote :: "pydict \<Rightarrow> ('w, 'a) journal_state_scheme \<Rightarrow> ('w, 'a) journal_state_scheme \<Rightarrow> bool" where
  "wrote p s s' \<longleftrightarrow> jstep s s' \<and> payload s' = payload s
     \<and> (disk s' = disk s \<or> disk s' = FileJson (PyDict p))"

interpretation wr: step_preorder "wrote p"
  by unfold_locales (auto simp: wrote_def jstep_more)

lemma wrote_on_world: "keeps (wrote p) (on_world m)"
  by (auto simp: keeps_def on_world_def wrote_def jstep_def split: prod.splits)

lemma wrote_replace_once: "keeps (wrote p) (replace_once env p)"
  by (auto simp: keeps_def replace_once_def wrote_def jstep_def split: prod.splits replace_outcome.splits)

lemma wrote_replace_loop: "keeps (wrote p) (replace_loop env p k)"
proof (induction k)
  case 0
  then show ?case by (simp add: wr.keeps_returnM)
next
  case (Suc k)
  show ?case unfolding replace_loop.simps
    by (rule wr.keeps_tryM [OF wrote_replace_once])
      (auto intro: wr.keeps_intros wrote_on_world Suc split: if_splits)
qed

lemma replace_loop_Inr:
  "replace_loop env p (Suc k) s = (Inr (), s') \<Longrightarrow> disk s' = FileJson (PyDict p)"
proof (induction k arbitrary: s)
  case 0
  then show ?case
    by (auto simp: tryM_def replace_once_def raiseM_def split: prod.splits replace_outcome.splits
        if_splits sum.splits option.splits)
next
  case (Suc k)
  from Suc.prems show ?case
    unfolding replace_loop.simps(2) [of _ _ "Suc k"] tryM_def
    by (auto simp: replace_once_def bindM_def dest: Suc.IH split: prod.splits
        replace_outcome.splits if_splits sum.splits option.splits simp del: replace_loop.simps)
qed

lemma keeps_wrote_cleanup:
  "keeps (wrote p) (tryM (on_world m) (\<lambda>e. if b e then Some (returnM ()) else None))"
  by (rule wr.keeps_tryM [OF wrote_on_world]) (auto intro: wr.keeps_returnM split: if_splits)

lemma journal_write_closed:
  "payload s = None \<Longrightarrow> journal_write env s = (Inl (Exn JournalError ''journal is not open''), s)"
  by (simp add: journal_write_def require_payload_def bindM_def getM_def raiseM_def)

lemma journal_write_wrote:
  assumes "payload s = Some p" and "journal_write env s = (r, s')"
  shows "wrote p s s'" and "r = Inr () \<Longrightarrow> disk s' = FileJson (PyDict p)"
proof -
  let ?body = "bindM (raiseM_if (\<not> json_ok (PyDict p)) (Exn TypeError ''TypeError'')) (\<lambda>_.
        bindM (on_world (write_temporary env)) (\<lambda>_. replace_loop env p 20))"
  let ?fin = "tryM (on_world (remove_temporary env))
          (\<lambda>e. if isinstance_exn e OSError then Some (returnM ()) else None)"
  let ?m = "bindM (on_world (make_parent env)) (\<lambda>_. finallyM ?body ?fin)"
  have m: "?m s = (r, s')"
    using assms by (simp add: journal_write_def require_payload_def bindM_def getM_def returnM_def)
  have "keeps (wrote p) ?m"
    by (intro wr.keeps_bindM wr.keeps_finallyM wr.keeps_raiseM_if wrote_on_world
        wrote_replace_loop keeps_wrote_cleanup)
  then show "wrote p s s'" using m by (rule keepsD)
  assume r: "r = Inr ()"
  from m r obtain s1 where "finallyM ?body ?fin s1 = (Inr (), s')"
    by (auto simp: bindM_def split: prod.splits sum.splits)
  then obtain s2 u where s2: "?body s1 = (Inr (), s2)" and u: "?fin s2 = (Inr u, s')"
    by (auto simp: finallyM_def split: prod.splits sum.splits)
  from s2 obtain s3 where "replace_loop env p (Suc 19) s3 = (Inr (), s2)"
    by (auto simp: bindM_def split: prod.splits sum.splits)
  then have "disk s2 = FileJson (PyDict p)" by (rule replace_loop_Inr)
  moreover have "wrote p s2 s'" using keepsD [OF keeps_wrote_cleanup u] .
  ultimately show "disk s' = FileJson (PyDict p)" by (auto simp: wrote_def)
qed


lemma on_world_eq:
  "on_world m s = (r, s') \<Longrightarrow> disk s' = disk s \<and> payload s' = payload s \<and> jstep s s'"
  by (auto simp: on_world_def jstep_def split: prod.splits)

definition synced :: "('w, 'a) journal_state_scheme \<Rightarrow> bool" where
  "synced s \<longleftrightarrow> (\<exists>p. payload s = Some p \<and> disk s = FileJson (PyDict p))"

lemma write_data_Inr:
  assumes "write_data env d s = (Inr (), s')" and "payload s = Some p"
  shows "\<exists>t. payload s' = Some (dset ''updated_at'' (PyStr t) (dset ''data'' (PyDict d) p)) \<and> synced s'"
proof -
  from assms obtain t w where
    "journal_write env (s\<lparr>world := w,
        payload := Some (dset ''updated_at'' (PyStr t) (dset ''data'' (PyDict d) p))\<rparr>) = (Inr (), s')"
    by (auto simp: write_data_def require_payload_def bindM_def getM_def returnM_def set_payload_def
        modifyM_def on_world_def split: prod.splits sum.splits)
  note w = journal_write_wrote [OF _ this, simplified]
  then have "payload s' = Some (dset ''updated_at'' (PyStr t) (dset ''data'' (PyDict d) p))"
    "disk s' = FileJson (PyDict (dset ''updated_at'' (PyStr t) (dset ''data'' (PyDict d) p)))"
    by (simp_all add: wrote_def)
  then show ?thesis unfolding synced_def by blast
qed

lemma journal_transition_Inr:
  assumes "journal_transition env event snap details s = (Inr (), s')" and "payload s = Some p"
  shows "\<exists>history n t. payload s' = Some (transition_payload p history n t event snap details) \<and> synced s'"
proof -
  from assms obtain history n t w where
    "journal_write env (s\<lparr>world := w,
        payload := Some (transition_payload p history n t event snap details)\<rparr>) = (Inr (), s')"
    by (auto simp: journal_transition_def require_payload_def bindM_def getM_def returnM_def
        set_payload_def modifyM_def on_world_def raiseM_def liftR_def
        split: prod.splits sum.splits pyval.splits)
  note w = journal_write_wrote [OF _ this, simplified]
  then have "payload s' = Some (transition_payload p history n t event snap details)"
    "disk s' = FileJson (PyDict (transition_payload p history n t event snap details))"
    by (simp_all add: wrote_def)
  then show ?thesis unfolding synced_def by blast
qed


section \<open>Invariants of the payload\<close>

definition file_payload :: "journal_file \<Rightarrow> pydict option" where
  "file_payload f = (case f of FileJson v \<Rightarrow> as_dict v | _ \<Rightarrow> None)"

lemma file_payload_simps [simp]:
  "file_payload NoFile = None" "file_payload NotJson = None"
  "file_payload (FileJson (PyDict p)) = Some p"
  by (simp_all add: file_payload_def)

text \<open>
  The payload in memory and the one in the file satisfy \<open>\<phi>\<close>, the file is readable if there is
  one, and if there is none a first payload satisfies \<open>\<phi>\<close>.
\<close>

definition both :: "string \<Rightarrow> (pydict \<Rightarrow> bool) \<Rightarrow> ('w, 'a) journal_state_scheme \<Rightarrow> bool" where
  "both eid \<phi> s \<longleftrightarrow>
     (\<forall>p. payload s = Some p \<longrightarrow> \<phi> p) \<and> (\<forall>p. file_payload (disk s) = Some p \<longrightarrow> \<phi> p)
     \<and> (disk s \<noteq> NoFile \<longrightarrow> file_payload (disk s) \<noteq> None)
     \<and> (disk s = NoFile \<longrightarrow> (\<forall>t. \<phi> (initial_payload eid t)))"

text \<open>
  What a predicate on the payload must satisfy to be kept by every operation but
  \<open>persist_intent\<close>: it does not depend on the time stamp, on the history, or on the data
  other than the lists of used identities, and a transition to an accepted snapshot keeps it.
\<close>

locale payload_invariant =
  fixes eid :: string and \<phi> :: "pydict \<Rightarrow> bool" and snap_ok :: "MachineSnapshot \<Rightarrow> bool"
  assumes touch: "\<phi> p \<Longrightarrow> \<phi> (dset ''updated_at'' (PyStr t) p)"
    and data_key: "\<phi> p \<Longrightarrow> as_dict (pyget p ''data'') = Some d \<Longrightarrow>
        k \<notin> {''used_client_order_ids'', ''used_order_remarks''} \<Longrightarrow>
        \<phi> (dset ''data'' (PyDict (dset k v d)) p)"
    and clear: "\<phi> p \<Longrightarrow> as_dict (pyget p ''data'') = Some d \<Longrightarrow>
        \<phi> (dset ''data'' (PyDict (preserved_data d)) p)"
    and trans: "\<phi> p \<Longrightarrow> snap_ok snap \<Longrightarrow> \<phi> (transition_payload p history n t event snap details)"
begin

lemma both_write: "triple (both eid \<phi>) (journal_write env) (\<lambda>_. both eid \<phi>) (both eid \<phi>)"
proof (rule triple_keeps, unfold keeps_def, intro allI impI)
  fix s r s'
  assume w: "journal_write env s = (r, s')" and b: "both eid \<phi> s"
  show "both eid \<phi> s'"
  proof (cases "payload s")
    case None
    then have "s' = s" using w journal_write_closed [of s env] by simp
    then show ?thesis using b by simp
  next
    case (Some p)
    then have "wrote p s s'" using w by (rule journal_write_wrote)
    then show ?thesis using b Some by (auto simp: wrote_def both_def)
  qed
qed

lemma both_on_world: "triple (both eid \<phi>) (on_world m) (\<lambda>_. both eid \<phi>) (both eid \<phi>)"
  by (rule triple_keeps) (auto simp: keeps_def both_def dest: on_world_eq)

lemma both_set_payload: "triple (\<lambda>s. both eid \<phi> s \<and> \<phi> p) (set_payload p) (\<lambda>_. both eid \<phi>) E"
  unfolding set_payload_def by (rule triple_modifyM) (simp add: both_def)

lemma both_require:
  "triple (both eid \<phi>) require_payload (\<lambda>p s. both eid \<phi> s \<and> \<phi> p \<and> payload s = Some p) (both eid \<phi>)"
  unfolding require_payload_def
  by (auto simp: triple_def wp_simps both_def split: option.splits)

lemma both_data:
  "triple (both eid \<phi>) journal_data
     (\<lambda>d s. both eid \<phi> s \<and> (\<exists>p. payload s = Some p \<and> \<phi> p \<and> as_dict (pyget p ''data'') = Some d)) (both eid \<phi>)"
  unfolding journal_data_def require_payload_def
  by (auto simp: triple_def wp_simps both_def split: option.splits)

lemma both_store:
  assumes "\<And>t. \<phi> (f t)"
  shows "triple (both eid \<phi>)
     (bindM (on_world (now env)) (\<lambda>t. bindM (set_payload (f t)) (\<lambda>_. journal_write env)))
     (\<lambda>_. both eid \<phi>) (both eid \<phi>)"
  by (rule triple_bindM [OF both_on_world])
    (rule triple_bindM [OF triple_conseq [OF both_set_payload] both_write], auto simp: assms)

text \<open>The data is replaced by \<open>d'\<close>, for which \<open>\<phi>\<close> is known.\<close>

lemma both_write_data:
  "triple (\<lambda>s. both eid \<phi> s \<and> (\<forall>p. payload s = Some p \<longrightarrow> \<phi> (dset ''data'' (PyDict d') p)))
     (write_data env d') (\<lambda>_. both eid \<phi>) (both eid \<phi>)"
proof -
  have req: "triple (\<lambda>s. both eid \<phi> s \<and> (\<forall>p. payload s = Some p \<longrightarrow> \<phi> (dset ''data'' (PyDict d') p)))
      require_payload (\<lambda>p s. both eid \<phi> s \<and> \<phi> (dset ''data'' (PyDict d') p)) (both eid \<phi>)"
    unfolding require_payload_def by (auto simp: triple_def wp_simps split: option.splits)
  show ?thesis unfolding write_data_def
    by (rule triple_bindM [OF req], rule triple_pure,
        rule triple_bindM [OF triple_conseq [OF both_set_payload] both_store])
      (auto intro: touch)
qed

lemma both_transition:
  assumes "snap_ok snap"
  shows "triple (both eid \<phi>) (journal_transition env event snap details) (\<lambda>_. both eid \<phi>) (both eid \<phi>)"
proof -
  have tail: "triple (both eid \<phi>)
      (bindM (liftR (event_count p)) (\<lambda>c. bindM (on_world (now env)) (\<lambda>t.
       bindM (set_payload (transition_payload p history (c + 1) t event snap details))
         (\<lambda>_. journal_write env)))) (\<lambda>_. both eid \<phi>) (both eid \<phi>)" if "\<phi> p" for p history
    by (rule triple_bindM [OF triple_liftR both_store]) (auto intro: trans that assms)
  have req: "triple (both eid \<phi>) require_payload (\<lambda>p s. both eid \<phi> s \<and> \<phi> p) (both eid \<phi>)"
    by (rule triple_conseq [OF both_require]) auto
  show ?thesis unfolding journal_transition_def
    by (rule triple_bindM [OF req], rule triple_pure) (auto intro: tail triple_raiseM split: pyval.split)
qed

lemma both_update_data:
  assumes "\<And>p d. \<phi> p \<Longrightarrow> as_dict (pyget p ''data'') = Some d \<Longrightarrow> \<phi> (dset ''data'' (PyDict (g d)) p)"
  shows "triple (\<lambda>s. both eid \<phi> s \<and> (\<exists>p. payload s = Some p \<and> \<phi> p \<and> as_dict (pyget p ''data'') = Some d))
    (write_data env (g d)) (\<lambda>_. both eid \<phi>) (both eid \<phi>)"
  by (rule triple_conseq [OF both_write_data]) (auto simp: assms)

lemma both_persist_broker_order_id:
  "triple (both eid \<phi>) (persist_broker_order_id env oid) (\<lambda>_. both eid \<phi>) (both eid \<phi>)"
  unfolding persist_broker_order_id_def Let_def
  by (intro triple_bindM [OF triple_check] triple_bindM [OF both_data]
      both_update_data [where g = "dset ''broker_order_id'' oid"] data_key) auto

lemma both_bind_verification:
  "triple (both eid \<phi>) (bind_verification env a b) (\<lambda>_. both eid \<phi>) (both eid \<phi>)"
  unfolding bind_verification_def
  by (intro triple_bindM [OF triple_check] triple_bindM [OF both_data]
      both_update_data [where g = "dset ''formal_verification'' v" for v] data_key) auto

lemma both_clear_cycle_data:
  "triple (both eid \<phi>) (clear_cycle_data env) (\<lambda>_. both eid \<phi>) (both eid \<phi>)"
  unfolding clear_cycle_data_def
  by (intro triple_bindM [OF both_data] both_update_data clear)

lemma both_data_frame:
  "triple (\<lambda>s. both eid \<phi> s \<and> (\<exists>p. payload s = Some p \<and> \<phi> p \<and> as_dict (pyget p ''data'') = Some d))
     (on_world m)
     (\<lambda>_ s. both eid \<phi> s \<and> (\<exists>p. payload s = Some p \<and> \<phi> p \<and> as_dict (pyget p ''data'') = Some d)) (both eid \<phi>)"
  by (rule tripleI) (auto simp: both_def dest: on_world_eq)

lemma both_persist_cancel_intent:
  "triple (both eid \<phi>) (persist_cancel_intent env) (\<lambda>_. both eid \<phi>) (both eid \<phi>)"
  unfolding persist_cancel_intent_def
  by (intro triple_bindM [OF both_data] triple_bindM [OF both_data_frame]
      both_update_data [where g = "dset ''cancel_intent'' v" for v] data_key) auto

lemma both_update_observation:
  "triple (both eid \<phi>) (update_observation env updates) (\<lambda>_. both eid \<phi>) (both eid \<phi>)"
  unfolding update_observation_def
  by (intro triple_bindM [OF both_data] triple_bindM [OF triple_lift]
      both_update_data [where g = "dset ''last_observation'' v" for v] data_key) auto

end


section \<open>The invariant of the journal\<close>

text \<open>
  The journal of execution \<open>eid\<close> is well-formed and its machine snapshot is one that the state
  machine reaches.  As long as at most \<open>USED_WINDOW\<close> intents were persisted (\<open>k\<close> bounds their number),
  it records the identities \<open>A\<close> (client order ids) and \<open>B\<close> (order remarks) as used.
\<close>

definition journal_ok :: "string \<Rightarrow> string set \<Rightarrow> string set \<Rightarrow> nat \<Rightarrow> pydict \<Rightarrow> bool" where
  "journal_ok eid A B k p \<longleftrightarrow>
     (\<exists>d ids remarks. as_dict (pyget p ''data'') = Some d
        \<and> used_list d ''used_client_order_ids'' = Inr ids
        \<and> used_list d ''used_order_remarks'' = Inr remarks
        \<and> (int k \<le> USED_WINDOW \<longrightarrow> PyStr ` A \<subseteq> set ids \<and> PyStr ` B \<subseteq> set remarks
              \<and> length ids \<le> k \<and> length remarks \<le> k))
     \<and> (\<exists>snap. reachable snap \<and> pyget p ''machine'' = snapshot_payload snap)
     \<and> pyget p ''schema_version'' = PyInt JOURNAL_SCHEMA_VERSION
     \<and> pyget p ''execution_id'' = PyStr eid \<and> is_list (pyget p ''history'')"

lemma used_list_dset [simp]: "k \<noteq> key \<Longrightarrow> used_list (dset k v d) key = used_list d key"
  by (simp add: used_list_def)

lemma used_list_PyList [simp]: "used_list (dset key (PyList xs) d) key = Inr xs"
  by (simp add: used_list_def)

lemma map_of_restrict:
  "map_of (List.map_filter (\<lambda>k. map_option (\<lambda>v. (k, v)) (m k)) ks) key =
     (if key \<in> set ks then m key else None)"
  by (induction ks) (auto split: option.split)

lemma pyget_preserved:
  "pyget (preserved_data d) key = (if key \<in> set preserved_keys then pyget d key else PyNone)"
  by (simp add: pyget_def preserved_data_def map_of_restrict)

lemma used_list_preserved [simp]:
  "key \<in> {''used_client_order_ids'', ''used_order_remarks''} \<Longrightarrow>
   used_list (preserved_data d) key = used_list d key"
  by (auto simp: used_list_def pyget_preserved preserved_keys_def)

lemma journal_ok_data:
  assumes "journal_ok eid A B k p" and "as_dict (pyget p ''data'') = Some d"
    and "used_list d' ''used_client_order_ids'' = used_list d ''used_client_order_ids''"
    and "used_list d' ''used_order_remarks'' = used_list d ''used_order_remarks''"
  shows "journal_ok eid A B k (dset ''data'' (PyDict d') p)"
  using assms by (auto simp: journal_ok_def)

interpretation jinv: payload_invariant eid "journal_ok eid A B k" reachable for eid A B k
proof unfold_locales
  fix p d key v
  assume "journal_ok eid A B k p" and "as_dict (pyget p ''data'') = Some d"
    and "key \<notin> {''used_client_order_ids'', ''used_order_remarks''}"
  then show "journal_ok eid A B k (dset ''data'' (PyDict (dset key v d)) p)"
    by (intro journal_ok_data) auto
qed (auto simp: journal_ok_def transition_payload_def intro: journal_ok_data)

lemma journal_ok_initial: "journal_ok eid {} {} 0 (initial_payload eid t)"
  using reachable.start
  by (auto simp: journal_ok_def initial_payload_def pyget_def used_list_def)

lemma journal_ok_mono: "journal_ok eid A B k p \<Longrightarrow> k \<le> k' \<Longrightarrow> journal_ok eid A B k' p"
  unfolding journal_ok_def by fastforce

lemma both_mono: "both eid \<phi> s \<Longrightarrow> (\<And>p. \<phi> p \<Longrightarrow> \<psi> p) \<Longrightarrow> both eid \<psi> s"
  by (auto simp: both_def)

lemma both_Suc: "both eid (journal_ok eid A B k) s \<Longrightarrow> both eid (journal_ok eid A B (Suc k)) s"
  by (erule both_mono) (erule journal_ok_mono, simp)


section \<open>Reading a snapshot back\<close>

lemma mk_SafetyFacts_payload [simp]: "mk_SafetyFacts (facts_payload f) = f"
  by (simp add: mk_SafetyFacts_def facts_payload_def pyget_def)

lemma fact_names_payload [simp]: "map fst (facts_payload f) = fact_names"
  by (simp add: fact_names_def facts_payload_def)

lemma facts_payload_bools: "k \<in> set fact_names \<Longrightarrow> is_bool (pyget (facts_payload f) k)"
  by (auto simp: fact_names_def facts_payload_def pyget_def)

lemma parse_snapshot_payload:
  "pyget p ''machine'' = snapshot_payload snap \<Longrightarrow>
   machine_snapshot_of p = bindR (assert_invariants snap) (\<lambda>_. Inr snap)"
  by (cases snap) (simp add: machine_snapshot_of_def snapshot_payload_def parse_snapshot_def
      subscript_def facts_payload_bools del: set_map)

lemma machine_snapshot_of_reachable:
  "pyget p ''machine'' = snapshot_payload snap \<Longrightarrow> reachable snap \<Longrightarrow> machine_snapshot_of p = Inr snap"
  by (simp add: parse_snapshot_payload sm_inv_assert [OF reachable_sm_inv])


lemma validate_journal_ok:
  "journal_ok eid A B k p \<Longrightarrow> validate_payload eid (PyDict p) = Inr p"
  by (auto simp: validate_payload_def journal_ok_def)

text \<open>Opening: the snapshot that is returned is the one the payload in memory holds.\<close>

definition holds_snapshot :: "MachineSnapshot \<Rightarrow> ('w, 'a) journal_state_scheme \<Rightarrow> bool" where
  "holds_snapshot snap s \<longleftrightarrow>
     (\<exists>p. payload s = Some p \<and> pyget p ''machine'' = snapshot_payload snap) \<and> reachable snap"

lemma load_file_eq:
  "load_file env s = (r, s') \<Longrightarrow>
     disk s' = disk s \<and> payload s' = payload s \<and> jstep s s' \<and> (\<forall>v. r = Inr v \<longrightarrow> disk s = FileJson v)"
  by (auto simp: load_file_def tryM_def bindM_def getM_def returnM_def raiseM_def
      dest!: on_world_eq split: prod.splits sum.splits journal_file.splits if_splits)


lemma journal_ok_snapshot:
  "journal_ok eid A B k p \<Longrightarrow> \<exists>snap. reachable snap \<and> pyget p ''machine'' = snapshot_payload snap"
  by (simp add: journal_ok_def)

lemma load_file_inv:
  "triple (\<lambda>s. both eid \<phi> s \<and> disk s \<noteq> NoFile) (load_file env)
     (\<lambda>v s. both eid \<phi> s \<and> (\<exists>p. v = PyDict p \<and> \<phi> p)) (both eid \<phi>)"
proof (rule tripleI)
  fix s v s'
  assume s: "both eid \<phi> s \<and> disk s \<noteq> NoFile" and l: "load_file env s = (Inr v, s')"
  from load_file_eq [OF l] have e: "disk s' = disk s" "payload s' = payload s" "disk s = FileJson v"
    by auto
  with s have "as_dict v \<noteq> None" by (auto simp: both_def file_payload_def)
  then obtain p where "v = PyDict p" by (cases v) auto
  with s e show "both eid \<phi> s' \<and> (\<exists>p. v = PyDict p \<and> \<phi> p)" by (auto simp: both_def)
qed (auto simp: both_def dest: load_file_eq)

lemma write_holds:
  "triple (\<lambda>s. both eid (journal_ok eid A B k) s \<and> holds_snapshot snap s) (journal_write env)
     (\<lambda>_ s. both eid (journal_ok eid A B k) s \<and> holds_snapshot snap s)
     (both eid (journal_ok eid A B k))"
    (is "triple _ _ (\<lambda>_ s. ?B s \<and> _) _")
proof (rule tripleI)
  fix s x s'
  assume a: "?B s \<and> holds_snapshot snap s" and w: "journal_write env s = (Inr x, s')"
  then obtain p where p: "payload s = Some p" by (auto simp: holds_snapshot_def)
  have "payload s' = payload s" using journal_write_wrote(1) [OF p w] by (simp add: wrote_def)
  then show "?B s' \<and> holds_snapshot snap s'"
    using a tripleD_Inr [OF jinv.both_write _ w] by (simp add: holds_snapshot_def)
qed (auto dest: tripleD_Inl [OF jinv.both_write])

text \<open>The two branches of \<open>open\<close>, for an existing file and for a new one.\<close>

lemma open_existing_inv:
  "triple (\<lambda>s. both eid (journal_ok eid A B k) s \<and> disk s \<noteq> NoFile)
     (bindM (load_file env) (\<lambda>v.
      bindM (liftR (validate_payload eid v)) (\<lambda>p.
      bindM (set_payload p) (\<lambda>_.
      bindM (liftR (machine_snapshot_of p)) (\<lambda>snap. returnM (snap, True))))))
     (\<lambda>r s. both eid (journal_ok eid A B k) s \<and> holds_snapshot (fst r) s)
     (both eid (journal_ok eid A B k))"
proof (rule triple_bindM [OF load_file_inv], rule triple_pure, elim exE conjE)
  fix v p
  assume v: "v = PyDict p" and p: "journal_ok eid A B k p"
  obtain snap where snap: "reachable snap" "pyget p ''machine'' = snapshot_payload snap"
    using journal_ok_snapshot [OF p] by blast
  show "triple (both eid (journal_ok eid A B k))
     (bindM (liftR (validate_payload eid v)) (\<lambda>p.
      bindM (set_payload p) (\<lambda>_.
      bindM (liftR (machine_snapshot_of p)) (\<lambda>snap. returnM (snap, True)))))
     (\<lambda>r s. both eid (journal_ok eid A B k) s \<and> holds_snapshot (fst r) s)
     (both eid (journal_ok eid A B k))"
    using p snap
    by (simp add: triple_def wp_simps v validate_journal_ok [OF p] set_payload_def both_def
        machine_snapshot_of_reachable [OF snap(2,1)] holds_snapshot_def)
qed

lemma open_new_inv:
  "triple (\<lambda>s. both eid (journal_ok eid A B k) s \<and> disk s = NoFile)
     (bindM (on_world (now env)) (\<lambda>t.
      bindM (set_payload (initial_payload eid t)) (\<lambda>_.
      bindM (journal_write env) (\<lambda>_. returnM (initial_snapshot, False)))))
     (\<lambda>r s. both eid (journal_ok eid A B k) s \<and> holds_snapshot (fst r) s)
     (both eid (journal_ok eid A B k))"
proof (rule triple_bindM [where Q = "\<lambda>_ s. both eid (journal_ok eid A B k) s \<and> disk s = NoFile"],
    rule tripleI)
  fix t
  show "triple (\<lambda>s. both eid (journal_ok eid A B k) s \<and> disk s = NoFile)
     (bindM (set_payload (initial_payload eid t)) (\<lambda>_.
      bindM (journal_write env) (\<lambda>_. returnM (initial_snapshot, False))))
     (\<lambda>r s. both eid (journal_ok eid A B k) s \<and> holds_snapshot (fst r) s)
     (both eid (journal_ok eid A B k))"
    unfolding set_payload_def
    by (rule triple_bindM [OF triple_modifyM triple_bindM [OF write_holds triple_returnM]])
      (auto simp: both_def holds_snapshot_def reachable.start initial_payload_def pyget_def)
qed (auto simp: both_def dest: on_world_eq)

lemma journal_open_inv:
  assumes "execution_id env = eid"
  shows "triple (both eid (journal_ok eid A B k)) (journal_open env)
    (\<lambda>r s. both eid (journal_ok eid A B k) s \<and> holds_snapshot (fst r) s)
    (both eid (journal_ok eid A B k))"
proof -
  have disk: "triple (both eid (journal_ok eid A B k)) (getM disk)
      (\<lambda>f s. both eid (journal_ok eid A B k) s \<and> disk s = f) E" for E
    by (rule triple_getM) simp
  show ?thesis unfolding journal_open_def assms
    by (rule triple_bindM [OF triple_read], rule triple_bindM [OF triple_check], simp,
        rule triple_bindM [OF disk], rule triple_if)
      (auto intro: triple_conseq [OF open_existing_inv] triple_conseq [OF open_new_inv])
qed


section \<open>Persisting an intent\<close>

lemma identity_unused_Inr:
  "identity_unused d r = Inr () \<longleftrightarrow>
     (\<exists>ids remarks. used_list d ''used_client_order_ids'' = Inr ids
        \<and> used_list d ''used_order_remarks'' = Inr remarks
        \<and> PyStr (client_order_id r) \<notin> set ids \<and> PyStr (order_remark r) \<notin> set remarks)"
  by (auto simp: identity_unused_def bindR_eq_Inr)

lemma intent_data_Inr:
  assumes "intent_data d r = Inr d'"
  obtains ids remarks price where
    "used_list d ''used_client_order_ids'' = Inr ids"
    "used_list d ''used_order_remarks'' = Inr remarks"
    "PyStr (client_order_id r) \<notin> set ids" "PyStr (order_remark r) \<notin> set remarks"
    "used_list d' ''used_client_order_ids''
       = Inr (last_n USED_WINDOW (ids @ [PyStr (client_order_id r)]))"
    "used_list d' ''used_order_remarks''
       = Inr (last_n USED_WINDOW (remarks @ [PyStr (order_remark r)]))"
    "pyget d' ''intent'' = intent_payload r price" "py_float (limit_price r) = Inr price"
    "dget d ''intent'' = None" "pyget d' ''broker_order_id'' = pyget d ''broker_order_id''"
  using assms by (auto simp: intent_data_def bindR_eq_Inr)

text \<open>
  The identity of a request is recorded once.  While fewer than \<open>USED_WINDOW\<close> identities are
  recorded, persisting an intent drops none of them.
\<close>

lemma journal_ok_intent:
  assumes "journal_ok eid A B k p" and "as_dict (pyget p ''data'') = Some d"
    and "intent_data d r = Inr d'"
  shows "int k < USED_WINDOW \<longrightarrow> client_order_id r \<notin> A \<and> order_remark r \<notin> B"
    and "journal_ok eid (insert (client_order_id r) A) (insert (order_remark r) B) (Suc k)
           (dset ''data'' (PyDict d') p)"
proof -
  from assms(3) obtain ids remarks price where i:
    "used_list d ''used_client_order_ids'' = Inr ids"
    "used_list d ''used_order_remarks'' = Inr remarks"
    "PyStr (client_order_id r) \<notin> set ids" "PyStr (order_remark r) \<notin> set remarks"
    "used_list d' ''used_client_order_ids''
       = Inr (last_n USED_WINDOW (ids @ [PyStr (client_order_id r)]))"
    "used_list d' ''used_order_remarks''
       = Inr (last_n USED_WINDOW (remarks @ [PyStr (order_remark r)]))"
    by (rule intent_data_Inr)
  have b: "PyStr ` A \<subseteq> set ids" "PyStr ` B \<subseteq> set remarks" "length ids \<le> k" "length remarks \<le> k"
    if "int k \<le> USED_WINDOW"
    using assms(1,2) i(1,2) that by (auto simp: journal_ok_def)
  then show "int k < USED_WINDOW \<longrightarrow> client_order_id r \<notin> A \<and> order_remark r \<notin> B" using i(3,4) by fastforce
  have "last_n USED_WINDOW (ids @ [PyStr (client_order_id r)]) = ids @ [PyStr (client_order_id r)]"
    "last_n USED_WINDOW (remarks @ [PyStr (order_remark r)]) = remarks @ [PyStr (order_remark r)]"
    if "int (Suc k) \<le> USED_WINDOW"
    using b(3,4) that by simp_all
  then show "journal_ok eid (insert (client_order_id r) A) (insert (order_remark r) B) (Suc k)
           (dset ''data'' (PyDict d') p)"
    using assms(1) i(5,6) b unfolding journal_ok_def by (auto simp: image_subset_iff)
qed

lemma journal_ok_sub: "journal_ok eid A' B' k p \<Longrightarrow> A \<subseteq> A' \<Longrightarrow> B \<subseteq> B' \<Longrightarrow> journal_ok eid A B k p"
  unfolding journal_ok_def by fast

definition stores_intent :: "ExecutionRequest \<Rightarrow> pydict \<Rightarrow> bool" where
  "stores_intent r p \<longleftrightarrow>
     (\<exists>d price. as_dict (pyget p ''data'') = Some d \<and> pyget d ''intent'' = intent_payload r price
        \<and> py_float (limit_price r) = Inr price)"

lemma persist_intent_Inr:
  assumes "persist_intent env r s = (Inr (), s')" and "both eid (journal_ok eid A B k) s"
  shows "(int k < USED_WINDOW \<longrightarrow> client_order_id r \<notin> A \<and> order_remark r \<notin> B)
    \<and> both eid (journal_ok eid (insert (client_order_id r) A) (insert (order_remark r) B) (Suc k)) s'
    \<and> synced s' \<and> (\<forall>p. payload s' = Some p \<longrightarrow> stores_intent r p)
    \<and> (\<exists>p p'. payload s = Some p \<and> payload s' = Some p' \<and> pyget p' ''machine'' = pyget p ''machine'')"
proof -
  from assms(1) obtain p d d' where p: "payload s = Some p" and d: "as_dict (pyget p ''data'') = Some d"
    and d': "intent_data d r = Inr d'" and w: "write_data env d' s = (Inr (), s')"
    by (auto simp: persist_intent_def journal_data_def require_payload_def bindM_def getM_def
        returnM_def raiseM_def liftR_def split: option.splits sum.splits)
  have ok: "journal_ok eid A B k p" using assms(2) p by (simp add: both_def)
  note j = journal_ok_intent [OF ok d d']
  obtain t where t: "payload s' = Some (dset ''updated_at'' (PyStr t) (dset ''data'' (PyDict d') p))"
    "synced s'"
    using write_data_Inr [OF w p] by blast
  from d' obtain price where "pyget d' ''intent'' = intent_payload r price"
    "py_float (limit_price r) = Inr price" by (rule intent_data_Inr)
  then have "stores_intent r (dset ''updated_at'' (PyStr t) (dset ''data'' (PyDict d') p))"
    by (simp add: stores_intent_def)
  moreover have "journal_ok eid (insert (client_order_id r) A) (insert (order_remark r) B) (Suc k)
      (dset ''updated_at'' (PyStr t) (dset ''data'' (PyDict d') p))"
    using j(2) by (rule jinv.touch)
  ultimately show ?thesis using j(1) t p by (auto simp: synced_def both_def)
qed

lemma persist_intent_Inl:
  "triple (both eid (journal_ok eid A B k)) (persist_intent env r)
    (\<lambda>_. both eid (journal_ok eid A B (Suc k))) (both eid (journal_ok eid A B (Suc k)))"
proof -
  let ?B = "both eid (journal_ok eid A B (Suc k))"
  have stored: "journal_ok eid A B (Suc k) (dset ''data'' (PyDict d') p)"
    if "journal_ok eid A B k p" "as_dict (pyget p ''data'') = Some d" "intent_data d r = Inr d'" for p d d'
    by (rule journal_ok_sub [OF journal_ok_intent(2) [OF that]]) auto
  have step: "triple (\<lambda>s. ?B s \<and> (\<exists>p. payload s = Some p \<and> journal_ok eid A B k p
        \<and> as_dict (pyget p ''data'') = Some d)) (write_data env d') (\<lambda>_. ?B) ?B"
    if d': "intent_data d r = Inr d'" for d d'
    by (rule triple_conseq [OF jinv.both_write_data]) (auto intro: stored [OF _ _ d'])
  have data: "triple (both eid (journal_ok eid A B k)) journal_data
      (\<lambda>d s. ?B s \<and> (\<exists>p. payload s = Some p \<and> journal_ok eid A B k p
        \<and> as_dict (pyget p ''data'') = Some d)) ?B"
    by (rule triple_conseq [OF jinv.both_data [of eid A B k]]) (auto intro: both_Suc)
  show ?thesis unfolding persist_intent_def
    by (rule triple_bindM [OF data], rule triple_bind_lift) (auto intro: step)
qed



section \<open>Frames\<close>

lemma keeps_journal_data: "keeps jstep journal_data"
  unfolding journal_data_def
  by (intro jp.keeps_bindM keeps_require_payload) (auto intro: jp.keeps_intros split: option.split)

lemma journal_write_jstep:
  assumes "journal_write env s = (r, s')"
  shows "jstep s s'"
proof (cases "payload s")
  case None
  then show ?thesis using assms journal_write_closed [of s env] by (simp add: jp.R_refl)
next
  case (Some p)
  then show ?thesis using journal_write_wrote(1) [OF Some assms] by (simp add: wrote_def)
qed

lemma keeps_journal_write: "keeps jstep (journal_write env)"
  by (auto simp: keeps_def intro: journal_write_jstep)

lemma keeps_write_data: "keeps jstep (write_data env d)"
  unfolding write_data_def
  by (intro jp.keeps_bindM keeps_require_payload keeps_set_payload keeps_on_world keeps_journal_write)

lemma keeps_journal_transition: "keeps jstep (journal_transition env event snap details)"
  unfolding journal_transition_def
  by (rule jp.keeps_bindM [OF keeps_require_payload])
    (auto intro!: jp.keeps_bindM jp.keeps_raiseM jp.keeps_liftR keeps_set_payload keeps_on_world
      keeps_journal_write split: pyval.split)

lemma keeps_load_file: "keeps jstep (load_file env)"
  by (simp add: keeps_def load_file_eq)

lemma keeps_journal_open: "keeps jstep (journal_open env)"
  unfolding journal_open_def
  by (intro jp.keeps_bindM jp.keeps_getM jp.keeps_raiseM_if jp.keeps_if jp.keeps_liftR jp.keeps_returnM
      keeps_load_file keeps_set_payload keeps_on_world keeps_journal_write)

lemmas keeps_jstep =
  jp.keeps_bindM jp.keeps_raiseM_if jp.keeps_liftR keeps_journal_data keeps_write_data keeps_on_world

lemma keeps_journal_operations:
  "keeps jstep (assert_identity_unused request)"
  "keeps jstep (persist_intent env request)"
  "keeps jstep (persist_broker_order_id env oid)"
  "keeps jstep (persist_cancel_intent env)"
  "keeps jstep (update_observation env updates)"
  "keeps jstep (bind_verification env a b)"
  "keeps jstep (clear_cycle_data env)"
  unfolding assert_identity_unused_def persist_intent_def persist_broker_order_id_def
    persist_cancel_intent_def update_observation_def bind_verification_def clear_cycle_data_def Let_def
  by (intro keeps_jstep)+

end
