(* ===== verification/Execution_Mutex.thy ===== *)
theory Execution_Mutex
  imports Py_Runtime
begin

text \<open>
  \<open>mutex.py\<close>: the cross-process lock of one execution.  What the operating system does with
  the lock file is a record of functions on a world; the loop that retries the lock has fuel.
\<close>

record 'w mutex_state =
  mx_world :: 'w
  mx_owned :: bool

text \<open>
  \<open>try_lock\<close> is \<open>_lock\<close> (it raises an \<open>OSError\<close> when another process holds the lock),
  \<open>write_owner\<close> the seek, truncate, write, flush and sync of the owner's line, \<open>unlock\<close> the
  seek and the release of the lock.
\<close>

record 'w mutex_env =
  timeout_seconds :: pyfloat
  poll_seconds :: pyfloat
  make_lock_parent :: "('w, unit) pyact"
  open_lock_file :: "('w, unit) pyact"
  monotonic :: "('w, pyfloat) pyact"
  try_lock :: "('w, unit) pyact"
  sleep_for :: "pyfloat \<Rightarrow> ('w, unit) pyact"
  write_owner :: "('w, unit) pyact"
  unlock :: "('w, unit) pyact"
  close_handle :: "('w, unit) pyact"

text \<open>The constructor: both times are plain numbers, raised to at least 0 and 0.01.\<close>

definition mutex_times :: "pyval \<Rightarrow> pyval \<Rightarrow> (pyfloat \<times> pyfloat) pyres" where
  "mutex_times timeout poll =
     bindR (raise_if (\<not> is_number timeout) (Exn TypeError ''timeout_seconds must be numeric'')) (\<lambda>_.
     bindR (raise_if (\<not> is_number poll) (Exn TypeError ''poll_seconds must be numeric'')) (\<lambda>_.
     bindR (py_float timeout) (\<lambda>t.
     bindR (py_float poll) (\<lambda>q.
     Inr (fmax (Finite 0) t, fmax (float_lit (1 / 100)) q)))))"

definition mx :: "('w, 'a) pyact \<Rightarrow> ('w mutex_state, 'a) pyact" where
  "mx m = (\<lambda>s. case m (mx_world s) of (r, w) \<Rightarrow> (r, s\<lparr>mx_world := w\<rparr>))"

text \<open>Python's \<open>min(a, b)\<close> on floats.\<close>

definition fmin :: "pyfloat \<Rightarrow> pyfloat \<Rightarrow> pyfloat" where
  "fmin a b = (if flt b a then b else a)"

primrec lock_loop :: "('w, 'b) mutex_env_scheme \<Rightarrow> pyfloat \<Rightarrow> nat \<Rightarrow> ('w mutex_state, unit) pyact" where
  "lock_loop env deadline 0 = raiseM (Exn LoopFuel '''')"
| "lock_loop env deadline (Suc n) =
     tryM (mx (try_lock env)) (\<lambda>e.
       if isinstance_exn e OSError then Some
         (bindM (mx (monotonic env)) (\<lambda>t.
          if fle deadline t then
            raiseM (Exn ConcurrentExecutionError ''another executor owns the lock'')
          else
            bindM (mx (monotonic env)) (\<lambda>t'.
            bindM (mx (sleep_for env
              (fmin (poll_seconds env) (fmax (Finite 0) (fsub deadline t'))))) (\<lambda>_.
            lock_loop env deadline n))))
       else None)"

definition acquire :: "('w, 'b) mutex_env_scheme \<Rightarrow> nat \<Rightarrow> ('w mutex_state, unit) pyact" where
  "acquire env fuel =
     bindM (getM mx_owned) (\<lambda>own.
     bindM (raiseM_if own (Exn RuntimeError ''execution mutex already owned'')) (\<lambda>_.
     bindM (mx (make_lock_parent env)) (\<lambda>_.
     bindM (mx (open_lock_file env)) (\<lambda>_.
     bindM (mx (monotonic env)) (\<lambda>t0.
     let deadline = fadd t0 (timeout_seconds env) in
     tryM
       (bindM (lock_loop env deadline fuel) (\<lambda>_.
        bindM (mx (write_owner env)) (\<lambda>_.
        modifyM (\<lambda>s. s\<lparr>mx_owned := True\<rparr>))))
       (\<lambda>e. if isinstance_exn e PyException
            then Some (bindM (mx (close_handle env)) (\<lambda>_. raiseM e)) else None))))))"

definition release :: "('w, 'b) mutex_env_scheme \<Rightarrow> ('w mutex_state, unit) pyact" where
  "release env =
     bindM (getM mx_owned) (\<lambda>own.
     bindM (modifyM (\<lambda>s. s\<lparr>mx_owned := False\<rparr>)) (\<lambda>_.
     if own then finallyM (mx (unlock env)) (mx (close_handle env)) else returnM ()))"

lemma mx_owned_mx: "mx m s = (r, s') \<Longrightarrow> mx_owned s' = mx_owned s"
  by (auto simp: mx_def split: prod.splits)

definition same_owner :: "'w mutex_state \<Rightarrow> 'w mutex_state \<Rightarrow> bool" where
  "same_owner s s' \<longleftrightarrow> mx_owned s' = mx_owned s"

interpretation mo: step_preorder same_owner
  by unfold_locales (simp_all add: same_owner_def)

lemma keeps_mx: "keeps same_owner (mx m)"
  by (simp add: keeps_def same_owner_def mx_owned_mx)

lemma keeps_lock_loop: "keeps same_owner (lock_loop env d n)"
proof (induction n)
  case 0
  then show ?case by (simp add: mo.keeps_raiseM)
next
  case (Suc n)
  show ?case unfolding lock_loop.simps
    by (rule mo.keeps_tryM [OF keeps_mx])
      (auto intro!: mo.keeps_bindM mo.keeps_raiseM keeps_mx Suc split: if_splits)
qed

lemma acquire_owned:
  assumes "acquire env fuel s = (r, s')" and "\<not> mx_owned s"
  shows "mx_owned s' \<longleftrightarrow> r = Inr ()"
proof -
  have "triple (\<lambda>s. \<not> mx_owned s) (acquire env fuel) (\<lambda>_ s. mx_owned s) (\<lambda>s. \<not> mx_owned s)"
  proof -
    let ?P = "\<lambda>s. \<not> mx_owned s"
    have w: "triple ?P (mx m) (\<lambda>_. ?P) ?P" for m :: "('c, 'd) pyact"
      by (rule triple_keeps) (auto simp: keeps_def dest: mx_owned_mx)
    have l: "triple ?P (lock_loop env d n) (\<lambda>_. ?P) ?P" for d n
      by (rule triple_keeps)
        (auto simp: keeps_def same_owner_def dest: keepsD [OF keeps_lock_loop])
    have body: "triple ?P (bindM (lock_loop env d n) (\<lambda>_. bindM (mx (write_owner env)) (\<lambda>_.
        modifyM (\<lambda>s. s\<lparr>mx_owned := True\<rparr>)))) (\<lambda>_ s. mx_owned s) ?P" for d n
      by (rule triple_bindM [OF l triple_bindM [OF w triple_modifyM]]) simp
    have handler: "triple ?P (bindM (mx (close_handle env)) (\<lambda>_. raiseM e)) (\<lambda>_ s. mx_owned s) ?P" for e
      by (rule triple_bindM [OF w triple_raiseM])
    show ?thesis unfolding acquire_def Let_def
      by (rule triple_bindM [OF triple_read triple_bindM [OF triple_check triple_bindM [OF w
            triple_bindM [OF w triple_bindM [OF w triple_tryM [OF body]]]]]])
        (auto intro: handler split: if_splits)
  qed
  with assms show ?thesis by (cases r) (auto dest: tripleD_Inr tripleD_Inl)
qed

lemma release_not_owned: "release env s = (r, s') \<Longrightarrow> \<not> mx_owned s'"
  by (auto simp: release_def bindM_def getM_def modifyM_def finallyM_def returnM_def
      dest!: mx_owned_mx split: prod.splits sum.splits if_splits)


text \<open>
  A session's lock attempt, which has a timeout of 0, never waits.  If the monotonic clock
  does not go back while the lock is tried, the loop ends in its first round, so that the
  result does not depend on the fuel.
\<close>

theorem acquire_without_timeout_ends:
  assumes "timeout_seconds env = Finite 0"
    and "\<And>w. monotonic env w = (Inr (Finite (tm w)), w)"
    and "\<And>w. wf_float (Finite (tm w))"
    and "\<And>w r w'. try_lock env w = (r, w') \<Longrightarrow> tm w \<le> tm w'"
  shows "acquire env (Suc n) s = acquire env 1 s"
proof -
  have loop: "lock_loop env (Finite (tm (mx_world t))) (Suc n) t
      = lock_loop env (Finite (tm (mx_world t))) (Suc 0) t" for t
  proof (cases "try_lock env (mx_world t)")
    case (Pair r w)
    then have "tm (mx_world t) \<le> tm w" using assms(4) by blast
    with Pair show ?thesis
      by (cases r) (simp_all add: tryM_def mx_def bindM_def assms(2) fle_Finite raiseM_def)
  qed
  have "lock_loop env (fadd (Finite (tm (mx_world t))) (Finite 0)) (Suc n) t
      = lock_loop env (fadd (Finite (tm (mx_world t))) (Finite 0)) (Suc 0) t" for t
    using loop [of t] assms(3) by (simp only: fadd_zero_right)
  then show ?thesis
    by (simp add: acquire_def assms(1,2) bindM_def tryM_def mx_def Let_def
        del: lock_loop.simps split: prod.splits sum.splits)
qed

definition busy_lock :: "unit mutex_env" where
  "busy_lock = \<lparr>timeout_seconds = Finite 0, poll_seconds = Finite (1 / 4), make_lock_parent = returnM (),
     open_lock_file = returnM (), monotonic = returnM (Finite 1),
     try_lock = raiseM (Exn OSError ''held''), sleep_for = (\<lambda>_. returnM ()), write_owner = returnM (),
     unlock = returnM (), close_handle = returnM ()\<rparr>"

theorem acquire_without_timeout_ends_witness:
  "fst (acquire busy_lock 5 \<lparr>mx_world = (), mx_owned = False\<rparr>)
     = Inl (Exn ConcurrentExecutionError ''another executor owns the lock'')"
proof -
  have "acquire busy_lock (Suc 4) \<lparr>mx_world = (), mx_owned = False\<rparr>
      = acquire busy_lock 1 \<lparr>mx_world = (), mx_owned = False\<rparr>"
  proof (rule acquire_without_timeout_ends [where tm = "\<lambda>_. 1"])
    show "wf_float (Finite 1)" for w :: unit by code_simp
  qed (simp_all add: busy_lock_def returnM_def)
  moreover have "fst (acquire busy_lock 1 \<lparr>mx_world = (), mx_owned = False\<rparr>)
      = Inl (Exn ConcurrentExecutionError ''another executor owns the lock'')"
    by code_simp
  ultimately show ?thesis by (simp add: numeral_eq_Suc)
qed

end
