(* ===== verification/Order_Recovery.thy ===== *)
theory Order_Recovery
  imports State_Machine
begin

text \<open>
  \<open>recovery.py\<close>: finding the one broker order that carries the durable identity of the
  local intent, and turning a broker observation into an event of the state machine.
\<close>

definition managed_match :: "string \<Rightarrow> Side \<Rightarrow> int \<Rightarrow> string \<Rightarrow> BrokerOrder \<Rightarrow> bool" where
  "managed_match smb sd q remark ord =
     (bo_order_remark ord = remark \<and> bo_symbol ord = smb \<and> bo_side ord = sd \<and> bo_qty ord = q)"

definition find_unique_managed_order ::
  "BrokerOrder list \<Rightarrow> string \<Rightarrow> Side \<Rightarrow> int \<Rightarrow> string \<Rightarrow> BrokerOrder pyres" where
  "find_unique_managed_order orders smb sd q remark =
     (let matches = filter (managed_match smb sd q remark) orders in
      if length matches \<noteq> 1 then
        Inl (Exn RecoveryAmbiguous
              (''expected exactly one durable-identity broker match, got ''
               @ nat_repr (length matches)))
      else Inr (matches ! 0))"

definition event_for_observation ::
  "TradeState \<Rightarrow> BrokerOrderStatus \<Rightarrow> TradeEvent option pyres" where
  "event_for_observation current status =
     (let recovering = (current \<in> {UNKNOWN, CANCEL_REJECTED});
          ambiguous = Inl (Exn RecoveryAmbiguous
            (''observation '' @ BrokerOrderStatus_value status
             @ '' is not a valid refinement of state '' @ TradeState_value current))
      in
      if status = B_UNKNOWN then Inr (Some QUERY_AMBIGUOUS)
      else if recovering then
        (if current = CANCEL_REJECTED \<and> status = B_ACCEPTED then Inr (Some QUERY_AMBIGUOUS)
         else Inr (Some (case status of
             B_ACCEPTED \<Rightarrow> RECOVERY_ACCEPTED
           | B_WORKING \<Rightarrow> RECOVERY_WORKING
           | B_PARTIALLY_FILLED \<Rightarrow> RECOVERY_PARTIAL
           | B_CANCEL_PENDING \<Rightarrow> RECOVERY_CANCELLING
           | B_PARTIAL_CANCELLED \<Rightarrow> RECOVERY_CANCELLED
           | B_CANCELLED \<Rightarrow> RECOVERY_CANCELLED
           | B_FILLED \<Rightarrow> RECOVERY_FILLED
           | B_REJECTED \<Rightarrow> RECOVERY_REJECTED
           | B_UNKNOWN \<Rightarrow> QUERY_AMBIGUOUS)))
      else (case status of
          B_ACCEPTED \<Rightarrow> if current = ACCEPTED then Inr None else ambiguous
        | B_WORKING \<Rightarrow>
            if current \<in> {ACCEPTED, WORKING, PENDING_CANCEL, CANCELLING}
            then Inr (Some ORDER_WORKING) else ambiguous
        | B_PARTIALLY_FILLED \<Rightarrow>
            if current \<in> {ACCEPTED, WORKING, PARTIALLY_FILLED, PENDING_CANCEL, CANCELLING}
            then Inr (Some ORDER_PARTIAL) else ambiguous
        | B_CANCEL_PENDING \<Rightarrow>
            if current = PENDING_CANCEL then Inr (Some CANCEL_SENT)
            else if current = CANCELLING then Inr (Some CANCEL_STILL_PENDING) else ambiguous
        | B_PARTIAL_CANCELLED \<Rightarrow>
            if current \<in> {ACCEPTED, WORKING, PARTIALLY_FILLED, PENDING_CANCEL, CANCELLING}
            then Inr (Some CANCEL_CONFIRMED) else ambiguous
        | B_CANCELLED \<Rightarrow>
            if current \<in> {ACCEPTED, WORKING, PARTIALLY_FILLED, PENDING_CANCEL, CANCELLING}
            then Inr (Some CANCEL_CONFIRMED) else ambiguous
        | B_FILLED \<Rightarrow>
            if current \<in> {ACCEPTED, WORKING, PARTIALLY_FILLED, PENDING_CANCEL, CANCELLING}
            then Inr (Some ORDER_FILLED) else ambiguous
        | B_REJECTED \<Rightarrow>
            if current \<in> {ACCEPTED, WORKING} then Inr (Some ORDER_REJECTED) else ambiguous
        | B_UNKNOWN \<Rightarrow> Inr (Some QUERY_AMBIGUOUS)))"


section \<open>The durable identity\<close>

lemma find_unique_managed_order_Inr:
  "find_unique_managed_order orders smb sd q remark = Inr ord \<longleftrightarrow>
     filter (managed_match smb sd q remark) orders = [ord]"
  by (auto simp: find_unique_managed_order_def Let_def length_Suc_conv)

text \<open>
  C22: recovery adopts a broker order only when it is the only one in the broker's list that
  carries the durable identity; otherwise, also when there is none (no match is never read as
  "not sent"), the exception that it raises is \<open>RecoveryAmbiguous\<close>, and no other.
\<close>

theorem find_unique_managed_order_iff:
  "(find_unique_managed_order orders smb sd q remark = Inr ord \<longleftrightarrow>
      (\<exists>i. i < length orders \<and> orders ! i = ord \<and> managed_match smb sd q remark ord
         \<and> {j. j < length orders \<and> managed_match smb sd q remark (orders ! j)} = {i}))
   \<and> (case find_unique_managed_order orders smb sd q remark of
        Inl e \<Rightarrow> exn_kind e = RecoveryAmbiguous
          \<and> card {j. j < length orders \<and> managed_match smb sd q remark (orders ! j)} \<noteq> 1
      | Inr ord' \<Rightarrow> card {j. j < length orders \<and> managed_match smb sd q remark (orders ! j)} = 1)"
proof -
  let ?P = "managed_match smb sd q remark"
  have len: "length (filter ?P orders) = card {j. j < length orders \<and> ?P (orders ! j)}"
    by (rule length_filter_conv_card)
  have "case find_unique_managed_order orders smb sd q remark of
      Inl e \<Rightarrow> exn_kind e = RecoveryAmbiguous \<and> length (filter ?P orders) \<noteq> 1
    | Inr ord' \<Rightarrow> length (filter ?P orders) = 1"
    by (auto simp: find_unique_managed_order_def Let_def)
  note outcome = this [unfolded len]
  have "filter ?P orders = [ord] \<longleftrightarrow>
      (\<exists>i. i < length orders \<and> orders ! i = ord \<and> ?P ord
         \<and> {j. j < length orders \<and> ?P (orders ! j)} = {i})" (is "?L = ?R")
  proof
    assume l: ?L
    then have "card {j. j < length orders \<and> ?P (orders ! j)} = 1" using len by simp
    then obtain i where i: "{j. j < length orders \<and> ?P (orders ! j)} = {i}"
      by (auto simp: card_1_singleton_iff)
    then have "i < length orders" "?P (orders ! i)" by blast+
    moreover from this l have "orders ! i = ord" by (metis filter_singleton_unique nth_mem)
    ultimately show ?R using i by blast
  next
    assume ?R
    then obtain i where i: "i < length orders" "orders ! i = ord" "?P ord"
      "{j. j < length orders \<and> ?P (orders ! j)} = {i}" by blast
    with len have "length (filter ?P orders) = Suc 0" by simp
    then obtain y where y: "filter ?P orders = [y]" by (metis length_0_conv length_Suc_conv)
    have "ord \<in> set (filter ?P orders)" using i(1-3) nth_mem by fastforce
    then show ?L by (simp add: y)
  qed
  with outcome show ?thesis unfolding find_unique_managed_order_Inr by (rule conjI [rotated])
qed


section \<open>Observations refine the state machine\<close>

definition observed_state :: "TradeState \<Rightarrow> BrokerOrderStatus \<Rightarrow> TradeState" where
  "observed_state current status =
     (case status of
        B_ACCEPTED \<Rightarrow> if current = CANCEL_REJECTED then UNKNOWN else ACCEPTED
      | B_WORKING \<Rightarrow> WORKING
      | B_PARTIALLY_FILLED \<Rightarrow> PARTIALLY_FILLED
      | B_CANCEL_PENDING \<Rightarrow> CANCELLING
      | B_PARTIAL_CANCELLED \<Rightarrow> CANCELLED
      | B_CANCELLED \<Rightarrow> CANCELLED
      | B_FILLED \<Rightarrow> FILLED
      | B_REJECTED \<Rightarrow> REJECTED
      | B_UNKNOWN \<Rightarrow> UNKNOWN)"

definition LIVE_STATES :: "TradeState set" where
  "LIVE_STATES = {ACCEPTED, WORKING, PARTIALLY_FILLED, PENDING_CANCEL, CANCELLING,
     CANCEL_REJECTED, UNKNOWN}"

lemma event_for_observation_declared:
  assumes "current \<in> LIVE_STATES" and "event_for_observation current status = Inr (Some e)"
  shows "map_of (TRANSITIONS current) e = Some (observed_state current status)"
    and "e \<noteq> SESSION_READY" "e \<noteq> PRECHECK_VERIFIED" "e \<noteq> INTENT_PERSISTED"
    and "e = RECOVERY_CANCELLING \<longrightarrow> status = B_CANCEL_PENDING"
  using assms
  by (cases status; auto simp: event_for_observation_def observed_state_def LIVE_STATES_def
      Let_def split: if_splits)+

lemma event_for_observation_None:
  "event_for_observation current status = Inr None \<longleftrightarrow> current = ACCEPTED \<and> status = B_ACCEPTED"
  by (cases status) (auto simp: event_for_observation_def Let_def split: if_splits)

text \<open>The observations that are not a valid refinement: the machine has no way to what they name.\<close>

lemma event_for_observation_ambiguous:
  assumes "current \<in> LIVE_STATES" and "event_for_observation current status = Inl x"
  shows "exn_kind x = RecoveryAmbiguous" and "observed_state current status \<notin> snd ` set (TRANSITIONS current)"
    and "observed_state current status \<noteq> current"
  using assms
  by (cases status; auto simp: event_for_observation_def observed_state_def LIVE_STATES_def
      Let_def split: if_splits)+

text \<open>
  C21: what an observation of a live order does, for every reachable snapshot of a live state and
  every status.  If \<open>event_for_observation\<close> gives an event, \<open>advance\<close> accepts it and leads to the state
  that the status names (\<open>observed_state\<close>; an order reported as accepted after a rejected cancellation
  counts as unknown); the one exception is a pending cancellation that the local journal did not ask
  for, which \<open>advance\<close> rejects.  If it gives no event, the machine is in that state already.  If it
  raises, the exception is \<open>RecoveryAmbiguous\<close> and the machine has no transition to that state at all.
\<close>

theorem observation_refines_state:
  assumes "reachable s" and "state s \<in> LIVE_STATES"
  shows "case event_for_observation (state s) status of
      Inl x \<Rightarrow> exn_kind x = RecoveryAmbiguous \<and> observed_state (state s) status \<noteq> state s
        \<and> observed_state (state s) status \<notin> snd ` set (TRANSITIONS (state s))
    | Inr None \<Rightarrow> observed_state (state s) status = state s
    | Inr (Some e) \<Rightarrow>
        if status = B_CANCEL_PENDING \<and> \<not> cancel_intent_persisted (facts s)
        then \<exists>x. advance s e None None = Inl x \<and> state s = UNKNOWN
        else \<exists>t. advance s e None None = Inr t \<and> state t = observed_state (state s) status
               \<and> intent_persisted (facts t)"
proof -
  have inv: "sm_inv s" using assms(1) by (rule reachable_sm_inv)
  consider x where "event_for_observation (state s) status = Inl x"
    | "event_for_observation (state s) status = Inr None"
    | e where "event_for_observation (state s) status = Inr (Some e)"
    by (cases "event_for_observation (state s) status") fastforce+
  then show ?thesis
  proof cases
    case 1
    then show ?thesis using event_for_observation_ambiguous [OF assms(2) 1] by simp
  next
    case 2
    then have "observed_state (state s) status = state s"
      by (simp add: event_for_observation_None observed_state_def)
    then show ?thesis by (simp add: 2)
  next
    case (3 e)
    note d = event_for_observation_declared [OF assms(2) 3]
    show ?thesis
    proof (cases "status = B_CANCEL_PENDING \<and> \<not> cancel_intent_persisted (facts s)")
      case True
      then have "state s = UNKNOWN" using inv assms(2) 3
        by (auto simp: LIVE_STATES_def sm_inv_def event_for_observation_def Let_def split: if_splits)
      then have "e = RECOVERY_CANCELLING" using 3 True by (simp add: event_for_observation_def Let_def)
      with True d(1) have "\<exists>x. advance s e None None = Inl x"
        by (auto simp: advance_def advance_guards_def)
      with \<open>state s = UNKNOWN\<close> show ?thesis using 3 True by simp
    next
      case False
      have "advance_guards (facts s) e = Inr ()"
        using d False by (auto simp: advance_guards_Inr)
      then have a: "advance s e None None = Inr \<lparr>state = observed_state (state s) status,
          facts = projr (advance_facts (facts s) e None None)\<rparr>"
        by (rule advance_total [OF inv d(1)]) (use d advance_facts_other in blast)
      then have "intent_persisted (facts \<lparr>state = observed_state (state s) status,
          facts = projr (advance_facts (facts s) e None None)\<rparr>)"
        by (rule advance_keeps_intent)
          (use d(1) inv assms(2) in \<open>auto simp: LIVE_STATES_def sm_inv_def split: if_splits\<close>)
      with a 3 False show ?thesis by auto
    qed
  qed
qed

theorem observation_refines_state_witness:
  "(\<exists>t. advance \<lparr>state = ACCEPTED, facts = working_facts\<rparr> ORDER_FILLED None None = Inr t \<and> state t = FILLED)
   \<and> (case event_for_observation ACCEPTED B_CANCEL_PENDING of
        Inl x \<Rightarrow> CANCELLING \<notin> snd ` set (TRANSITIONS ACCEPTED) | Inr _ \<Rightarrow> False)"
proof -
  note o = observation_refines_state [OF reachable_working, unfolded LIVE_STATES_def, simplified]
  show ?thesis using o [of B_FILLED] o [of B_CANCEL_PENDING]
    by (auto simp: event_for_observation_def observed_state_def)
qed

end
