(* ===== verification/Execution_Finality.thy ===== *)
theory Execution_Finality
  imports State_Machine
begin

text \<open>
  \<open>finality.py\<close>: whether an execution may release what it holds of the shared resources,
  derived from the state and the facts of the machine.  The lemmas relate it to the
  invariant of the state machine: an execution with an unresolved order is never
  \<open>FINALITY_RESOLVED\<close>.
\<close>

datatype ExecutionFinality = FINALITY_OPEN | FINALITY_RESOLVED | FINALITY_QUARANTINED

fun ExecutionFinality_value :: "ExecutionFinality \<Rightarrow> string" where
  "ExecutionFinality_value FINALITY_OPEN = ''open''"
| "ExecutionFinality_value FINALITY_RESOLVED = ''resolved''"
| "ExecutionFinality_value FINALITY_QUARANTINED = ''quarantined''"

definition OPEN_STATES :: "TradeState set" where
  "OPEN_STATES = {SUBMITTED, ACCEPTED, WORKING, UNKNOWN, PARTIALLY_FILLED, PENDING_CANCEL,
     CANCELLING, CANCEL_REJECTED}"

definition RESOLVED_STATES :: "TradeState set" where
  "RESOLVED_STATES = {FILLED, CANCELLED, REJECTED}"

text \<open>The argument is typed, so the check of its class at the start of the function cannot fail.\<close>

definition execution_finality :: "MachineSnapshot \<Rightarrow> ExecutionFinality" where
  "execution_finality snap =
     (if state snap = FAILED then
        (if unresolved_order (facts snap) then FINALITY_QUARANTINED else FINALITY_RESOLVED)
      else if state snap \<in> OPEN_STATES then FINALITY_OPEN
      else if state snap \<in> RESOLVED_STATES then FINALITY_RESOLVED
      else FINALITY_RESOLVED)"

lemmas finality_simps = execution_finality_def OPEN_STATES_def RESOLVED_STATES_def

lemma sm_inv_finality:
  assumes "sm_inv s" and "unresolved_order (facts s)"
  shows "execution_finality s \<noteq> FINALITY_RESOLVED"
  using assms by (cases "state s") (auto simp: finality_simps sm_inv_def)

text \<open>
  C20: on a reachable snapshot, an execution whose order is unresolved is never resolved; an
  open one is between submission and its end; and a failed one is quarantined exactly while
  its order is unresolved.
\<close>

theorem finality_protects_unresolved:
  assumes "reachable s"
  shows "(unresolved_order (facts s) \<longrightarrow> execution_finality s \<noteq> FINALITY_RESOLVED)
    \<and> (execution_finality s = FINALITY_OPEN \<longrightarrow> intent_persisted (facts s))
    \<and> (execution_finality s = FINALITY_QUARANTINED \<longleftrightarrow>
         state s = FAILED \<and> unresolved_order (facts s))"
  using reachable_sm_inv [OF assms]
  by (cases "state s") (auto simp: finality_simps sm_inv_def)

theorem finality_protects_unresolved_witness:
  "unresolved_order working_facts
   \<and> execution_finality \<lparr>state = ACCEPTED, facts = working_facts\<rparr> \<noteq> FINALITY_RESOLVED"
proof -
  have "unresolved_order working_facts" by code_simp
  with finality_protects_unresolved [OF reachable_working] show ?thesis by simp
qed

end
