(* ===== verification/Machine_Verifier.thy ===== *)
theory Machine_Verifier
  imports Execution_Finality "HOL-Library.List_Lexorder" "HOL-Library.Char_ord"
begin

text \<open>
  \<open>verifier.py\<close>: the explicit-state search that a session runs when it opens, and the
  digests of the transition table and of the sources that it binds to the journal.

  The lemmas show that the search ends, that it finds exactly the snapshots reachable with
  canonical evidence, and that none of the errors it can raise is ever raised.
\<close>

section \<open>The search\<close>

definition canonical_session_evidence :: SessionEvidence where
  "canonical_session_evidence =
     \<lparr>se_ready = PyBool True, se_environment_verified = PyBool True,
      se_account_verified = PyBool True, se_reason = PyStr ''''\<rparr>"

definition canonical_precheck_evidence :: PrecheckEvidence where
  "canonical_precheck_evidence =
     \<lparr>pe_allowed = PyBool True, pe_environment_verified = PyBool True,
      pe_account_verified = PyBool True, pe_broker_snapshot_verified = PyBool True,
      pe_position_verified = PyBool True, pe_cash_verified = PyBool True,
      pe_quote_verified = PyBool True, pe_reason = PyStr ''''\<rparr>"

definition verifier_step :: "MachineSnapshot \<Rightarrow> TradeEvent \<Rightarrow> MachineSnapshot pyres" where
  "verifier_step snap event =
     (if event = SESSION_READY then advance snap event (Some canonical_session_evidence) None
      else if event = PRECHECK_VERIFIED then advance snap event None (Some canonical_precheck_evidence)
      else advance snap event None None)"

definition assert_v04_finality_refinement :: "MachineSnapshot \<Rightarrow> unit pyres" where
  "assert_v04_finality_refinement snap =
     (let finality = execution_finality snap in
      bindR (raise_if (state snap \<in> {UNKNOWN, CANCEL_REJECTED} \<and> finality \<noteq> FINALITY_OPEN)
        (Exn RuntimeError (''v0.4 finality violation: '' @ TradeState_value (state snap)
           @ '' must remain OPEN''))) (\<lambda>_.
      bindR (raise_if (state snap = FAILED \<and> unresolved_order (facts snap)
                       \<and> finality \<noteq> FINALITY_QUARANTINED)
        (Exn RuntimeError ''v0.4 finality violation: unresolved FAILED must be QUARANTINED'')) (\<lambda>_.
      raise_if (state snap \<in> {FILLED, CANCELLED, REJECTED} \<and> finality \<noteq> FINALITY_RESOLVED)
        (Exn RuntimeError (''v0.4 finality violation: '' @ TradeState_value (state snap)
           @ '' must be RESOLVED'')))))"

text \<open>The variables of the search; the sets are lists without repetition, in insertion order.\<close>

record search =
  queue :: "MachineSnapshot list"
  found :: "MachineSnapshot list"
  edges :: "(MachineSnapshot \<times> TradeEvent \<times> MachineSnapshot) list"
  reached_declared_edges :: "(TradeState \<times> TradeEvent) list"

definition set_add :: "'a \<Rightarrow> 'a list \<Rightarrow> 'a list" where
  "set_add x xs = (if x \<in> set xs then xs else xs @ [x])"

definition add_successor :: "MachineSnapshot \<Rightarrow> TradeEvent \<Rightarrow> MachineSnapshot \<Rightarrow> search \<Rightarrow> search" where
  "add_successor cur event succ b =
     b\<lparr>edges := set_add (cur, event, succ) (edges b),
       reached_declared_edges := set_add (state cur, event) (reached_declared_edges b),
       found := set_add succ (found b),
       queue := (if succ \<in> set (found b) then queue b else queue b @ [succ])\<rparr>"

text \<open>The \<open>for event in TRANSITIONS[current.state]\<close> loop.\<close>

primrec visit_events :: "MachineSnapshot \<Rightarrow> TradeEvent list \<Rightarrow> search \<Rightarrow> search pyres" where
  "visit_events cur [] b = Inr b"
| "visit_events cur (event # events) b =
     (case verifier_step cur event of
        Inl e \<Rightarrow> if isinstance_exn e InvalidTransition then visit_events cur events b else Inl e
      | Inr succ \<Rightarrow>
          bindR (assert_invariants succ) (\<lambda>_.
          bindR (assert_v04_finality_refinement succ) (\<lambda>_.
          visit_events cur events (add_successor cur event succ b))))"

lemma bindR_cong [fundef_cong]:
  "r = r' \<Longrightarrow> (\<And>x. r' = Inr x \<Longrightarrow> f x = f' x) \<Longrightarrow> bindR r f = bindR r' f'"
  by (cases r') simp_all

lemma finite_MachineSnapshot: "finite (UNIV :: MachineSnapshot set)"
proof -
  let ?S = "set all_TradeStates"
  let ?mk = "\<lambda>(s, a, b, c, d, e, f, g, h, i, j, k, l). \<lparr>state = s, facts =
    \<lparr>environment_verified = a, account_verified = b, broker_snapshot_verified = c,
     position_verified = d, cash_verified = e, quote_verified = f, intent_persisted = g,
     reservation_persisted = h, unresolved_order = i, terminal_order_confirmed = j,
     submitted_once = k, cancel_intent_persisted = l\<rparr>\<rparr>"
  have "x \<in> ?mk ` (?S \<times> UNIV)" for x
  proof -
    obtain s F where x: "x = \<lparr>state = s, facts = F\<rparr>" by (cases x)
    show ?thesis unfolding x by (cases F) (force simp: image_iff)
  qed
  then have "UNIV \<subseteq> ?mk ` (?S \<times> UNIV)" by blast
  then show ?thesis by (rule finite_subset) simp
qed

text \<open>The number of snapshots not found yet bounds the search.\<close>

definition search_measure :: "search \<Rightarrow> nat" where
  "search_measure b = 2 * card (UNIV - set (found b)) + length (queue b)"

lemma search_measure_add: "search_measure (add_successor cur event succ b) \<le> search_measure b"
proof (cases "succ \<in> set (found b)")
  case True
  then show ?thesis by (simp add: search_measure_def add_successor_def set_add_def)
next
  case False
  have "card (UNIV - set (found b)) = Suc (card (UNIV - insert succ (set (found b))))"
    using False finite_MachineSnapshot
    by (metis DiffI Diff_insert UNIV_I card_Suc_Diff1 finite_Diff)
  with False show ?thesis by (simp add: search_measure_def add_successor_def set_add_def)
qed

lemma visit_events_measure:
  "visit_events cur events b = Inr b' \<Longrightarrow> search_measure b' \<le> search_measure b"
proof (induction events arbitrary: b)
  case Nil
  then show ?case by simp
next
  case (Cons event events)
  then show ?case using search_measure_add [of cur event _ b]
    by (fastforce simp: bindR_eq_Inr split: sum.splits if_splits dest: order_trans)
qed

text \<open>The \<open>while queue\<close> loop.\<close>

function explore :: "search \<Rightarrow> search pyres" where
  "explore b =
     (case queue b of
        [] \<Rightarrow> Inr b
      | cur # rest \<Rightarrow>
          bindR (assert_invariants cur) (\<lambda>_.
          bindR (assert_v04_finality_refinement cur) (\<lambda>_.
          bindR (visit_events cur (map fst (TRANSITIONS (state cur))) (b\<lparr>queue := rest\<rparr>)) explore)))"
  by pat_completeness auto

termination
proof (relation "measure search_measure")
  fix b cur rest u v b'
  assume q: "queue b = cur # rest"
    and v: "visit_events cur (map fst (TRANSITIONS (state cur))) (b\<lparr>queue := rest\<rparr>) = Inr b'"
  from visit_events_measure [OF v] q show "(b', b) \<in> measure search_measure"
    by (simp add: search_measure_def)
qed simp

declare explore.simps [simp del]

text \<open>
  The backward search from the terminal states: \<open>reverse[dst]\<close> is the list of the sources of
  the edges into \<open>dst\<close>.
\<close>

definition reverse_edges ::
  "(MachineSnapshot \<times> TradeEvent \<times> MachineSnapshot) list \<Rightarrow> MachineSnapshot \<Rightarrow> MachineSnapshot list" where
  "reverse_edges es dst = remdups (map fst (filter (\<lambda>e. snd (snd e) = dst) es))"

definition add_source ::
  "MachineSnapshot \<Rightarrow> MachineSnapshot list \<times> MachineSnapshot list
    \<Rightarrow> MachineSnapshot list \<times> MachineSnapshot list" where
  "add_source src fc =
     (if src \<in> set (snd fc) then fc else (fst fc @ [src], snd fc @ [src]))"

definition frontier_measure :: "MachineSnapshot list \<times> MachineSnapshot list \<Rightarrow> nat" where
  "frontier_measure fc = 2 * card (UNIV - set (snd fc)) + length (fst fc)"

lemma frontier_measure_add: "frontier_measure (fold add_source srcs fc) \<le> frontier_measure fc"
proof (induction srcs arbitrary: fc)
  case Nil
  then show ?case by simp
next
  case (Cons src srcs)
  have "frontier_measure (add_source src fc) \<le> frontier_measure fc"
  proof (cases "src \<in> set (snd fc)")
    case True
    then show ?thesis by (simp add: add_source_def)
  next
    case False
    have "card (UNIV - set (snd fc)) = Suc (card (UNIV - insert src (set (snd fc))))"
      using False finite_MachineSnapshot
      by (metis DiffI Diff_insert UNIV_I card_Suc_Diff1 finite_Diff)
    with False show ?thesis by (simp add: frontier_measure_def add_source_def)
  qed
  with Cons.IH [of "add_source src fc"] show ?case by simp
qed

function backward ::
  "(MachineSnapshot \<times> TradeEvent \<times> MachineSnapshot) list
    \<Rightarrow> MachineSnapshot list \<times> MachineSnapshot list \<Rightarrow> MachineSnapshot list" where
  "backward es fc =
     (case fst fc of
        [] \<Rightarrow> snd fc
      | dst # rest \<Rightarrow> backward es (fold add_source (reverse_edges es dst) (rest, snd fc)))"
  by pat_completeness auto

termination
proof (relation "measure (\<lambda>(es, fc). frontier_measure fc)")
  fix es and fc :: "MachineSnapshot list \<times> MachineSnapshot list" and dst rest
  assume "fst fc = dst # rest"
  then show "((es, fold add_source (reverse_edges es dst) (rest, snd fc)), (es, fc))
      \<in> measure (\<lambda>(es, fc). frontier_measure fc)"
    using frontier_measure_add [of "reverse_edges es dst" "(rest, snd fc)"]
    by (simp add: frontier_measure_def)
qed simp

declare backward.simps [simp del]


section \<open>Digests\<close>

definition PROTECTED_EXECUTION_SOURCES :: "string list" where
  "PROTECTED_EXECUTION_SOURCES =
     [''domain.py'', ''exceptions.py'', ''state_machine.py'', ''ports.py'', ''guards.py'',
      ''event_queue.py'', ''journal.py'', ''mutex.py'', ''recovery.py'', ''session.py'',
      ''finality.py'', ''coordination.py'', ''coordinated_session.py'', ''authority.py'',
      ''formal.py'', ''verifier.py'', ''miniqmt/status.py'', ''miniqmt/adapter.py'',
      ''miniqmt/callbacks.py'', ''miniqmt/binding.py'', ''miniqmt/runtime_gate.py'',
      ''miniqmt/session_id.py'', ''miniqmt/runtime.py'']"

definition LF :: char where "LF = CHR 0x0A"
definition CR :: char where "CR = CHR 0x0D"

definition transition_rows :: "string list" where
  "transition_rows =
     concat (map (\<lambda>s.
       map (\<lambda>et. TradeState_value s @ ''|'' @ TradeEvent_value (fst et) @ ''|''
              @ TradeState_value (snd et) @ [LF])
         (sort_key (\<lambda>et. TradeEvent_value (fst et)) (TRANSITIONS s)))
       (sort_key TradeState_value all_TradeStates))"

text \<open>The hash function is a parameter: it maps the bytes to the hexadecimal digest.\<close>

definition transition_spec_sha256 :: "(string \<Rightarrow> string) \<Rightarrow> string" where
  "transition_spec_sha256 sha256 = sha256 (concat transition_rows)"

text \<open>\<open>replace(b"\r\n", b"\n").replace(b"\r", b"\n")\<close>\<close>

fun replace_crlf :: "string \<Rightarrow> string" where
  "replace_crlf (a # b # r) =
     (if a = CR \<and> b = LF then LF # replace_crlf r else a # replace_crlf (b # r))"
| "replace_crlf r = r"

definition canonical_newlines :: "string \<Rightarrow> string" where
  "canonical_newlines s = map (\<lambda>c. if c = CR then LF else c) (replace_crlf s)"

text \<open>
  The files are a map from paths to contents.  \<open>here\<close> is the directory of the package
  itself, and \<open>resolved\<close> the resolved path of a given source root.
\<close>

definition resolve_package_root ::
  "(string \<Rightarrow> string option) \<Rightarrow> string \<Rightarrow> string option \<Rightarrow> string pyres" where
  "resolve_package_root files here resolved =
     (case resolved of
        None \<Rightarrow> Inr here
      | Some given \<Rightarrow>
          (case find (\<lambda>c. files (c @ ''/verifier.py'') \<noteq> None \<and> files (c @ ''/domain.py'') \<noteq> None)
                  [given @ ''/src/qmt_execution_core'', given @ ''/qmt_execution_core'', given] of
             Some c \<Rightarrow> Inr c
           | None \<Rightarrow> Inl (Exn FileNotFoundError
                           (''qmt_execution_core package root not found under '' @ given))))"

definition execution_source_sha256 ::
  "(string \<Rightarrow> string) \<Rightarrow> (string \<Rightarrow> string option) \<Rightarrow> string \<Rightarrow> string option \<Rightarrow> string pyres" where
  "execution_source_sha256 sha256 files here resolved =
     bindR (resolve_package_root files here resolved) (\<lambda>pkg.
     bindR (mapR (\<lambda>relative.
         case files (pkg @ ''/'' @ relative) of
           None \<Rightarrow> Inl (Exn FileNotFoundError (''protected execution source missing: '' @ relative))
         | Some bytes \<Rightarrow>
             Inr (''qmt_execution_core/'' @ relative @ [CHR 0x00] @ canonical_newlines bytes
                  @ [CHR 0x00]))
       PROTECTED_EXECUTION_SOURCES) (\<lambda>parts.
     Inr (sha256 (concat parts))))"


section \<open>The report\<close>

record report =
  reachable_abstract_states :: nat
  reachable_transitions :: nat
  declared_states :: nat
  declared_transitions :: nat
  rep_transition_spec_sha256 :: string
  rep_execution_source_sha256 :: string

definition declared_edges :: "(TradeState \<times> TradeEvent) list" where
  "declared_edges = concat (map (\<lambda>s. map (\<lambda>et. (s, fst et)) (TRANSITIONS s)) all_TradeStates)"

definition initial_search :: search where
  "initial_search = \<lparr>queue = [initial_snapshot], found = [initial_snapshot], edges = [],
     reached_declared_edges = []\<rparr>"

definition can_reach_terminal :: "search \<Rightarrow> MachineSnapshot list" where
  "can_reach_terminal b =
     (let ts = filter (\<lambda>s. state s \<in> TERMINAL_STATES) (found b) in backward (edges b) (ts, ts))"

text \<open>The texts of the two errors that list missing edges or states are shortened.\<close>

definition verify_state_machine ::
  "(string \<Rightarrow> string) \<Rightarrow> (string \<Rightarrow> string option) \<Rightarrow> string \<Rightarrow> string option \<Rightarrow> report pyres" where
  "verify_state_machine sha256 files here resolved =
     bindR (explore initial_search) (\<lambda>b.
     bindR (raise_if (\<not> (set declared_edges \<subseteq> set (reached_declared_edges b)))
       (Exn RuntimeError ''unreachable declared transitions'')) (\<lambda>_.
     bindR (raise_if (\<not> (set all_TradeStates \<subseteq> state ` set (found b)))
       (Exn RuntimeError ''unreachable states'')) (\<lambda>_.
     bindR (raise_if (\<not> (set (found b) \<subseteq> set (can_reach_terminal b)))
       (Exn RuntimeError ''reachable abstract states exist with no terminal path'')) (\<lambda>_.
     bindR (raise_if ({INTENT_PERSISTED, SUBMIT_ACCEPTED, TRIGGERED, BEGIN_PRECHECK}
                      \<inter> fst ` set (TRANSITIONS UNKNOWN) \<noteq> {})
       (Exn RuntimeError ''UNKNOWN contains blind-retry/new-order transitions'')) (\<lambda>_.
     bindR (execution_source_sha256 sha256 files here resolved) (\<lambda>source_hash.
     Inr \<lparr>reachable_abstract_states = length (found b), reachable_transitions = length (edges b),
          declared_states = length all_TradeStates, declared_transitions = length declared_edges,
          rep_transition_spec_sha256 = transition_spec_sha256 sha256,
          rep_execution_source_sha256 = source_hash\<rparr>))))))"


section \<open>The search is sound and complete\<close>

lemma canonical_evidence_ok:
  "SessionEvidence_validate canonical_session_evidence = Inr ()"
  "PrecheckEvidence_validate canonical_precheck_evidence = Inr ()"
  by (simp_all add: SessionEvidence_validate_def PrecheckEvidence_validate_def check_fields.simps
      canonical_session_evidence_def canonical_precheck_evidence_def)

lemma advance_facts_canonical:
  "advance_facts f SESSION_READY (Some canonical_session_evidence) pe =
     Inr (f\<lparr>environment_verified := True, account_verified := True\<rparr>)"
  "advance_facts f PRECHECK_VERIFIED se (Some canonical_precheck_evidence) =
     Inr (f\<lparr>environment_verified := True, account_verified := True, broker_snapshot_verified := True,
          position_verified := True, cash_verified := True, quote_verified := True\<rparr>)"
  using canonical_evidence_ok
  by (simp_all add: advance_facts_def canonical_session_evidence_def canonical_precheck_evidence_def)

lemma advance_facts_no_evidence:
  "e \<noteq> SESSION_READY \<Longrightarrow> e \<noteq> PRECHECK_VERIFIED \<Longrightarrow>
   advance_facts f e se pe = advance_facts f e None None \<and> (\<exists>f'. advance_facts f e None None = Inr f')"
  by (cases e) (simp_all add: advance_facts_def)

text \<open>Whatever evidence is accepted has the effect of the canonical one.\<close>

lemma verifier_step_complete:
  assumes "advance s e se pe = Inr t"
  shows "verifier_step s e = Inr t"
proof -
  consider "e = SESSION_READY" | "e = PRECHECK_VERIFIED"
    | "e \<noteq> SESSION_READY" "e \<noteq> PRECHECK_VERIFIED" by blast
  then show ?thesis
  proof cases
    case 1
    with assms show ?thesis
      by (simp add: verifier_step_def advance_Inr advance_facts_canonical)
        (metis advance_facts_SESSION_READY)
  next
    case 2
    with assms show ?thesis
      by (simp add: verifier_step_def advance_Inr advance_facts_canonical)
        (metis advance_facts_PRECHECK_VERIFIED)
  next
    case 3
    with assms advance_facts_no_evidence [OF 3, of "facts s" se pe] show ?thesis
      by (simp add: verifier_step_def advance_Inr)
  qed
qed

lemma verifier_step_reachable: "reachable s \<Longrightarrow> verifier_step s e = Inr t \<Longrightarrow> reachable t"
  unfolding verifier_step_def by (auto split: if_splits intro: reachable.step)

lemma verifier_step_total:
  assumes "reachable s" and "map_of (TRANSITIONS (state s)) e = Some st'"
    and "advance_guards (facts s) e = Inr ()"
  shows "\<exists>t. verifier_step s e = Inr t \<and> state t = st'"
proof -
  note total = advance_total [OF reachable_sm_inv [OF assms(1)] assms(2,3)]
  consider "e = SESSION_READY" | "e = PRECHECK_VERIFIED"
    | "e \<noteq> SESSION_READY" "e \<noteq> PRECHECK_VERIFIED" by blast
  then show ?thesis
  proof cases
    case 1
    then show ?thesis using total [OF advance_facts_canonical(1) [folded 1]]
      by (simp add: verifier_step_def)
  next
    case 2
    then show ?thesis using total [OF advance_facts_canonical(2) [folded 2]]
      by (simp add: verifier_step_def)
  next
    case 3
    then obtain f where "advance_facts (facts s) e None None = Inr f"
      using advance_facts_no_evidence by blast
    from total [OF this] 3 show ?thesis by (simp add: verifier_step_def)
  qed
qed

lemma advance_guards_Inl: "advance_guards f e = Inl x \<Longrightarrow> isinstance_exn x InvalidTransition"
  by (auto simp: advance_guards_def bindR_eq_Inl)

lemma verifier_step_error:
  assumes "reachable s" and "declared (state s) e" and "verifier_step s e = Inl x"
  shows "isinstance_exn x InvalidTransition"
proof -
  obtain st' where st': "map_of (TRANSITIONS (state s)) e = Some st'"
    using assms(2) by (auto simp: declared_def)
  with verifier_step_total [OF assms(1)] assms(3) obtain y where y: "advance_guards (facts s) e = Inl y"
    by (cases "advance_guards (facts s) e") fastforce+
  then have "x = y" using assms(3) st' by (auto simp: verifier_step_def advance_def split: if_splits)
  with y show ?thesis by (simp add: advance_guards_Inl)
qed

lemma finality_refinement_ok: "reachable s \<Longrightarrow> assert_v04_finality_refinement s = Inr ()"
  by (auto simp: assert_v04_finality_refinement_def Let_def bindR_eq_Inr finality_simps)

lemma reachable_assert: "reachable s \<Longrightarrow> assert_invariants s = Inr ()"
  by (rule sm_inv_assert [OF reachable_sm_inv])

lemma set_set_add [simp]: "set (set_add x xs) = insert x (set xs)"
  by (auto simp: set_add_def)

definition successors :: "MachineSnapshot \<Rightarrow> TradeEvent list \<Rightarrow> (TradeEvent \<times> MachineSnapshot) set" where
  "successors cur es = {(e, t). e \<in> set es \<and> verifier_step cur e = Inr t}"

lemma visit_events_spec:
  assumes "reachable cur" and "\<forall>e \<in> set es. declared (state cur) e"
  shows "\<exists>b'. visit_events cur es b = Inr b'
    \<and> set (found b') = set (found b) \<union> snd ` successors cur es
    \<and> set (queue b') = set (queue b) \<union> (snd ` successors cur es - set (found b))
    \<and> set (edges b') = set (edges b) \<union> Pair cur ` successors cur es
    \<and> set (reached_declared_edges b') =
        set (reached_declared_edges b) \<union> (\<lambda>et. (state cur, fst et)) ` successors cur es"
  using assms(2)
proof (induction es arbitrary: b)
  case Nil
  then show ?case by (simp add: successors_def)
next
  case (Cons e es)
  show ?case
  proof (cases "verifier_step cur e")
    case (Inl x)
    then have "isinstance_exn x InvalidTransition"
      using verifier_step_error [OF assms(1) _ Inl] Cons.prems by simp
    moreover have "successors cur (e # es) = successors cur es" using Inl by (auto simp: successors_def)
    ultimately show ?thesis using Inl Cons by simp
  next
    case (Inr t)
    then have "reachable t" using verifier_step_reachable [OF assms(1)] by blast
    moreover have "successors cur (e # es) = insert (e, t) (successors cur es)"
      using Inr by (auto simp: successors_def)
    moreover have "\<forall>e \<in> set es. declared (state cur) e" using Cons.prems by simp
    ultimately show ?thesis using Inr Cons.IH [of "add_successor cur e t b"]
      by (auto simp: reachable_assert finality_refinement_ok add_successor_def)
  qed
qed


definition expanded :: "search \<Rightarrow> MachineSnapshot \<Rightarrow> bool" where
  "expanded b s \<longleftrightarrow> (\<forall>e t. verifier_step s e = Inr t \<longrightarrow>
     t \<in> set (found b) \<and> (s, e, t) \<in> set (edges b) \<and> (state s, e) \<in> set (reached_declared_edges b))"

definition search_inv :: "search \<Rightarrow> bool" where
  "search_inv b \<longleftrightarrow> set (queue b) \<subseteq> set (found b) \<and> initial_snapshot \<in> set (found b)
     \<and> (\<forall>s \<in> set (found b). reachable s \<and> (s \<in> set (queue b) \<or> expanded b s))"

lemma verifier_step_declared:
  assumes "verifier_step s e = Inr t"
  shows "e \<in> set (map fst (TRANSITIONS (state s)))"
proof -
  have "map_of (TRANSITIONS (state s)) e = Some (state t)"
    using assms by (auto simp: verifier_step_def advance_Inr split: if_splits)
  then show ?thesis by (auto dest: map_of_SomeD intro: rev_image_eqI)
qed

lemma declared_iff: "declared s e \<longleftrightarrow> e \<in> set (map fst (TRANSITIONS s))"
  by (auto simp: declared_def map_of_eq_None_iff)

lemma search_inv_visit:
  assumes inv: "search_inv b" and q: "queue b = cur # rest"
  shows "\<exists>b'. visit_events cur (map fst (TRANSITIONS (state cur))) (b\<lparr>queue := rest\<rparr>) = Inr b'
    \<and> search_inv b'"
proof -
  let ?es = "map fst (TRANSITIONS (state cur))"
  have cur: "reachable cur" "cur \<in> set (found b)" using inv q by (auto simp: search_inv_def)
  have "\<forall>e \<in> set ?es. declared (state cur) e" by (simp add: declared_iff)
  from visit_events_spec [OF cur(1) this, of "b\<lparr>queue := rest\<rparr>"] obtain b' where b':
    "visit_events cur ?es (b\<lparr>queue := rest\<rparr>) = Inr b'"
    "set (found b') = set (found b) \<union> snd ` successors cur ?es"
    "set (queue b') = set rest \<union> (snd ` successors cur ?es - set (found b))"
    "set (edges b') = set (edges b) \<union> Pair cur ` successors cur ?es"
    "set (reached_declared_edges b') =
       set (reached_declared_edges b) \<union> (\<lambda>et. (state cur, fst et)) ` successors cur ?es"
    by auto
  have succ: "verifier_step cur e = Inr t \<longleftrightarrow> (e, t) \<in> successors cur ?es" for e t
    using verifier_step_declared [of cur e t] by (auto simp: successors_def)
  have "expanded b' cur" unfolding expanded_def succ b' by force
  moreover have "expanded b s \<Longrightarrow> expanded b' s" for s unfolding expanded_def b' by blast
  moreover have "t \<in> snd ` successors cur ?es \<Longrightarrow> reachable t" for t
    using verifier_step_reachable [OF cur(1)] by (auto simp: successors_def)
  ultimately have "search_inv b'"
    using inv q unfolding search_inv_def b'(2,3) by auto
  with b'(1) show ?thesis by blast
qed

lemma explore_spec: "search_inv b \<Longrightarrow> \<exists>b'. explore b = Inr b' \<and> search_inv b' \<and> queue b' = []"
proof (induction b rule: explore.induct)
  case (1 b)
  show ?case
  proof (cases "queue b")
    case Nil
    then show ?thesis using 1 by (simp add: explore.simps)
  next
    case (Cons cur rest)
    then have r: "reachable cur" using 1(2) by (auto simp: search_inv_def)
    obtain b' where b': "visit_events cur (map fst (TRANSITIONS (state cur))) (b\<lparr>queue := rest\<rparr>) = Inr b'"
      "search_inv b'"
      using search_inv_visit [OF 1(2) Cons] by blast
    from 1(1) [OF Cons _ _ b'(1) b'(2)] r show ?thesis
      by (simp add: explore.simps [of b] Cons b'(1) reachable_assert finality_refinement_ok)
  qed
qed

lemma search_inv_initial: "search_inv initial_search"
  by (simp add: search_inv_def initial_search_def reachable.start)

text \<open>The search finds exactly the reachable snapshots, and all their transitions.\<close>

lemma explore_initial:
  "\<exists>b. explore initial_search = Inr b \<and> set (found b) = Collect reachable
     \<and> (\<forall>s. reachable s \<longrightarrow> expanded b s)"
proof -
  obtain b where b: "explore initial_search = Inr b" "search_inv b" "queue b = []"
    using explore_spec [OF search_inv_initial] by blast
  then have ex: "s \<in> set (found b) \<Longrightarrow> expanded b s" for s by (auto simp: search_inv_def)
  have "reachable s \<Longrightarrow> s \<in> set (found b)" for s
  proof (induction rule: reachable.induct)
    case start
    then show ?case using b by (simp add: search_inv_def)
  next
    case (step s e se pe t)
    then show ?case using ex [of s] verifier_step_complete [of s e se pe t] by (auto simp: expanded_def)
  qed
  then have "set (found b) = Collect reachable" using b by (auto simp: search_inv_def)
  with ex b(1) show ?thesis by auto
qed


section \<open>Every declared edge is reached and every snapshot can end\<close>

primrec run_events :: "MachineSnapshot \<Rightarrow> TradeEvent list \<Rightarrow> MachineSnapshot pyres" where
  "run_events s [] = Inr s"
| "run_events s (e # es) = bindR (verifier_step s e) (\<lambda>t. run_events t es)"

lemma run_events_reachable: "reachable s \<Longrightarrow> run_events s es = Inr t \<Longrightarrow> reachable t"
  by (induction es arbitrary: s) (auto simp: bindR_eq_Inr dest: verifier_step_reachable)

definition to_precheck :: "TradeEvent list" where
  "to_precheck = [SESSION_READY, TRIGGERED, BEGIN_PRECHECK, PRECHECK_VERIFIED]"

definition to_accepted :: "TradeEvent list" where
  "to_accepted = to_precheck @ [INTENT_PERSISTED, SUBMIT_ACCEPTED]"

text \<open>A sequence of events that leads to a snapshot of the state from which every declared event succeeds.\<close>

fun representative :: "TradeState \<Rightarrow> TradeEvent list" where
  "representative IDLE = []"
| "representative WAIT_TRIGGER = [SESSION_READY]"
| "representative TRIGGER = [SESSION_READY, TRIGGERED]"
| "representative PRE_CHECK = to_precheck"
| "representative SUBMITTED = to_precheck @ [INTENT_PERSISTED]"
| "representative ACCEPTED = to_accepted"
| "representative WORKING = to_accepted @ [ORDER_WORKING]"
| "representative PARTIALLY_FILLED = to_accepted @ [ORDER_PARTIAL]"
| "representative PENDING_CANCEL = to_accepted @ [CANCEL_REQUESTED]"
| "representative CANCELLING = to_accepted @ [CANCEL_REQUESTED, CANCEL_SENT]"
| "representative CANCEL_REJECTED = to_accepted @ [CANCEL_REQUESTED, CANCEL_REQUEST_REJECTED]"
| "representative UNKNOWN = to_accepted @ [CANCEL_REQUESTED, QUERY_AMBIGUOUS]"
| "representative FILLED = to_accepted @ [ORDER_FILLED]"
| "representative CANCELLED = to_accepted @ [CANCEL_CONFIRMED]"
| "representative REJECTED = to_precheck @ [INTENT_PERSISTED, SUBMIT_REJECTED]"
| "representative FAILED = [FATAL]"

definition represents :: "TradeState \<Rightarrow> bool" where
  "represents s =
     (case run_events initial_snapshot (representative s) of
        Inl _ \<Rightarrow> False
      | Inr x \<Rightarrow> state x = s
          \<and> list_all (\<lambda>e. isOk (advance_guards (facts x) e)) (map fst (TRANSITIONS s)))"

lemma represents_all: "list_all represents all_TradeStates"
  by code_simp

lemma declared_edge_reached:
  assumes "declared s e"
  shows "\<exists>x t. reachable x \<and> state x = s \<and> verifier_step x e = Inr t"
proof -
  have "represents s" using represents_all by (simp add: list_all_iff)
  then obtain x where x: "run_events initial_snapshot (representative s) = Inr x" "state x = s"
    "list_all (\<lambda>e. isOk (advance_guards (facts x) e)) (map fst (TRANSITIONS s))"
    by (auto simp: represents_def split: sum.splits)
  have r: "reachable x" using run_events_reachable [OF reachable.start x(1)] .
  have "advance_guards (facts x) e = Inr ()"
    using x(3) assms by (auto simp: list_all_iff declared_iff isOk_iff)
  then show ?thesis
    using verifier_step_total [OF r] assms x(2) r by (fastforce simp: declared_def)
qed

lemma reachable_can_fail:
  assumes "reachable s" and "state s \<notin> TERMINAL_STATES"
  shows "\<exists>e t. verifier_step s e = Inr t \<and> state t = FAILED"
proof -
  define e where "e = (if state s \<in> {UNKNOWN, CANCEL_REJECTED} then RECOVERY_FAILED else FATAL)"
  have "map_of (TRANSITIONS (state s)) e = Some FAILED"
    using assms(2) by (cases "state s") (simp_all add: e_def TERMINAL_STATES_def)
  moreover have "advance_guards (facts s) e = Inr ()" by (auto simp: advance_guards_Inr e_def)
  ultimately show ?thesis using verifier_step_total [OF assms(1)] by blast
qed

lemma set_add_source:
  "set (snd (add_source src fc)) = insert src (set (snd fc))"
  "set (fst fc) \<subseteq> set (fst (add_source src fc))"
  by (auto simp: add_source_def)

lemma fold_add_source:
  "set (snd (fold add_source srcs fc)) = set (snd fc) \<union> set srcs
   \<and> set (fst fc) \<subseteq> set (fst (fold add_source srcs fc))"
proof (induction srcs arbitrary: fc)
  case Nil
  then show ?case by simp
next
  case (Cons src srcs)
  then show ?case using set_add_source [where src = src and fc = fc] by (simp add: subset_trans)
qed

lemma backward_mono: "set (snd fc) \<subseteq> set (backward es fc)"
proof (induction es fc rule: backward.induct)
  case (1 es fc)
  show ?case
  proof (cases "fst fc")
    case (Cons dst rest)
    from 1 [OF Cons] show ?thesis
      using fold_add_source [of "reverse_edges es dst" "(rest, snd fc)"]
      by (simp add: backward.simps [of es fc] Cons)
  qed (simp add: backward.simps)
qed

lemma backward_sources:
  "dst \<in> set (fst fc) \<Longrightarrow> set (reverse_edges es dst) \<subseteq> set (backward es fc)"
proof (induction es fc rule: backward.induct)
  case (1 es fc)
  then obtain d rest where c: "fst fc = d # rest" by (cases "fst fc") auto
  let ?fc = "fold add_source (reverse_edges es d) (rest, snd fc)"
  have "backward es fc = backward es ?fc" by (simp add: backward.simps [of es fc] c)
  moreover have "set (reverse_edges es d) \<subseteq> set (backward es ?fc)"
    using backward_mono [of ?fc es] by (simp add: fold_add_source)
  moreover have "dst \<noteq> d \<Longrightarrow> dst \<in> set (fst ?fc)"
    using 1(2) c fold_add_source [of "reverse_edges es d" "(rest, snd fc)"] by auto
  ultimately show ?case using 1(1) [OF c] by auto
qed

lemma can_reach_terminal_all:
  assumes "set (found b) = Collect reachable" and "\<forall>s. reachable s \<longrightarrow> expanded b s"
  shows "set (found b) \<subseteq> set (can_reach_terminal b)"
proof
  let ?ts = "filter (\<lambda>s. state s \<in> TERMINAL_STATES) (found b)"
  fix s
  assume s: "s \<in> set (found b)"
  show "s \<in> set (can_reach_terminal b)"
  proof (cases "state s \<in> TERMINAL_STATES")
    case True
    then show ?thesis using s backward_mono [of "(?ts, ?ts)" "edges b"]
      by (auto simp: can_reach_terminal_def Let_def)
  next
    case False
    then obtain e t where t: "verifier_step s e = Inr t" "state t = FAILED"
      using reachable_can_fail s assms(1) by blast
    then have "t \<in> set ?ts" "(s, e, t) \<in> set (edges b)"
      using assms s by (auto simp: expanded_def TERMINAL_STATES_def)
    then have "s \<in> set (reverse_edges (edges b) t)" by (force simp: reverse_edges_def)
    then show ?thesis using backward_sources [of t "(?ts, ?ts)" "edges b"] \<open>t \<in> set ?ts\<close>
      by (auto simp: can_reach_terminal_def Let_def)
  qed
qed

lemma verify_build_succeeds:
  assumes "execution_source_sha256 sha256 files here resolved = Inr h"
  shows "\<exists>r. verify_state_machine sha256 files here resolved = Inr r
    \<and> reachable_abstract_states r > 0
    \<and> rep_transition_spec_sha256 r = sha256 (concat transition_rows)
    \<and> rep_execution_source_sha256 r = h"
proof -
  obtain b where b: "explore initial_search = Inr b" "set (found b) = Collect reachable"
    "\<forall>s. reachable s \<longrightarrow> expanded b s"
    using explore_initial by blast
  have "set declared_edges \<subseteq> set (reached_declared_edges b)"
  proof
    fix se assume "se \<in> set declared_edges"
    then obtain s e where se: "se = (s, e)" "declared s e"
      by (auto simp: declared_edges_def declared_iff)
    then show "se \<in> set (reached_declared_edges b)"
      using declared_edge_reached [OF se(2)] b(3) by (auto simp: expanded_def)
  qed
  moreover have "set all_TradeStates \<subseteq> state ` set (found b)"
  proof
    fix s
    have "represents s" using represents_all by (simp add: list_all_iff)
    then obtain x where "run_events initial_snapshot (representative s) = Inr x" "state x = s"
      by (auto simp: represents_def split: sum.splits)
    then show "s \<in> state ` set (found b)"
      using run_events_reachable [OF reachable.start] b(2) by blast
  qed
  moreover have "found b \<noteq> []" using b(2) reachable.start by fastforce
  ultimately show ?thesis
    using b(1) can_reach_terminal_all [OF b(2,3)] assms
    by (simp add: verify_state_machine_def transition_spec_sha256_def)
qed

text \<open>
  C24: the verification that a session runs when it opens always succeeds, if the protected
  sources can be read: the search ends, no invariant and no finality check fails, every
  declared state and every declared transition is reached, a terminal state is reachable from
  every reachable snapshot, and \<open>UNKNOWN\<close> has no transition that sends a new order.
\<close>

theorem verify_state_machine_succeeds:
  assumes "execution_source_sha256 sha256 files here resolved = Inr h"
  shows "\<exists>r. verify_state_machine sha256 files here resolved = Inr r
    \<and> reachable_abstract_states r > 0
    \<and> rep_transition_spec_sha256 r = sha256 (concat transition_rows)
    \<and> rep_execution_source_sha256 r = h"
  using assms by (rule verify_build_succeeds)

theorem verify_state_machine_succeeds_witness:
  "\<exists>r. verify_state_machine (\<lambda>_. replicate 64 (CHR ''0'')) (\<lambda>_. Some ''x'') ''/pkg'' None = Inr r
     \<and> 0 < reachable_abstract_states r"
proof -
  have "execution_source_sha256 (\<lambda>_. replicate 64 (CHR ''0'')) (\<lambda>_. Some ''x'') ''/pkg'' None
      = Inr (replicate 64 (CHR ''0''))"
    by (simp add: execution_source_sha256_def resolve_package_root_def PROTECTED_EXECUTION_SOURCES_def)
  from verify_state_machine_succeeds [OF this] show ?thesis by blast
qed

text \<open>
  C23: the search of \<open>verify_state_machine\<close> is exact.  It ends, and it finds a snapshot if and
  only if the state machine reaches it by some events with some evidence, and an edge for
  every successful step from it.
\<close>

theorem explore_finds_reachable:
  "\<exists>b. explore initial_search = Inr b \<and> (\<forall>s. s \<in> set (found b) \<longleftrightarrow> reachable s)
     \<and> (\<forall>s e se pe t. reachable s \<and> advance s e se pe = Inr t \<longrightarrow> (s, e, t) \<in> set (edges b))"
proof -
  obtain b where b: "explore initial_search = Inr b" "set (found b) = Collect reachable"
    "\<forall>s. reachable s \<longrightarrow> expanded b s"
    using explore_initial by blast
  then show ?thesis using verifier_step_complete by (auto simp: expanded_def)
qed

theorem explore_finds_reachable_witness:
  "\<exists>b. explore initial_search = Inr b \<and> checked_snapshot \<in> set (found b)"
  using explore_finds_reachable reachable_checked_snapshot by auto

end
