(* ===== verification/Execution_Session.thy ===== *)
theory Execution_Session
  imports Execution_Journal Execution_Mutex Order_Recovery Machine_Verifier
begin

text \<open>
  \<open>session.py\<close>: the fail-closed execution session.

  The state of a session is the journal's state with the machine snapshot, the flags of the
  object and the lock; \<open>trace\<close> is a ghost field that records every call with an effect at the
  broker, newest first, together with the journal file at that moment.  The broker, the guard
  and the project's hooks are functions on the world.  Python resolves \<open>self.poll()\<close> at run
  time, so the operations that call it take it as an argument: the base class passes its own,
  the coordinated session its own.
\<close>

section \<open>State and environment\<close>

datatype broker_call = PlaceOrder ExecutionRequest | CancelOrder int

record 'w session_state = "'w journal_state" +
  machine :: MachineSnapshot
  is_open :: bool
  is_closed :: bool
  owned :: bool
  trace :: "(broker_call \<times> journal_file) list"

record 'w session_env = "'w journal_env" +
  mutex :: "'w mutex_env"
  lock_fuel :: nat
  sha256 :: "string \<Rightarrow> string"
  source_files :: "'w \<Rightarrow> string \<Rightarrow> string option"
  package_dir :: string
  py_repr :: "pyval \<Rightarrow> string"
  place_order :: "ExecutionRequest \<Rightarrow> ('w, pyval) pyact"
  cancel_order :: "int \<Rightarrow> ('w, CancelRequestResult) pyact"
  query_order :: "int \<Rightarrow> ('w, BrokerOrder) pyact"
  query_orders :: "('w, BrokerOrder list) pyact"
  execution_healthy :: "('w, bool) pyact"
  verify_session :: "('w, SessionEvidence) pyact"
  verify_request :: "ExecutionRequest \<Rightarrow> ('w, PrecheckEvidence) pyact"
  before_submit_coordination :: "ExecutionRequest \<Rightarrow> ('w, unit) pyact"
  before_broker_submit :: "ExecutionRequest \<Rightarrow> ('w, unit) pyact"
  before_broker_cancel :: "int \<Rightarrow> ('w, unit) pyact"

type_synonym ('w, 'a) session_act = "('w session_state, 'a) pyact"

text \<open>A session object that was just constructed, on the world and the file that are there.\<close>

definition new_session :: "'w \<Rightarrow> journal_file \<Rightarrow> (broker_call \<times> journal_file) list \<Rightarrow> 'w session_state" where
  "new_session w f tr =
     \<lparr>world = w, disk = f, payload = None, machine = initial_snapshot, is_open = False,
      is_closed = False, owned = False, trace = tr\<rparr>"

definition record_call :: "broker_call \<Rightarrow> ('w, unit) session_act" where
  "record_call c = modifyM (\<lambda>s. s\<lparr>trace := (c, disk s) # trace s\<rparr>)"

definition on_mutex :: "('w mutex_state, 'a) pyact \<Rightarrow> ('w, 'a) session_act" where
  "on_mutex m =
     (\<lambda>s. case m \<lparr>mx_world = world s, mx_owned = owned s\<rparr> of
        (r, ms) \<Rightarrow> (r, s\<lparr>world := mx_world ms, owned := mx_owned ms\<rparr>))"


section \<open>Internal methods\<close>

definition require_open :: "('w, unit) session_act" where
  "require_open =
     bindM (getM (\<lambda>s. \<not> is_open s \<or> is_closed s \<or> \<not> owned s)) (\<lambda>b.
     raiseM_if b (Exn SessionClosedError
       ''execution session is not open or no longer owns its mutex''))"

definition transition_with ::
  "'w session_env \<Rightarrow> TradeEvent \<Rightarrow> pydict \<Rightarrow> SessionEvidence option \<Rightarrow> PrecheckEvidence option
    \<Rightarrow> ('w, unit) session_act" where
  "transition_with env event details se pe =
     bindM (getM machine) (\<lambda>m.
     bindM (liftR (advance m event se pe)) (\<lambda>t.
     bindM (modifyM (\<lambda>s. s\<lparr>machine := t\<rparr>)) (\<lambda>_.
     journal_transition env event t details)))"

definition transition :: "'w session_env \<Rightarrow> TradeEvent \<Rightarrow> pydict \<Rightarrow> ('w, unit) session_act" where
  "transition env event details = transition_with env event details None None"

definition reason_details :: "string \<Rightarrow> pydict" where
  "reason_details msg = [(''reason'', PyStr msg)]"

text \<open>\<open>snapshot(reason=\<dots>)\<close>: an empty or missing dictionary counts as absent.\<close>

definition dict_or_empty :: "pyval \<Rightarrow> pydict" where
  "dict_or_empty v = (case as_dict v of None \<Rightarrow> [] | Some d \<Rightarrow> d)"

definition get_int :: "pydict \<Rightarrow> string \<Rightarrow> int pyres" where
  "get_int d k = (case dget d k of None \<Rightarrow> Inr 0 | Some v \<Rightarrow> py_int v)"

definition snapshot_of :: "MachineSnapshot \<Rightarrow> pydict \<Rightarrow> string \<Rightarrow> ExecutionSnapshot pyres" where
  "snapshot_of m d reason =
     (let intent = dict_or_empty (pyget d ''intent'');
          observation = dict_or_empty (pyget d ''last_observation'');
          order_id = pyget d ''broker_order_id''
      in
      bindR (if intent \<noteq> [] then get_int intent ''qty'' else Inr 0) (\<lambda>ordered.
      bindR (if observation \<noteq> [] then get_int observation ''filled_qty'' else Inr 0) (\<lambda>filled.
      Inr \<lparr>es_state = state m,
           es_client_order_id = (if intent \<noteq> [] then pyget intent ''client_order_id'' else PyNone),
           es_broker_order_id = (if is_int order_id then Some (the_int order_id) else None),
           es_ordered_qty = ordered, es_filled_qty = filled,
           es_average_fill_price =
             (if observation \<noteq> [] then pyget observation ''average_fill_price'' else PyNone),
           es_reason = reason\<rparr>)))"

definition session_snapshot :: "string \<Rightarrow> ('w, ExecutionSnapshot) session_act" where
  "session_snapshot reason =
     bindM (getM payload) (\<lambda>p.
     bindM (if p = None then returnM [] else journal_data) (\<lambda>d.
     bindM (getM machine) (\<lambda>m.
     liftR (snapshot_of m d reason))))"

text \<open>\<open>_validate_identity\<close>, on the data of the journal.\<close>

definition validate_identity :: "pydict \<Rightarrow> BrokerOrder \<Rightarrow> unit pyres" where
  "validate_identity d ord =
     (case as_dict (pyget d ''intent'') of
        None \<Rightarrow> Inl (Exn RecoveryAmbiguous ''broker order exists without durable local intent'')
      | Some intent \<Rightarrow>
          (let oid = pyget d ''broker_order_id'' in
           bindR (raise_if (is_int oid \<and> bo_order_id ord \<noteq> the_int oid)
             (Exn RecoveryAmbiguous ''broker order id conflicts with durable broker_order_id'')) (\<lambda>_.
           bindR (raise_if
             (pyget intent ''symbol'' \<noteq> PyStr (bo_symbol ord)
              \<or> pyget intent ''side'' \<noteq> PyStr (Side_value (bo_side ord))
              \<or> \<not> py_eq_int (pyget intent ''qty'') (bo_qty ord))
             (Exn RecoveryAmbiguous ''broker order identity conflicts with durable intent'')) (\<lambda>_.
           bindR (raise_if
             (bo_order_remark ord \<noteq> [] \<and> pyget intent ''order_remark'' \<noteq> PyStr (bo_order_remark ord))
             (Exn RecoveryAmbiguous ''broker order remark conflicts with durable intent'')) (\<lambda>_.
           raise_if
             (bo_strategy_name ord \<noteq> [] \<and> pyget intent ''strategy_id'' \<noteq> PyStr (bo_strategy_name ord))
             (Exn RecoveryAmbiguous ''broker strategy_name conflicts with durable intent''))))))"

definition to_unknown :: "'w session_env \<Rightarrow> string \<Rightarrow> ('w, unit) session_act" where
  "to_unknown env reason =
     bindM (getM machine) (\<lambda>m.
     if state m = UNKNOWN then transition env QUERY_AMBIGUOUS (reason_details reason)
     else if declared (state m) QUERY_AMBIGUOUS then
       transition env QUERY_AMBIGUOUS (reason_details reason)
     else transition env FATAL (reason_details reason))"

definition observation_details :: "BrokerOrder \<Rightarrow> pydict" where
  "observation_details ord =
     [(''broker_order_id'', PyInt (bo_order_id ord)),
      (''broker_status'', PyStr (BrokerOrderStatus_value (bo_status ord))),
      (''filled_qty'', PyInt (bo_filled_qty ord))]"

definition apply_observation :: "'w session_env \<Rightarrow> BrokerOrder \<Rightarrow> ('w, ExecutionSnapshot) session_act" where
  "apply_observation env ord =
     bindM journal_data (\<lambda>d.
     bindM (liftR (validate_identity d ord)) (\<lambda>_.
     bindM (liftR (case as_dict (pyget d ''last_observation'') of
                     None \<Rightarrow> Inr False
                   | Some previous \<Rightarrow>
                       bindR (get_int previous ''filled_qty'') (\<lambda>n. Inr (bo_filled_qty ord < n))))
       (\<lambda>backwards.
     if backwards then
       bindM (transition env FATAL (reason_details ''broker filled quantity moved backwards'')) (\<lambda>_.
       session_snapshot ''broker filled quantity moved backwards'')
     else
       bindM (update_observation env
         [(''status'', PyStr (BrokerOrderStatus_value (bo_status ord))),
          (''filled_qty'', PyInt (bo_filled_qty ord)),
          (''average_fill_price'', bo_average_fill_price ord)]) (\<lambda>_.
       bindM (getM machine) (\<lambda>m.
       case event_for_observation (state m) (bo_status ord) of
         Inl e \<Rightarrow> bindM (to_unknown env (exn_msg e)) (\<lambda>_. session_snapshot (exn_msg e))
       | Inr None \<Rightarrow> session_snapshot ''''
       | Inr (Some event) \<Rightarrow>
           bindM (transition env event (observation_details ord)) (\<lambda>_. session_snapshot ''''))))))"

text \<open>The \<open>try\<close> block of \<open>_recover_unknown\<close>: the broker order of the durable intent.\<close>

definition locate_order :: "'w session_env \<Rightarrow> pydict \<Rightarrow> ('w, BrokerOrder) session_act" where
  "locate_order env d =
     (let order_id = pyget d ''broker_order_id'' in
      if pos_int order_id then on_world (query_order env (the_int order_id))
      else case as_dict (pyget d ''intent'') of
        None \<Rightarrow> raiseM (Exn RecoveryAmbiguous ''UNKNOWN has no durable intent'')
      | Some intent \<Rightarrow>
          bindM (on_world (query_orders env)) (\<lambda>orders.
          bindM (liftR (subscript intent ''symbol'')) (\<lambda>smb.
          bindM (liftR (bindR (subscript intent ''side'') (\<lambda>v. Side_of (PyStr (py_str (py_repr env) v))))) (\<lambda>sd.
          bindM (liftR (bindR (subscript intent ''qty'') py_int)) (\<lambda>q.
          bindM (liftR (subscript intent ''order_remark'')) (\<lambda>remark.
          bindM (liftR (find_unique_managed_order orders (py_str (py_repr env) smb) sd q
            (py_str (py_repr env) remark))) (\<lambda>ord.
          bindM (persist_broker_order_id env (PyInt (bo_order_id ord))) (\<lambda>_.
          returnM ord))))))))"

definition recovery_errors :: "exn_class list" where
  "recovery_errors = [BrokerQueryAmbiguous, RecoveryAmbiguous, KeyError, TypeError, ValueError]"

definition recover_unknown :: "'w session_env \<Rightarrow> ('w, ExecutionSnapshot) session_act" where
  "recover_unknown env =
     bindM journal_data (\<lambda>d.
     try_elseM (locate_order env d)
       (\<lambda>e. if list_ex (isinstance_exn e) recovery_errors then Some
            (bindM (transition env RECOVERY_FAILED (reason_details (exn_msg e))) (\<lambda>_.
             session_snapshot (exn_msg e)))
          else None)
       (apply_observation env))"


section \<open>Operations\<close>

text \<open>The verification of \<open>open\<close> and the check that the journal is bound to this build.\<close>

definition bind_build :: "'w session_env \<Rightarrow> ('w, unit) session_act" where
  "bind_build env =
     bindM (getM world) (\<lambda>w.
     bindM (liftR (verify_state_machine (sha256 env) (source_files env w) (package_dir env) None)) (\<lambda>rep.
     bindM journal_data (\<lambda>d.
     if pyget d ''formal_verification'' = PyNone then
       bind_verification env (rep_transition_spec_sha256 rep) (rep_execution_source_sha256 rep)
     else raiseM_if
       (\<not> verification_matches d (rep_transition_spec_sha256 rep) (rep_execution_source_sha256 rep))
       (Exn JournalIntegrityError
          ''journal is bound to a different execution state machine/source build''))))"

text \<open>\<open>text or default\<close> for a string that passed the validation.\<close>

definition str_or :: "pyval \<Rightarrow> string \<Rightarrow> string" where
  "str_or v deflt = (if truthy v then the_str v else deflt)"

text \<open>What \<open>open\<close> does with the state it finds in the journal.\<close>

definition resume :: "'w session_env \<Rightarrow> bool \<Rightarrow> SessionEvidence \<Rightarrow> ('w, unit) session_act" where
  "resume env existed evidence =
     bindM (getM machine) (\<lambda>m.
     if \<not> existed \<or> state m = IDLE then
       transition_with env SESSION_READY [(''source'', PyStr ''session_guard'')] (Some evidence) None
     else if state m \<in> {WAIT_TRIGGER, FILLED, CANCELLED, REJECTED, FAILED} then returnM ()
     else if state m \<in> {SUBMITTED, ACCEPTED, WORKING, PARTIALLY_FILLED, PENDING_CANCEL, CANCELLING,
                        CANCEL_REJECTED} then
       bindM (transition env RESTART_RECOVERY [(''source'', PyStr ''restart'')]) (\<lambda>_.
       bindM (recover_unknown env) (\<lambda>_. returnM ()))
     else if state m = UNKNOWN then bindM (recover_unknown env) (\<lambda>_. returnM ())
     else transition env FATAL (reason_details ''interrupted pre-submit state''))"

text \<open>\<open>open\<close>, with the verification step (\<open>verify_build\<close>) as an argument.\<close>

definition open_with ::
  "('w, unit) session_act \<Rightarrow> 'w session_env \<Rightarrow> ('w, ExecutionSnapshot) session_act" where
  "open_with verify_build env =
     bindM (getM is_closed) (\<lambda>c.
     bindM (raiseM_if c
       (Exn SessionClosedError ''session object was closed and cannot be reopened'')) (\<lambda>_.
     bindM (getM is_open) (\<lambda>opn.
     if opn then session_snapshot ''''
     else
       bindM (on_mutex (acquire (mutex env) (lock_fuel env))) (\<lambda>_.
       tryM
         (bindM (journal_open env) (\<lambda>loaded.
          bindM (modifyM (\<lambda>s. s\<lparr>machine := fst loaded\<rparr>)) (\<lambda>_.
          bindM verify_build (\<lambda>_.
          bindM (on_world (verify_session env)) (\<lambda>evidence.
          bindM (liftR (SessionEvidence_validate evidence)) (\<lambda>_.
          bindM (raiseM_if (\<not> truthy (se_ready evidence))
            (Exn RuntimeError (str_or (se_reason evidence) ''session verification failed''))) (\<lambda>_.
          bindM (resume env (snd loaded) evidence) (\<lambda>_.
          bindM (modifyM (\<lambda>s. s\<lparr>is_open := True\<rparr>)) (\<lambda>_.
          session_snapshot '''')))))))))
         (\<lambda>e. if isinstance_exn e PyException
              then Some (bindM (on_mutex (release (mutex env))) (\<lambda>_. raiseM e)) else None)))))"

definition session_open :: "'w session_env \<Rightarrow> ('w, ExecutionSnapshot) session_act" where
  "session_open env = open_with (bind_build env) env"

definition session_close :: "'w session_env \<Rightarrow> ('w, unit) session_act" where
  "session_close env =
     bindM (getM is_closed) (\<lambda>c.
     if c then returnM ()
     else
       bindM (on_mutex (release (mutex env))) (\<lambda>_.
       modifyM (\<lambda>s. s\<lparr>is_open := False, is_closed := True\<rparr>)))"

definition session_poll :: "'w session_env \<Rightarrow> ('w, ExecutionSnapshot) session_act" where
  "session_poll env =
     bindM require_open (\<lambda>_.
     bindM journal_data (\<lambda>d.
     let order_id = pyget d ''broker_order_id'' in
     if order_id = PyNone then
       bindM (getM machine) (\<lambda>m.
       if state m = UNKNOWN then recover_unknown env
       else raiseM (Exn RecoveryAmbiguous ''no durable broker order id for poll''))
     else
       bindM (raiseM_if (\<not> pos_int order_id)
         (Exn JournalIntegrityError ''invalid durable broker order id'')) (\<lambda>_.
       try_elseM (on_world (query_order env (the_int order_id)))
         (\<lambda>e. if isinstance_exn e BrokerQueryAmbiguous then Some
              (bindM (to_unknown env (exn_msg e)) (\<lambda>_. session_snapshot (exn_msg e)))
            else None)
         (apply_observation env))))"

definition pre_broker_details :: "string \<Rightarrow> string \<Rightarrow> pydict" where
  "pre_broker_details reason source =
     [(''reason'', PyStr reason), (''source'', PyStr source), (''broker_invoked'', PyBool False)]"

text \<open>\<open>submit\<close> from the call of the broker on.\<close>

definition submit_to_broker ::
  "'w session_env \<Rightarrow> ('w, ExecutionSnapshot) session_act \<Rightarrow> ExecutionRequest
    \<Rightarrow> ('w, ExecutionSnapshot) session_act" where
  "submit_to_broker env self_poll request =
     try_elseM (bindM (record_call (PlaceOrder request)) (\<lambda>_. on_world (place_order env request)))
       (\<lambda>e.
          if isinstance_exn e BrokerSubmissionRejected then Some
            (bindM (transition env SUBMIT_REJECTED (reason_details (exn_msg e))) (\<lambda>_.
             session_snapshot (exn_msg e)))
          else if isinstance_exn e BrokerError then Some
            (bindM (transition env SUBMIT_AMBIGUOUS (reason_details (exn_msg e))) (\<lambda>_.
             session_snapshot (exn_msg e)))
          else None)
       (\<lambda>order_id.
          bindM (persist_broker_order_id env order_id) (\<lambda>_.
          bindM (transition env SUBMIT_ACCEPTED [(''broker_order_id'', order_id)]) (\<lambda>_.
          self_poll)))"

text \<open>\<open>submit\<close> from the durable intent on: coordination, then the project's hook, then the broker.\<close>

definition submit_intent ::
  "'w session_env \<Rightarrow> ('w, ExecutionSnapshot) session_act \<Rightarrow> ExecutionRequest
    \<Rightarrow> ('w, ExecutionSnapshot) session_act" where
  "submit_intent env self_poll request =
     bindM (persist_intent env request) (\<lambda>_.
     bindM (transition env INTENT_PERSISTED
       [(''client_order_id'', PyStr (client_order_id request))]) (\<lambda>_.
     try_elseM (on_world (before_submit_coordination env request))
       (\<lambda>e.
          if isinstance_exn e BrokerSubmissionRejected then Some
            (bindM (transition env PRE_BROKER_REJECTED
               (pre_broker_details (exn_msg e) ''before_submit_coordination'')) (\<lambda>_.
             session_snapshot (exn_msg e)))
          else if isinstance_exn e PyException then Some
            (bindM (transition env PRE_BROKER_ABORTED
               (pre_broker_details (exn_msg e) ''before_submit_coordination'')) (\<lambda>_.
             raiseM e))
          else None)
       (\<lambda>_.
     try_elseM (on_world (before_broker_submit env request))
       (\<lambda>e.
          if isinstance_exn e PyException then Some
            (bindM (transition env PRE_BROKER_ABORTED
               (pre_broker_details (exn_msg e) ''before_broker_submit'')) (\<lambda>_.
             raiseM e))
          else None)
       (\<lambda>_. submit_to_broker env self_poll request))))"

definition session_submit ::
  "'w session_env \<Rightarrow> ('w, ExecutionSnapshot) session_act \<Rightarrow> ExecutionRequest
    \<Rightarrow> ('w, ExecutionSnapshot) session_act" where
  "session_submit env self_poll request =
     bindM require_open (\<lambda>_.
     bindM (getM machine) (\<lambda>m.
     bindM (raiseM_if (state m \<noteq> WAIT_TRIGGER)
       (Exn RuntimeError (''cannot submit from '' @ TradeState_value (state m)))) (\<lambda>_.
     bindM (on_world (execution_healthy env)) (\<lambda>healthy.
     bindM (raiseM_if (\<not> healthy)
       (Exn BrokerSubmissionRejected
          ''broker execution health is degraded; no intent was persisted'')) (\<lambda>_.
     bindM (assert_identity_unused request) (\<lambda>_.
     bindM (transition env TRIGGERED []) (\<lambda>_.
     bindM (transition env BEGIN_PRECHECK []) (\<lambda>_.
     bindM (on_world (verify_request env request)) (\<lambda>evidence.
     bindM (liftR (PrecheckEvidence_validate evidence)) (\<lambda>_.
     if \<not> truthy (pe_allowed evidence) then
       bindM (transition env PRECHECK_REJECTED
         (reason_details (str_or (pe_reason evidence) ''precheck rejected''))) (\<lambda>_.
       session_snapshot (the_str (pe_reason evidence)))
     else
       bindM (transition_with env PRECHECK_VERIFIED [(''source'', PyStr ''execution_guard'')]
         None (Some evidence)) (\<lambda>_.
       submit_intent env self_poll request)))))))))))"

definition session_reconcile ::
  "'w session_env \<Rightarrow> ('w, ExecutionSnapshot) session_act \<Rightarrow> ('w, ExecutionSnapshot) session_act" where
  "session_reconcile env self_poll =
     bindM require_open (\<lambda>_.
     bindM (getM machine) (\<lambda>m.
     if state m = UNKNOWN then recover_unknown env
     else if state m \<in> {ACCEPTED, WORKING, PARTIALLY_FILLED, PENDING_CANCEL, CANCELLING,
                        CANCEL_REJECTED} then self_poll
     else session_snapshot ''''))"

definition session_cancel ::
  "'w session_env \<Rightarrow> ('w, ExecutionSnapshot) session_act \<Rightarrow> ('w, ExecutionSnapshot) session_act" where
  "session_cancel env self_poll =
     bindM require_open (\<lambda>_.
     bindM (getM machine) (\<lambda>m.
     bindM (raiseM_if (state m \<notin> {ACCEPTED, WORKING, PARTIALLY_FILLED})
       (Exn RuntimeError (''cannot cancel from '' @ TradeState_value (state m)))) (\<lambda>_.
     bindM journal_data (\<lambda>d.
     let order_id = pyget d ''broker_order_id'' in
     bindM (raiseM_if (\<not> pos_int order_id)
       (Exn RecoveryAmbiguous ''cancel requires a durable broker order id'')) (\<lambda>_.
     bindM (persist_cancel_intent env) (\<lambda>_.
     bindM (transition env CANCEL_REQUESTED []) (\<lambda>_.
     bindM (on_world (before_broker_cancel env (the_int order_id))) (\<lambda>_.
     bindM (tryM
         (bindM (record_call (CancelOrder (the_int order_id))) (\<lambda>_.
          on_world (cancel_order env (the_int order_id))))
         (\<lambda>e. if isinstance_exn e BrokerError then Some (returnM CR_REJECTED) else None)) (\<lambda>result.
     bindM (if result = CR_ACCEPTED then transition env CANCEL_SENT []
            else transition env CANCEL_REQUEST_REJECTED []) (\<lambda>_.
     self_poll))))))))))"

definition session_next_cycle :: "'w session_env \<Rightarrow> ('w, ExecutionSnapshot) session_act" where
  "session_next_cycle env =
     bindM require_open (\<lambda>_.
     bindM (getM machine) (\<lambda>m.
     bindM (raiseM_if (\<not> declared (state m) NEXT_CYCLE)
       (Exn RuntimeError (''cannot start next cycle from '' @ TradeState_value (state m)))) (\<lambda>_.
     bindM (transition env NEXT_CYCLE []) (\<lambda>_.
     bindM (clear_cycle_data env) (\<lambda>_.
     session_snapshot '''')))))"



section \<open>The invariant of a session\<close>

text \<open>The requests that were passed to the broker.\<close>

definition placed :: "(broker_call \<times> journal_file) list \<Rightarrow> ExecutionRequest list" where
  "placed tr = List.map_filter (\<lambda>(c, f). case c of PlaceOrder r \<Rightarrow> Some r | _ \<Rightarrow> None) tr"

definition placed_ids :: "(broker_call \<times> journal_file) list \<Rightarrow> string list" where
  "placed_ids tr = map client_order_id (placed tr)"

definition placed_remarks :: "(broker_call \<times> journal_file) list \<Rightarrow> string list" where
  "placed_remarks tr = map order_remark (placed tr)"

text \<open>
  What the journal file holds when the broker is called: the intent of the order, or of the
  cancellation, and the machine in the state that belongs to it.
\<close>

definition holds_state :: "TradeState \<Rightarrow> pydict \<Rightarrow> bool" where
  "holds_state st p \<longleftrightarrow> (\<exists>snap. pyget p ''machine'' = snapshot_payload snap \<and> state snap = st)"

definition stores_cancel :: "int \<Rightarrow> pydict \<Rightarrow> bool" where
  "stores_cancel i p \<longleftrightarrow>
     (\<exists>d. as_dict (pyget p ''data'') = Some d \<and> pyget d ''broker_order_id'' = PyInt i
        \<and> pyget d ''cancel_intent'' \<noteq> PyNone)"

definition call_durable :: "broker_call \<Rightarrow> pydict \<Rightarrow> bool" where
  "call_durable c p =
     (case c of
        PlaceOrder r \<Rightarrow> stores_intent r p \<and> holds_state SUBMITTED p
      | CancelOrder i \<Rightarrow> stores_cancel i p \<and> holds_state PENDING_CANCEL p)"

definition trace_ok :: "nat \<Rightarrow> (broker_call \<times> journal_file) list \<Rightarrow> bool" where
  "trace_ok k tr \<longleftrightarrow>
     (int k \<le> USED_WINDOW \<longrightarrow> distinct (placed_ids tr) \<and> distinct (placed_remarks tr))
     \<and> (\<forall>(c, f) \<in> set tr. \<exists>p. f = FileJson (PyDict p) \<and> call_durable c p)"

definition session_inv :: "string \<Rightarrow> nat \<Rightarrow> 'w session_state \<Rightarrow> bool" where
  "session_inv eid k s \<longleftrightarrow>
     both eid (journal_ok eid (set (placed_ids (trace s))) (set (placed_remarks (trace s))) k) s
     \<and> reachable (machine s) \<and> trace_ok k (trace s)"

lemma jstep_session:
  assumes "jstep s s'"
  shows "machine s' = machine s" "trace s' = trace s" "is_open s' = is_open s"
    "is_closed s' = is_closed s" "owned s' = owned s"
  using assms by (cases s; cases s'; simp add: jstep_more)+

lemma both_upd [simp]:
  "both eid \<phi> (s\<lparr>machine := m\<rparr>) = both eid \<phi> s" "both eid \<phi> (s\<lparr>is_open := b\<rparr>) = both eid \<phi> s"
  "both eid \<phi> (s\<lparr>is_closed := b\<rparr>) = both eid \<phi> s" "both eid \<phi> (s\<lparr>trace := tr\<rparr>) = both eid \<phi> s"
  "both eid \<phi> (s\<lparr>owned := b\<rparr>) = both eid \<phi> s" "both eid \<phi> (s\<lparr>world := w\<rparr>) = both eid \<phi> s"
  by (simp_all add: both_def)

definition inv_step :: "string \<Rightarrow> nat \<Rightarrow> 'w session_state \<Rightarrow> 'w session_state \<Rightarrow> bool" where
  "inv_step eid k s s' \<longleftrightarrow> (session_inv eid k s \<longrightarrow> session_inv eid k s')"

interpretation si: step_preorder "inv_step eid k" for eid k
  by unfold_locales (auto simp: inv_step_def)

lemma inv_journal_op:
  assumes "keeps jstep m"
    and "\<And>A B. triple (both eid (journal_ok eid A B k)) m (\<lambda>_. both eid (journal_ok eid A B k))
                  (both eid (journal_ok eid A B k))"
  shows "keeps (inv_step eid k) m"
  unfolding keeps_def inv_step_def
proof (intro allI impI)
  fix s r s'
  assume m: "m s = (r, s')" and i: "session_inv eid k s"
  note j = jstep_session [OF keepsD [OF assms(1) m]]
  show "session_inv eid k s'"
    using i triple_state [OF assms(2) _ m] unfolding session_inv_def j by blast
qed

lemma inv_on_world: "keeps (inv_step eid k) (on_world m)"
  by (rule inv_journal_op [OF keeps_on_world jinv.both_on_world])

lemma inv_journal_data: "keeps (inv_step eid k) journal_data"
  by (rule inv_journal_op [OF keeps_journal_data triple_conseq [OF jinv.both_data]]) auto

lemma inv_journal_operations:
  "keeps (inv_step eid k) (persist_broker_order_id env oid)"
  "keeps (inv_step eid k) (persist_cancel_intent env)"
  "keeps (inv_step eid k) (update_observation env updates)"
  "keeps (inv_step eid k) (bind_verification env a b)"
  "keeps (inv_step eid k) (clear_cycle_data env)"
  by (intro inv_journal_op keeps_journal_operations jinv.both_persist_broker_order_id
      jinv.both_persist_cancel_intent jinv.both_update_observation jinv.both_bind_verification
      jinv.both_clear_cycle_data)+

lemma inv_assert_identity_unused: "keeps (inv_step eid k) (assert_identity_unused r)"
  unfolding assert_identity_unused_def
  by (intro si.keeps_bindM si.keeps_liftR inv_journal_data)

lemma inv_modify:
  "(\<And>s. trace (f s) = trace s) \<Longrightarrow> (\<And>s. payload (f s) = payload s) \<Longrightarrow> (\<And>s. disk (f s) = disk s)
    \<Longrightarrow> (\<And>s. machine (f s) = machine s) \<Longrightarrow> keeps (inv_step eid k) (modifyM f)"
  by (rule keeps_modifyM) (simp add: inv_step_def session_inv_def both_def)

lemma inv_on_mutex: "keeps (inv_step eid k) (on_mutex m)"
  by (auto simp: keeps_def on_mutex_def inv_step_def session_inv_def split: prod.splits)

lemma inv_set_machine:
  "reachable t \<Longrightarrow> keeps (inv_step eid k) (modifyM (\<lambda>s. s\<lparr>machine := t\<rparr>))"
  by (rule keeps_modifyM) (simp add: inv_step_def session_inv_def)

lemma inv_transition_with: "keeps (inv_step eid k) (transition_with env event details se pe)"
proof -
  have j: "reachable t \<Longrightarrow> keeps (inv_step eid k) (journal_transition env event t details)" for t
    by (rule inv_journal_op [OF keeps_journal_transition jinv.both_transition])
  have "inv_step eid k s s'" if "transition_with env event details se pe s = (r, s')" for s r s'
  proof (cases "session_inv eid k s \<and> isOk (advance (machine s) event se pe)")
    case True
    then obtain t where t: "advance (machine s) event se pe = Inr t" by (auto simp: isOk_iff)
    then have r: "reachable t" using True by (auto simp: session_inv_def intro: reachable.step)
    have "bindM (modifyM (\<lambda>s. s\<lparr>machine := t\<rparr>)) (\<lambda>_. journal_transition env event t details) s = (r, s')"
      using that t by (simp add: transition_with_def bindM_def getM_def liftR_def)
    then show ?thesis by (rule keepsD [OF si.keeps_bindM [OF inv_set_machine [OF r] j [OF r]]])
  next
    case False
    then show ?thesis using that
      by (auto simp: inv_step_def transition_with_def bindM_def getM_def liftR_def split: sum.splits)
  qed
  then show ?thesis by (simp add: keeps_def)
qed

lemma inv_transition: "keeps (inv_step eid k) (transition env event details)"
  unfolding transition_def by (rule inv_transition_with)



lemmas inv_basic =
  si.keeps_bindM si.keeps_getM si.keeps_liftR si.keeps_raiseM si.keeps_raiseM_if si.keeps_returnM
  si.keeps_if inv_on_world inv_journal_data inv_journal_operations inv_transition inv_transition_with
  inv_assert_identity_unused inv_on_mutex

lemma inv_snapshot: "keeps (inv_step eid k) (session_snapshot reason)"
  unfolding session_snapshot_def by (intro inv_basic)

lemma inv_require_open: "keeps (inv_step eid k) require_open"
  unfolding require_open_def by (intro inv_basic)

lemma inv_to_unknown: "keeps (inv_step eid k) (to_unknown env reason)"
  unfolding to_unknown_def by (intro inv_basic)

lemma inv_apply_observation: "keeps (inv_step eid k) (apply_observation env ord)"
  unfolding apply_observation_def
  by (intro si.keeps_bindM si.keeps_if si.keeps_liftR si.keeps_getM inv_journal_data inv_transition
      inv_snapshot inv_journal_operations)
    (auto intro!: si.keeps_bindM inv_snapshot inv_to_unknown inv_transition split: sum.split option.split)

lemma inv_locate_order: "keeps (inv_step eid k) (locate_order env d)"
  unfolding locate_order_def Let_def
  by (rule si.keeps_if, rule inv_on_world)
    (auto intro!: inv_basic split: option.split)

lemma inv_recover_unknown: "keeps (inv_step eid k) (recover_unknown env)"
  unfolding recover_unknown_def
  by (intro si.keeps_bindM inv_journal_data si.keeps_try_elseM inv_locate_order inv_apply_observation)
    (auto intro!: si.keeps_bindM inv_transition inv_snapshot split: if_splits)

lemma inv_poll: "keeps (inv_step eid k) (session_poll env)"
  unfolding session_poll_def Let_def
  by (intro si.keeps_bindM inv_require_open inv_journal_data si.keeps_if si.keeps_getM si.keeps_raiseM
      si.keeps_raiseM_if inv_recover_unknown si.keeps_try_elseM inv_on_world inv_apply_observation)
    (auto intro!: si.keeps_bindM inv_to_unknown inv_snapshot split: if_splits)

lemma inv_next_cycle: "keeps (inv_step eid k) (session_next_cycle env)"
  unfolding session_next_cycle_def by (intro inv_basic inv_require_open inv_snapshot)

lemma inv_reconcile:
  "keeps (inv_step eid k) self_poll \<Longrightarrow> keeps (inv_step eid k) (session_reconcile env self_poll)"
  unfolding session_reconcile_def
  by (intro si.keeps_bindM inv_require_open si.keeps_getM si.keeps_if inv_recover_unknown inv_snapshot)

lemma inv_close: "keeps (inv_step eid k) (session_close env)"
  unfolding session_close_def by (intro inv_basic inv_modify) simp_all

lemma inv_bind_build: "keeps (inv_step eid k) (bind_build env)"
  unfolding bind_build_def by (intro inv_basic)

lemma inv_resume: "keeps (inv_step eid k) (resume env existed evidence)"
  unfolding resume_def by (intro inv_basic inv_recover_unknown)

lemma inv_load:
  assumes "execution_id env = eid" and "\<And>l. keeps (inv_step eid k) (f l)"
  shows "keeps (inv_step eid k)
    (bindM (journal_open env) (\<lambda>l. bindM (modifyM (\<lambda>s. s\<lparr>machine := fst l\<rparr>)) (\<lambda>_. f l)))"
  unfolding keeps_def inv_step_def
proof (intro allI impI)
  fix s s' :: "'a session_state" and r
  assume run: "bindM (journal_open env) (\<lambda>l. bindM (modifyM (\<lambda>s. s\<lparr>machine := fst l\<rparr>)) (\<lambda>_. f l)) s
      = (r, s')"
    and i: "session_inv eid k s"
  let ?B = "both eid (journal_ok eid (set (placed_ids (trace s))) (set (placed_remarks (trace s))) k)"
  have B: "?B s" using i by (simp add: session_inv_def)
  note tr = journal_open_inv [OF assms(1), of "set (placed_ids (trace s))"
      "set (placed_remarks (trace s))" k]
  obtain q t where o: "journal_open env s = (q, t)" by fastforce
  note j = jstep_session [OF keepsD [OF keeps_journal_open o]]
  show "session_inv eid k s'"
  proof (cases q)
    case (Inl e)
    then have "s' = t" using run o by (simp add: bindM_def)
    then show ?thesis using i j tripleD_Inl [OF tr B] o Inl by (simp add: session_inv_def)
  next
    case (Inr l)
    then have "f l (t\<lparr>machine := fst l\<rparr>) = (r, s')" using run o by (simp add: bindM_def modifyM_def)
    moreover have "?B t \<and> holds_snapshot (fst l) t" using tripleD_Inr [OF tr B] o Inr by blast
    then have "session_inv eid k (t\<lparr>machine := fst l\<rparr>)"
      using i j by (simp add: session_inv_def holds_snapshot_def)
    ultimately show ?thesis using keepsD [OF assms(2)] unfolding inv_step_def by blast
  qed
qed

lemma inv_open:
  assumes "execution_id env = eid"
  shows "keeps (inv_step eid k) (session_open env)"
  unfolding session_open_def open_with_def
  by (intro si.keeps_bindM si.keeps_getM si.keeps_raiseM_if si.keeps_if inv_snapshot inv_on_mutex
      si.keeps_tryM inv_load assms inv_bind_build inv_on_world si.keeps_liftR inv_resume inv_modify)
    (auto intro: si.keeps_bindM inv_on_mutex si.keeps_raiseM split: if_splits)


section \<open>Calls of the broker\<close>

text \<open>
  Between the durable intent and the call of the broker: the identity of the request is
  recorded, it was never sent, and memory and file hold the intent.
\<close>

definition intent_inv :: "string \<Rightarrow> nat \<Rightarrow> ExecutionRequest \<Rightarrow> (pydict \<Rightarrow> bool) \<Rightarrow> 'w session_state \<Rightarrow> bool" where
  "intent_inv eid k r \<phi> s \<longleftrightarrow>
     session_inv eid k s
     \<and> both eid (journal_ok eid (insert (client_order_id r) (set (placed_ids (trace s))))
                  (insert (order_remark r) (set (placed_remarks (trace s)))) k) s
     \<and> (int k \<le> USED_WINDOW \<longrightarrow> client_order_id r \<notin> set (placed_ids (trace s))
           \<and> order_remark r \<notin> set (placed_remarks (trace s)))
     \<and> synced s \<and> (\<forall>p. payload s = Some p \<longrightarrow> \<phi> p)"

lemma intent_inv_on_world:
  "triple (intent_inv eid k r \<phi>) (on_world m) (\<lambda>_. intent_inv eid k r \<phi>) (intent_inv eid k r \<phi>)"
proof (rule triple_keeps, unfold keeps_def, intro allI impI)
  fix s s' :: "'a session_state" and q
  assume o: "on_world m s = (q, s')" and i: "intent_inv eid k r \<phi> s"
  have "disk s' = disk s" "payload s' = payload s" "jstep s s'" using on_world_eq [OF o] by auto
  with jstep_session [OF this(3)] i show "intent_inv eid k r \<phi> s'"
    by (simp add: intent_inv_def session_inv_def both_def synced_def)
qed

lemma session_inv_Suc: "session_inv eid k s \<Longrightarrow> session_inv eid (Suc k) s"
  by (auto simp: session_inv_def both_Suc trace_ok_def)

lemma persist_intent_session:
  "triple (session_inv eid k) (persist_intent env r)
    (\<lambda>_. intent_inv eid (Suc k) r (stores_intent r)) (session_inv eid (Suc k))"
proof (rule tripleI)
  fix s s' :: "'a session_state" and x
  assume i: "session_inv eid k s" and p: "persist_intent env r s = (Inr x, s')"
  note j = jstep_session [OF keepsD [OF keeps_journal_operations(2) p]]
  note q = persist_intent_Inr [OF p [simplified],
      of eid "set (placed_ids (trace s))" "set (placed_remarks (trace s))" k]
  have inv: "both eid (journal_ok eid (set (placed_ids (trace s))) (set (placed_remarks (trace s))) k) s"
    "trace_ok (Suc k) (trace s)" "reachable (machine s)"
    using i session_inv_Suc [OF i] by (simp_all add: session_inv_def)
  moreover have "both eid (journal_ok eid (set (placed_ids (trace s))) (set (placed_remarks (trace s))) (Suc k)) s'"
    using inv(1) tripleD_Inr [OF persist_intent_Inl _ p] by simp
  ultimately show "intent_inv eid (Suc k) r (stores_intent r) s'"
    using q [OF inv(1)] by (simp add: intent_inv_def session_inv_def j)
next
  fix s s' :: "'a session_state" and e
  assume i: "session_inv eid k s" and p: "persist_intent env r s = (Inl e, s')"
  note j = jstep_session [OF keepsD [OF keeps_journal_operations(2) p]]
  show "session_inv eid (Suc k) s'"
    using session_inv_Suc [OF i] i tripleD_Inl [OF persist_intent_Inl _ p] by (simp add: session_inv_def j)
qed


lemma pyget_transition_payload [simp]:
  "pyget (transition_payload p h n t ev snap details) ''data'' = pyget p ''data''"
  "pyget (transition_payload p h n t ev snap details) ''machine'' = snapshot_payload snap"
  by (simp_all add: transition_payload_def)

text \<open>A transition that returns leaves memory and file with the new state and the old data.\<close>

lemma transition_Inr:
  assumes "transition env event details s = (Inr x, s')" and "payload s = Some p"
  obtains t h n c where "advance (machine s) event None None = Inr t" "machine s' = t"
    "payload s' = Some (transition_payload p h n c event t details)" "synced s'" "trace s' = trace s"
proof -
  from assms(1) obtain t where t: "advance (machine s) event None None = Inr t"
    and j: "journal_transition env event t details (s\<lparr>machine := t\<rparr>) = (Inr (), s')"
    by (auto simp: transition_def transition_with_def bindM_def getM_def liftR_def modifyM_def
        split: sum.splits)
  have "machine s' = t" "trace s' = trace s"
    using jstep_session [OF keepsD [OF keeps_journal_transition j]] by simp_all
  moreover obtain h n c where "payload s' = Some (transition_payload p h n c event t details)" "synced s'"
    using journal_transition_Inr [OF j] assms(2) by auto
  ultimately show thesis using that t by blast
qed

lemma transition_Inl_inv: "transition env event details s = (r, s') \<Longrightarrow> session_inv eid k s \<Longrightarrow> session_inv eid k s'"
  by (drule keepsD [OF inv_transition [of eid k]]) (simp add: inv_step_def)

lemma journal_ok_transition_payload:
  "journal_ok eid A B k p \<Longrightarrow> reachable t \<Longrightarrow> journal_ok eid A B k (transition_payload p h n c ev t details)"
  by (rule jinv.trans)

lemma intent_inv_transition:
  "triple (intent_inv eid k r (stores_intent r)) (transition env INTENT_PERSISTED details)
     (\<lambda>_. intent_inv eid k r (\<lambda>p. stores_intent r p \<and> holds_state SUBMITTED p)) (session_inv eid k)"
proof (rule tripleI)
  fix s s' :: "'a session_state" and x
  assume i: "intent_inv eid k r (stores_intent r) s"
    and t: "transition env INTENT_PERSISTED details s = (Inr x, s')"
  then obtain p where p: "payload s = Some p" by (auto simp: intent_inv_def synced_def)
  from t p obtain t h n c where a: "advance (machine s) INTENT_PERSISTED None None = Inr t"
    and s': "payload s' = Some (transition_payload p h n c INTENT_PERSISTED t details)" "synced s'"
      "trace s' = trace s"
    by (rule transition_Inr)
  have inv: "session_inv eid k s'" using transition_Inl_inv [OF t] i by (simp add: intent_inv_def)
  have "reachable t" using i a by (auto simp: intent_inv_def session_inv_def intro: reachable.step)
  moreover have "stores_intent r p" using i p by (simp add: intent_inv_def)
  moreover have "state t = SUBMITTED" using advance_INTENT_PERSISTED(2) [OF a] .
  ultimately show "intent_inv eid k r (\<lambda>p. stores_intent r p \<and> holds_state SUBMITTED p) s'"
    using i inv s' p
    by (auto simp: intent_inv_def both_def synced_def stores_intent_def holds_state_def
        intro: journal_ok_transition_payload)
next
  fix s s' :: "'a session_state" and e
  assume "intent_inv eid k r (stores_intent r) s"
    and "transition env INTENT_PERSISTED details s = (Inl e, s')"
  then show "session_inv eid k s'" using transition_Inl_inv by (auto simp: intent_inv_def)
qed

lemma placed_Cons [simp]:
  "placed ((PlaceOrder r, f) # tr) = r # placed tr"
  "placed ((CancelOrder i, f) # tr) = placed tr"
  by (simp_all add: placed_def)

lemma inv_record_place:
  "triple (intent_inv eid k r (\<lambda>p. stores_intent r p \<and> holds_state SUBMITTED p))
     (record_call (PlaceOrder r)) (\<lambda>_. session_inv eid k) E"
  unfolding record_call_def
  by (rule triple_modifyM)
    (auto simp: intent_inv_def session_inv_def trace_ok_def placed_ids_def placed_remarks_def
      call_durable_def synced_def)

lemma triple_inv: "keeps (inv_step eid k) m \<Longrightarrow> triple (session_inv eid k) m (\<lambda>_. session_inv eid k) (session_inv eid k)"
  by (rule triple_keeps) (simp add: inv_step_def [abs_def])

lemma submit_to_broker_inv:
  assumes "keeps (inv_step eid k) self_poll"
  shows "triple (intent_inv eid k r (\<lambda>p. stores_intent r p \<and> holds_state SUBMITTED p))
    (submit_to_broker env self_poll r) (\<lambda>_. session_inv eid k) (session_inv eid k)"
  unfolding submit_to_broker_def
  by (rule triple_try_elseM [OF triple_bindM [OF inv_record_place triple_inv [OF inv_on_world]]])
    (auto intro!: triple_inv si.keeps_bindM inv_transition inv_snapshot inv_journal_operations assms
      split: if_splits)

lemma submit_intent_inv:
  assumes "keeps (inv_step eid (Suc k)) self_poll"
  shows "triple (session_inv eid k) (submit_intent env self_poll r)
    (\<lambda>_. session_inv eid (Suc k)) (session_inv eid (Suc k))"
proof -
  let ?I = "intent_inv eid (Suc k) r (\<lambda>p. stores_intent r p \<and> holds_state SUBMITTED p)"
  let ?S = "session_inv eid (Suc k)"
  have S: "?I s \<Longrightarrow> ?S s" for s :: "'a session_state" by (simp add: intent_inv_def)
  have hook: "triple ?I (on_world m) (\<lambda>_. ?I) ?S" for m :: "('a, unit) pyact"
    by (rule triple_conseq [OF intent_inv_on_world]) (auto intro: S)
  have h: "keeps (inv_step eid (Suc k)) m \<Longrightarrow> triple ?S m (\<lambda>_. ?S) ?S"
    for m :: "('a, ExecutionSnapshot) session_act" by (rule triple_inv)
  show ?thesis unfolding submit_intent_def
    by (rule triple_bindM [OF persist_intent_session],
        rule triple_bindM [OF intent_inv_transition],
        rule triple_try_elseM [OF hook _ _ triple_try_elseM [OF hook _ _ submit_to_broker_inv]])
      (auto intro!: h si.keeps_bindM inv_transition inv_snapshot si.keeps_raiseM assms split: if_splits)
qed

lemma submit_inv:
  assumes "keeps (inv_step eid (Suc k)) self_poll"
  shows "triple (session_inv eid k) (session_submit env self_poll r)
    (\<lambda>_. session_inv eid (Suc k)) (session_inv eid (Suc k))"
proof -
  let ?S = "session_inv eid k" and ?T = "session_inv eid (Suc k)"
  have up: "keeps (inv_step eid k) m \<Longrightarrow> triple ?S m (\<lambda>_. ?S) ?T" for m :: "('a, 'b) session_act"
    by (rule triple_conseq [OF triple_inv [of eid k]]) (auto intro: session_inv_Suc)
  have upS: "keeps (inv_step eid k) m \<Longrightarrow> triple ?S m (\<lambda>_. ?T) ?T" for m :: "('a, 'b) session_act"
    by (rule triple_conseq [OF triple_inv [of eid k]]) (auto intro: session_inv_Suc)
  show ?thesis unfolding session_submit_def
    by (intro triple_bindM [OF up] triple_if upS si.keeps_bindM si.keeps_getM si.keeps_raiseM_if
        si.keeps_liftR inv_require_open inv_on_world inv_assert_identity_unused inv_transition
        inv_transition_with inv_snapshot submit_intent_inv assms)
qed


text \<open>The same for a cancellation: the intent to cancel is in the file before the broker is called.\<close>

definition cancel_inv :: "string \<Rightarrow> nat \<Rightarrow> (pydict \<Rightarrow> bool) \<Rightarrow> 'w session_state \<Rightarrow> bool" where
  "cancel_inv eid k \<phi> s \<longleftrightarrow>
     session_inv eid k s \<and> synced s \<and> (\<forall>p. payload s = Some p \<longrightarrow> \<phi> p)"

lemma cancel_inv_keep:
  "on_world m s = (q, s') \<Longrightarrow> cancel_inv eid k \<phi> s \<Longrightarrow> cancel_inv eid k \<phi> s'"
  by (drule on_world_eq) (auto simp: cancel_inv_def session_inv_def both_def synced_def jstep_session)

lemma cancel_inv_on_world:
  "triple (cancel_inv eid k \<phi>) (on_world m) (\<lambda>_. cancel_inv eid k \<phi>) (session_inv eid k)"
proof (rule tripleI)
  fix s s' :: "'a session_state" and e
  assume "cancel_inv eid k \<phi> s" and "on_world m s = (Inl e, s')"
  then have "cancel_inv eid k \<phi> s'" by (blast intro: cancel_inv_keep)
  then show "session_inv eid k s'" by (simp add: cancel_inv_def)
qed (blast intro: cancel_inv_keep)

lemma persist_cancel_intent_session:
  "triple (\<lambda>s. session_inv eid k s \<and> (\<exists>p d. payload s = Some p \<and> as_dict (pyget p ''data'') = Some d
       \<and> pyget d ''broker_order_id'' = PyInt i))
     (persist_cancel_intent env) (\<lambda>_. cancel_inv eid k (stores_cancel i)) (session_inv eid k)"
proof (rule tripleI)
  fix s s' :: "'a session_state" and x
  assume i: "session_inv eid k s \<and> (\<exists>p d. payload s = Some p \<and> as_dict (pyget p ''data'') = Some d
       \<and> pyget d ''broker_order_id'' = PyInt i)"
    and r: "persist_cancel_intent env s = (Inr x, s')"
  from i obtain p d where p: "payload s = Some p" "as_dict (pyget p ''data'') = Some d"
    "pyget d ''broker_order_id'' = PyInt i" by blast
  from r p(1,2) obtain c w where
    "write_data env (dset ''cancel_intent'' (PyDict [(''persisted'', PyBool True), (''at'', PyStr c)]) d)
       (s\<lparr>world := w\<rparr>) = (Inr (), s')"
    by (auto simp: persist_cancel_intent_def journal_data_def require_payload_def bindM_def getM_def
        returnM_def on_world_def split: prod.splits sum.splits)
  from write_data_Inr [OF this] p(1) obtain u where
    "payload s' = Some (dset ''updated_at'' (PyStr u) (dset ''data'' (PyDict
       (dset ''cancel_intent'' (PyDict [(''persisted'', PyBool True), (''at'', PyStr c)]) d)) p))"
    "synced s'" by auto
  moreover have "session_inv eid k s'"
    using keepsD [OF inv_journal_operations(2) [of eid k] r] i by (simp add: inv_step_def)
  ultimately show "cancel_inv eid k (stores_cancel i) s'"
    using p(3) by (simp add: cancel_inv_def stores_cancel_def)
next
  fix s s' :: "'a session_state" and e
  assume "session_inv eid k s \<and> (\<exists>p d. payload s = Some p \<and> as_dict (pyget p ''data'') = Some d
       \<and> pyget d ''broker_order_id'' = PyInt i)"
    and "persist_cancel_intent env s = (Inl e, s')"
  then show "session_inv eid k s'"
    using keepsD [OF inv_journal_operations(2) [of eid k]] by (auto simp: inv_step_def)
qed

lemma advance_CANCEL_REQUESTED: "advance s CANCEL_REQUESTED se pe = Inr t \<Longrightarrow> state t = PENDING_CANCEL"
  by (cases "state s") (simp_all add: advance_Inr)

lemma cancel_inv_transition:
  "triple (cancel_inv eid k (stores_cancel i)) (transition env CANCEL_REQUESTED details)
     (\<lambda>_. cancel_inv eid k (\<lambda>p. stores_cancel i p \<and> holds_state PENDING_CANCEL p)) (session_inv eid k)"
proof (rule tripleI)
  fix s s' :: "'a session_state" and x
  assume i: "cancel_inv eid k (stores_cancel i) s"
    and t: "transition env CANCEL_REQUESTED details s = (Inr x, s')"
  then obtain p where p: "payload s = Some p" by (auto simp: cancel_inv_def synced_def)
  from t p obtain t h n c where a: "advance (machine s) CANCEL_REQUESTED None None = Inr t"
    and s': "payload s' = Some (transition_payload p h n c CANCEL_REQUESTED t details)" "synced s'"
    by (rule transition_Inr)
  have "session_inv eid k s'" using transition_Inl_inv [OF t] i by (simp add: cancel_inv_def)
  then show "cancel_inv eid k (\<lambda>p. stores_cancel i p \<and> holds_state PENDING_CANCEL p) s'"
    using i s' p advance_CANCEL_REQUESTED [OF a]
    by (auto simp: cancel_inv_def stores_cancel_def holds_state_def)
next
  fix s s' :: "'a session_state" and e
  assume "cancel_inv eid k (stores_cancel i) s"
    and "transition env CANCEL_REQUESTED details s = (Inl e, s')"
  then show "session_inv eid k s'" using transition_Inl_inv by (auto simp: cancel_inv_def)
qed

lemma inv_record_cancel:
  "triple (cancel_inv eid k (\<lambda>p. stores_cancel i p \<and> holds_state PENDING_CANCEL p))
     (record_call (CancelOrder i)) (\<lambda>_. session_inv eid k) E"
  unfolding record_call_def
  by (rule triple_modifyM)
    (auto simp: cancel_inv_def session_inv_def trace_ok_def placed_ids_def placed_remarks_def
      call_durable_def synced_def)

lemma journal_data_session:
  "triple (session_inv eid k) journal_data
     (\<lambda>d s. session_inv eid k s \<and> (\<exists>p. payload s = Some p \<and> as_dict (pyget p ''data'') = Some d))
     (session_inv eid k)"
  unfolding journal_data_def require_payload_def
  by (auto simp: triple_def wp_simps split: option.splits)

lemma cancel_inv_ok:
  assumes "keeps (inv_step eid k) self_poll"
  shows "keeps (inv_step eid k) (session_cancel env self_poll)"
proof -
  let ?S = "session_inv eid k"
  have tail: "triple (\<lambda>s. ?S s \<and> (\<exists>p. payload s = Some p \<and> as_dict (pyget p ''data'') = Some d))
    (bindM (raiseM_if (\<not> pos_int (pyget d ''broker_order_id''))
       (Exn RecoveryAmbiguous ''cancel requires a durable broker order id'')) (\<lambda>_.
     bindM (persist_cancel_intent env) (\<lambda>_.
     bindM (transition env CANCEL_REQUESTED []) (\<lambda>_.
     bindM (on_world (before_broker_cancel env (the_int (pyget d ''broker_order_id'')))) (\<lambda>_.
     bindM (tryM
         (bindM (record_call (CancelOrder (the_int (pyget d ''broker_order_id'')))) (\<lambda>_.
          on_world (cancel_order env (the_int (pyget d ''broker_order_id'')))))
         (\<lambda>e. if isinstance_exn e BrokerError then Some (returnM CR_REJECTED) else None)) (\<lambda>result.
     bindM (if result = CR_ACCEPTED then transition env CANCEL_SENT []
            else transition env CANCEL_REQUEST_REJECTED []) (\<lambda>_.
     self_poll))))))) (\<lambda>_. ?S) ?S" for d
    by (rule triple_bindM [where Q = "\<lambda>_ s. ?S s \<and> (\<exists>p d'. payload s = Some p
              \<and> as_dict (pyget p ''data'') = Some d'
              \<and> pyget d' ''broker_order_id'' = PyInt (the_int (pyget d ''broker_order_id'')))"],
        rule triple_raiseM_if, fastforce simp: pos_int_iff, simp,
        rule triple_bindM [OF persist_cancel_intent_session], rule triple_bindM [OF cancel_inv_transition],
        rule triple_bindM [OF cancel_inv_on_world],
        rule triple_bindM [OF triple_tryM [OF triple_bindM [OF inv_record_cancel triple_inv]]])
      (auto intro!: triple_inv si.keeps_bindM si.keeps_returnM inv_on_world inv_transition assms
        split: if_splits)
  have "triple ?S (session_cancel env self_poll) (\<lambda>_. ?S) ?S"
    unfolding session_cancel_def Let_def
    by (intro triple_bindM [OF triple_inv [OF inv_require_open]] triple_bindM [OF triple_read]
        triple_bindM [OF triple_check] triple_bindM [OF journal_data_session tail])
  then show ?thesis by (auto simp: keeps_def inv_step_def dest: triple_state)
qed



section \<open>Sequences of operations\<close>

text \<open>
  What can happen to an execution: calls of the operations in any order, with any outcome of
  the environment, and \<open>Restart\<close>, the end of the process (by a crash or by exit) followed by
  a new session object in a new process.  A crash inside an operation is an environment call
  that raises \<open>KeyboardInterrupt\<close>, which no handler of the code catches.
\<close>

datatype session_op = Open | Submit ExecutionRequest | Poll | Reconcile | Cancel | NextCycle | Close
  | Restart

definition run_op :: "'w session_env \<Rightarrow> session_op \<Rightarrow> 'w session_state \<Rightarrow> 'w session_state" where
  "run_op env op' s =
     (case op' of
        Open \<Rightarrow> snd (session_open env s)
      | Submit r \<Rightarrow> snd (session_submit env (session_poll env) r s)
      | Poll \<Rightarrow> snd (session_poll env s)
      | Reconcile \<Rightarrow> snd (session_reconcile env (session_poll env) s)
      | Cancel \<Rightarrow> snd (session_cancel env (session_poll env) s)
      | NextCycle \<Rightarrow> snd (session_next_cycle env s)
      | Close \<Rightarrow> snd (session_close env s)
      | Restart \<Rightarrow> new_session (world s) (disk s) (trace s))"

definition run_ops :: "'w session_env \<Rightarrow> session_op list \<Rightarrow> 'w session_state \<Rightarrow> 'w session_state" where
  "run_ops env ops s = fold (run_op env) ops s"

fun is_submit :: "session_op \<Rightarrow> bool" where
  "is_submit (Submit r) = True"
| "is_submit _ = False"

definition submits :: "session_op list \<Rightarrow> nat" where
  "submits ops = length (filter is_submit ops)"

lemma inv_restart: "session_inv eid k s \<Longrightarrow> session_inv eid k (new_session (world s) (disk s) (trace s))"
  by (auto simp: session_inv_def new_session_def both_def reachable.start)

lemma keeps_inv_snd: "keeps (inv_step eid k) m \<Longrightarrow> session_inv eid k s \<Longrightarrow> session_inv eid k (snd (m s))"
  by (cases "m s") (auto simp: keeps_def inv_step_def)

lemma run_op_inv:
  assumes "execution_id env = eid" and "session_inv eid k s" and "\<not> is_submit op'"
  shows "session_inv eid k (run_op env op' s)"
  using assms
  by (cases op') (auto simp: run_op_def intro: keeps_inv_snd inv_open inv_poll inv_reconcile cancel_inv_ok
      inv_next_cycle inv_close inv_restart)

lemma run_submit_inv:
  assumes "session_inv eid k s"
  shows "session_inv eid (Suc k) (run_op env (Submit r) s)"
proof -
  obtain q t where "session_submit env (session_poll env) r s = (q, t)" by fastforce
  with triple_state [OF submit_inv [OF inv_poll] assms this] show ?thesis
    by (simp add: run_op_def)
qed

lemma run_ops_inv:
  assumes "execution_id env = eid" and "session_inv eid k s"
  shows "session_inv eid (k + submits ops) (run_ops env ops s)"
  using assms(2)
proof (induction ops arbitrary: k s)
  case Nil
  then show ?case by (simp add: run_ops_def submits_def)
next
  case (Cons op' ops)
  show ?case
  proof (cases "is_submit op'")
    case True
    then obtain r where r: "op' = Submit r" by (cases op') auto
    have "session_inv eid (Suc k) (run_op env op' s)"
      unfolding r by (rule run_submit_inv) (rule Cons.prems)
    from Cons.IH [OF this] show ?thesis by (simp add: r run_ops_def submits_def)
  next
    case False
    with Cons.IH [OF run_op_inv [OF assms(1) Cons.prems False]] show ?thesis
      by (simp add: run_ops_def submits_def)
  qed
qed

lemma session_inv_new: "session_inv eid 0 (new_session w NoFile [])"
  by (auto simp: session_inv_def new_session_def both_def reachable.start journal_ok_initial
      placed_ids_def placed_remarks_def placed_def trace_ok_def)

lemma run_ops_from_new:
  "session_inv (execution_id env) (submits ops) (run_ops env ops (new_session w NoFile []))"
  using run_ops_inv [OF refl session_inv_new, of env ops] by simp

end
