(* ===== verification/Session_Properties.thy ===== *)
theory Session_Properties
  imports Execution_Session
begin

text \<open>
  Properties of whole runs of an execution session, over every sequence of operations,
  failures, crashes and restarts, with runs of the model on a concrete environment.
\<close>

section \<open>A concrete environment\<close>

text \<open>
  An environment for the examples: the world counts the calls of \<open>os.replace\<close>, and \<open>fate n\<close>
  is the outcome of the call number \<open>n\<close>; the broker accepts every order with the id 7 and
  reports \<open>reply\<close> for it; everything else succeeds.
\<close>

definition quiet_mutex :: "nat mutex_env" where
  "quiet_mutex =
     \<lparr>timeout_seconds = Finite 0, poll_seconds = Finite (1 / 4), make_lock_parent = returnM (),
      open_lock_file = returnM (), monotonic = returnM (Finite 0), try_lock = returnM (),
      sleep_for = (\<lambda>_. returnM ()), write_owner = returnM (), unlock = returnM (),
      close_handle = returnM ()\<rparr>"

definition example_env ::
  "(nat \<Rightarrow> replace_outcome) \<Rightarrow> (nat, BrokerOrder) pyact \<Rightarrow> nat session_env" where
  "example_env fate reply =
     \<lparr>execution_id = ''default'', now = returnM ''2024-01-01'', read_file = returnM (),
      make_parent = returnM (), write_temporary = returnM (), os_replace = (\<lambda>n. (fate n, n + 1)),
      sleep = returnM (), remove_temporary = returnM (), mutex = quiet_mutex, lock_fuel = 1,
      sha256 = (\<lambda>_. replicate 64 (CHR ''0'')), source_files = (\<lambda>_ _. Some ''x''),
      package_dir = ''/pkg'', py_repr = (\<lambda>_. ''''),
      place_order = (\<lambda>_. returnM (PyInt 7)), cancel_order = (\<lambda>_. returnM CR_ACCEPTED),
      query_order = (\<lambda>_. reply), query_orders = returnM [], execution_healthy = returnM True,
      verify_session = returnM ready_evidence, verify_request = (\<lambda>_. returnM allowed_evidence),
      before_submit_coordination = (\<lambda>_. returnM ()), before_broker_submit = (\<lambda>_. returnM ()),
      before_broker_cancel = (\<lambda>_. returnM ())\<rparr>"

definition example_request :: ExecutionRequest where
  "example_request =
     \<lparr>client_order_id = ''c1'', symbol = ''600000.SH'', side = BUY, qty = 100,
      limit_price = PyFloat (Finite 10), strategy_id = ''s1'', order_remark = ''r1''\<rparr>"

definition example_order :: "BrokerOrderStatus \<Rightarrow> BrokerOrder" where
  "example_order status =
     \<lparr>bo_order_id = 7, bo_symbol = ''600000.SH'', bo_side = BUY, bo_qty = 100, bo_filled_qty = 0,
      bo_status = status, bo_order_remark = ''r1'', bo_client_order_id = '''',
      bo_strategy_name = '''', bo_order_sysid = '''', bo_status_message = '''',
      bo_average_fill_price = PyNone\<rparr>"

definition zero_digest :: string where
  "zero_digest = replicate 64 (CHR ''0'')"

text \<open>What the verification of \<open>open\<close> comes to in this environment.\<close>

definition example_build :: "nat session_env \<Rightarrow> (nat, unit) session_act" where
  "example_build env =
     bindM journal_data (\<lambda>d.
     if pyget d ''formal_verification'' = PyNone then bind_verification env zero_digest zero_digest
     else raiseM_if (\<not> verification_matches d zero_digest zero_digest)
       (Exn JournalIntegrityError
          ''journal is bound to a different execution state machine/source build''))"

lemma example_verification:
  "\<exists>r. verify_state_machine (\<lambda>_. replicate 64 (CHR ''0'')) (\<lambda>_. Some ''x'') ''/pkg'' None = Inr r
     \<and> rep_transition_spec_sha256 r = zero_digest \<and> rep_execution_source_sha256 r = zero_digest"
proof -
  have "execution_source_sha256 (\<lambda>_. zero_digest) (\<lambda>_. Some ''x'') ''/pkg'' None = Inr zero_digest"
    by (simp add: execution_source_sha256_def resolve_package_root_def PROTECTED_EXECUTION_SOURCES_def)
  from verify_build_succeeds [OF this] show ?thesis unfolding zero_digest_def by blast
qed

lemma example_open:
  "session_open (example_env fate reply) =
     open_with (example_build (example_env fate reply)) (example_env fate reply)"
proof -
  obtain r where r:
    "verify_state_machine (\<lambda>_. replicate 64 (CHR ''0'')) (\<lambda>_. Some ''x'') ''/pkg'' None = Inr r"
    "rep_transition_spec_sha256 r = zero_digest" "rep_execution_source_sha256 r = zero_digest"
    using example_verification by blast
  let ?env = "example_env fate reply"
  have "verify_state_machine (sha256 ?env) (source_files ?env w) (package_dir ?env) None = Inr r" for w
    using r(1) by (simp add: example_env_def)
  then have "bind_build ?env = example_build ?env"
    by (simp add: bind_build_def example_build_def r(2,3) bindM_def getM_def liftR_def fun_eq_iff
        split: prod.split sum.split)
  then show ?thesis by (simp add: session_open_def)
qed

definition ready_payload :: pydict where
  "ready_payload =
     [(''schema_version'', PyInt 1), (''execution_id'', PyStr ''default''),
      (''created_at'', PyStr ''2024-01-01''), (''updated_at'', PyStr ''2024-01-01''),
      (''event_count'', PyInt 1),
      (''machine'', snapshot_payload \<lparr>state = WAIT_TRIGGER,
         facts = no_facts\<lparr>environment_verified := True, account_verified := True\<rparr>\<rparr>),
      (''history'', PyList [PyDict
         [(''sequence'', PyInt 1), (''at'', PyStr ''2024-01-01''),
          (''event'', PyStr ''session_ready''), (''state'', PyStr ''wait_trigger''),
          (''details'', PyDict [(''source'', PyStr ''session_guard'')])]]),
      (''data'', PyDict [(''formal_verification'', PyDict
         [(''transition_spec_sha256'', PyStr zero_digest),
          (''execution_source_sha256'', PyStr zero_digest)])])]"

definition ready_state :: "nat session_state" where
  "ready_state =
     \<lparr>world = 3, disk = FileJson (PyDict ready_payload), payload = Some ready_payload,
      machine = \<lparr>state = WAIT_TRIGGER,
        facts = no_facts\<lparr>environment_verified := True, account_verified := True\<rparr>\<rparr>,
      is_open = True, is_closed = False, owned = True, trace = []\<rparr>"

text \<open>All writes succeed.\<close>

definition good_env :: "nat session_env" where
  "good_env = example_env (\<lambda>_. Replaced) (returnM (example_order B_ACCEPTED))"

lemma good_open: "run_op good_env Open (new_session 0 NoFile []) = ready_state"
proof -
  have "snd (open_with (example_build good_env) good_env (new_session 0 NoFile [])) = ready_state"
    by code_simp
  then show ?thesis by (simp add: run_op_def good_env_def example_open)
qed

lemma good_submit: "map fst (trace (run_op good_env (Submit example_request) ready_state))
    = [PlaceOrder example_request]"
  by code_simp



section \<open>Properties\<close>

text \<open>
  C1: at most one submission per identity.  Over every sequence of operations, failures,
  crashes and restarts of an execution, no client order id and no order remark is ever passed
  to \<open>place_order\<close> twice, as long as the execution submits at most 10000 times (the length of
  the list of used identities that the journal keeps).
\<close>

theorem place_order_at_most_once_per_identity:
  assumes "int (submits ops) \<le> USED_WINDOW"
  shows "distinct (placed_ids (trace (run_ops env ops (new_session w NoFile []))))
    \<and> distinct (placed_remarks (trace (run_ops env ops (new_session w NoFile []))))"
  using run_ops_from_new [of env ops w] assms by (simp add: session_inv_def trace_ok_def)

theorem place_order_at_most_once_per_identity_witness:
  "distinct (placed_ids (trace (run_ops
     (example_env (\<lambda>_. Replaced) (returnM (example_order B_ACCEPTED)))
     [Open, Submit example_request, Restart, Open, Submit example_request] (new_session 0 NoFile []))))"
  using place_order_at_most_once_per_identity [of
      "[Open, Submit example_request, Restart, Open, Submit example_request]"
      "example_env (\<lambda>_. Replaced) (returnM (example_order B_ACCEPTED))" 0]
  by (simp add: submits_def USED_WINDOW_def)

text \<open>
  C2: durable before the side effect.  Over every sequence of operations, failures, crashes and
  restarts, however long: whenever the broker is asked to place an order, the journal file holds the intent of exactly that request and the machine in \<open>SUBMITTED\<close>;
  whenever it is asked to cancel one, the file holds that order's id, the intent to cancel and
  the machine in \<open>PENDING_CANCEL\<close>.
\<close>

theorem broker_calls_are_durable_first:
  assumes "(c, f) \<in> set (trace (run_ops env ops (new_session w NoFile [])))"
  shows "\<exists>p. f = FileJson (PyDict p)
    \<and> (\<forall>r. c = PlaceOrder r \<longrightarrow> stores_intent r p \<and> holds_state SUBMITTED p)
    \<and> (\<forall>i. c = CancelOrder i \<longrightarrow> stores_cancel i p \<and> holds_state PENDING_CANCEL p)"
proof -
  have "\<exists>p. f = FileJson (PyDict p) \<and> call_durable c p"
    using run_ops_from_new [of env ops w] assms
    unfolding session_inv_def trace_ok_def by blast
  then show ?thesis by (cases c) (auto simp: call_durable_def)
qed

theorem broker_calls_are_durable_first_witness:
  "\<exists>p. stores_intent example_request p \<and> holds_state SUBMITTED p"
proof -
  have "PlaceOrder example_request
      \<in> fst ` set (trace (run_op good_env (Submit example_request) ready_state))"
    unfolding set_map [symmetric] good_submit by simp
  then obtain f where "(PlaceOrder example_request, f)
      \<in> set (trace (run_ops good_env [Open, Submit example_request] (new_session 0 NoFile [])))"
    by (auto simp: run_ops_def good_open)
  from broker_calls_are_durable_first [OF this] show ?thesis by auto
qed

text \<open>
  C17: the journal survives every crash.  After any sequence of operations of any length, with any failures,
  a new process that can read the journal file loads it without an integrity error, and the
  snapshot it gets is one the state machine reaches.
\<close>

theorem journal_recoverable_after_any_run:
  fixes env :: "'w session_env"
  defines "s \<equiv> \<lambda>ops w. run_ops env ops (new_session w NoFile [])"
  assumes "disk (s ops w) \<noteq> NoFile"
    and "read_file env (world (s ops w)) = (Inr (), w')"
  shows "\<exists>snap. fst (journal_open env (new_session (world (s ops w)) (disk (s ops w)) (trace (s ops w))))
      = Inr (snap, True) \<and> reachable snap"
proof -
  let ?s = "s ops w" and ?eid = "execution_id env"
  have inv: "session_inv ?eid (submits ops) ?s"
    using run_ops_from_new by (simp add: s_def)
  then obtain p where p: "disk ?s = FileJson (PyDict p)"
    and ok: "journal_ok ?eid (set (placed_ids (trace ?s))) (set (placed_remarks (trace ?s))) (submits ops) p"
    using assms(2)
    by (cases "disk ?s") (auto simp: session_inv_def both_def file_payload_def elim: as_dict.elims)
  obtain snap where snap: "reachable snap" "pyget p ''machine'' = snapshot_payload snap"
    using journal_ok_snapshot [OF ok] by blast
  show ?thesis using assms(3) snap
    by (simp add: journal_open_def bindM_def getM_def raiseM_if_def load_file_def tryM_def on_world_def
        new_session_def p validate_journal_ok [OF ok] liftR_def set_payload_def modifyM_def
        machine_snapshot_of_reachable [OF snap(2,1)] returnM_def)
qed

theorem journal_recoverable_after_any_run_witness:
  "\<exists>snap. fst (journal_open good_env (new_session (world ready_state) (disk ready_state) (trace ready_state)))
      = Inr (snap, True) \<and> reachable snap"
proof -
  have "run_ops good_env [Open] (new_session 0 NoFile []) = ready_state"
    by (simp add: run_ops_def good_open)
  with journal_recoverable_after_any_run [of good_env "[Open]" 0 "world ready_state"] show ?thesis
    by (simp add: ready_state_def good_env_def example_env_def returnM_def)
qed

section \<open>A session left in \<open>SUBMITTED\<close>\<close>

text \<open>
  The machine \<open>m\<close> is in \<open>SUBMITTED\<close>.  From there no observation is accepted: \<open>poll\<close> leaves the machine
  alone and raises, or it ends in \<open>FAILED\<close> with the facts of \<open>m\<close>.
\<close>

definition machine_at :: "MachineSnapshot \<Rightarrow> 'w session_state \<Rightarrow> bool" where
  "machine_at m s \<longleftrightarrow> machine s = m"

abbreviation gave_up :: "MachineSnapshot \<Rightarrow> MachineSnapshot" where
  "gave_up m \<equiv> m\<lparr>state := FAILED\<rparr>"

abbreviation at_or_failed :: "MachineSnapshot \<Rightarrow> 'w session_state \<Rightarrow> bool" where
  "at_or_failed m s \<equiv> machine_at m s \<or> machine_at (gave_up m) s"

lemma triple_machine_at: "keeps jstep m \<Longrightarrow> triple (machine_at t) m (\<lambda>_. machine_at t) (machine_at t)"
  by (rule triple_keeps) (auto simp: keeps_def machine_at_def dest: jstep_session(1))

lemma transition_moves:
  assumes "advance m event None None = Inr t"
  shows "triple (machine_at m) (transition env event details) (\<lambda>_. machine_at t) (machine_at t)"
proof -
  have "triple (machine_at t) (journal_transition env event t details) (\<lambda>_. machine_at t) (machine_at t)"
    by (rule triple_machine_at [OF keeps_journal_transition])
  then show ?thesis using assms
    by (auto simp: triple_def wp_def transition_def transition_with_def bindM_def getM_def liftR_def modifyM_def machine_at_def)
qed

lemma transition_refused:
  assumes "advance m event None None = Inl x"
  shows "triple (machine_at m) (transition env event details) (\<lambda>_ _. False) (machine_at m)"
  using assms
  by (auto simp: triple_def wp_def transition_def transition_with_def bindM_def getM_def liftR_def machine_at_def)

lemma submitted_advance:
  assumes "reachable m" and "state m = SUBMITTED"
  shows "advance m FATAL None None = Inr (gave_up m)" "\<exists>x. advance m QUERY_AMBIGUOUS None None = Inl x"
  using advance_total [OF reachable_sm_inv [OF assms(1)], of FATAL FAILED None None "facts m"] assms(2)
  by (simp_all add: advance_guards_def advance_facts_def advance_def)

lemma to_unknown_fails:
  assumes "reachable m" and "state m = SUBMITTED"
  shows "triple (machine_at m) (to_unknown env reason) (\<lambda>_. machine_at (gave_up m)) (at_or_failed m)"
proof -
  have "triple (machine_at m) (transition env FATAL (reason_details reason)) (\<lambda>_. machine_at (gave_up m)) (at_or_failed m)"
    by (rule triple_conseq [OF transition_moves [OF submitted_advance(1) [OF assms]]]) simp_all
  moreover have "to_unknown env reason s = transition env FATAL (reason_details reason) s"
    if "machine_at m s" for s :: "'a session_state"
    using that assms(2) by (simp add: to_unknown_def bindM_def getM_def machine_at_def declared_def)
  ultimately show ?thesis by (simp add: triple_def wp_def)
qed

lemma keeps_session_snapshot: "keeps jstep (session_snapshot reason)"
  unfolding session_snapshot_def
  by (intro jp.keeps_bindM jp.keeps_if jp.keeps_getM jp.keeps_liftR jp.keeps_returnM keeps_journal_data)

lemma snapshot_of_failed:
  "triple (machine_at (gave_up m)) (session_snapshot reason) (\<lambda>sn s. machine_at (gave_up m) s \<and> es_state sn = FAILED) (at_or_failed m)"
proof (rule tripleI)
  fix s s' :: "'a session_state" and sn
  assume a: "machine_at (gave_up m) s" and run: "session_snapshot reason s = (Inr sn, s')"
  have "machine_at (gave_up m) s'" using tripleD_Inr [OF triple_machine_at [OF keeps_session_snapshot] a run] .
  moreover from run obtain d where "snapshot_of (machine s) d reason = Inr sn"
    using jstep_session(1) keepsD [OF keeps_journal_data]
    by (fastforce simp: session_snapshot_def bindM_def getM_def liftR_def returnM_def
        split: prod.splits sum.splits if_splits)
  then have "es_state sn = state (machine s)"
    by (auto simp: snapshot_of_def Let_def bindR_eq_Inr)
  ultimately show "machine_at (gave_up m) s' \<and> es_state sn = FAILED" using a by (simp add: machine_at_def)
next
  fix s s' :: "'a session_state" and e
  assume a: "machine_at (gave_up m) s" and run: "session_snapshot reason s = (Inl e, s')"
  show "at_or_failed m s'" using tripleD_Inl [OF triple_machine_at [OF keeps_session_snapshot] a run] by simp
qed

lemma event_of_submitted:
  "event_for_observation SUBMITTED B_UNKNOWN = Inr (Some QUERY_AMBIGUOUS)"
  "status \<noteq> B_UNKNOWN \<Longrightarrow> \<exists>e. event_for_observation SUBMITTED status = Inl e"
  by (cases status; simp add: event_for_observation_def Let_def)+

text \<open>What \<open>poll\<close> comes to: it ends in \<open>FAILED\<close>, or it raises.\<close>

abbreviation ends_failed ::
  "MachineSnapshot \<Rightarrow> ('w, ExecutionSnapshot) session_act \<Rightarrow> bool" where
  "ends_failed m act \<equiv>
     triple (machine_at m) act (\<lambda>sn s. machine_at (gave_up m) s \<and> es_state sn = FAILED) (at_or_failed m)"

lemma ends_failed_bind: "keeps jstep a \<Longrightarrow> (\<And>x. ends_failed m (f x)) \<Longrightarrow> ends_failed m (bindM a f)"
  by (rule triple_bindM [where Q = "\<lambda>_. machine_at m"])
    (auto intro: triple_conseq [OF triple_machine_at [where t = m]])

lemma ends_failed_unknown:
  "reachable m \<Longrightarrow> state m = SUBMITTED
    \<Longrightarrow> ends_failed m (bindM (to_unknown env reason) (\<lambda>_. session_snapshot reason'))"
  by (rule triple_bindM [OF to_unknown_fails snapshot_of_failed])

lemma apply_observation_fails:
  assumes "reachable m" and "state m = SUBMITTED"
  shows "ends_failed m (apply_observation env ord)"
proof -
  have fatal: "ends_failed m (bindM (transition env FATAL d) (\<lambda>_. session_snapshot reason))" for d reason
    by (rule triple_bindM [OF triple_conseq [OF transition_moves [OF submitted_advance(1) [OF assms]]] snapshot_of_failed])
      simp_all
  have refused: "ends_failed m (bindM (transition env QUERY_AMBIGUOUS d) (\<lambda>_. session_snapshot reason))" for d reason
  proof -
    obtain x where "advance m QUERY_AMBIGUOUS None None = Inl x" using submitted_advance(2) [OF assms] by blast
    from triple_conseq [OF transition_refused [OF this]] show ?thesis
      by (rule triple_bindM [where Q = "\<lambda>_ _. False"]) (simp_all add: triple_def)
  qed
  let ?last = "\<lambda>m'. case event_for_observation (state m') (bo_status ord) of
      Inl e \<Rightarrow> bindM (to_unknown env (exn_msg e)) (\<lambda>_. session_snapshot (exn_msg e))
    | Inr None \<Rightarrow> session_snapshot ''''
    | Inr (Some event) \<Rightarrow> bindM (transition env event (observation_details ord)) (\<lambda>_. session_snapshot '''')"
  have "ends_failed m (?last m)"
    using event_of_submitted(1) event_of_submitted(2) [of "bo_status ord"] assms(2) refused
      ends_failed_unknown [OF assms]
    by (cases "bo_status ord = B_UNKNOWN") auto
  moreover have "bindM (getM machine) ?last s = ?last m s" if "machine_at m s" for s :: "'a session_state"
    using that by (simp add: bindM_def getM_def machine_at_def)
  ultimately have final: "ends_failed m (bindM (getM machine) ?last)" by (simp add: triple_def wp_def)
  show ?thesis unfolding apply_observation_def
    by (intro ends_failed_bind [OF keeps_journal_data] ends_failed_bind [OF jp.keeps_liftR] triple_if fatal
        ends_failed_bind [OF keeps_journal_operations(5)] final)
qed

lemma poll_fails:
  assumes "reachable m" and "state m = SUBMITTED"
  shows "ends_failed m (session_poll env)"
proof -
  have no_id: "ends_failed m (bindM (getM machine) (\<lambda>m'. if state m' = UNKNOWN then recover_unknown env
      else raiseM (Exn RecoveryAmbiguous ''no durable broker order id for poll'')))"
    using assms(2) by (simp add: triple_def wp_def bindM_def getM_def machine_at_def raiseM_def)
  have query: "ends_failed m (try_elseM (on_world q) h (apply_observation env))"
    if "\<And>e m'. h e = Some m' \<Longrightarrow> ends_failed m m'" for q h
    by (rule triple_try_elseM [OF triple_machine_at [OF keeps_on_world]]) (use that apply_observation_fails [OF assms] in auto)
  show ?thesis unfolding session_poll_def Let_def require_open_def
    by (intro ends_failed_bind [OF jp.keeps_bindM [OF jp.keeps_getM jp.keeps_raiseM_if]]
        ends_failed_bind [OF keeps_journal_data] ends_failed_bind [OF jp.keeps_raiseM_if] triple_if no_id query)
      (auto intro: ends_failed_unknown [OF assms] split: if_splits)
qed

text \<open>\<open>place_order\<close> returned, and the write of the order id raised: nothing catches the exception.\<close>

lemma submit_after_failed_id_write:
  assumes "place_order env request (world s) = (Inr oid, w)"
    and "persist_broker_order_id env oid (s\<lparr>trace := (PlaceOrder request, disk s) # trace s, world := w\<rparr>) = (Inl e, s1)"
  shows "submit_to_broker env self_poll request s = (Inl e, s1)"
  using assms
  by (simp add: submit_to_broker_def try_elseM_def bindM_def record_call_def modifyM_def on_world_def)

text \<open>
  C25: a live order can be reported as resolved.  Whatever the environment, when the write that stores
  the broker's order id raises after \<open>place_order\<close> has returned, \<open>submit\<close> raises with the machine in
  \<open>SUBMITTED\<close>.  A later \<open>poll\<close>, by whatever environment and with whatever answer of the broker, either
  raises, with the machine in \<open>SUBMITTED\<close> or in \<open>FAILED\<close>, or returns a snapshot in \<open>FAILED\<close>; and
  when it returns, the finality of the execution is resolved, although the broker has the order.
\<close>

theorem poll_after_failed_id_write_resolves_live_order:
  assumes "reachable (machine s)" and "state (machine s) = SUBMITTED"
    and "place_order env request (world s) = (Inr oid, w)"
    and "persist_broker_order_id env oid (s\<lparr>trace := (PlaceOrder request, disk s) # trace s, world := w\<rparr>) = (Inl e, s1)"
  shows "submit_to_broker env self_poll request s = (Inl e, s1)
    \<and> fst (hd (trace s1)) = PlaceOrder request \<and> state (machine s1) = SUBMITTED
    \<and> (case session_poll later (s1\<lparr>world := w1\<rparr>) of
         (Inl e', s2) \<Rightarrow> state (machine s2) \<in> {SUBMITTED, FAILED}
       | (Inr sn, s2) \<Rightarrow> es_state sn = FAILED \<and> execution_finality (machine s2) = FINALITY_RESOLVED)"
proof -
  note kept = jstep_session(1,2) [OF keepsD [OF keeps_journal_operations(3) assms(4)]]
  then have m: "machine s1 = machine s" "fst (hd (trace s1)) = PlaceOrder request" by simp_all
  obtain r s2 where poll: "session_poll later (s1\<lparr>world := w1\<rparr>) = (r, s2)" by fastforce
  have "es_state sn = FAILED \<and> execution_finality (machine s2) = FINALITY_RESOLVED" if "r = Inr sn" for sn
  proof -
    have "machine_at (machine s) (s1\<lparr>world := w1\<rparr>)" by (simp add: machine_at_def m(1))
    with tripleD_Inr [OF poll_fails [OF assms(1,2)]] poll that
    have "machine_at (gave_up (machine s)) s2 \<and> es_state sn = FAILED" by blast
    moreover have "\<not> unresolved_order (facts (machine s))"
      using reachable_sm_inv [OF assms(1)] assms(2) by (simp add: sm_inv_def)
    ultimately show ?thesis by (simp add: machine_at_def execution_finality_def)
  qed
  moreover have "state (machine s2) \<in> {SUBMITTED, FAILED}" if "r = Inl e'" for e'
  proof -
    have "machine_at (machine s) (s1\<lparr>world := w1\<rparr>)" by (simp add: machine_at_def m(1))
    with tripleD_Inl [OF poll_fails [OF assms(1,2)]] poll that have "at_or_failed (machine s) s2" by blast
    then show ?thesis using assms(2) by (auto simp: machine_at_def)
  qed
  ultimately show ?thesis
    using submit_after_failed_id_write [OF assms(3,4)] m poll assms(2) by (cases r) auto
qed

text \<open>The run of \<open>submit\<close> up to the call of the broker; the third write, that of the order id, fails.\<close>

definition submitted_state :: "nat session_state" where
  "submitted_state =
     snd (bindM (persist_intent good_env example_request) (\<lambda>_.
          transition good_env INTENT_PERSISTED [(''client_order_id'', PyStr ''c1'')])
       (ready_state\<lparr>machine := checked_snapshot, world := 0\<rparr>))"

definition full_disk_env :: "nat session_env" where
  "full_disk_env =
     example_env (\<lambda>n. if n = 2 then ReplaceRaised (Exn OSError ''no space'') False else Replaced)
       (returnM (example_order B_ACCEPTED))"

theorem poll_after_failed_id_write_resolves_live_order_witness:
  "\<exists>s1 sn s2. submit_to_broker full_disk_env (session_poll full_disk_env) example_request submitted_state
       = (Inl (Exn OSError ''no space''), s1)
     \<and> session_poll good_env s1 = (Inr sn, s2) \<and> es_state sn = FAILED
     \<and> execution_finality (machine s2) = FINALITY_RESOLVED"
proof -
  let ?sent = "submitted_state\<lparr>trace := (PlaceOrder example_request, disk submitted_state) # trace submitted_state,
      world := world submitted_state\<rparr>"
  let ?written = "persist_broker_order_id full_disk_env (PyInt 7) ?sent"
  have r: "reachable (machine submitted_state)"
  proof (rule reachable_advance_all [OF reachable_checked_snapshot])
    show "advance_all checked_snapshot [(INTENT_PERSISTED, None, None)] = Inr (machine submitted_state)"
      by code_simp
  qed
  have st: "state (machine submitted_state) = SUBMITTED" by code_simp
  have sent: "place_order full_disk_env example_request (world submitted_state) = (Inr (PyInt 7), world submitted_state)"
    by (simp add: full_disk_env_def example_env_def returnM_def)
  have failed: "fst ?written = Inl (Exn OSError ''no space'')" by code_simp
  then have written: "?written = (Inl (Exn OSError ''no space''), snd ?written)" by (metis prod.collapse)
  have "isOk (fst (session_poll good_env (snd ?written)))" by code_simp
  then obtain sn s2 where poll: "session_poll good_env (snd ?written) = (Inr sn, s2)"
    by (metis isOk_iff prod.collapse)
  from poll_after_failed_id_write_resolves_live_order [OF r st sent written, of "session_poll full_disk_env" good_env
      "world (snd ?written)"] poll
  show ?thesis by simp
qed

end
