(* ===== verification/Cash_Requirement.thy ===== *)
theory Cash_Requirement
  imports Trade_Domain
begin

text \<open>
  \<open>coordination.py\<close>, first part: the account key and the conservative estimate of the cash a
  \<open>BUY\<close> needs.  The arithmetic is Python's: every sum and product is a binary64 operation.
\<close>

definition EPSILON :: pyfloat where
  "EPSILON = float_lit (1 / 10 ^ 9)"

definition plain_non_empty :: "pyval \<Rightarrow> string \<Rightarrow> string pyres" where
  "plain_non_empty v label =
     (if nonempty_str v then Inr (the_str v)
      else Inl (Exn CoordinationError (label @ '' must be a non-empty string'')))"

definition finite_non_negative :: "pyval \<Rightarrow> string \<Rightarrow> pyfloat pyres" where
  "finite_non_negative v label =
     bindR (raise_if (\<not> is_number v) (Exn CoordinationError (label @ '' must be numeric''))) (\<lambda>_.
     bindR (py_float v) (\<lambda>number.
     bindR (raise_if (\<not> isfinite number \<or> flt number (Finite 0))
       (Exn CoordinationError (label @ '' must be finite and non-negative''))) (\<lambda>_.
     Inr number)))"

definition account_key_from_binding_identity ::
  "(string \<Rightarrow> string) \<Rightarrow> (pyval \<Rightarrow> string) \<Rightarrow> pyval \<Rightarrow> pyval \<Rightarrow> pyval \<Rightarrow> string pyres" where
  "account_key_from_binding_identity sha256 rp environment account_type digest_in =
     bindR (raise_if (environment \<notin> {PyStr ''simulation'', PyStr ''live''})
       (Exn CoordinationError ''environment must be simulation or live'')) (\<lambda>_.
     bindR (raise_if (\<not> is_int account_type)
       (Exn CoordinationError ''account_type must be a plain int'')) (\<lambda>_.
     let digest = map to_lower (strip_ascii (if truthy digest_in then py_str rp digest_in else ''''))
     in
     bindR (raise_if (length digest \<noteq> 64 \<or> \<not> list_all (\<lambda>c. c \<in> set ''0123456789abcdef'') digest)
       (Exn CoordinationError ''account_id_sha256 must be a SHA-256 digest'')) (\<lambda>_.
     Inr (sha256 (''qmt-execution-core|'' @ the_str environment @ ''|''
                  @ int_repr (the_int account_type) @ ''|'' @ digest)))))"

record CashRequirementEstimate =
  ce_required_cash :: pyfloat
  ce_order_notional :: pyfloat
  ce_transaction_cost_buffer :: pyfloat
  ce_temporary_withholding_buffer :: pyfloat
  ce_fx_rounding_buffer :: pyfloat
  ce_safety_buffer :: pyfloat

text \<open>The sum in the constructor, added from the left as in the source.\<close>

definition component_floor :: "pyfloat \<Rightarrow> pyfloat \<Rightarrow> pyfloat \<Rightarrow> pyfloat \<Rightarrow> pyfloat \<Rightarrow> pyfloat" where
  "component_floor notional cost withholding fx safety =
     fadd (fadd (fadd (fadd notional cost) withholding) fx) safety"

definition mk_CashRequirementEstimate ::
  "pyval \<Rightarrow> pyval \<Rightarrow> pyval \<Rightarrow> pyval \<Rightarrow> pyval \<Rightarrow> pyval \<Rightarrow> CashRequirementEstimate pyres" where
  "mk_CashRequirementEstimate required notional cost withholding fx safety =
     bindR (finite_non_negative required ''required_cash'') (\<lambda>r.
     bindR (finite_non_negative notional ''order_notional'') (\<lambda>n.
     bindR (finite_non_negative cost ''transaction_cost_buffer'') (\<lambda>c.
     bindR (finite_non_negative withholding ''temporary_withholding_buffer'') (\<lambda>w.
     bindR (finite_non_negative fx ''fx_rounding_buffer'') (\<lambda>x.
     bindR (finite_non_negative safety ''safety_buffer'') (\<lambda>s.
     bindR (raise_if (flt (fadd r EPSILON) (component_floor n c w x s))
       (Exn CoordinationError
          ''required_cash cannot be lower than the declared conservative components'')) (\<lambda>_.
     Inr \<lparr>ce_required_cash = r, ce_order_notional = n, ce_transaction_cost_buffer = c,
          ce_temporary_withholding_buffer = w, ce_fx_rounding_buffer = x, ce_safety_buffer = s\<rparr>)))))))"

record ConservativeCashRequirementEstimator =
  fee_rate :: pyfloat
  minimum_fee :: pyfloat
  temporary_withholding_buffer :: pyfloat
  fx_rounding_rate :: pyfloat
  safety_buffer :: pyfloat

definition mk_ConservativeCashRequirementEstimator ::
  "pyval \<Rightarrow> pyval \<Rightarrow> pyval \<Rightarrow> pyval \<Rightarrow> pyval \<Rightarrow> ConservativeCashRequirementEstimator pyres" where
  "mk_ConservativeCashRequirementEstimator rate fee withholding fx safety =
     bindR (finite_non_negative rate ''fee_rate'') (\<lambda>r.
     bindR (finite_non_negative fee ''minimum_fee'') (\<lambda>f.
     bindR (finite_non_negative withholding ''temporary_withholding_buffer'') (\<lambda>w.
     bindR (finite_non_negative fx ''fx_rounding_rate'') (\<lambda>x.
     bindR (finite_non_negative safety ''safety_buffer'') (\<lambda>s.
     Inr \<lparr>fee_rate = r, minimum_fee = f, temporary_withholding_buffer = w, fx_rounding_rate = x,
          safety_buffer = s\<rparr>)))))"

text \<open>The four amounts that \<open>estimate\<close> computes for a \<open>BUY\<close>: notional, cost, rounding, total.\<close>

definition estimate_amounts ::
  "ConservativeCashRequirementEstimator \<Rightarrow> pyfloat \<Rightarrow> pyfloat \<times> pyfloat \<times> pyfloat" where
  "estimate_amounts est notional =
     (let cost = fmax (minimum_fee est) (fmul notional (fee_rate est));
          fx = fmul notional (fx_rounding_rate est)
      in (cost, fx,
          component_floor notional cost (temporary_withholding_buffer est) fx (safety_buffer est)))"

definition estimate ::
  "ConservativeCashRequirementEstimator \<Rightarrow> ExecutionRequest \<Rightarrow> BrokerAsset
    \<Rightarrow> CashRequirementEstimate pyres" where
  "estimate est request account_snapshot =
     (if side request \<noteq> BUY then
        mk_CashRequirementEstimate (PyFloat (Finite 0)) (PyFloat (Finite 0)) (PyFloat (Finite 0))
          (PyFloat (Finite 0)) (PyFloat (Finite 0)) (PyFloat (Finite 0))
      else
        bindR (py_float (limit_price request)) (\<lambda>price.
        bindR (int_mul_float (qty request) price) (\<lambda>notional.
        case estimate_amounts est notional of (cost, fx, required) \<Rightarrow>
          mk_CashRequirementEstimate (PyFloat required) (PyFloat notional) (PyFloat cost)
            (PyFloat (temporary_withholding_buffer est)) (PyFloat fx) (PyFloat (safety_buffer est)))))"


section \<open>Amounts\<close>

definition amount :: "pyfloat \<Rightarrow> bool" where
  "amount x \<longleftrightarrow> wf_float x \<and> (\<exists>r. x = Finite r \<and> 0 \<le> r)"

text \<open>Every float that the program handles is representable; a Python float is by construction.\<close>

definition wf_value :: "pyval \<Rightarrow> bool" where
  "wf_value v = (case v of PyFloat x \<Rightarrow> wf_float x | _ \<Rightarrow> True)"

definition wf_estimator :: "ConservativeCashRequirementEstimator \<Rightarrow> bool" where
  "wf_estimator e \<longleftrightarrow> amount (fee_rate e) \<and> amount (minimum_fee e)
     \<and> amount (temporary_withholding_buffer e) \<and> amount (fx_rounding_rate e) \<and> amount (safety_buffer e)"

lemma finite_non_negative_Inr:
  assumes "finite_non_negative v l = Inr x" and "wf_value v"
  shows "amount x"
proof -
  from assms(1) have v: "is_number v" "py_float v = Inr x" "isfinite x" "\<not> flt x (Finite 0)"
    by (auto simp: finite_non_negative_def bindR_eq_Inr)
  have "wf_float x"
  proof (cases v)
    case (PyInt n)
    then show ?thesis using v(2) float_of_int_Inr(2) by simp
  qed (use v assms(2) in \<open>simp_all add: wf_value_def\<close>)
  with v(3,4) show ?thesis by (cases x) (auto simp: amount_def)
qed

lemma finite_non_negative_PyFloat [simp]:
  "finite_non_negative (PyFloat x) l =
     (if isfinite x \<and> \<not> flt x (Finite 0) then Inr x
      else Inl (Exn CoordinationError (l @ '' must be finite and non-negative'')))"
  by (simp add: finite_non_negative_def)

lemma wf_fadd: "wf_float x \<Longrightarrow> wf_float y \<Longrightarrow> wf_float (fadd x y)"
  by (cases "(x, y)" rule: fadd.cases) (simp_all del: wf_float.simps add: wf_round64, simp_all)

lemma fadd_amount_ge:
  assumes "wf_float x" "fadd x y = Finite r" "amount y"
  shows "\<exists>a. x = Finite a \<and> a \<le> r"
proof (cases x)
  case (Finite a)
  from assms(3) obtain b where b: "y = Finite b" "0 \<le> b" by (auto simp: amount_def)
  have "r = rnd64 (a + b)" using assms(2) Finite b round64_Finite by simp
  moreover have "rnd64 a = a" using assms(1) Finite by simp
  ultimately show ?thesis using Finite b binary64.rnd_add_ge by simp
qed (use assms in \<open>auto simp: amount_def\<close>)


lemma fadd_Finite: "fadd x y = Finite r \<Longrightarrow> \<exists>a b. x = Finite a \<and> y = Finite b"
  by (cases "(x, y)" rule: fadd.cases) simp_all

lemma amount_round64:
  assumes "0 \<le> z" and "isfinite (round64 z)"
  shows "amount (round64 z)"
proof (cases "round64 z")
  case (Finite r)
  then have "r = rnd64 z" by (rule round64_Finite)
  then show ?thesis
    using wf_round64 [of z] Finite binary64.rnd_nonneg [OF assms(1)] by (simp add: amount_def del: wf_float.simps)
qed (use assms in simp_all)

lemma amount_fadd: "amount x \<Longrightarrow> amount y \<Longrightarrow> isfinite (fadd x y) \<Longrightarrow> amount (fadd x y)"
  by (auto simp: amount_def [of x] amount_def [of y] simp del: wf_float.simps
      intro!: amount_round64 add_nonneg_nonneg)

lemma amount_fmul: "amount x \<Longrightarrow> amount y \<Longrightarrow> isfinite (fmul x y) \<Longrightarrow> amount (fmul x y)"
  by (auto simp: amount_def [of x] amount_def [of y] simp del: wf_float.simps
      intro!: amount_round64 mult_nonneg_nonneg)

lemma amount_fmax: "amount x \<Longrightarrow> isfinite y \<Longrightarrow> wf_float y \<Longrightarrow> isfinite (fmax x y) \<Longrightarrow> amount (fmax x y)"
  by (cases y) (auto simp: amount_def fmax_def)

lemma wf_fmul: "wf_float x \<Longrightarrow> wf_float y \<Longrightarrow> wf_float (fmul x y)"
  by (cases "(x, y)" rule: fmul.cases)
    (simp_all del: wf_float.simps add: wf_round64, simp_all add: inf_sign_def)

lemma fadd_right_finite: "isfinite (fadd x y) \<Longrightarrow> isfinite x \<and> isfinite y"
  by (cases "fadd x y") (auto dest: fadd_Finite)

lemma amount_isfinite: "amount x \<Longrightarrow> isfinite x \<and> \<not> flt x (Finite 0)"
  by (auto simp: amount_def)

lemma EPSILON_amount: "amount EPSILON"
proof -
  have "isfinite EPSILON" by code_simp
  then show ?thesis unfolding EPSILON_def float_lit_def by (intro amount_round64) simp_all
qed

text \<open>The total is at least its first component and its partial sums are amounts.\<close>

lemma component_floor_amount:
  assumes "amount n" "amount c" "amount w" "amount x" "amount s"
    and "isfinite (component_floor n c w x s)"
  shows "amount (component_floor n c w x s)" and "val_of n \<le> val_of (component_floor n c w x s)"
proof -
  let ?a = "fadd n c" and ?b = "fadd (fadd n c) w" and ?d = "fadd (fadd (fadd n c) w) x"
  have fin: "isfinite ?d" "isfinite ?b" "isfinite ?a"
    using assms(6) unfolding component_floor_def by (blast dest: fadd_right_finite)+
  have am: "amount ?a" "amount ?b" "amount ?d"
    using amount_fadd assms(1-4) fin by blast+
  then show tot: "amount (component_floor n c w x s)"
    using amount_fadd assms(5,6) by (simp add: component_floor_def)
  have le: "val_of u \<le> val_of (fadd u v)" if "amount u" "amount v" "amount (fadd u v)" for u v
    using that fadd_amount_ge [of u v "val_of (fadd u v)"] by (auto simp: amount_def)
  show "val_of n \<le> val_of (component_floor n c w x s)"
    using le [OF assms(1,2) am(1)] le [OF am(1) assms(3) am(2)] le [OF am(2) assms(4) am(3)]
      le [OF am(3) assms(5)] tot
    by (simp add: component_floor_def)
qed

lemma request_notional_amount:
  assumes "wf_ExecutionRequest r" "wf_value (limit_price r)" "py_float (limit_price r) = Inr price"
    and "int_mul_float (qty r) price = Inr notional" "isfinite notional"
  shows "amount notional"
proof -
  have price: "amount price"
  proof -
    have fin: "num_pos (limit_price r)" "isfinite price"
      using assms(1,3) by (auto simp: wf_ExecutionRequest_def finite_number_def)
    show ?thesis
    proof (cases "limit_price r")
      case (PyInt n)
      then have "float_of_int n = Inr price" "0 < n" using assms(3) fin by simp_all
      then show ?thesis using float_of_int_Inr binary64.rnd_nonneg [of "of_int n"]
        by (auto simp: amount_def simp del: wf_float.simps)
    next
      case (PyFloat y)
      then show ?thesis using assms(2,3) fin
        by (cases y) (auto simp: amount_def wf_value_def simp del: wf_float.simps)
    qed (use fin in simp_all)
  qed
  from assms(4) obtain m where m: "float_of_int (qty r) = Inr m" "notional = fmul m price"
    by (auto simp: int_mul_float_def bindR_eq_Inr)
  have "amount m" using float_of_int_Inr [OF m(1)] assms(1)
    by (auto simp: amount_def wf_ExecutionRequest_def intro!: binary64.rnd_nonneg)
  with price m(2) assms(5) show ?thesis using amount_fmul by blast
qed



section \<open>Properties\<close>

lemma estimate_amounts_amount:
  assumes "wf_estimator est" "amount n" "estimate_amounts est n = (c, x, t)" "isfinite t"
  shows "amount c" "amount x" "t = component_floor n c (temporary_withholding_buffer est) x (safety_buffer est)"
proof -
  from assms(3) have e: "c = fmax (minimum_fee est) (fmul n (fee_rate est))"
    "x = fmul n (fx_rounding_rate est)"
    and t: "t = component_floor n c (temporary_withholding_buffer est) x (safety_buffer est)"
    by (auto simp: estimate_amounts_def Let_def)
  show "t = component_floor n c (temporary_withholding_buffer est) x (safety_buffer est)" by (rule t)
  have fin: "isfinite c" "isfinite x"
    using assms(4) unfolding t component_floor_def by (blast dest: fadd_right_finite)+
  show "amount x" using amount_fmul fin(2) assms(1,2) e(2) by (simp add: wf_estimator_def)
  have fee: "amount (minimum_fee est)" "amount (fee_rate est)" using assms(1) by (simp_all add: wf_estimator_def)
  show "amount c"
  proof (cases "flt (minimum_fee est) (fmul n (fee_rate est))")
    case True
    then show ?thesis using fin(1) e(1) amount_fmul [OF assms(2) fee(2)] by (simp add: fmax_def)
  next
    case False
    then show ?thesis using e(1) fee(1) by (simp add: fmax_def)
  qed
qed

text \<open>
  The conservative estimate of a \<open>BUY\<close> is accepted and covers the order.  For a
  well-formed request and estimator, whenever the total is finite the estimate is returned
  (the check that the total covers its components never rejects it), the required cash is
  that total, and it is at least the notional of the order.
\<close>

theorem estimate_covers_notional:
  assumes "wf_estimator est" "wf_ExecutionRequest r" "wf_value (limit_price r)" "side r = BUY"
    and "py_float (limit_price r) = Inr price" "int_mul_float (qty r) price = Inr n"
    and "estimate_amounts est n = (c, x, t)" "isfinite t"
  shows "\<exists>e. estimate est r asset = Inr e \<and> ce_required_cash e = t \<and> ce_order_notional e = n
    \<and> val_of n \<le> val_of t \<and> amount t"
proof -
  have "isfinite n"
    using assms(7,8) unfolding estimate_amounts_def Let_def component_floor_def
    by (blast dest: fadd_right_finite elim: Pair_inject)
  then have n: "amount n" using request_notional_amount assms(2,3,5,6) by blast
  note cx = estimate_amounts_amount [OF assms(1) n assms(7,8)]
  have b: "amount (temporary_withholding_buffer est)" "amount (safety_buffer est)"
    using assms(1) by (simp_all add: wf_estimator_def)
  note floor = component_floor_amount [OF n cx(1) b(1) cx(2) b(2) assms(8) [unfolded cx(3)], folded cx(3)]
  obtain eps where eps: "EPSILON = Finite eps" "0 \<le> eps" using EPSILON_amount by (auto simp: amount_def)
  have "\<not> flt (fadd t EPSILON) t" using not_flt_fadd_nonneg [of t eps] floor(1) eps by (simp add: amount_def del: wf_float.simps)
  then have "estimate est r asset = Inr \<lparr>ce_required_cash = t, ce_order_notional = n,
      ce_transaction_cost_buffer = c, ce_temporary_withholding_buffer = temporary_withholding_buffer est,
      ce_fx_rounding_buffer = x, ce_safety_buffer = safety_buffer est\<rparr>"
    using assms(4-7) amount_isfinite [OF n] amount_isfinite [OF cx(1)] amount_isfinite [OF cx(2)]
      amount_isfinite [OF b(1)] amount_isfinite [OF b(2)] amount_isfinite [OF floor(1)] cx(3)
    by (simp add: estimate_def mk_CashRequirementEstimate_def)
  with floor show ?thesis by simp
qed

definition zero_estimator :: ConservativeCashRequirementEstimator where
  "zero_estimator = \<lparr>fee_rate = Finite 0, minimum_fee = Finite 5, temporary_withholding_buffer = Finite 0,
     fx_rounding_rate = Finite 0, safety_buffer = Finite 100\<rparr>"

definition buy_request :: ExecutionRequest where
  "buy_request = \<lparr>client_order_id = ''c1'', symbol = ''600000.SH'', side = BUY, qty = 100,
     limit_price = PyFloat (Finite 10), strategy_id = ''s1'', order_remark = ''r1''\<rparr>"

definition empty_asset :: BrokerAsset where
  "empty_asset = \<lparr>ba_cash = PyFloat (Finite 2000), ba_frozen_cash = PyFloat (Finite 0),
     ba_market_value = PyFloat (Finite 0), ba_total_asset = PyFloat (Finite 2000)\<rparr>"

theorem estimate_covers_notional_witness:
  "\<exists>e. estimate zero_estimator buy_request empty_asset = Inr e \<and> val_of (ce_required_cash e) = 1105"
proof -
  have fl: "wf_float (Finite 0)" "wf_float (Finite 5)" "wf_float (Finite 100)" "wf_float (Finite 10)"
    by code_simp+
  have "wf_estimator zero_estimator" using fl
    by (simp add: wf_estimator_def zero_estimator_def amount_def del: wf_float.simps)
  moreover have "wf_ExecutionRequest buy_request" by code_simp
  moreover have "wf_value (limit_price buy_request)" using fl by (simp add: wf_value_def buy_request_def)
  moreover have "int_mul_float (qty buy_request) (Finite 10) = Inr (Finite 1000)" by code_simp
  moreover have "estimate_amounts zero_estimator (Finite 1000) = (Finite 5, Finite 0, Finite 1105)"
    by code_simp
  ultimately show ?thesis
    using estimate_covers_notional [of zero_estimator buy_request "Finite 10" "Finite 1000" "Finite 5"
        "Finite 0" "Finite 1105" empty_asset]
    by (auto simp: buy_request_def)
qed

end
