(* ===== verification/Coordination.thy ===== *)
theory Coordination
  imports Cash_Requirement Execution_Finality
begin

text \<open>
  \<open>coordination.py\<close>, second part: the SQLite coordinator that all processes of one machine
  share.  The tables are lists of rows with the constraints of the schema; a transaction works
  on a copy of the committed database, and every SQL statement can fail.  The time stamps are
  left out, since the code never reads them.
\<close>

section \<open>Tables\<close>

record claim_row =
  sc_account_key :: string
  sc_symbol :: string
  sc_execution_id :: string
  sc_client_order_id :: string
  sc_finality :: string

record reservation_row =
  cr_account_key :: string
  cr_execution_id :: string
  cr_client_order_id :: string
  cr_symbol :: string
  cr_required_cash :: pyfloat
  cr_active :: int

record identity_row =
  ci_account_key :: string
  ci_db_uuid :: string
  ci_authority_id :: string
  ci_schema_version :: int

record coordination_db =
  coordination_meta :: "int list"
  symbol_claim :: "claim_row list"
  cash_reservation :: "reservation_row list"
  coordination_identity :: "identity_row list"

definition empty_db :: coordination_db where
  "empty_db = \<lparr>coordination_meta = [], symbol_claim = [], cash_reservation = [],
     coordination_identity = []\<rparr>"

text \<open>
  The state: the world, whether the file exists, the committed database and the copy of the
  transaction.
\<close>

record 'w coord_state =
  cworld :: 'w
  db_exists :: bool
  committed :: coordination_db
  working :: coordination_db

text \<open>How \<open>COMMIT\<close> ends: it returns, or it raises, and then it took effect only if the process was interrupted.\<close>

datatype commit_outcome = Committed | CommitRaised exn bool

text \<open>
  What the coordinator uses of SQLite: connecting, \<open>BEGIN IMMEDIATE\<close>, running a statement,
  \<open>COMMIT\<close>, \<open>ROLLBACK\<close>, closing, and the sum that \<open>SUM\<close> computes of a column of floats.  \<open>sql_created\<close>
  tells whether a connecting that raised has created the file before.
\<close>

record 'w coord_env =
  sql_connect :: "('w, unit) pyact"
  sql_created :: "'w \<Rightarrow> bool"
  sql_begin :: "('w, unit) pyact"
  sql_statement :: "('w, unit) pyact"
  sql_commit :: "'w \<Rightarrow> commit_outcome \<times> 'w"
  sql_rollback :: "('w, unit) pyact"
  sql_close :: "('w, unit) pyact"
  sql_sum :: "pyfloat list \<Rightarrow> pyfloat"

type_synonym ('w, 'a) coord_act = "('w coord_state, 'a) pyact"

definition sql :: "('w, 'a) pyact \<Rightarrow> ('w, 'a) coord_act" where
  "sql m = (\<lambda>s. case m (cworld s) of (r, w) \<Rightarrow> (r, s\<lparr>cworld := w\<rparr>))"

definition connect :: "'w coord_env \<Rightarrow> ('w, unit) coord_act" where
  "connect env =
     (\<lambda>s. case sql_connect env (cworld s) of
        (Inl e, w) \<Rightarrow> (Inl e, s\<lparr>cworld := w, db_exists := (db_exists s \<or> sql_created env w)\<rparr>)
      | (Inr x, w) \<Rightarrow> (Inr (), s\<lparr>cworld := w, db_exists := True\<rparr>))"

text \<open>\<open>SELECT\<close> in a transaction, and a statement that changes rows (it may violate a constraint).\<close>

definition select :: "'w coord_env \<Rightarrow> (coordination_db \<Rightarrow> 'a) \<Rightarrow> ('w, 'a) coord_act" where
  "select env q = bindM (sql (sql_statement env)) (\<lambda>_. getM (\<lambda>s. q (working s)))"

definition execute :: "'w coord_env \<Rightarrow> (coordination_db \<Rightarrow> coordination_db pyres) \<Rightarrow> ('w, unit) coord_act" where
  "execute env f =
     bindM (sql (sql_statement env)) (\<lambda>_.
     bindM (getM working) (\<lambda>d.
     bindM (liftR (f d)) (\<lambda>d'.
     modifyM (\<lambda>s. s\<lparr>working := d'\<rparr>))))"

definition commit :: "'w coord_env \<Rightarrow> ('w, unit) coord_act" where
  "commit env =
     (\<lambda>s. case sql_commit env (cworld s) of
        (Committed, w) \<Rightarrow> (Inr (), s\<lparr>cworld := w, committed := working s\<rparr>)
      | (CommitRaised e done, w) \<Rightarrow>
          (Inl e, if done then s\<lparr>cworld := w, committed := working s\<rparr> else s\<lparr>cworld := w\<rparr>))"

text \<open>\<open>BEGIN IMMEDIATE\<close>: from here on the transaction sees and changes its own copy.\<close>

definition begin_immediate :: "'w coord_env \<Rightarrow> ('w, unit) coord_act" where
  "begin_immediate env =
     bindM (sql (sql_begin env)) (\<lambda>_. modifyM (\<lambda>s. s\<lparr>working := committed s\<rparr>))"

definition begin_write :: "'w coord_env \<Rightarrow> ('w, unit) coord_act" where
  "begin_write env =
     tryM (begin_immediate env)
       (\<lambda>e. if isinstance_exn e SqliteError
            then Some (raiseM (Exn CoordinationError ''unable to acquire coordination write transaction''))
            else None)"

text \<open>
  The frame that \<open>prepare\<close>, \<open>restore\<close> and \<open>update_finality\<close> share: connect, begin, the body,
  commit; on a coordination error roll back and raise it, on a SQLite error roll back and raise
  a coordination error; close in every case.
\<close>

definition transaction :: "'w coord_env \<Rightarrow> string \<Rightarrow> ('w, unit) coord_act \<Rightarrow> ('w, unit) coord_act" where
  "transaction env msg body =
     bindM (connect env) (\<lambda>_.
     finallyM
       (tryM (bindM (begin_write env) (\<lambda>_. bindM body (\<lambda>_. commit env)))
          (\<lambda>e. if isinstance_exn e CoordinationError then
                 Some (bindM (sql (sql_rollback env)) (\<lambda>_. raiseM e))
               else if isinstance_exn e SqliteError then
                 Some (bindM (sql (sql_rollback env)) (\<lambda>_. raiseM (Exn CoordinationError msg)))
               else None))
       (sql (sql_close env)))"


section \<open>Statements\<close>

definition claim_key :: "string \<Rightarrow> string \<Rightarrow> claim_row \<Rightarrow> bool" where
  "claim_key acc smb c = (sc_account_key c = acc \<and> sc_symbol c = smb)"

definition claim_owner :: "string \<Rightarrow> string \<Rightarrow> string \<Rightarrow> claim_row \<Rightarrow> bool" where
  "claim_owner acc eid cid c =
     (sc_account_key c = acc \<and> sc_execution_id c = eid \<and> sc_client_order_id c = cid)"

definition reservation_key :: "string \<Rightarrow> string \<Rightarrow> string \<Rightarrow> reservation_row \<Rightarrow> bool" where
  "reservation_key acc eid cid r =
     (cr_account_key r = acc \<and> cr_execution_id r = eid \<and> cr_client_order_id r = cid)"

definition find_claim :: "string \<Rightarrow> string \<Rightarrow> coordination_db \<Rightarrow> claim_row option" where
  "find_claim acc smb d = find (claim_key acc smb) (symbol_claim d)"

definition find_reservation :: "string \<Rightarrow> string \<Rightarrow> string \<Rightarrow> coordination_db \<Rightarrow> reservation_row option" where
  "find_reservation acc eid cid d = find (reservation_key acc eid cid) (cash_reservation d)"

text \<open>
  \<open>INSERT INTO symbol_claim\<close>: the primary key is the account and the symbol, and the unique
  index is the account, the execution and the client order.
\<close>

definition insert_claim :: "claim_row \<Rightarrow> coordination_db \<Rightarrow> coordination_db pyres" where
  "insert_claim c d =
     bindR (raise_if
       (list_ex (claim_key (sc_account_key c) (sc_symbol c)) (symbol_claim d)
        \<or> list_ex (claim_owner (sc_account_key c) (sc_execution_id c) (sc_client_order_id c)) (symbol_claim d))
       (Exn SqliteError ''UNIQUE constraint failed'')) (\<lambda>_.
     Inr (d\<lparr>symbol_claim := symbol_claim d @ [c]\<rparr>))"

definition insert_reservation :: "reservation_row \<Rightarrow> coordination_db \<Rightarrow> coordination_db pyres" where
  "insert_reservation r d =
     bindR (raise_if
       (list_ex (reservation_key (cr_account_key r) (cr_execution_id r) (cr_client_order_id r))
          (cash_reservation d))
       (Exn SqliteError ''UNIQUE constraint failed'')) (\<lambda>_.
     bindR (raise_if (\<not> fle (Finite 0) (cr_required_cash r) \<or> cr_active r \<notin> {0, 1})
       (Exn SqliteError ''CHECK constraint failed'')) (\<lambda>_.
     Inr (d\<lparr>cash_reservation := cash_reservation d @ [r]\<rparr>)))"

definition update_claim_finality :: "string \<Rightarrow> string \<Rightarrow> string \<Rightarrow> coordination_db \<Rightarrow> coordination_db pyres" where
  "update_claim_finality acc smb fin d =
     Inr (d\<lparr>symbol_claim := map (\<lambda>c. if claim_key acc smb c then c\<lparr>sc_finality := fin\<rparr> else c)
              (symbol_claim d)\<rparr>)"

definition delete_claim :: "string \<Rightarrow> string \<Rightarrow> string \<Rightarrow> string \<Rightarrow> coordination_db \<Rightarrow> coordination_db pyres" where
  "delete_claim acc smb eid cid d =
     Inr (d\<lparr>symbol_claim := filter (\<lambda>c. \<not> (claim_key acc smb c \<and> claim_owner acc eid cid c))
              (symbol_claim d)\<rparr>)"

definition release_reservation :: "string \<Rightarrow> string \<Rightarrow> string \<Rightarrow> coordination_db \<Rightarrow> coordination_db pyres" where
  "release_reservation acc eid cid d =
     Inr (d\<lparr>cash_reservation :=
              map (\<lambda>r. if reservation_key acc eid cid r \<and> cr_active r = 1 then r\<lparr>cr_active := 0\<rparr> else r)
                (cash_reservation d)\<rparr>)"

definition reactivate_reservation ::
  "string \<Rightarrow> string \<Rightarrow> string \<Rightarrow> pyfloat \<Rightarrow> coordination_db \<Rightarrow> coordination_db pyres" where
  "reactivate_reservation acc eid cid cash d =
     bindR (raise_if (\<not> fle (Finite 0) cash) (Exn SqliteError ''CHECK constraint failed'')) (\<lambda>_.
     Inr (d\<lparr>cash_reservation :=
              map (\<lambda>r. if reservation_key acc eid cid r
                        then r\<lparr>cr_required_cash := cash, cr_active := 1\<rparr> else r)
                (cash_reservation d)\<rparr>))"

definition active_of :: "string \<Rightarrow> coordination_db \<Rightarrow> reservation_row list" where
  "active_of acc d = filter (\<lambda>r. cr_account_key r = acc \<and> cr_active r = 1) (cash_reservation d)"

text \<open>\<open>COALESCE(SUM(required_cash), 0.0)\<close> over the active rows of the account.\<close>

definition reserved_total :: "'w coord_env \<Rightarrow> string \<Rightarrow> coordination_db \<Rightarrow> pyfloat" where
  "reserved_total env acc d =
     (if active_of acc d = [] then Finite 0 else sql_sum env (map cr_required_cash (active_of acc d)))"



section \<open>Operations\<close>

definition validate_owner :: "string \<Rightarrow> string \<Rightarrow> unit pyres" where
  "validate_owner acc eid =
     bindR (plain_non_empty (PyStr acc) ''account_key'') (\<lambda>_.
     bindR (plain_non_empty (PyStr eid) ''execution_id'') (\<lambda>_. Inr ()))"

definition new_claim :: "string \<Rightarrow> string \<Rightarrow> ExecutionRequest \<Rightarrow> ExecutionFinality \<Rightarrow> claim_row" where
  "new_claim acc eid request fin =
     \<lparr>sc_account_key = acc, sc_symbol = symbol request, sc_execution_id = eid,
      sc_client_order_id = client_order_id request, sc_finality = ExecutionFinality_value fin\<rparr>"

definition new_reservation :: "string \<Rightarrow> string \<Rightarrow> ExecutionRequest \<Rightarrow> pyfloat \<Rightarrow> reservation_row" where
  "new_reservation acc eid request cash =
     \<lparr>cr_account_key = acc, cr_execution_id = eid, cr_client_order_id = client_order_id request,
      cr_symbol = symbol request, cr_required_cash = cash, cr_active = 1\<rparr>"

definition owns :: "string \<Rightarrow> ExecutionRequest \<Rightarrow> claim_row \<Rightarrow> bool" where
  "owns eid request c =
     (sc_execution_id c = eid \<and> sc_client_order_id c = client_order_id request)"

text \<open>The part of \<open>prepare\<close> that claims the symbol.\<close>

definition prepare_claim ::
  "'w coord_env \<Rightarrow> string \<Rightarrow> string \<Rightarrow> ExecutionRequest \<Rightarrow> ('w, unit) coord_act" where
  "prepare_claim env acc eid request =
     bindM (select env (find_claim acc (symbol request))) (\<lambda>existing.
       case existing of
         Some c \<Rightarrow>
           raiseM_if (\<not> owns eid request c)
             (Exn SymbolClaimConflict ''same account/symbol is owned by another unresolved execution'')
       | None \<Rightarrow> execute env (insert_claim (new_claim acc eid request FINALITY_OPEN)))"

text \<open>The part of \<open>prepare\<close> that reserves the cash of a \<open>BUY\<close>.\<close>

definition prepare_cash ::
  "'w coord_env \<Rightarrow> string \<Rightarrow> string \<Rightarrow> ExecutionRequest \<Rightarrow> pyfloat \<Rightarrow> pyfloat \<Rightarrow> ('w, unit) coord_act" where
  "prepare_cash env acc eid request available required =
     bindM (select env (find_reservation acc eid (client_order_id request))) (\<lambda>existing.
       case existing of
         Some r \<Rightarrow>
           bindM (raiseM_if (cr_active r \<noteq> 1)
             (Exn CoordinationError ''released cash reservation identity cannot be reused'')) (\<lambda>_.
           raiseM_if (flt EPSILON (fabs (fsub (cr_required_cash r) required)))
             (Exn CoordinationError ''active reservation amount changed for one logical execution''))
       | None \<Rightarrow>
           bindM (select env (reserved_total env acc)) (\<lambda>already_reserved.
           let effective = fsub available already_reserved in
           bindM (raiseM_if (flt (fadd effective EPSILON) required)
             (Exn CashReservationRejected
                ''conservative BUY cash requirement exceeds fresh broker cash minus active cross-process reservations''))
             (\<lambda>_.
           execute env (insert_reservation (new_reservation acc eid request required)))))"

definition prepare ::
  "'w coord_env \<Rightarrow> string \<Rightarrow> string \<Rightarrow> ExecutionRequest \<Rightarrow> pyval \<Rightarrow> pyval \<Rightarrow> ('w, unit) coord_act" where
  "prepare env acc eid request broker_available_cash required_cash =
     bindM (liftR (validate_owner acc eid)) (\<lambda>_.
     bindM (liftR
       (if side request = BUY then
          bindR (finite_non_negative broker_available_cash ''broker_available_cash'') (\<lambda>a.
          bindR (finite_non_negative required_cash ''required_cash'') (\<lambda>r. Inr (a, r)))
        else Inr (Finite 0, Finite 0))) (\<lambda>(available, required).
     transaction env ''coordination prepare transaction failed''
       (bindM (prepare_claim env acc eid request) (\<lambda>_.
        if side request = BUY then prepare_cash env acc eid request available required
        else returnM ()))))"

definition update_finality ::
  "'w coord_env \<Rightarrow> string \<Rightarrow> string \<Rightarrow> ExecutionRequest \<Rightarrow> ExecutionFinality \<Rightarrow> ('w, unit) coord_act" where
  "update_finality env acc eid request finality =
     bindM (liftR (validate_owner acc eid)) (\<lambda>_.
     transaction env ''coordination finality update failed''
       (bindM (select env (find_claim acc (symbol request))) (\<lambda>claim.
        bindM (raiseM_if (case claim of None \<Rightarrow> False | Some c \<Rightarrow> \<not> owns eid request c)
          (Exn SymbolClaimConflict ''symbol claim belongs to another unresolved execution'')) (\<lambda>_.
        if finality = FINALITY_RESOLVED then
          bindM (if claim \<noteq> None
                 then execute env (delete_claim acc (symbol request) eid (client_order_id request))
                 else returnM ()) (\<lambda>_.
          execute env (release_reservation acc eid (client_order_id request)))
        else
          bindM (raiseM_if (claim = None)
            (Exn CoordinationError ''unresolved execution has no durable account/symbol claim'')) (\<lambda>_.
          execute env (update_claim_finality acc (symbol request) (ExecutionFinality_value finality)))))))"

definition restore_claim ::
  "'w coord_env \<Rightarrow> string \<Rightarrow> string \<Rightarrow> ExecutionRequest \<Rightarrow> ExecutionFinality \<Rightarrow> ('w, unit) coord_act" where
  "restore_claim env acc eid request finality =
     bindM (select env (find_claim acc (symbol request))) (\<lambda>claim.
     bindM (raiseM_if (case claim of None \<Rightarrow> False | Some c \<Rightarrow> \<not> owns eid request c)
       (Exn SymbolClaimConflict ''cannot restore claim because another execution owns the symbol'')) (\<lambda>_.
     if claim = None then execute env (insert_claim (new_claim acc eid request finality))
     else execute env (update_claim_finality acc (symbol request) (ExecutionFinality_value finality))))"

definition restore_cash ::
  "'w coord_env \<Rightarrow> string \<Rightarrow> string \<Rightarrow> ExecutionRequest \<Rightarrow> pyfloat \<Rightarrow> ('w, unit) coord_act" where
  "restore_cash env acc eid request required =
     bindM (select env (find_reservation acc eid (client_order_id request))) (\<lambda>existing.
       case existing of
         None \<Rightarrow> execute env (insert_reservation (new_reservation acc eid request required))
       | Some r \<Rightarrow>
           execute env (reactivate_reservation acc eid (client_order_id request)
             (fmax required (cr_required_cash r))))"

definition restore ::
  "'w coord_env \<Rightarrow> string \<Rightarrow> string \<Rightarrow> ExecutionRequest \<Rightarrow> pyval \<Rightarrow> ExecutionFinality
    \<Rightarrow> ('w, unit) coord_act" where
  "restore env acc eid request required_cash finality =
     bindM (liftR (validate_owner acc eid)) (\<lambda>_.
     if finality = FINALITY_RESOLVED then update_finality env acc eid request finality
     else
       bindM (liftR (if side request = BUY then finite_non_negative required_cash ''required_cash''
                     else Inr (Finite 0))) (\<lambda>required.
       transaction env ''coordination restore transaction failed''
         (bindM (restore_claim env acc eid request finality) (\<lambda>_.
          if side request = BUY then restore_cash env acc eid request required else returnM ()))))"

text \<open>A query outside a transaction reads the committed database.\<close>

definition query :: "'w coord_env \<Rightarrow> string \<Rightarrow> (coordination_db \<Rightarrow> 'a) \<Rightarrow> ('a \<Rightarrow> 'b pyres) \<Rightarrow> ('w, 'b) coord_act" where
  "query env msg q k =
     bindM (connect env) (\<lambda>_.
     finallyM
       (tryM (bindM (sql (sql_statement env)) (\<lambda>_.
              bindM (getM (\<lambda>s. q (committed s))) (\<lambda>x. liftR (k x))))
          (\<lambda>e. if isinstance_exn e SqliteError then Some (raiseM (Exn CoordinationError msg)) else None))
       (sql (sql_close env)))"

definition has_claim :: "'w coord_env \<Rightarrow> string \<Rightarrow> string \<Rightarrow> ExecutionRequest \<Rightarrow> ('w, bool) coord_act" where
  "has_claim env acc eid request =
     bindM (liftR (validate_owner acc eid)) (\<lambda>_.
     query env ''coordination claim query failed'' (find_claim acc (symbol request))
       (\<lambda>row. case row of
          None \<Rightarrow> Inr False
        | Some c \<Rightarrow>
            if owns eid request c then Inr True
            else Inl (Exn SymbolClaimConflict
                   ''same account/symbol is owned by another unresolved execution'')))"

definition active_reserved_cash :: "'w coord_env \<Rightarrow> string \<Rightarrow> ('w, pyfloat) coord_act" where
  "active_reserved_cash env acc =
     bindM (liftR (plain_non_empty (PyStr acc) ''account_key'')) (\<lambda>_.
     query env ''coordination reservation query failed'' (reserved_total env acc) Inr)"

definition ExecutionFinality_of :: "pyval \<Rightarrow> ExecutionFinality pyres" where
  "ExecutionFinality_of =
     enum_of ExecutionFinality_value [FINALITY_OPEN, FINALITY_RESOLVED, FINALITY_QUARANTINED]"

definition get_claim ::
  "'w coord_env \<Rightarrow> string \<Rightarrow> string \<Rightarrow> ('w, (claim_row \<times> ExecutionFinality) option) coord_act" where
  "get_claim env acc smb =
     bindM (liftR (plain_non_empty (PyStr acc) ''account_key'')) (\<lambda>_.
     bindM (liftR (plain_non_empty (PyStr smb) ''symbol'')) (\<lambda>_.
     query env ''coordination claim query failed'' (find_claim acc smb)
       (\<lambda>row. case row of
          None \<Rightarrow> Inr None
        | Some c \<Rightarrow> bindR (ExecutionFinality_of (PyStr (sc_finality c))) (\<lambda>f. Inr (Some (c, f))))))"

definition get_reservation ::
  "'w coord_env \<Rightarrow> string \<Rightarrow> string \<Rightarrow> string \<Rightarrow> ('w, reservation_row option) coord_act" where
  "get_reservation env acc eid cid =
     bindM (liftR (plain_non_empty (PyStr acc) ''account_key'')) (\<lambda>_.
     bindM (liftR (plain_non_empty (PyStr eid) ''execution_id'')) (\<lambda>_.
     bindM (liftR (plain_non_empty (PyStr cid) ''client_order_id'')) (\<lambda>_.
     query env ''coordination reservation query failed'' (find_reservation acc eid cid) Inr)))"


section \<open>The identity of the database\<close>

definition COORDINATION_SCHEMA_VERSION :: int where
  "COORDINATION_SCHEMA_VERSION = 1"

text \<open>The row of \<open>coordination_meta\<close>: written once, then checked.\<close>

definition ensure_meta :: "'w coord_env \<Rightarrow> bool \<Rightarrow> ('w, unit) coord_act" where
  "ensure_meta env check =
     bindM (select env coordination_meta) (\<lambda>rows.
       case rows of
         [] \<Rightarrow> execute env (\<lambda>d. Inr (d\<lparr>coordination_meta := [COORDINATION_SCHEMA_VERSION]\<rparr>))
       | v # _ \<Rightarrow>
           raiseM_if (check \<and> v \<noteq> COORDINATION_SCHEMA_VERSION)
             (Exn CoordinationError ''coordination schema version mismatch''))"

definition check_db_identity :: "'w coord_env \<Rightarrow> identity_row \<Rightarrow> ('w, unit) coord_act" where
  "check_db_identity env expected =
     bindM (select env (\<lambda>d. length (coordination_identity d))) (\<lambda>n.
     bindM (raiseM_if (n \<noteq> 1)
       (Exn CoordinationIdentityError
          ''coordination DB must contain exactly one authority identity row for the dedicated instance'')) (\<lambda>_.
     bindM (select env coordination_identity) (\<lambda>rows.
       case rows of
         [] \<Rightarrow> raiseM (Exn CoordinationIdentityError
                 ''coordination DB has no authority identity metadata (legacy 0.4.0 DB is not silently adopted)'')
       | row # _ \<Rightarrow>
           raiseM_if (row \<noteq> expected)
             (Exn CoordinationIdentityError
                ''coordination DB identity does not match the certified account Runtime Authority (account_key / db_uuid / authority_id mismatch)''))))"

text \<open>\<open>CREATE TABLE IF NOT EXISTS\<close> and the like: statements that leave the rows as they are.\<close>

definition initialize :: "'w coord_env \<Rightarrow> identity_row option \<Rightarrow> ('w, unit) coord_act" where
  "initialize env expected_identity =
     tryM
       (bindM (getM db_exists) (\<lambda>present.
        bindM (raiseM_if (expected_identity \<noteq> None \<and> \<not> present)
          (Exn CoordinationIdentityError
             ''certified coordination DB file is missing; refusing to recreate or adopt a replacement at the same path'')) (\<lambda>_.
        bindM (connect env) (\<lambda>_.
        finallyM
          (tryM
             (bindM (sql (sql_statement env)) (\<lambda>_.
              bindM (begin_immediate env) (\<lambda>_.
              bindM (sql (sql_statement env)) (\<lambda>_.
              bindM (ensure_meta env True) (\<lambda>_.
              bindM (case expected_identity of None \<Rightarrow> returnM ()
                     | Some expected \<Rightarrow> check_db_identity env expected) (\<lambda>_.
              commit env))))))
             (\<lambda>e. if isinstance_exn e PyException
                  then Some (bindM (sql (sql_rollback env)) (\<lambda>_. raiseM e)) else None))
          (sql (sql_close env))))))
       (\<lambda>e. if isinstance_exn e CoordinationError then None
            else if isinstance_exn e SqliteError then
              Some (raiseM (Exn CoordinationError ''unable to initialize coordination database''))
            else None)"

definition create :: "'w coord_env \<Rightarrow> identity_row \<Rightarrow> ('w, unit) coord_act" where
  "create env identity =
     bindM (getM db_exists) (\<lambda>present.
     bindM (raiseM_if present
       (Exn CoordinationIdentityError ''refusing to create a coordination DB over an existing file'')) (\<lambda>_.
     bindM (connect env) (\<lambda>_.
     bindM
       (finallyM
         (tryM
            (bindM (sql (sql_statement env)) (\<lambda>_.
             bindM (begin_immediate env) (\<lambda>_.
             bindM (sql (sql_statement env)) (\<lambda>_.
             bindM (ensure_meta env False) (\<lambda>_.
             bindM (execute env (\<lambda>d.
               bindR (raise_if (list_ex (\<lambda>i. ci_account_key i = ci_account_key identity)
                                  (coordination_identity d))
                 (Exn SqliteError ''UNIQUE constraint failed'')) (\<lambda>_.
               Inr (d\<lparr>coordination_identity := coordination_identity d @ [identity]\<rparr>)))) (\<lambda>_.
             commit env))))))
            (\<lambda>e. if isinstance_exn e SqliteError then
                   Some (bindM (sql (sql_rollback env)) (\<lambda>_.
                         raiseM (Exn CoordinationError ''unable to create coordination database'')))
                 else None))
         (sql (sql_close env))) (\<lambda>_.
     initialize env (Some identity)))))"

end
