(* ===== verification/Coordination_Spec.thy ===== *)
theory Coordination_Spec
  imports Coordination
begin

text \<open>
  The abstract specification of the coordinator: every operation is one atomic step on the
  database, a pure function that either returns the new database or raises.  The refinement
  lemmas show that the detailed operations, with their connections, statements, failures,
  rollbacks and interruptions, either leave the committed database as it was or take exactly
  that step.
\<close>

section \<open>Atomic steps\<close>

type_synonym 'a tx = "(coordination_db, 'a) pyact"

definition tx_execute :: "(coordination_db \<Rightarrow> coordination_db pyres) \<Rightarrow> unit tx" where
  "tx_execute f =
     bindM (getM (\<lambda>d. d)) (\<lambda>d. bindM (liftR (f d)) (\<lambda>d'. modifyM (\<lambda>_. d')))"

definition claim_tx :: "string \<Rightarrow> string \<Rightarrow> ExecutionRequest \<Rightarrow> unit tx" where
  "claim_tx acc eid request =
     bindM (getM (find_claim acc (symbol request))) (\<lambda>existing.
       case existing of
         Some c \<Rightarrow>
           raiseM_if (\<not> owns eid request c)
             (Exn SymbolClaimConflict ''same account/symbol is owned by another unresolved execution'')
       | None \<Rightarrow> tx_execute (insert_claim (new_claim acc eid request FINALITY_OPEN)))"

definition cash_tx ::
  "(coordination_db \<Rightarrow> pyfloat) \<Rightarrow> string \<Rightarrow> string \<Rightarrow> ExecutionRequest \<Rightarrow> pyfloat \<Rightarrow> pyfloat \<Rightarrow> unit tx" where
  "cash_tx tot acc eid request available required =
     bindM (getM (find_reservation acc eid (client_order_id request))) (\<lambda>existing.
       case existing of
         Some r \<Rightarrow>
           bindM (raiseM_if (cr_active r \<noteq> 1)
             (Exn CoordinationError ''released cash reservation identity cannot be reused'')) (\<lambda>_.
           raiseM_if (flt EPSILON (fabs (fsub (cr_required_cash r) required)))
             (Exn CoordinationError ''active reservation amount changed for one logical execution''))
       | None \<Rightarrow>
           bindM (getM tot) (\<lambda>already_reserved.
           bindM (raiseM_if (flt (fadd (fsub available already_reserved) EPSILON) required)
             (Exn CashReservationRejected
                ''conservative BUY cash requirement exceeds fresh broker cash minus active cross-process reservations''))
             (\<lambda>_.
           tx_execute (insert_reservation (new_reservation acc eid request required)))))"

definition prepare_tx ::
  "(coordination_db \<Rightarrow> pyfloat) \<Rightarrow> string \<Rightarrow> string \<Rightarrow> ExecutionRequest \<Rightarrow> pyfloat \<Rightarrow> pyfloat \<Rightarrow> unit tx" where
  "prepare_tx tot acc eid request available required =
     bindM (claim_tx acc eid request) (\<lambda>_.
     if side request = BUY then cash_tx tot acc eid request available required else returnM ())"

definition finality_tx ::
  "string \<Rightarrow> string \<Rightarrow> ExecutionRequest \<Rightarrow> ExecutionFinality \<Rightarrow> unit tx" where
  "finality_tx acc eid request finality =
     bindM (getM (find_claim acc (symbol request))) (\<lambda>claim.
     bindM (raiseM_if (case claim of None \<Rightarrow> False | Some c \<Rightarrow> \<not> owns eid request c)
       (Exn SymbolClaimConflict ''symbol claim belongs to another unresolved execution'')) (\<lambda>_.
     if finality = FINALITY_RESOLVED then
       bindM (if claim \<noteq> None
              then tx_execute (delete_claim acc (symbol request) eid (client_order_id request))
              else returnM ()) (\<lambda>_.
       tx_execute (release_reservation acc eid (client_order_id request)))
     else
       bindM (raiseM_if (claim = None)
         (Exn CoordinationError ''unresolved execution has no durable account/symbol claim'')) (\<lambda>_.
       tx_execute (update_claim_finality acc (symbol request) (ExecutionFinality_value finality)))))"

definition restore_tx ::
  "string \<Rightarrow> string \<Rightarrow> ExecutionRequest \<Rightarrow> pyfloat \<Rightarrow> ExecutionFinality \<Rightarrow> unit tx" where
  "restore_tx acc eid request required finality =
     bindM (getM (find_claim acc (symbol request))) (\<lambda>claim.
     bindM (raiseM_if (case claim of None \<Rightarrow> False | Some c \<Rightarrow> \<not> owns eid request c)
       (Exn SymbolClaimConflict ''cannot restore claim because another execution owns the symbol'')) (\<lambda>_.
     bindM
       (if claim = None then tx_execute (insert_claim (new_claim acc eid request finality))
        else tx_execute (update_claim_finality acc (symbol request) (ExecutionFinality_value finality)))
       (\<lambda>_.
     if side request = BUY then
       bindM (getM (find_reservation acc eid (client_order_id request))) (\<lambda>existing.
         case existing of
           None \<Rightarrow> tx_execute (insert_reservation (new_reservation acc eid request required))
         | Some r \<Rightarrow>
             tx_execute (reactivate_reservation acc eid (client_order_id request)
               (fmax required (cr_required_cash r))))
     else returnM ())))"


section \<open>Refinement\<close>

text \<open>
  A computation inside a transaction refines an atomic step: it never touches the committed
  database, and when it returns the working copy is the result of the step.
\<close>

definition refines :: "('w, 'a) coord_act \<Rightarrow> 'a tx \<Rightarrow> bool" where
  "refines m f \<longleftrightarrow>
     (\<forall>s r s'. m s = (r, s') \<longrightarrow>
        committed s' = committed s \<and> (\<forall>x. r = Inr x \<longrightarrow> f (working s) = (Inr x, working s')))"

lemma sql_eq: "sql m s = (r, s') \<Longrightarrow> committed s' = committed s \<and> working s' = working s"
  by (auto simp: sql_def split: prod.splits)

lemma refines_select: "refines (select env q) (getM q)"
  by (auto simp: refines_def select_def bindM_def getM_def dest!: sql_eq split: prod.splits sum.splits)

lemma refines_execute: "refines (execute env f) (tx_execute f)"
  by (auto simp: refines_def execute_def tx_execute_def bindM_def getM_def liftR_def modifyM_def
      dest!: sql_eq split: prod.splits sum.splits)

lemma refines_raiseM_if: "refines (raiseM_if b e) (raiseM_if b e')"
  by (simp add: refines_def raiseM_if_def raiseM_def returnM_def)

lemma refines_returnM: "refines (returnM x) (returnM x)"
  by (simp add: refines_def returnM_def)

lemma refines_bindM:
  assumes "refines m f" and "\<And>x. refines (k x) (g x)"
  shows "refines (bindM m k) (bindM f g)"
  unfolding refines_def
proof (intro allI impI)
  fix s r s'
  assume run: "bindM m k s = (r, s')"
  obtain q t where m: "m s = (q, t)" by fastforce
  show "committed s' = committed s \<and> (\<forall>x. r = Inr x \<longrightarrow> bindM f g (working s) = (Inr x, working s'))"
  proof (cases q)
    case (Inl e)
    then show ?thesis using run m assms(1) by (auto simp: bindM_def refines_def)
  next
    case (Inr x)
    then have "k x t = (r, s')" using run m by (simp add: bindM_def)
    then show ?thesis using m Inr assms unfolding refines_def by (fastforce simp: bindM_def)
  qed
qed

lemma refines_if: "refines m f \<Longrightarrow> refines m' f' \<Longrightarrow> refines (if b then m else m') (if b then f else f')"
  by simp

lemmas refines_intros =
  refines_bindM refines_select refines_execute refines_raiseM_if refines_returnM refines_if

lemma refines_prepare:
  "refines (bindM (prepare_claim env acc eid request) (\<lambda>_.
      if side request = BUY then prepare_cash env acc eid request available required else returnM ()))
    (prepare_tx (reserved_total env acc) acc eid request available required)"
  unfolding prepare_tx_def prepare_claim_def claim_tx_def prepare_cash_def cash_tx_def Let_def
  by (intro refines_bindM refines_select refines_if refines_returnM)
    (auto intro!: refines_intros split: option.split)

lemma refines_finality:
  "refines (bindM (select env (find_claim acc (symbol request))) (\<lambda>claim.
        bindM (raiseM_if (case claim of None \<Rightarrow> False | Some c \<Rightarrow> \<not> owns eid request c)
          (Exn SymbolClaimConflict ''symbol claim belongs to another unresolved execution'')) (\<lambda>_.
        if finality = FINALITY_RESOLVED then
          bindM (if claim \<noteq> None
                 then execute env (delete_claim acc (symbol request) eid (client_order_id request))
                 else returnM ()) (\<lambda>_.
          execute env (release_reservation acc eid (client_order_id request)))
        else
          bindM (raiseM_if (claim = None)
            (Exn CoordinationError ''unresolved execution has no durable account/symbol claim'')) (\<lambda>_.
          execute env (update_claim_finality acc (symbol request) (ExecutionFinality_value finality))))))
    (finality_tx acc eid request finality)"
  unfolding finality_tx_def by (intro refines_intros)

lemma refines_restore:
  "refines (bindM (restore_claim env acc eid request finality) (\<lambda>_.
      if side request = BUY then restore_cash env acc eid request required else returnM ()))
    (restore_tx acc eid request required finality)"
proof -
  have assoc: "bindM (bindM m f) g = bindM m (\<lambda>x. bindM (f x) g)"
    for m :: "('c, 'd, 'e) act" and f :: "'e \<Rightarrow> ('c, 'd, 'f) act" and g :: "'f \<Rightarrow> ('c, 'd, 'g) act"
    by (auto simp: bindM_def fun_eq_iff split: prod.splits sum.splits)
  show ?thesis unfolding restore_tx_def restore_claim_def restore_cash_def assoc
    by (intro refines_bindM refines_select refines_raiseM_if refines_if refines_execute refines_returnM)
      (auto intro!: refines_execute split: option.split)
qed


text \<open>What one call may do to the committed database: nothing, or the atomic step; if it returns, the step.\<close>

definition atomic :: "('w, 'a) coord_act \<Rightarrow> 'a tx \<Rightarrow> bool" where
  "atomic m f \<longleftrightarrow>
     (\<forall>s r s'. m s = (r, s') \<longrightarrow>
        (committed s' = committed s \<or> (\<exists>x. f (committed s) = (Inr x, committed s')))
        \<and> (\<forall>x. r = Inr x \<longrightarrow> f (committed s) = (Inr x, committed s')))"

lemma keep_committed:
  assumes "\<And>s r s'. m s = (r, s') \<Longrightarrow> committed s' = committed s"
  shows "triple (\<lambda>s. committed s = d) m (\<lambda>_ s. committed s = d) (\<lambda>s. committed s = d)"
  by (rule tripleI) (auto dest: assms)

lemma begin_write_eq:
  "begin_write env s = (r, s') \<Longrightarrow>
     committed s' = committed s \<and> (\<forall>x. r = Inr x \<longrightarrow> working s' = committed s)"
  by (auto simp: begin_write_def begin_immediate_def tryM_def bindM_def modifyM_def raiseM_def
      dest!: sql_eq split: prod.splits sum.splits if_splits option.splits)

lemma commit_eq:
  "commit env s = (r, s') \<Longrightarrow>
     (committed s' = committed s \<or> committed s' = working s) \<and> (\<forall>x. r = Inr x \<longrightarrow> committed s' = working s)"
  by (auto simp: commit_def split: prod.splits commit_outcome.splits)

lemma connect_eq: "connect env s = (r, s') \<Longrightarrow> committed s' = committed s"
  by (auto simp: connect_def split: prod.splits sum.splits)

definition stepped :: "unit tx \<Rightarrow> coordination_db \<Rightarrow> 'w coord_state \<Rightarrow> bool" where
  "stepped f d s \<longleftrightarrow> committed s = d \<or> f d = (Inr (), committed s)"

lemma write_body_atomic:
  assumes "refines body f"
  shows "triple (\<lambda>s. committed s = d) (bindM (begin_write env) (\<lambda>_. bindM body (\<lambda>_. commit env)))
    (\<lambda>_ s. f d = (Inr (), committed s)) (stepped f d)"
proof (rule triple_bindM [where Q = "\<lambda>_ s. committed s = d \<and> working s = d"])
  show "triple (\<lambda>s. committed s = d) (begin_write env) (\<lambda>_ s. committed s = d \<and> working s = d)
      (stepped f d)"
    by (rule tripleI) (auto simp: stepped_def dest: begin_write_eq)
  show "triple (\<lambda>s. committed s = d \<and> working s = d) (bindM body (\<lambda>_. commit env))
      (\<lambda>_ s. f d = (Inr (), committed s)) (stepped f d)"
  proof (rule triple_bindM [where Q = "\<lambda>_ s. committed s = d \<and> f d = (Inr (), working s)"])
    show "triple (\<lambda>s. committed s = d \<and> working s = d) body
        (\<lambda>_ s. committed s = d \<and> f d = (Inr (), working s)) (stepped f d)"
      using assms by (intro tripleI) (fastforce simp: refines_def stepped_def)+
    show "triple (\<lambda>s. committed s = d \<and> f d = (Inr (), working s)) (commit env)
        (\<lambda>_ s. f d = (Inr (), committed s)) (stepped f d)"
      by (rule tripleI) (auto simp: stepped_def dest!: commit_eq)
  qed
qed

lemma stepped_sql: "triple (stepped f d) (sql m) (\<lambda>_. stepped f d) (stepped f d)"
  by (rule tripleI) (auto simp: stepped_def dest!: sql_eq)

lemma stepped_sql_ok:
  "triple (\<lambda>s. f d = (Inr (), committed s)) (sql m) (\<lambda>_ s. f d = (Inr (), committed s)) (stepped f d)"
  by (rule tripleI) (auto simp: stepped_def dest!: sql_eq)

lemma transaction_atomic:
  assumes "refines body f"
  shows "atomic (transaction env msg body) f"
proof -
  have roll: "triple (stepped f d) (bindM (sql m) (\<lambda>_. raiseM e)) R (stepped f d)"
    for d e and m :: "('b, unit) pyact" and R :: "unit \<Rightarrow> 'b coord_state \<Rightarrow> bool"
    by (rule triple_bindM [OF stepped_sql triple_raiseM])
  have conn: "triple (\<lambda>s. committed s = d) (connect env) (\<lambda>_ s. committed s = d) (stepped f d)" for d
    by (rule tripleI) (auto simp: stepped_def dest: connect_eq)
  have t: "triple (\<lambda>s. committed s = d) (transaction env msg body)
      (\<lambda>_ s. f d = (Inr (), committed s)) (stepped f d)" for d
    unfolding transaction_def
    by (rule triple_bindM [OF conn triple_finallyM [OF triple_tryM [OF write_body_atomic [OF assms]]
            stepped_sql stepped_sql_ok]])
      (auto intro: roll split: if_splits)
  have "(committed s' = committed s \<or> f (committed s) = (Inr (), committed s'))
      \<and> (\<forall>x. r = Inr x \<longrightarrow> f (committed s) = (Inr x, committed s'))"
    if "transaction env msg body s = (r, s')" for s r s'
    using that by (cases r) (auto simp: stepped_def dest: tripleD_Inr [OF t refl] tripleD_Inl [OF t refl])
  then show ?thesis unfolding atomic_def by blast
qed


text \<open>The steps of the whole operations, with the validation of their arguments.\<close>

definition prepare_step ::
  "'w coord_env \<Rightarrow> string \<Rightarrow> string \<Rightarrow> ExecutionRequest \<Rightarrow> pyval \<Rightarrow> pyval \<Rightarrow> unit tx" where
  "prepare_step env acc eid request cash required =
     bindM (liftR (validate_owner acc eid)) (\<lambda>_.
     bindM (liftR
       (if side request = BUY then
          bindR (finite_non_negative cash ''broker_available_cash'') (\<lambda>a.
          bindR (finite_non_negative required ''required_cash'') (\<lambda>r. Inr (a, r)))
        else Inr (Finite 0, Finite 0))) (\<lambda>(a, r).
     prepare_tx (reserved_total env acc) acc eid request a r))"

definition finality_step :: "string \<Rightarrow> string \<Rightarrow> ExecutionRequest \<Rightarrow> ExecutionFinality \<Rightarrow> unit tx" where
  "finality_step acc eid request finality =
     bindM (liftR (validate_owner acc eid)) (\<lambda>_. finality_tx acc eid request finality)"

definition restore_step ::
  "string \<Rightarrow> string \<Rightarrow> ExecutionRequest \<Rightarrow> pyval \<Rightarrow> ExecutionFinality \<Rightarrow> unit tx" where
  "restore_step acc eid request required finality =
     bindM (liftR (validate_owner acc eid)) (\<lambda>_.
     if finality = FINALITY_RESOLVED then finality_step acc eid request finality
     else
       bindM (liftR (if side request = BUY then finite_non_negative required ''required_cash''
                     else Inr (Finite 0))) (\<lambda>r.
       restore_tx acc eid request r finality))"

lemma atomic_lift:
  "(\<And>x. r = Inr x \<Longrightarrow> atomic (m x) (f x)) \<Longrightarrow> atomic (bindM (liftR r) m) (bindM (liftR r) f)"
  by (cases r) (auto simp: atomic_def bindM_def liftR_def)

lemma prepare_atomic:
  "atomic (prepare env acc eid request cash required) (prepare_step env acc eid request cash required)"
  unfolding prepare_def prepare_step_def
proof (intro atomic_lift)
  fix p :: "pyfloat \<times> pyfloat"
  show "atomic
      (case p of (available, required) \<Rightarrow>
        transaction env ''coordination prepare transaction failed''
          (bindM (prepare_claim env acc eid request) (\<lambda>_.
           if side request = BUY then prepare_cash env acc eid request available required
           else returnM ())))
      (case p of (a, r) \<Rightarrow> prepare_tx (reserved_total env acc) acc eid request a r)"
    by (cases p) (simp only: prod.case transaction_atomic refines_prepare)
qed

lemma update_finality_atomic:
  "atomic (update_finality env acc eid request finality) (finality_step acc eid request finality)"
  unfolding update_finality_def finality_step_def
  by (intro atomic_lift transaction_atomic refines_finality)

lemma restore_atomic:
  "atomic (restore env acc eid request required finality) (restore_step acc eid request required finality)"
proof -
  have if_atomic: "atomic m f \<Longrightarrow> atomic m' f' \<Longrightarrow> atomic (if b then m else m') (if b then f else f')"
    for b and m m' :: "('a, unit) coord_act" and f f' by simp
  show ?thesis unfolding restore_def restore_step_def
    by (intro atomic_lift if_atomic update_finality_atomic transaction_atomic refines_restore)
qed

text \<open>The queries change nothing.\<close>

definition same_db :: "'w coord_state \<Rightarrow> 'w coord_state \<Rightarrow> bool" where
  "same_db s s' \<longleftrightarrow> committed s' = committed s"

interpretation sd: step_preorder same_db
  by unfold_locales (simp_all add: same_db_def)

lemma same_db_sql: "keeps same_db (sql m)"
  by (auto simp: keeps_def same_db_def dest: sql_eq)

lemma same_db_connect: "keeps same_db (connect env)"
  by (auto simp: keeps_def same_db_def dest: connect_eq)

lemma same_db_query: "keeps same_db (query env msg q k)"
  unfolding query_def
  by (intro sd.keeps_bindM sd.keeps_finallyM sd.keeps_tryM same_db_connect same_db_sql sd.keeps_getM
      sd.keeps_liftR)
    (auto intro: sd.keeps_raiseM split: if_splits)

lemma query_committed: "query env msg q k s = (r, s') \<Longrightarrow> committed s' = committed s"
  using keepsD [OF same_db_query] by (simp add: same_db_def)

lemma has_claim_committed: "has_claim env acc eid request s = (r, s') \<Longrightarrow> committed s' = committed s"
  by (auto simp: has_claim_def bindM_def liftR_def dest: query_committed split: sum.splits)

end
