(* ===== verification/Coordination_Safety.thy ===== *)
theory Coordination_Safety
  imports Coordination_Spec
begin

text \<open>
  What the coordinator guarantees, on its atomic steps: the constraints of the tables and the
  link between reservations and claims are an invariant, an operation of one execution never
  touches the rows of another, and a successful \<open>BUY\<close> reservation keeps the sum of the active
  reservations within the cash the broker reported.
\<close>

section \<open>The invariant of the database\<close>

definition claim_symbol_key :: "claim_row \<Rightarrow> string \<times> string" where
  "claim_symbol_key c = (sc_account_key c, sc_symbol c)"

definition claim_owner_key :: "claim_row \<Rightarrow> string \<times> string \<times> string" where
  "claim_owner_key c = (sc_account_key c, sc_execution_id c, sc_client_order_id c)"

definition reservation_owner_key :: "reservation_row \<Rightarrow> string \<times> string \<times> string" where
  "reservation_owner_key r = (cr_account_key r, cr_execution_id r, cr_client_order_id r)"

definition cash_amount :: "pyfloat \<Rightarrow> bool" where
  "cash_amount x \<longleftrightarrow> (\<exists>r. x = Finite r \<and> 0 \<le> r)"

definition db_ok :: "coordination_db \<Rightarrow> bool" where
  "db_ok d \<longleftrightarrow>
     distinct (map claim_symbol_key (symbol_claim d))
     \<and> distinct (map claim_owner_key (symbol_claim d))
     \<and> distinct (map reservation_owner_key (cash_reservation d))
     \<and> (\<forall>r \<in> set (cash_reservation d). cash_amount (cr_required_cash r) \<and> cr_active r \<in> {0, 1}
          \<and> (cr_active r = 1 \<longrightarrow> reservation_owner_key r \<in> claim_owner_key ` set (symbol_claim d)))"

lemmas key_defs =
  claim_symbol_key_def claim_owner_key_def reservation_owner_key_def claim_key_def claim_owner_def
  reservation_key_def owns_def

lemma db_ok_empty: "db_ok empty_db"
  by (simp add: db_ok_def empty_db_def)

lemma tx_execute_Inr: "tx_execute f d = (Inr x, d') \<longleftrightarrow> f d = Inr d'"
  by (auto simp: tx_execute_def bindM_def getM_def liftR_def modifyM_def split: sum.splits)

lemma bindM_Inr:
  "bindM m f s = (Inr y, s') \<longleftrightarrow> (\<exists>x t. m s = (Inr x, t) \<and> f x t = (Inr y, s'))"
  by (auto simp: bindM_def split: prod.splits sum.splits)

lemma getM_Inr: "getM f s = (Inr x, s') \<longleftrightarrow> x = f s \<and> s' = s"
  by (auto simp: getM_def)

lemma raiseM_if_Inr: "raiseM_if b e s = (Inr x, s') \<longleftrightarrow> \<not> b \<and> s' = s"
  by (auto simp: raiseM_if_def raiseM_def returnM_def)

lemma liftR_Inr: "liftR r s = (Inr x, s') \<longleftrightarrow> r = Inr x \<and> s' = s"
  by (auto simp: liftR_def)

lemma returnM_Inr: "returnM y s = (Inr x, s') \<longleftrightarrow> x = y \<and> s' = s"
  by (auto simp: returnM_def)

lemmas tx_Inr = tx_execute_Inr bindM_Inr getM_Inr raiseM_if_Inr liftR_Inr returnM_Inr

lemma find_claim_None: "find_claim acc smb d = None \<Longrightarrow> c \<in> set (symbol_claim d) \<Longrightarrow> \<not> claim_key acc smb c"
  by (auto simp: find_claim_def find_None_iff)

lemma find_claim_Some: "find_claim acc smb d = Some c \<Longrightarrow> c \<in> set (symbol_claim d) \<and> claim_key acc smb c"
  by (auto simp: find_claim_def find_Some_iff)

lemma find_reservation_None:
  "find_reservation acc eid cid d = None \<Longrightarrow> r \<in> set (cash_reservation d) \<Longrightarrow> \<not> reservation_key acc eid cid r"
  by (auto simp: find_reservation_def find_None_iff)

lemma find_reservation_Some:
  "find_reservation acc eid cid d = Some r \<Longrightarrow> r \<in> set (cash_reservation d) \<and> reservation_key acc eid cid r"
  by (auto simp: find_reservation_def find_Some_iff)

text \<open>Each statement, on a database that satisfies the invariant.\<close>

lemma insert_claim_ok:
  assumes "insert_claim c d = Inr d'" and "db_ok d"
  shows "db_ok d' \<and> cash_reservation d' = cash_reservation d \<and> symbol_claim d' = symbol_claim d @ [c]"
proof -
  have e: "d' = d\<lparr>symbol_claim := symbol_claim d @ [c]\<rparr>"
    and n: "claim_symbol_key c \<notin> claim_symbol_key ` set (symbol_claim d)"
      "claim_owner_key c \<notin> claim_owner_key ` set (symbol_claim d)"
    using assms(1) by (auto simp: insert_claim_def bindR_eq_Inr key_defs list_ex_iff)
  show ?thesis using assms(2) n unfolding e by (auto simp: db_ok_def)
qed

lemma insert_reservation_ok:
  assumes "insert_reservation r d = Inr d'" and "db_ok d" and "cash_amount (cr_required_cash r)"
    and "reservation_owner_key r \<in> claim_owner_key ` set (symbol_claim d)"
  shows "db_ok d' \<and> symbol_claim d' = symbol_claim d \<and> cash_reservation d' = cash_reservation d @ [r]"
proof -
  have e: "d' = d\<lparr>cash_reservation := cash_reservation d @ [r]\<rparr>"
    and n: "reservation_owner_key r \<notin> reservation_owner_key ` set (cash_reservation d)"
    and a: "cr_active r \<in> {0, 1}"
    using assms(1) by (auto simp: insert_reservation_def bindR_eq_Inr key_defs list_ex_iff)
  show ?thesis using assms(2-) n a unfolding e by (auto simp: db_ok_def)
qed

lemma claim_key_updates [simp]:
  "claim_symbol_key (c\<lparr>sc_finality := f\<rparr>) = claim_symbol_key c"
  "claim_owner_key (c\<lparr>sc_finality := f\<rparr>) = claim_owner_key c"
  by (simp_all add: key_defs)

lemma reservation_key_updates [simp]:
  "reservation_owner_key (r\<lparr>cr_active := a\<rparr>) = reservation_owner_key r"
  "reservation_owner_key (r\<lparr>cr_required_cash := x\<rparr>) = reservation_owner_key r"
  "reservation_owner_key (r\<lparr>cr_required_cash := x, cr_active := a\<rparr>) = reservation_owner_key r"
  by (simp_all add: key_defs)

lemma map_if_same: "(\<And>x. f (g x) = f x) \<Longrightarrow> map f (map (\<lambda>x. if P x then g x else x) xs) = map f xs"
  by (induction xs) simp_all

lemma image_if_same: "(\<And>x. f (g x) = f x) \<Longrightarrow> f ` set (map (\<lambda>x. if P x then g x else x) xs) = f ` set xs"
  by (metis map_if_same list.set_map)

lemma update_claim_finality_ok:
  assumes "update_claim_finality acc smb f d = Inr d'" and "db_ok d"
  shows "db_ok d' \<and> cash_reservation d' = cash_reservation d
    \<and> claim_owner_key ` set (symbol_claim d') = claim_owner_key ` set (symbol_claim d)"
proof -
  have e: "d' = d\<lparr>symbol_claim := map (\<lambda>c. if claim_key acc smb c then c\<lparr>sc_finality := f\<rparr> else c) (symbol_claim d)\<rparr>"
    using assms(1) by (simp add: update_claim_finality_def)
  have i: "claim_owner_key ` set (symbol_claim d') = claim_owner_key ` set (symbol_claim d)"
    unfolding e by (simp add: image_if_same del: set_map)
  have m: "map claim_owner_key (symbol_claim d') = map claim_owner_key (symbol_claim d)"
    "map claim_symbol_key (symbol_claim d') = map claim_symbol_key (symbol_claim d)"
    unfolding e by (simp_all add: map_if_same del: map_map)
  have "cash_reservation d' = cash_reservation d" unfolding e by simp
  then show ?thesis using assms(2) i unfolding db_ok_def m by simp
qed

lemma reactivate_reservation_ok:
  assumes "reactivate_reservation acc eid cid x d = Inr d'" and "db_ok d" and "cash_amount x"
    and "(acc, eid, cid) \<in> claim_owner_key ` set (symbol_claim d)"
  shows "db_ok d'"
proof -
  let ?g = "\<lambda>r. if reservation_key acc eid cid r then r\<lparr>cr_required_cash := x, cr_active := 1\<rparr> else r"
  have e: "d' = d\<lparr>cash_reservation := map ?g (cash_reservation d)\<rparr>"
    using assms(1) by (auto simp: reactivate_reservation_def bindR_eq_Inr)
  have m: "map reservation_owner_key (cash_reservation d') = map reservation_owner_key (cash_reservation d)"
    unfolding e by (simp add: map_if_same del: map_map)
  have k: "reservation_key acc eid cid r \<Longrightarrow> reservation_owner_key r = (acc, eid, cid)" for r
    by (simp add: key_defs)
  have "cash_amount (cr_required_cash r) \<and> cr_active r \<in> {0, 1}
      \<and> (cr_active r = 1 \<longrightarrow> reservation_owner_key r \<in> claim_owner_key ` set (symbol_claim d))"
    if "r \<in> set (cash_reservation d')" for r
    using that assms(2-4) unfolding e by (auto simp: db_ok_def k)
  moreover have "symbol_claim d' = symbol_claim d" unfolding e by simp
  ultimately show ?thesis using assms(2) m unfolding db_ok_def by simp
qed

lemma release_row:
  assumes "r \<in> set (map (\<lambda>r. if reservation_key acc eid cid r \<and> cr_active r = 1 then r\<lparr>cr_active := 0\<rparr> else r) rs)"
    and "\<forall>r \<in> set rs. cash_amount (cr_required_cash r) \<and> cr_active r \<in> {0, 1}
          \<and> (cr_active r = 1 \<longrightarrow> reservation_owner_key r \<in> K)"
  shows "cash_amount (cr_required_cash r) \<and> cr_active r \<in> {0, 1}
    \<and> (cr_active r = 1 \<longrightarrow> reservation_owner_key r \<in> K \<and> \<not> reservation_key acc eid cid r)"
  using assms by auto

lemma release_ok:
  assumes "release_reservation acc eid cid d = Inr d'" and "db_ok d"
  shows "db_ok d'"
proof -
  have e: "d' = d\<lparr>cash_reservation := map (\<lambda>r. if reservation_key acc eid cid r \<and> cr_active r = 1
      then r\<lparr>cr_active := 0\<rparr> else r) (cash_reservation d)\<rparr>"
    using assms(1) by (simp add: release_reservation_def)
  have m: "map reservation_owner_key (cash_reservation d') = map reservation_owner_key (cash_reservation d)"
    unfolding e by (simp add: map_if_same del: map_map)
  have "cash_amount (cr_required_cash r) \<and> cr_active r \<in> {0, 1}
      \<and> (cr_active r = 1 \<longrightarrow> reservation_owner_key r \<in> claim_owner_key ` set (symbol_claim d))"
    if "r \<in> set (cash_reservation d')" for r
    using that assms(2)
      release_row [of r acc eid cid "cash_reservation d" "claim_owner_key ` set (symbol_claim d)"]
    unfolding e by (simp add: db_ok_def del: set_map)
  moreover have "symbol_claim d' = symbol_claim d" unfolding e by simp
  ultimately show ?thesis using assms(2) m unfolding db_ok_def by simp
qed

lemma delete_release_ok:
  assumes "delete_claim acc smb eid cid d = Inr d1" and "release_reservation acc eid cid d1 = Inr d'"
    and "db_ok d"
  shows "db_ok d'"
proof -
  let ?keep = "\<lambda>c. \<not> (claim_key acc smb c \<and> claim_owner acc eid cid c)"
  have e: "d' = d\<lparr>symbol_claim := filter ?keep (symbol_claim d),
      cash_reservation := map (\<lambda>r. if reservation_key acc eid cid r \<and> cr_active r = 1
        then r\<lparr>cr_active := 0\<rparr> else r) (cash_reservation d)\<rparr>"
    using assms(1,2) by (auto simp: delete_claim_def release_reservation_def)
  have m: "map reservation_owner_key (cash_reservation d') = map reservation_owner_key (cash_reservation d)"
    unfolding e by (simp add: map_if_same del: map_map)
  have c: "distinct (map claim_owner_key (symbol_claim d'))" "distinct (map claim_symbol_key (symbol_claim d'))"
    using assms(3) unfolding e by (auto simp: db_ok_def intro: distinct_map_filter)
  have k: "reservation_owner_key r \<in> claim_owner_key ` set (filter ?keep (symbol_claim d))"
    if "reservation_owner_key r \<in> claim_owner_key ` set (symbol_claim d)" "\<not> reservation_key acc eid cid r" for r
    using that by (auto simp: key_defs image_iff)
  have "cash_amount (cr_required_cash r) \<and> cr_active r \<in> {0, 1}
      \<and> (cr_active r = 1 \<longrightarrow> reservation_owner_key r \<in> claim_owner_key ` set (symbol_claim d'))"
    if "r \<in> set (cash_reservation d')" for r
    using that assms(3) k [of r]
      release_row [of r acc eid cid "cash_reservation d" "claim_owner_key ` set (symbol_claim d)"]
    unfolding e by (simp add: db_ok_def del: set_map)
  then show ?thesis using assms(3) m c unfolding db_ok_def by simp
qed



section \<open>The atomic steps preserve the invariant\<close>

lemma claim_tx_Inr:
  "claim_tx acc eid request d = (Inr x, d') \<longleftrightarrow>
     (\<exists>c. find_claim acc (symbol request) d = Some c \<and> owns eid request c \<and> d' = d)
     \<or> (find_claim acc (symbol request) d = None
        \<and> insert_claim (new_claim acc eid request FINALITY_OPEN) d = Inr d')"
  by (cases "find_claim acc (symbol request) d") (auto simp: claim_tx_def tx_Inr)

lemma cash_tx_Inr:
  "cash_tx tot acc eid request a r d = (Inr x, d') \<longleftrightarrow>
     (\<exists>q. find_reservation acc eid (client_order_id request) d = Some q \<and> cr_active q = 1
        \<and> \<not> flt EPSILON (fabs (fsub (cr_required_cash q) r)) \<and> d' = d)
     \<or> (find_reservation acc eid (client_order_id request) d = None
        \<and> \<not> flt (fadd (fsub a (tot d)) EPSILON) r
        \<and> insert_reservation (new_reservation acc eid request r) d = Inr d')"
  by (cases "find_reservation acc eid (client_order_id request) d") (auto simp: cash_tx_def tx_Inr)

lemma finality_tx_Inr:
  "finality_tx acc eid request fin d = (Inr x, d') \<longleftrightarrow>
     (case find_claim acc (symbol request) d of
        None \<Rightarrow> fin = FINALITY_RESOLVED \<and> release_reservation acc eid (client_order_id request) d = Inr d'
      | Some c \<Rightarrow> owns eid request c \<and>
          (if fin = FINALITY_RESOLVED then
             (\<exists>d1. delete_claim acc (symbol request) eid (client_order_id request) d = Inr d1
                \<and> release_reservation acc eid (client_order_id request) d1 = Inr d')
           else update_claim_finality acc (symbol request) (ExecutionFinality_value fin) d = Inr d'))"
  by (cases "find_claim acc (symbol request) d") (auto simp: finality_tx_def tx_Inr)

definition restored_claim ::
  "string \<Rightarrow> string \<Rightarrow> ExecutionRequest \<Rightarrow> ExecutionFinality \<Rightarrow> coordination_db \<Rightarrow> coordination_db \<Rightarrow> bool" where
  "restored_claim acc eid request fin d d1 \<longleftrightarrow>
     (case find_claim acc (symbol request) d of
        None \<Rightarrow> insert_claim (new_claim acc eid request fin) d = Inr d1
      | Some c \<Rightarrow> owns eid request c
          \<and> update_claim_finality acc (symbol request) (ExecutionFinality_value fin) d = Inr d1)"

lemma restore_tx_Inr:
  "restore_tx acc eid request r fin d = (Inr x, d') \<longleftrightarrow>
     (\<exists>d1. restored_claim acc eid request fin d d1 \<and>
        (if side request = BUY then
           (case find_reservation acc eid (client_order_id request) d1 of
              None \<Rightarrow> insert_reservation (new_reservation acc eid request r) d1 = Inr d'
            | Some q \<Rightarrow> reactivate_reservation acc eid (client_order_id request)
                         (fmax r (cr_required_cash q)) d1 = Inr d')
         else d' = d1))"
  by (cases "find_claim acc (symbol request) d")
    (auto simp: restore_tx_def restored_claim_def tx_Inr split: option.splits)

definition owner_of :: "string \<Rightarrow> string \<Rightarrow> ExecutionRequest \<Rightarrow> string \<times> string \<times> string" where
  "owner_of acc eid request = (acc, eid, client_order_id request)"

lemma owner_new [simp]:
  "claim_owner_key (new_claim acc eid request fin) = owner_of acc eid request"
  "claim_symbol_key (new_claim acc eid request fin) = (acc, symbol request)"
  "reservation_owner_key (new_reservation acc eid request r) = owner_of acc eid request"
  by (simp_all add: key_defs owner_of_def new_claim_def new_reservation_def)

lemma cr_required_cash_new [simp]: "cr_required_cash (new_reservation acc eid request r) = r"
  by (simp add: new_reservation_def)

text \<open>A claim of the symbol by the request itself.\<close>

definition claimed_by :: "string \<Rightarrow> string \<Rightarrow> ExecutionRequest \<Rightarrow> coordination_db \<Rightarrow> bool" where
  "claimed_by acc eid request d \<longleftrightarrow>
     (\<exists>c \<in> set (symbol_claim d). claim_symbol_key c = (acc, symbol request)
        \<and> claim_owner_key c = owner_of acc eid request)"

lemma claimed_by_owner:
  "claimed_by acc eid request d \<Longrightarrow> owner_of acc eid request \<in> claim_owner_key ` set (symbol_claim d)"
  unfolding claimed_by_def by (metis image_eqI)

lemma find_claim_claimed:
  "find_claim acc (symbol request) d = Some c \<Longrightarrow> owns eid request c \<Longrightarrow> claimed_by acc eid request d"
  by (auto simp: claimed_by_def key_defs owner_of_def dest!: find_claim_Some)

lemma claim_tx_ok:
  assumes "claim_tx acc eid request d = (Inr x, d')" and "db_ok d"
  shows "db_ok d' \<and> cash_reservation d' = cash_reservation d \<and> claimed_by acc eid request d'"
  using assms(1) unfolding claim_tx_Inr
proof (elim disjE exE conjE)
  fix c
  assume "find_claim acc (symbol request) d = Some c" "owns eid request c" "d' = d"
  then show ?thesis using assms(2) find_claim_claimed by auto
next
  assume i: "insert_claim (new_claim acc eid request FINALITY_OPEN) d = Inr d'"
  show ?thesis using insert_claim_ok [OF i assms(2)] by (auto simp: claimed_by_def)
qed

lemma new_reservation_ok:
  assumes "insert_reservation (new_reservation acc eid request r) d = Inr d'" and "db_ok d"
    and "cash_amount r" and "claimed_by acc eid request d"
  shows "db_ok d' \<and> symbol_claim d' = symbol_claim d
    \<and> cash_reservation d' = cash_reservation d @ [new_reservation acc eid request r]"
  using insert_reservation_ok [OF assms(1,2)] assms(3) claimed_by_owner [OF assms(4)]
  by simp

lemma cash_tx_ok:
  assumes "cash_tx tot acc eid request a r d = (Inr x, d')" and "db_ok d" and "cash_amount r"
    and "claimed_by acc eid request d"
  shows "db_ok d' \<and> symbol_claim d' = symbol_claim d"
  using assms(1) new_reservation_ok [OF _ assms(2-4)] assms(2) unfolding cash_tx_Inr by auto

lemma finite_non_negative_cash: "finite_non_negative v l = Inr x \<Longrightarrow> cash_amount x"
  by (cases x) (auto simp: finite_non_negative_def bindR_eq_Inr cash_amount_def)

lemma cash_amount_fmax: "cash_amount x \<Longrightarrow> cash_amount y \<Longrightarrow> cash_amount (fmax x y)"
  by (simp add: fmax_def)

lemma finality_tx_ok:
  assumes "finality_tx acc eid request fin d = (Inr x, d')" and "db_ok d"
  shows "db_ok d'"
  using assms(1) unfolding finality_tx_Inr
  by (auto intro: release_ok [OF _ assms(2)] delete_release_ok [OF _ _ assms(2)]
      dest: update_claim_finality_ok [OF _ assms(2)] split: option.splits if_splits)

lemma restored_claim_ok:
  assumes "restored_claim acc eid request fin d d1" and "db_ok d"
  shows "db_ok d1 \<and> cash_reservation d1 = cash_reservation d
    \<and> owner_of acc eid request \<in> claim_owner_key ` set (symbol_claim d1)"
proof (cases "find_claim acc (symbol request) d")
  case None
  then have "insert_claim (new_claim acc eid request fin) d = Inr d1" using assms(1) by (simp add: restored_claim_def)
  from insert_claim_ok [OF this assms(2)] show ?thesis by simp
next
  case (Some c)
  then have u: "update_claim_finality acc (symbol request) (ExecutionFinality_value fin) d = Inr d1"
    and "claimed_by acc eid request d"
    using assms(1) find_claim_claimed by (auto simp: restored_claim_def)
  then show ?thesis using update_claim_finality_ok [OF u assms(2)] claimed_by_owner by auto
qed

lemma restore_tx_ok:
  assumes "restore_tx acc eid request r fin d = (Inr x, d')" and "db_ok d" and "cash_amount r"
  shows "db_ok d'"
proof -
  obtain d1 where r1: "restored_claim acc eid request fin d d1"
    and rest: "if side request = BUY then
           (case find_reservation acc eid (client_order_id request) d1 of
              None \<Rightarrow> insert_reservation (new_reservation acc eid request r) d1 = Inr d'
            | Some q \<Rightarrow> reactivate_reservation acc eid (client_order_id request)
                         (fmax r (cr_required_cash q)) d1 = Inr d')
         else d' = d1"
    using assms(1) unfolding restore_tx_Inr by blast
  note ok = restored_claim_ok [OF r1 assms(2)]
  have "cash_amount (cr_required_cash q)" if "find_reservation acc eid (client_order_id request) d1 = Some q" for q
    using find_reservation_Some [OF that] ok by (auto simp: db_ok_def)
  then show ?thesis
    using rest ok assms(3) insert_reservation_ok [of "new_reservation acc eid request r" d1 d']
      reactivate_reservation_ok [of acc eid "client_order_id request" _ d1 d']
    by (auto simp: owner_of_def intro: cash_amount_fmax split: if_splits option.splits)
qed

lemma prepare_step_Inr:
  "prepare_step env acc eid request cash required d = (Inr x, d') \<Longrightarrow>
     \<exists>a r d1. claim_tx acc eid request d = (Inr (), d1) \<and>
       (if side request = BUY then
          finite_non_negative cash ''broker_available_cash'' = Inr a
          \<and> finite_non_negative required ''required_cash'' = Inr r
          \<and> cash_tx (reserved_total env acc) acc eid request a r d1 = (Inr (), d')
        else d' = d1)"
  by (auto simp: prepare_step_def prepare_tx_def tx_Inr bindR_eq_Inr split: if_splits)

lemma prepare_step_ok:
  assumes "prepare_step env acc eid request cash required d = (Inr x, d')" and "db_ok d"
  shows "db_ok d' \<and> claimed_by acc eid request d'"
proof -
  obtain a r d1 where c: "claim_tx acc eid request d = (Inr (), d1)" and rest: "if side request = BUY then
          finite_non_negative cash ''broker_available_cash'' = Inr a
          \<and> finite_non_negative required ''required_cash'' = Inr r
          \<and> cash_tx (reserved_total env acc) acc eid request a r d1 = (Inr (), d')
        else d' = d1"
    using prepare_step_Inr [OF assms(1)] by blast
  note ok = claim_tx_ok [OF c assms(2)]
  show ?thesis
  proof (cases "side request = BUY")
    case True
    then have "db_ok d' \<and> symbol_claim d' = symbol_claim d1"
      using rest ok cash_tx_ok [of "reserved_total env acc" acc eid request a r d1 "()" d']
        finite_non_negative_cash [of required "''required_cash''" r] by simp
    then show ?thesis using ok by (simp add: claimed_by_def)
  qed (use rest ok in simp)
qed

lemma finality_step_ok:
  "finality_step acc eid request fin d = (Inr x, d') \<Longrightarrow> db_ok d \<Longrightarrow> db_ok d'"
  by (auto simp: finality_step_def tx_Inr intro: finality_tx_ok)

lemma restore_step_ok:
  "restore_step acc eid request required fin d = (Inr x, d') \<Longrightarrow> db_ok d \<Longrightarrow> db_ok d'"
  by (auto simp: restore_step_def tx_Inr cash_amount_def [of "Finite 0"] split: if_splits
      intro: restore_tx_ok finality_step_ok dest: finite_non_negative_cash)


section \<open>An operation touches only the rows of its own execution\<close>

definition foreign_rows_kept :: "string \<times> string \<times> string \<Rightarrow> coordination_db \<Rightarrow> coordination_db \<Rightarrow> bool" where
  "foreign_rows_kept k d d' \<longleftrightarrow>
     {c \<in> set (symbol_claim d'). claim_owner_key c \<noteq> k} = {c \<in> set (symbol_claim d). claim_owner_key c \<noteq> k}
     \<and> {r \<in> set (cash_reservation d'). reservation_owner_key r \<noteq> k}
         = {r \<in> set (cash_reservation d). reservation_owner_key r \<noteq> k}"

lemma kept_refl: "foreign_rows_kept k d d"
  by (simp add: foreign_rows_kept_def)

lemma kept_trans: "foreign_rows_kept k d d1 \<Longrightarrow> foreign_rows_kept k d1 d' \<Longrightarrow> foreign_rows_kept k d d'"
  by (simp add: foreign_rows_kept_def)

lemma kept_insert_claim:
  "insert_claim c d = Inr d' \<Longrightarrow> claim_owner_key c = k \<Longrightarrow> foreign_rows_kept k d d'"
  by (auto simp: insert_claim_def bindR_eq_Inr foreign_rows_kept_def)

lemma kept_insert_reservation:
  "insert_reservation r d = Inr d' \<Longrightarrow> reservation_owner_key r = k \<Longrightarrow> foreign_rows_kept k d d'"
  by (auto simp: insert_reservation_def bindR_eq_Inr foreign_rows_kept_def)

lemma set_map_if_other:
  "(\<And>x. x \<in> set xs \<Longrightarrow> P x \<Longrightarrow> f x = k \<and> f (g x) = k) \<Longrightarrow>
     {y \<in> set (map (\<lambda>x. if P x then g x else x) xs). f y \<noteq> k} = {y \<in> set xs. f y \<noteq> k}"
  by (induction xs) (auto split: if_splits)

lemma reservation_key_owner: "reservation_key acc eid cid r \<longleftrightarrow> reservation_owner_key r = (acc, eid, cid)"
  by (auto simp: key_defs)

lemma kept_map_reservation:
  "(\<And>r. P r \<Longrightarrow> reservation_owner_key r = k \<and> reservation_owner_key (g r) = k) \<Longrightarrow>
     foreign_rows_kept k d (d\<lparr>cash_reservation := map (\<lambda>r. if P r then g r else r) (cash_reservation d)\<rparr>)"
  by (simp add: foreign_rows_kept_def set_map_if_other del: set_map)

lemma kept_release:
  "release_reservation acc eid cid d = Inr d' \<Longrightarrow> foreign_rows_kept (acc, eid, cid) d d'"
  by (auto simp: release_reservation_def reservation_key_owner intro!: kept_map_reservation)

lemma kept_reactivate:
  "reactivate_reservation acc eid cid x d = Inr d' \<Longrightarrow> foreign_rows_kept (acc, eid, cid) d d'"
  by (auto simp: reactivate_reservation_def bindR_eq_Inr reservation_key_owner intro!: kept_map_reservation)

lemma kept_delete:
  "delete_claim acc smb eid cid d = Inr d' \<Longrightarrow> foreign_rows_kept (acc, eid, cid) d d'"
  by (auto simp: delete_claim_def foreign_rows_kept_def key_defs)

lemma claim_key_unique:
  assumes "db_ok d" and "find_claim acc smb d = Some c" and "c' \<in> set (symbol_claim d)" and "claim_key acc smb c'"
  shows "c' = c"
proof -
  have "claim_symbol_key c' = claim_symbol_key c" and "c \<in> set (symbol_claim d)"
    using find_claim_Some [OF assms(2)] assms(4) by (simp_all add: key_defs)
  then show ?thesis using assms(1,3) unfolding db_ok_def by (metis distinct_map inj_onD)
qed

lemma kept_update_claim:
  assumes "update_claim_finality acc (symbol request) f d = Inr d'" and "db_ok d"
    and "find_claim acc (symbol request) d = Some c" and "owns eid request c"
  shows "foreign_rows_kept (owner_of acc eid request) d d'"
proof -
  have k: "claim_owner_key x = owner_of acc eid request"
    if "x \<in> set (symbol_claim d)" "claim_key acc (symbol request) x" for x
    using claim_key_unique [OF assms(2,3) that] that(2) assms(4) by (simp add: key_defs owner_of_def)
  have e: "d' = d\<lparr>symbol_claim := map (\<lambda>c. if claim_key acc (symbol request) c
      then c\<lparr>sc_finality := f\<rparr> else c) (symbol_claim d)\<rparr>"
    using assms(1) by (simp add: update_claim_finality_def)
  show ?thesis unfolding e by (simp add: foreign_rows_kept_def set_map_if_other k del: set_map)
qed

lemma kept_claim_tx:
  "claim_tx acc eid request d = (Inr x, d') \<Longrightarrow> foreign_rows_kept (owner_of acc eid request) d d'"
  by (auto simp: claim_tx_Inr kept_refl intro: kept_insert_claim)

lemma kept_cash_tx:
  "cash_tx tot acc eid request a r d = (Inr x, d') \<Longrightarrow> foreign_rows_kept (owner_of acc eid request) d d'"
  by (auto simp: cash_tx_Inr kept_refl intro: kept_insert_reservation)

lemma kept_prepare_step:
  assumes "prepare_step env acc eid request cash required d = (Inr x, d')"
  shows "foreign_rows_kept (owner_of acc eid request) d d'"
  using prepare_step_Inr [OF assms] by (auto dest!: kept_claim_tx kept_cash_tx intro: kept_trans split: if_splits)

lemma kept_finality_step:
  assumes "finality_step acc eid request fin d = (Inr x, d')" and "db_ok d"
  shows "foreign_rows_kept (owner_of acc eid request) d d'"
  using assms(1) unfolding finality_step_def
  by (auto simp: tx_Inr finality_tx_Inr owner_of_def
      dest: kept_release kept_delete kept_update_claim [OF _ assms(2), unfolded owner_of_def]
      intro: kept_trans split: option.splits if_splits)

lemma kept_restored_claim:
  "restored_claim acc eid request fin d d1 \<Longrightarrow> db_ok d \<Longrightarrow> foreign_rows_kept (owner_of acc eid request) d d1"
  by (auto simp: restored_claim_def split: option.splits intro: kept_insert_claim kept_update_claim)

lemma kept_restore_tx:
  assumes "restore_tx acc eid request r fin d = (Inr x, d')" and "db_ok d"
  shows "foreign_rows_kept (owner_of acc eid request) d d'"
proof -
  obtain d1 where r1: "restored_claim acc eid request fin d d1"
    and rest: "if side request = BUY then
           (case find_reservation acc eid (client_order_id request) d1 of
              None \<Rightarrow> insert_reservation (new_reservation acc eid request r) d1 = Inr d'
            | Some q \<Rightarrow> reactivate_reservation acc eid (client_order_id request)
                         (fmax r (cr_required_cash q)) d1 = Inr d')
         else d' = d1"
    using assms(1) unfolding restore_tx_Inr by blast
  have "foreign_rows_kept (owner_of acc eid request) d1 d'"
    using rest kept_reactivate [of acc eid "client_order_id request" _ d1 d']
      kept_insert_reservation [of "new_reservation acc eid request r" d1 d']
    by (auto simp: owner_of_def kept_refl split: if_splits option.splits)
  then show ?thesis using kept_restored_claim [OF r1 assms(2)] kept_trans by blast
qed

lemma kept_restore_step:
  "restore_step acc eid request required fin d = (Inr x, d') \<Longrightarrow> db_ok d \<Longrightarrow>
     foreign_rows_kept (owner_of acc eid request) d d'"
  by (auto simp: restore_step_def tx_Inr split: if_splits intro: kept_restore_tx kept_finality_step)



section \<open>Sequences of operations\<close>

text \<open>
  The processes of one machine interleave their operations; SQLite serialises the transactions,
  so an execution of the system is a sequence of operations.  Every operation comes with its own
  environment: it may fail anywhere, and it may be interrupted.
\<close>

datatype coord_op =
    Prepare string string ExecutionRequest pyval pyval
  | UpdateFinality string string ExecutionRequest ExecutionFinality
  | Restore string string ExecutionRequest pyval ExecutionFinality

fun coord_act :: "'w coord_env \<Rightarrow> coord_op \<Rightarrow> ('w, unit) coord_act" where
  "coord_act env (Prepare acc eid request cash required) = prepare env acc eid request cash required"
| "coord_act env (UpdateFinality acc eid request fin) = update_finality env acc eid request fin"
| "coord_act env (Restore acc eid request required fin) = restore env acc eid request required fin"

fun coord_op_step :: "'w coord_env \<Rightarrow> coord_op \<Rightarrow> unit tx" where
  "coord_op_step env (Prepare acc eid request cash required) = prepare_step env acc eid request cash required"
| "coord_op_step env (UpdateFinality acc eid request fin) = finality_step acc eid request fin"
| "coord_op_step env (Restore acc eid request required fin) = restore_step acc eid request required fin"

fun op_owner :: "coord_op \<Rightarrow> string \<times> string \<times> string" where
  "op_owner (Prepare acc eid request cash required) = owner_of acc eid request"
| "op_owner (UpdateFinality acc eid request fin) = owner_of acc eid request"
| "op_owner (Restore acc eid request required fin) = owner_of acc eid request"

fun run_coord :: "('w coord_env \<times> coord_op) list \<Rightarrow> 'w coord_state \<Rightarrow> 'w coord_state" where
  "run_coord [] s = s"
| "run_coord ((env, oper) # ops) s = run_coord ops (snd (coord_act env oper s))"

lemma coord_act_atomic: "atomic (coord_act env oper) (coord_op_step env oper)"
  by (cases oper) (simp_all add: prepare_atomic update_finality_atomic restore_atomic)

lemma coord_op_step_ok:
  "coord_op_step env oper d = (Inr x, d') \<Longrightarrow> db_ok d \<Longrightarrow> db_ok d' \<and> foreign_rows_kept (op_owner oper) d d'"
  by (cases oper)
    (auto dest: prepare_step_ok finality_step_ok restore_step_ok kept_prepare_step kept_finality_step
      kept_restore_step)

lemma coord_act_ok:
  assumes "db_ok (committed s)"
  shows "db_ok (committed (snd (coord_act env oper s)))
    \<and> foreign_rows_kept (op_owner oper) (committed s) (committed (snd (coord_act env oper s)))"
proof -
  obtain r s' where run: "coord_act env oper s = (r, s')" by fastforce
  then have "committed s' = committed s \<or> (\<exists>x. coord_op_step env oper (committed s) = (Inr x, committed s'))"
    using coord_act_atomic [of env oper] unfolding atomic_def by blast
  then show ?thesis using run coord_op_step_ok [OF _ assms] assms by (auto simp: kept_refl)
qed

lemma run_coord_ok: "db_ok (committed s) \<Longrightarrow> db_ok (committed (run_coord ops s))"
  by (induction ops s rule: run_coord.induct) (simp_all add: coord_act_ok)

lemma kept_claimed_by:
  assumes "foreign_rows_kept k d d'" and "k \<noteq> owner_of acc eid request"
  shows "claimed_by acc eid request d' = claimed_by acc eid request d"
proof -
  have "c \<in> set (symbol_claim d') \<longleftrightarrow> c \<in> set (symbol_claim d)" if "claim_owner_key c = owner_of acc eid request" for c
    using assms that unfolding foreign_rows_kept_def by (metis (mono_tags, lifting) mem_Collect_eq)
  then show ?thesis by (auto simp: claimed_by_def)
qed

lemma run_coord_claimed_by:
  assumes "db_ok (committed s)" and "claimed_by acc eid request (committed s)"
    and "list_all (\<lambda>p. op_owner (snd p) \<noteq> owner_of acc eid request) ops"
  shows "claimed_by acc eid request (committed (run_coord ops s))"
  using assms
proof (induction ops s rule: run_coord.induct)
  case (2 env oper ops s)
  then have "claimed_by acc eid request (committed (snd (coord_act env oper s)))"
    using coord_act_ok [of s env oper]
      kept_claimed_by [of "op_owner oper" "committed s" "committed (snd (coord_act env oper s))"] by simp
  then show ?case using 2 coord_act_ok [of s env oper] by simp
qed simp

lemma claimed_by_excludes:
  assumes "db_ok d" and "claimed_by acc eid request d" and "symbol request2 = symbol request"
    and "owner_of acc eid2 request2 \<noteq> owner_of acc eid request"
  shows "\<not> claimed_by acc eid2 request2 d"
proof
  assume "claimed_by acc eid2 request2 d"
  then obtain c c2 where c: "c \<in> set (symbol_claim d)" "c2 \<in> set (symbol_claim d)"
    "claim_symbol_key c = claim_symbol_key c2"
    "claim_owner_key c = owner_of acc eid request" "claim_owner_key c2 = owner_of acc eid2 request2"
    using assms(2,3) by (auto simp: claimed_by_def)
  then have "c = c2" using assms(1) unfolding db_ok_def by (metis distinct_map inj_onD)
  then show False using c assms(4) by simp
qed



section \<open>The cash bound\<close>

lemma rnd64_error_coarse: "\<bar>rnd64 x - x\<bar> \<le> \<bar>x\<bar> / 2 ^ 53 + 1 / 10 ^ 30"
proof -
  have "(1 :: rat) / 2 ^ 1075 \<le> 1 / 10 ^ 30" by (rule divide_left_mono) simp_all
  then show ?thesis using binary64.rnd_error [of x] by simp
qed

lemma EPSILON_bound: "\<exists>e. EPSILON = Finite e \<and> 0 \<le> e \<and> e \<le> 1 / 10 ^ 9 + 1 / 10 ^ 20"
proof -
  obtain e where e: "EPSILON = Finite e" "0 \<le> e" using EPSILON_amount by (auto simp: amount_def)
  then have "e = rnd64 (1 / 10 ^ 9)"
    using round64_Finite [of "1 / 10 ^ 9" e] by (simp add: EPSILON_def float_lit_def)
  then have "\<bar>e - 1 / 10 ^ 9\<bar> \<le> 1 / 10 ^ 20"
    using rnd64_error_coarse [of "1 / 10 ^ 9"] by simp
  then have "e \<le> 1 / 10 ^ 9 + 1 / 10 ^ 20" by linarith
  with e show ?thesis by blast
qed

lemma round64_bounded:
  assumes "x \<le> 10 ^ 31"
  shows "round64 x = Finite (rnd64 x) \<or> round64 x = NegInf"
proof -
  have "rnd64 x \<le> rnd64 (10 ^ 31)" using assms by (rule binary64.rnd_mono)
  also have "\<dots> \<le> 2 ^ 110" using abs_le_D1 [OF rnd64_error_coarse [of "10 ^ 31"]] by simp
  also have "\<dots> < 2 ^ 1024" by (rule power_strict_increasing) simp_all
  finally show ?thesis by (auto simp: round64_def Let_def)
qed

text \<open>The comparison that accepts a reservation, in exact arithmetic.\<close>

lemma accepted_reservation_bound:
  assumes accepted: "\<not> flt (fadd (fsub (Finite a) (Finite t)) EPSILON) (Finite r)"
    and nonneg: "0 \<le> a" "0 \<le> t" "0 \<le> r" and small: "a \<le> 10 ^ 30"
  shows "r + t \<le> a + a / 2 ^ 51 + 2 / 10 ^ 9"
proof -
  obtain e where e: "EPSILON = Finite e" "0 \<le> e" "e \<le> 1 / 10 ^ 9 + 1 / 10 ^ 20" using EPSILON_bound by blast
  define x y where "x = a - t" and "y = rnd64 x"
  have x: "x \<le> a" using nonneg by (simp add: x_def)
  have y: "\<bar>y - x\<bar> \<le> \<bar>x\<bar> / 2 ^ 53 + 1 / 10 ^ 30" unfolding y_def by (rule rnd64_error_coarse)
  have z: "\<bar>rnd64 (y + e) - (y + e)\<bar> \<le> \<bar>y + e\<bar> / 2 ^ 53 + 1 / 10 ^ 30" by (rule rnd64_error_coarse)
  have ylt: "y + e \<le> 10 ^ 31" using x y small e by (simp add: abs_if split: if_splits)
  have sub: "fsub (Finite a) (Finite t) = round64 x" by (simp add: fsub_def x_def)
  have "fsub (Finite a) (Finite t) = Finite y"
  proof (cases "round64 x = NegInf")
    case True
    then have "flt (fadd (fsub (Finite a) (Finite t)) EPSILON) (Finite r)" by (simp add: sub e(1))
    then show ?thesis using accepted by simp
  qed (use round64_bounded [of x] x small in \<open>simp add: sub y_def\<close>)
  then have "\<not> flt (round64 (y + e)) (Finite r)" using accepted by (simp add: e(1))
  then have r: "r \<le> rnd64 (y + e)" using round64_bounded [OF ylt] by auto
  then have w: "0 \<le> rnd64 (y + e)" using nonneg by simp
  have "\<bar>y + e\<bar> \<le> \<bar>x\<bar> + \<bar>y - x\<bar> + e" using e(2) by simp
  then have ye: "\<bar>y + e\<bar> \<le> 2 * \<bar>x\<bar> + 2 / 10 ^ 9" using y e(3) by simp
  have ax: "\<bar>x\<bar> \<le> a + 3 / 10 ^ 9"
  proof (cases "0 \<le> x")
    case False
    then have "y + e \<le> x + \<bar>x\<bar> / 2 ^ 53 + 1 / 10 ^ 30 + e" using y by simp
    moreover have "rnd64 (y + e) \<le> y + e + \<bar>y + e\<bar> / 2 ^ 53 + 1 / 10 ^ 30" using abs_le_D1 [OF z] by simp
    ultimately show ?thesis using w ye e(3) False nonneg(1) by (simp add: abs_of_neg)
  qed (use x in simp)
  have "r + t \<le> rnd64 (y + e) + (a - x)" using r by (simp add: x_def)
  moreover have "rnd64 (y + e) \<le> y + e + \<bar>y + e\<bar> / 2 ^ 53 + 1 / 10 ^ 30" using abs_le_D1 [OF z] by simp
  moreover have "y \<le> x + \<bar>x\<bar> / 2 ^ 53 + 1 / 10 ^ 30" using abs_le_D1 [OF y] by simp
  ultimately show ?thesis using ye ax e(3) nonneg(1) by simp
qed


lemma active_of_insert:
  "active_of acc (d\<lparr>cash_reservation := cash_reservation d @ [new_reservation acc eid request r]\<rparr>) =
     active_of acc d @ [new_reservation acc eid request r]"
  by (simp add: active_of_def new_reservation_def)

definition reserved_exact :: "string \<Rightarrow> coordination_db \<Rightarrow> rat" where
  "reserved_exact acc d = (\<Sum>r \<leftarrow> active_of acc d. val_of (cr_required_cash r))"

lemma insert_claim_active: "insert_claim c d = Inr d' \<Longrightarrow> cash_reservation d' = cash_reservation d"
  by (auto simp: insert_claim_def bindR_eq_Inr)

lemma claim_tx_active: "claim_tx acc eid request d = (Inr x, d') \<Longrightarrow> cash_reservation d' = cash_reservation d"
  by (auto simp: claim_tx_Inr dest: insert_claim_active)

text \<open>A successful \<open>prepare\<close> of a \<open>BUY\<close> that had no reservation appends it, after the cash test.\<close>

lemma prepare_step_new_reservation:
  assumes "prepare_step env acc eid request cash required d = (Inr x, d')" and "side request = BUY"
    and "find_reservation acc eid (client_order_id request) d = None"
  shows "\<exists>a r. finite_non_negative cash ''broker_available_cash'' = Inr a
    \<and> finite_non_negative required ''required_cash'' = Inr r
    \<and> \<not> flt (fadd (fsub a (reserved_total env acc d)) EPSILON) r
    \<and> active_of acc d' = active_of acc d @ [new_reservation acc eid request r]"
proof -
  obtain a r d1 where c: "claim_tx acc eid request d = (Inr (), d1)"
    and f: "finite_non_negative cash ''broker_available_cash'' = Inr a"
      "finite_non_negative required ''required_cash'' = Inr r"
    and q: "cash_tx (reserved_total env acc) acc eid request a r d1 = (Inr (), d')"
    using prepare_step_Inr [OF assms(1)] assms(2) by auto
  have same: "cash_reservation d1 = cash_reservation d" using c by (rule claim_tx_active)
  have "find_reservation acc eid (client_order_id request) d1 = None"
    "reserved_total env acc d1 = reserved_total env acc d" "active_of acc d1 = active_of acc d"
    using same assms(3) by (simp_all add: find_reservation_def reserved_total_def active_of_def)
  then have "\<not> flt (fadd (fsub a (reserved_total env acc d)) EPSILON) r"
    and i: "insert_reservation (new_reservation acc eid request r) d1 = Inr d'"
    using q by (auto simp: cash_tx_Inr)
  moreover have "active_of acc d' = active_of acc d1 @ [new_reservation acc eid request r]"
    using i by (auto simp: insert_reservation_def bindR_eq_Inr active_of_insert)
  ultimately show ?thesis using f \<open>active_of acc d1 = active_of acc d\<close> by auto
qed



section \<open>The guarantees\<close>

text \<open>A SQLite that never fails, for the witnesses: its \<open>SUM\<close> adds the floats from left to right.\<close>

definition quiet_sql :: "unit coord_env" where
  "quiet_sql = \<lparr>sql_connect = returnM (), sql_created = (\<lambda>_. False), sql_begin = returnM (), sql_statement = returnM (),
     sql_commit = (\<lambda>w. (Committed, w)), sql_rollback = returnM (), sql_close = returnM (),
     sql_sum = foldl fadd (Finite 0)\<rparr>"

text \<open>A SQLite whose \<open>COMMIT\<close> takes effect although the process is interrupted.\<close>

definition interrupted_sql :: "unit coord_env" where
  "interrupted_sql = quiet_sql\<lparr>sql_commit := (\<lambda>w. (CommitRaised (Exn KeyboardInterrupt ''SIGINT'') True, w))\<rparr>"

definition fresh_db :: "unit coord_state" where
  "fresh_db = \<lparr>cworld = (), db_exists = True, committed = empty_db, working = empty_db\<rparr>"

definition other_request :: ExecutionRequest where
  "other_request = buy_request\<lparr>client_order_id := ''c2''\<rparr>"

text \<open>
  C19. Refinement: whatever fails inside \<open>prepare\<close>, the committed database is either unchanged or
  the result of the atomic step \<open>prepare_step\<close> (claim and reservation together, never one of
  them); if \<open>prepare\<close> returns, the step took place; and an exception raised by a check inside the
  step reports a step that does not exist.
\<close>

theorem prepare_is_atomic:
  assumes "prepare env acc eid request cash required s = (r, s')"
  shows "(committed s' = committed s
       \<or> prepare_step env acc eid request cash required (committed s) = (Inr (), committed s'))
    \<and> (r = Inr () \<longrightarrow> prepare_step env acc eid request cash required (committed s) = (Inr (), committed s'))"
  using prepare_atomic [of env acc eid request cash required] assms unfolding atomic_def by fastforce

theorem prepare_is_atomic_witness:
  "prepare interrupted_sql ''A'' ''E'' buy_request (PyInt 2000) (PyInt 1105) fresh_db
     = (Inl (Exn KeyboardInterrupt ''SIGINT''),
        snd (prepare interrupted_sql ''A'' ''E'' buy_request (PyInt 2000) (PyInt 1105) fresh_db))
   \<and> prepare_step interrupted_sql ''A'' ''E'' buy_request (PyInt 2000) (PyInt 1105) empty_db
     = (Inr (), committed (snd (prepare interrupted_sql ''A'' ''E'' buy_request (PyInt 2000) (PyInt 1105) fresh_db)))"
proof -
  let ?p = "prepare interrupted_sql ''A'' ''E'' buy_request (PyInt 2000) (PyInt 1105) fresh_db"
  have e: "fst ?p = Inl (Exn KeyboardInterrupt ''SIGINT'')" by code_simp
  have c: "length (symbol_claim (committed (snd ?p))) = 1" by code_simp
  have n: "committed (snd ?p) \<noteq> committed fresh_db" using c by (auto simp: fresh_db_def empty_db_def)
  have "?p = (Inl (Exn KeyboardInterrupt ''SIGINT''), snd ?p)" using e by (metis prod.collapse)
  from prepare_is_atomic [OF this] n this show ?thesis by (simp add: fresh_db_def)
qed


text \<open>
  C4. Invariant: whatever sequence of operations the processes run on a database that satisfies
  the constraints, with any failures and interruptions, afterwards every account and symbol has
  at most one claim, every execution at most one claim and one reservation, and every active
  reservation belongs to a claim of the same execution.
\<close>

theorem coordinator_invariant:
  assumes "db_ok (committed s)"
  shows "distinct (map claim_symbol_key (symbol_claim (committed (run_coord ops s))))
    \<and> distinct (map claim_owner_key (symbol_claim (committed (run_coord ops s))))
    \<and> distinct (map reservation_owner_key (cash_reservation (committed (run_coord ops s))))
    \<and> {reservation_owner_key r |r. r \<in> set (cash_reservation (committed (run_coord ops s))) \<and> cr_active r = 1}
        \<subseteq> claim_owner_key ` set (symbol_claim (committed (run_coord ops s)))"
  using run_coord_ok [OF assms, of ops] unfolding db_ok_def by auto

definition two_buyers :: "(unit coord_env \<times> coord_op) list" where
  "two_buyers =
     [(quiet_sql, Prepare ''A'' ''E1'' buy_request (PyInt 2000) (PyInt 1105)),
      (interrupted_sql, Prepare ''A'' ''E2'' other_request (PyInt 2000) (PyInt 1105)),
      (interrupted_sql, UpdateFinality ''A'' ''E1'' buy_request FINALITY_QUARANTINED)]"

theorem coordinator_invariant_witness:
  "distinct (map claim_symbol_key (symbol_claim (committed (run_coord two_buyers fresh_db))))
   \<and> map sc_execution_id (symbol_claim (committed (run_coord two_buyers fresh_db))) = [''E1'']
   \<and> map sc_finality (symbol_claim (committed (run_coord two_buyers fresh_db))) = [''quarantined'']"
proof -
  have "db_ok (committed fresh_db)" by (simp add: fresh_db_def db_ok_empty)
  from coordinator_invariant [OF this, of two_buyers]
  have "distinct (map claim_symbol_key (symbol_claim (committed (run_coord two_buyers fresh_db))))" by blast
  moreover have "map sc_execution_id (symbol_claim (committed (run_coord two_buyers fresh_db))) = [''E1'']"
    by code_simp
  moreover have "map sc_finality (symbol_claim (committed (run_coord two_buyers fresh_db))) = [''quarantined'']"
    by code_simp
  ultimately show ?thesis by blast
qed

text \<open>
  C3. Mutual exclusion of unresolved executions: once \<open>prepare\<close> returned for an execution, and
  until an operation of that execution itself runs, whatever the other executions do in between,
  \<open>prepare\<close> of another execution for the same account and symbol raises and changes nothing.
\<close>

theorem prepared_symbol_is_exclusive:
  assumes "db_ok (committed s)" and "prepare env acc eid request cash required s = (Inr (), s1)"
    and "list_all (\<lambda>p. op_owner (snd p) \<noteq> owner_of acc eid request) ops"
    and "symbol request2 = symbol request" and "owner_of acc eid2 request2 \<noteq> owner_of acc eid request"
    and "prepare env2 acc eid2 request2 cash2 required2 (run_coord ops s1) = (r, s3)"
  shows "(\<exists>e. r = Inl e) \<and> committed s3 = committed (run_coord ops s1)"
proof -
  have "prepare_step env acc eid request cash required (committed s) = (Inr (), committed s1)"
    using prepare_atomic [of env acc eid request cash required] assms(2) unfolding atomic_def by blast
  then have "db_ok (committed s1)" "claimed_by acc eid request (committed s1)"
    using prepare_step_ok assms(1) by blast+
  then have ok: "db_ok (committed (run_coord ops s1))" "claimed_by acc eid request (committed (run_coord ops s1))"
    using run_coord_ok run_coord_claimed_by assms(3) by blast+
  have no: "prepare_step env2 acc eid2 request2 cash2 required2 (committed (run_coord ops s1)) \<noteq> (Inr (), d)" for d
  proof
    assume p: "prepare_step env2 acc eid2 request2 cash2 required2 (committed (run_coord ops s1)) = (Inr (), d)"
    note kept = kept_prepare_step [OF p]
    have "claimed_by acc eid request d" using kept_claimed_by [OF kept assms(5)] ok(2) by simp
    then show False
      using prepare_step_ok [OF p ok(1)] claimed_by_excludes [OF _ _ assms(4,5)] by blast
  qed
  then show ?thesis
    using prepare_atomic [of env2 acc eid2 request2 cash2 required2] assms(6) unfolding atomic_def
    by (cases r) fastforce+
qed

theorem prepared_symbol_is_exclusive_witness:
  "\<exists>s1 r s3. prepare quiet_sql ''A'' ''E1'' buy_request (PyInt 2000) (PyInt 1105) fresh_db = (Inr (), s1)
     \<and> prepare quiet_sql ''A'' ''E2'' other_request (PyInt 2000) (PyInt 1105)
         (run_coord [(quiet_sql, UpdateFinality ''A'' ''E2'' other_request FINALITY_RESOLVED)] s1) = (r, s3)
     \<and> (\<exists>e. r = Inl e)"
proof -
  obtain r1 s1 where p: "prepare quiet_sql ''A'' ''E1'' buy_request (PyInt 2000) (PyInt 1105) fresh_db = (r1, s1)"
    by fastforce
  have "fst (prepare quiet_sql ''A'' ''E1'' buy_request (PyInt 2000) (PyInt 1105) fresh_db) = Inr ()" by code_simp
  then have p: "prepare quiet_sql ''A'' ''E1'' buy_request (PyInt 2000) (PyInt 1105) fresh_db = (Inr (), s1)"
    using p by simp
  obtain r s3 where q: "prepare quiet_sql ''A'' ''E2'' other_request (PyInt 2000) (PyInt 1105)
      (run_coord [(quiet_sql, UpdateFinality ''A'' ''E2'' other_request FINALITY_RESOLVED)] s1) = (r, s3)"
    by fastforce
  have "db_ok (committed fresh_db)" by (simp add: fresh_db_def db_ok_empty)
  from prepared_symbol_is_exclusive [OF this p _ _ _ q]
  have "\<exists>e. r = Inl e" by (simp add: owner_of_def other_request_def buy_request_def)
  with p q show ?thesis by blast
qed

text \<open>
  C5. Cash: when \<open>prepare\<close> accepts a new reservation of a \<open>BUY\<close>, the exact sum of all active
  reservations of the account, the new one included, is at most the cash the broker reported, up to
  the tolerance of the comparison (\<open>1e-9\<close>), its two roundings, and the error \<open>\<delta>\<close> of the sum that
  SQLite computes.
\<close>

theorem reservations_within_broker_cash:
  assumes "db_ok (committed s)" and "side request = BUY"
    and "find_reservation acc eid (client_order_id request) (committed s) = None"
    and "finite_non_negative cash ''broker_available_cash'' = Inr (Finite a)" and "a \<le> 10 ^ 30"
    and "reserved_total env acc (committed s) = Finite t" and "0 \<le> t"
    and "reserved_exact acc (committed s) \<le> t + \<delta>"
    and "prepare env acc eid request cash required s = (Inr (), s')"
  shows "reserved_exact acc (committed s') \<le> a + a / 2 ^ 51 + 2 / 10 ^ 9 + \<delta>"
proof -
  have "prepare_step env acc eid request cash required (committed s) = (Inr (), committed s')"
    using prepare_atomic [of env acc eid request cash required] assms(9) unfolding atomic_def by blast
  from prepare_step_new_reservation [OF this assms(2,3)] obtain r where
    f: "finite_non_negative required ''required_cash'' = Inr r" and
    accepted: "\<not> flt (fadd (fsub (Finite a) (Finite t)) EPSILON) r" and
    act: "active_of acc (committed s') = active_of acc (committed s) @ [new_reservation acc eid request r]"
    using assms(4,6) by auto
  obtain x where x: "r = Finite x" "0 \<le> x" using finite_non_negative_cash [OF f] by (auto simp: cash_amount_def)
  have "0 \<le> a" using finite_non_negative_cash [OF assms(4)] by (simp add: cash_amount_def)
  then have "x + t \<le> a + a / 2 ^ 51 + 2 / 10 ^ 9"
    using accepted_reservation_bound [of a t x] accepted assms(5,7) x by simp
  moreover have "reserved_exact acc (committed s') = reserved_exact acc (committed s) + x"
    using act x by (simp add: reserved_exact_def)
  ultimately show ?thesis using assms(8) by simp
qed

theorem reservations_within_broker_cash_witness:
  "\<exists>s'. prepare quiet_sql ''A'' ''E1'' buy_request (PyInt 2000) (PyInt 1105) fresh_db = (Inr (), s')
     \<and> reserved_exact ''A'' (committed s') \<le> 2000 + 2000 / 2 ^ 51 + 2 / 10 ^ 9"
proof -
  obtain r1 s1 where p: "prepare quiet_sql ''A'' ''E1'' buy_request (PyInt 2000) (PyInt 1105) fresh_db = (r1, s1)"
    by fastforce
  have "fst (prepare quiet_sql ''A'' ''E1'' buy_request (PyInt 2000) (PyInt 1105) fresh_db) = Inr ()" by code_simp
  then have p: "prepare quiet_sql ''A'' ''E1'' buy_request (PyInt 2000) (PyInt 1105) fresh_db = (Inr (), s1)"
    using p by simp
  have f: "finite_non_negative (PyInt 2000) ''broker_available_cash'' = Inr (Finite 2000)" by code_simp
  have "reserved_exact ''A'' (committed s1) \<le> 2000 + 2000 / 2 ^ 51 + 2 / 10 ^ 9 + 0"
    by (rule reservations_within_broker_cash [OF _ _ _ f _ _ _ _ p, where t = 0])
      (simp_all add: fresh_db_def db_ok_def buy_request_def find_reservation_def empty_db_def
        reserved_total_def active_of_def reserved_exact_def)
  with p show ?thesis by auto
qed

end
