(* ===== verification/Coordinated_Session.thy ===== *)
theory Coordinated_Session
  imports Execution_Session Coordination_Safety
begin

text \<open>
  \<open>coordinated_session.py\<close>: the session that claims its symbol and reserves its cash in the
  shared database before the broker is called, and that releases them when its execution is
  resolved.

  The world of the base session is a \<open>shared\<close> record: the coordinator's state (the committed
  database among it) and a ghost log of every call of the raw broker's \<open>place_order\<close>, together
  with the database at that moment.  Whenever the session calls anything outside (the broker, the
  guard, a hook, the file system, the clock), other processes may run coordinator operations in
  the meantime (\<open>others\<close>): any list of operations of other executions, with any failures.
\<close>

section \<open>State and environment\<close>

record 'v shared =
  db_state :: "'v coord_state"
  broker_log :: "(ExecutionRequest \<times> coordination_db) list"

record 'v coordinated_env =
  base :: "'v session_env"
  account_key :: string
  coordinator :: "'v coord_env"
  query_asset :: "('v, BrokerAsset) pyact"
  cash_estimator :: "(ExecutionRequest \<Rightarrow> BrokerAsset \<Rightarrow> ('v, CashRequirementEstimate) pyact) option"
  project_before_broker_submit :: "(ExecutionRequest \<Rightarrow> ('v, unit) pyact) option"
  others :: "'v \<Rightarrow> ('v coord_env \<times> coord_op) list"

type_synonym ('v, 'a) shared_act = "('v shared, 'a) pyact"

text \<open>An operation of an execution other than \<open>(acc, eid)\<close>.\<close>

definition foreign :: "string \<Rightarrow> string \<Rightarrow> coord_op \<Rightarrow> bool" where
  "foreign acc eid oper = (case op_owner oper of (a, e, c) \<Rightarrow> (a, e) \<noteq> (acc, eid))"

definition own_execution_id :: "'v coordinated_env \<Rightarrow> string" where
  "own_execution_id env = execution_id (base env)"

definition interleave :: "'v coordinated_env \<Rightarrow> 'v shared \<Rightarrow> 'v shared" where
  "interleave env s =
     s\<lparr>db_state := run_coord
         (filter (\<lambda>p. foreign (account_key env) (own_execution_id env) (snd p))
            (others env (cworld (db_state s))))
         (db_state s)\<rparr>"

definition put_world :: "'v \<Rightarrow> 'v shared \<Rightarrow> 'v shared" where
  "put_world w s = s\<lparr>db_state := (db_state s)\<lparr>cworld := w\<rparr>\<rparr>"

text \<open>A call of something outside, during which other processes run.\<close>

definition outside :: "'v coordinated_env \<Rightarrow> ('v, 'a) pyact \<Rightarrow> ('v, 'a) shared_act" where
  "outside env m =
     (\<lambda>s. case m (cworld (db_state s)) of (r, w) \<Rightarrow> (r, interleave env (put_world w s)))"

text \<open>A call of the coordinator.\<close>

definition on_db :: "('v, 'a) coord_act \<Rightarrow> ('v, 'a) shared_act" where
  "on_db m = (\<lambda>s. case m (db_state s) of (r, d) \<Rightarrow> (r, s\<lparr>db_state := d\<rparr>))"

definition log_call :: "ExecutionRequest \<Rightarrow> ('v, unit) shared_act" where
  "log_call r = modifyM (\<lambda>s. s\<lparr>broker_log := (r, committed (db_state s)) # broker_log s\<rparr>)"


text \<open>The checks of \<open>__init__\<close>: the two names are non-empty strings.\<close>

definition check_session_names :: "pyval \<Rightarrow> pyval \<Rightarrow> unit pyres" where
  "check_session_names acc eid =
     bindR (raise_if (case acc of PyStr a \<Rightarrow> a = [] | _ \<Rightarrow> True)
       (Exn ValueError ''account_key must be a non-empty string'')) (\<lambda>_.
     raise_if (case eid of PyStr e \<Rightarrow> e = [] | _ \<Rightarrow> True)
       (Exn ValueError ''execution_id must be a non-empty string''))"


section \<open>The broker port and the hooks\<close>

definition release_resources :: "'v coordinated_env \<Rightarrow> ExecutionRequest \<Rightarrow> ('v, unit) shared_act" where
  "release_resources env request =
     on_db (update_finality (coordinator env) (account_key env) (own_execution_id env) request
       FINALITY_RESOLVED)"

definition coordinated_place_order ::
  "'v coordinated_env \<Rightarrow> ExecutionRequest \<Rightarrow> ('v, pyval) shared_act" where
  "coordinated_place_order env request =
     tryM (bindM (log_call request) (\<lambda>_. outside env (place_order (base env) request)))
       (\<lambda>e.
          if isinstance_exn e BrokerSubmissionRejected then Some
            (bindM (release_resources env request) (\<lambda>_. raiseM e))
          else if isinstance_exn e BrokerSubmissionAmbiguous \<or> isinstance_exn e BrokerError then
            Some (raiseM e)
          else if isinstance_exn e PyException then Some
            (raiseM (Exn BrokerSubmissionAmbiguous
               ''coordinated broker submit raised unexpectedly; outcome unknown''))
          else None)"

text \<open>The asset, the estimate and the two amounts, inside one \<open>try\<close>.\<close>

definition fresh_cash ::
  "'v coordinated_env \<Rightarrow> (ExecutionRequest \<Rightarrow> BrokerAsset \<Rightarrow> ('v, CashRequirementEstimate) pyact)
    \<Rightarrow> ExecutionRequest \<Rightarrow> ('v, pyval \<times> pyval) shared_act" where
  "fresh_cash env estimator request =
     tryM
       (bindM (outside env (query_asset env)) (\<lambda>asset.
        bindM (outside env (estimator request asset)) (\<lambda>est.
        bindM (liftR (py_float (ba_cash asset))) (\<lambda>cash.
        returnM (PyFloat cash, PyFloat (ce_required_cash est))))))
       (\<lambda>e.
          if isinstance_exn e BrokerSubmissionRejected then Some (raiseM e)
          else if isinstance_exn e PyException then Some
            (raiseM (Exn BrokerSubmissionRejected
               ''fresh authoritative cash/requirement estimation failed; broker order was not invoked''))
          else None)"

definition coordinate_before_submit ::
  "'v coordinated_env \<Rightarrow> ExecutionRequest \<Rightarrow> ('v, unit) shared_act" where
  "coordinate_before_submit env request =
     bindM
       (if side request = BUY then
          (case cash_estimator env of
             None \<Rightarrow> raiseM (Exn BrokerSubmissionRejected
               ''coordinated BUY requires an explicit CashRequirementEstimator; broker order was not invoked'')
           | Some estimator \<Rightarrow> fresh_cash env estimator request)
        else returnM (PyNone, PyNone)) (\<lambda>(available, required).
     tryM
       (on_db (prepare (coordinator env) (account_key env) (own_execution_id env) request available required))
       (\<lambda>e. if isinstance_exn e CoordinationError then Some
              (raiseM (Exn BrokerSubmissionRejected
                 (''shared-account coordination rejected submit before broker side effect: '' @ exn_msg e)))
            else None))"

definition run_project_sidecar ::
  "'v coordinated_env \<Rightarrow> ExecutionRequest \<Rightarrow> ('v, unit) shared_act" where
  "run_project_sidecar env request =
     (case project_before_broker_submit env of
        None \<Rightarrow> returnM ()
      | Some hook \<Rightarrow>
          tryM (outside env (hook request))
            (\<lambda>e. if isinstance_exn e PyException then Some
                   (bindM (release_resources env request) (\<lambda>_. raiseM e))
                 else None))"

text \<open>The environment of the base session: the delegates above, everything else passed through.\<close>

definition shared_mutex :: "'v coordinated_env \<Rightarrow> 'v mutex_env \<Rightarrow> 'v shared mutex_env" where
  "shared_mutex env m =
     \<lparr>timeout_seconds = timeout_seconds m, poll_seconds = poll_seconds m,
      make_lock_parent = outside env (make_lock_parent m),
      open_lock_file = outside env (open_lock_file m), monotonic = outside env (monotonic m),
      try_lock = outside env (try_lock m), sleep_for = (\<lambda>t. outside env (sleep_for m t)),
      write_owner = outside env (write_owner m), unlock = outside env (unlock m),
      close_handle = outside env (close_handle m)\<rparr>"

definition shared_env :: "'v coordinated_env \<Rightarrow> 'v shared session_env" where
  "shared_env env =
     (let b = base env in
      \<lparr>execution_id = execution_id b, now = outside env (now b), read_file = outside env (read_file b),
       make_parent = outside env (make_parent b), write_temporary = outside env (write_temporary b),
       os_replace = (\<lambda>s. case os_replace b (cworld (db_state s)) of
          (q, w) \<Rightarrow> (q, interleave env (put_world w s))),
       sleep = outside env (sleep b), remove_temporary = outside env (remove_temporary b),
       mutex = shared_mutex env (mutex b), lock_fuel = lock_fuel b, sha256 = sha256 b,
       source_files = (\<lambda>s. source_files b (cworld (db_state s))), package_dir = package_dir b,
       py_repr = py_repr b, place_order = coordinated_place_order env,
       cancel_order = (\<lambda>i. outside env (cancel_order b i)),
       query_order = (\<lambda>i. outside env (query_order b i)), query_orders = outside env (query_orders b),
       execution_healthy = outside env (execution_healthy b),
       verify_session = outside env (verify_session b),
       verify_request = (\<lambda>r. outside env (verify_request b r)),
       before_submit_coordination = coordinate_before_submit env,
       before_broker_submit = run_project_sidecar env,
       before_broker_cancel = (\<lambda>i. outside env (before_broker_cancel b i))\<rparr>)"


section \<open>Synchronisation with the coordinator\<close>

definition request_of_intent :: "(pyval \<Rightarrow> string) \<Rightarrow> pydict \<Rightarrow> ExecutionRequest pyres" where
  "request_of_intent rp intent =
     bindR (subscript intent ''client_order_id'') (\<lambda>cid.
     bindR (subscript intent ''symbol'') (\<lambda>smb.
     bindR (subscript intent ''side'') (\<lambda>sd.
     bindR (bindR (subscript intent ''qty'') py_int) (\<lambda>q.
     bindR (bindR (subscript intent ''limit_price'') py_float) (\<lambda>price.
     bindR (subscript intent ''strategy_id'') (\<lambda>strat.
     bindR (subscript intent ''order_remark'') (\<lambda>remark.
     mk_ExecutionRequest (PyStr (py_str rp cid)) (PyStr (py_str rp smb)) (PyStr (py_str rp sd))
       (PyInt q) (PyFloat price) (PyStr (py_str rp strat)) (PyStr (py_str rp remark)))))))))"

definition request_of_data :: "(pyval \<Rightarrow> string) \<Rightarrow> pydict \<Rightarrow> ExecutionRequest option pyres" where
  "request_of_data rp d =
     (let v = pyget d ''intent'' in
      if v = PyNone then Inr None
      else case as_dict v of
        None \<Rightarrow> Inl (Exn CoordinationError ''durable intent is malformed for coordination'')
      | Some intent \<Rightarrow>
          (case request_of_intent rp intent of
             Inr r \<Rightarrow> Inr (Some r)
           | Inl e \<Rightarrow>
               if list_ex (isinstance_exn e) [KeyError, TypeError, ValueError] then
                 Inl (Exn CoordinationError ''durable intent cannot be reconstructed for coordination'')
               else Inl e))"

definition durable_request ::
  "'v coordinated_env \<Rightarrow> ('v shared, ExecutionRequest option) session_act" where
  "durable_request env =
     bindM (getM payload) (\<lambda>p.
     if p = None then returnM None
     else bindM journal_data (\<lambda>d. liftR (request_of_data (py_repr (base env)) d)))"

definition required_cash_for_restore ::
  "'v coordinated_env \<Rightarrow> ExecutionRequest \<Rightarrow> ('v, pyval) shared_act" where
  "required_cash_for_restore env request =
     (if side request \<noteq> BUY then returnM PyNone
      else case cash_estimator env of
        None \<Rightarrow> raiseM (Exn CoordinationError
          ''cannot restore coordinated BUY without CashRequirementEstimator'')
      | Some estimator \<Rightarrow>
          tryM
            (bindM (outside env (query_asset env)) (\<lambda>asset.
             bindM (outside env (estimator request asset)) (\<lambda>est.
             returnM (PyFloat (ce_required_cash est)))))
            (\<lambda>e. if isinstance_exn e PyException then Some
                   (raiseM (Exn CoordinationError
                      ''cannot restore coordinated BUY without authoritative account facts''))
                 else None))"

text \<open>The part of \<open>_sync\<close> that talks to the coordinator, for the finality of the machine.\<close>

definition sync_claim ::
  "'v coordinated_env \<Rightarrow> ExecutionRequest \<Rightarrow> ExecutionFinality \<Rightarrow> ('v, unit) shared_act" where
  "sync_claim env request finality =
     (let has = on_db (has_claim (coordinator env) (account_key env) (own_execution_id env) request);
          update = on_db (update_finality (coordinator env) (account_key env) (own_execution_id env)
                     request finality)
      in
      if finality = FINALITY_RESOLVED then
        try_elseM has
          (\<lambda>e. if isinstance_exn e SymbolClaimConflict then Some (returnM ()) else None)
          (\<lambda>owns_claim. if owns_claim then update else returnM ())
      else
        bindM has (\<lambda>owns_claim.
        if owns_claim then update
        else
          bindM (required_cash_for_restore env request) (\<lambda>cash.
          on_db (restore (coordinator env) (account_key env) (own_execution_id env) request cash finality))))"

definition sync ::
  "'v coordinated_env \<Rightarrow> ExecutionSnapshot \<Rightarrow> ('v shared, ExecutionSnapshot) session_act" where
  "sync env snapshot =
     bindM (durable_request env) (\<lambda>dr.
     case dr of
       None \<Rightarrow> returnM snapshot
     | Some request \<Rightarrow>
         bindM (getM (\<lambda>s. execution_finality (machine s))) (\<lambda>finality.
         bindM (on_world (sync_claim env request finality)) (\<lambda>_.
         returnM snapshot)))"


section \<open>Operations\<close>

definition coordinated_open :: "'v coordinated_env \<Rightarrow> ('v shared, ExecutionSnapshot) session_act" where
  "coordinated_open env = bindM (session_open (shared_env env)) (sync env)"

definition coordinated_poll :: "'v coordinated_env \<Rightarrow> ('v shared, ExecutionSnapshot) session_act" where
  "coordinated_poll env = bindM (session_poll (shared_env env)) (sync env)"

definition coordinated_submit ::
  "'v coordinated_env \<Rightarrow> ExecutionRequest \<Rightarrow> ('v shared, ExecutionSnapshot) session_act" where
  "coordinated_submit env request =
     bindM (session_submit (shared_env env) (coordinated_poll env) request) (sync env)"

definition coordinated_reconcile :: "'v coordinated_env \<Rightarrow> ('v shared, ExecutionSnapshot) session_act" where
  "coordinated_reconcile env =
     bindM (session_reconcile (shared_env env) (coordinated_poll env)) (sync env)"

definition coordinated_cancel :: "'v coordinated_env \<Rightarrow> ('v shared, ExecutionSnapshot) session_act" where
  "coordinated_cancel env =
     bindM (session_cancel (shared_env env) (coordinated_poll env)) (sync env)"

definition coordinated_next_cycle :: "'v coordinated_env \<Rightarrow> ('v shared, ExecutionSnapshot) session_act" where
  "coordinated_next_cycle env = session_next_cycle (shared_env env)"

end
