(* ===== verification/Session_World.thy ===== *)
theory Session_World
  imports Execution_Session
begin

text \<open>
  What a session's operations do to the world: if every function of the environment keeps a
  preorder on worlds, so does every operation.  The client of this interface is the coordinated
  session, whose world holds the shared database.
\<close>

definition lifted :: "('w \<Rightarrow> 'w \<Rightarrow> bool) \<Rightarrow> 'w session_state \<Rightarrow> 'w session_state \<Rightarrow> bool" where
  "lifted R s s' \<longleftrightarrow> R (world s) (world s')"

definition lifted_mx :: "('w \<Rightarrow> 'w \<Rightarrow> bool) \<Rightarrow> 'w mutex_state \<Rightarrow> 'w mutex_state \<Rightarrow> bool" where
  "lifted_mx R s s' \<longleftrightarrow> R (mx_world s) (mx_world s')"

locale session_world = step_preorder R for R :: "'w \<Rightarrow> 'w \<Rightarrow> bool" +
  fixes env :: "'w session_env"
  assumes keeps_now: "keeps R (now env)"
    and keeps_read_file: "keeps R (read_file env)"
    and keeps_make_parent: "keeps R (make_parent env)"
    and keeps_write_temporary: "keeps R (write_temporary env)"
    and keeps_os_replace: "os_replace env w = (q, w') \<Longrightarrow> R w w'"
    and keeps_sleep: "keeps R (sleep env)"
    and keeps_remove_temporary: "keeps R (remove_temporary env)"
    and keeps_make_lock_parent: "keeps R (make_lock_parent (mutex env))"
    and keeps_open_lock_file: "keeps R (open_lock_file (mutex env))"
    and keeps_monotonic: "keeps R (monotonic (mutex env))"
    and keeps_try_lock: "keeps R (try_lock (mutex env))"
    and keeps_sleep_for: "keeps R (sleep_for (mutex env) t)"
    and keeps_write_owner: "keeps R (write_owner (mutex env))"
    and keeps_unlock: "keeps R (unlock (mutex env))"
    and keeps_close_handle: "keeps R (close_handle (mutex env))"
    and keeps_cancel_order: "keeps R (cancel_order env i)"
    and keeps_query_order: "keeps R (query_order env i)"
    and keeps_query_orders: "keeps R (query_orders env)"
    and keeps_execution_healthy: "keeps R (execution_healthy env)"
    and keeps_verify_session: "keeps R (verify_session env)"
    and keeps_verify_request: "keeps R (verify_request env r)"
    and keeps_before_broker_cancel: "keeps R (before_broker_cancel env i)"

lemma step_preorder_lifted: "step_preorder R \<Longrightarrow> step_preorder (lifted R)"
  unfolding step_preorder_def lifted_def by blast

lemma step_preorder_lifted_mx: "step_preorder R \<Longrightarrow> step_preorder (lifted_mx R)"
  unfolding step_preorder_def lifted_mx_def by blast

sublocale session_world \<subseteq> lw: step_preorder "lifted R"
  by (rule step_preorder_lifted) (rule step_preorder_axioms)

sublocale session_world \<subseteq> lm: step_preorder "lifted_mx R"
  by (rule step_preorder_lifted_mx) (rule step_preorder_axioms)

context session_world
begin

lemma lifted_on_world: "keeps R m \<Longrightarrow> keeps (lifted R) (on_world m)"
  by (auto simp: keeps_def lifted_def on_world_def split: prod.splits)

lemma lifted_modify: "(\<And>s. world (f s) = world s) \<Longrightarrow> keeps (lifted R) (modifyM f)"
  by (rule keeps_modifyM) (simp add: lifted_def R_refl)

lemma lifted_mx_mx: "keeps R m \<Longrightarrow> keeps (lifted_mx R) (mx m)"
  by (auto simp: keeps_def lifted_mx_def mx_def split: prod.splits)

lemma lifted_mx_modify: "(\<And>s. mx_world (f s) = mx_world s) \<Longrightarrow> keeps (lifted_mx R) (modifyM f)"
  by (rule keeps_modifyM) (simp add: lifted_mx_def R_refl)

lemma lifted_on_mutex: "keeps (lifted_mx R) m \<Longrightarrow> keeps (lifted R) (on_mutex m)"
  by (fastforce simp: keeps_def lifted_def lifted_mx_def on_mutex_def split: prod.splits)

lemmas mutex_parts = lifted_mx_mx keeps_make_lock_parent keeps_open_lock_file keeps_monotonic
  keeps_try_lock keeps_sleep_for keeps_write_owner keeps_unlock keeps_close_handle

lemma lifted_lock_loop: "keeps (lifted_mx R) (lock_loop (mutex env) d n)"
proof (induction n)
  case 0
  then show ?case by (simp add: lm.keeps_raiseM)
next
  case (Suc n)
  show ?case unfolding lock_loop.simps
    by (rule lm.keeps_tryM [OF lifted_mx_mx [OF keeps_try_lock]])
      (auto intro!: lm.keeps_bindM lm.keeps_raiseM mutex_parts Suc split: if_splits)
qed

lemma lifted_acquire: "keeps (lifted_mx R) (acquire (mutex env) n)"
  unfolding acquire_def Let_def
  by (intro lm.keeps_bindM lm.keeps_getM lm.keeps_raiseM_if lm.keeps_tryM lifted_lock_loop mutex_parts
      lifted_mx_modify)
    (auto intro!: lm.keeps_bindM lm.keeps_raiseM mutex_parts split: if_splits)

lemma lifted_release: "keeps (lifted_mx R) (release (mutex env))"
  unfolding release_def
  by (intro lm.keeps_bindM lm.keeps_getM lm.keeps_if lm.keeps_finallyM lm.keeps_returnM mutex_parts
      lifted_mx_modify) simp

lemma lifted_require_payload: "keeps (lifted R) require_payload"
  unfolding require_payload_def
  by (intro lw.keeps_bindM lw.keeps_getM) (auto intro: lw.keeps_intros split: option.split)

lemma lifted_set_payload: "keeps (lifted R) (set_payload p)"
  unfolding set_payload_def by (rule lifted_modify) simp

lemma lifted_replace_loop: "keeps (lifted R) (replace_loop env p k)"
proof (induction k)
  case 0
  then show ?case by (simp add: lw.keeps_returnM)
next
  case (Suc k)
  have once: "keeps (lifted R) (replace_once env p)"
    by (auto simp: keeps_def replace_once_def lifted_def dest: keeps_os_replace
        split: prod.splits replace_outcome.splits)
  show ?case unfolding replace_loop.simps
    by (rule lw.keeps_tryM [OF once])
      (auto intro!: lw.keeps_bindM lw.keeps_raiseM lifted_on_world keeps_sleep Suc split: if_splits)
qed

lemma lifted_journal_write: "keeps (lifted R) (journal_write env)"
  unfolding journal_write_def
  by (intro lw.keeps_bindM lw.keeps_finallyM lw.keeps_tryM lw.keeps_raiseM_if lifted_require_payload
      lifted_on_world lifted_replace_loop keeps_make_parent keeps_write_temporary keeps_remove_temporary)
    (auto intro: lw.keeps_returnM split: if_splits)

lemma lifted_journal_data: "keeps (lifted R) journal_data"
  unfolding journal_data_def
  by (intro lw.keeps_bindM lifted_require_payload) (auto intro: lw.keeps_intros split: option.split)

lemma lifted_write_data: "keeps (lifted R) (write_data env d)"
  unfolding write_data_def
  by (intro lw.keeps_bindM lifted_require_payload lifted_set_payload lifted_on_world keeps_now
      lifted_journal_write)

lemma lifted_journal_operations:
  "keeps (lifted R) (persist_intent env r)"
  "keeps (lifted R) (persist_broker_order_id env oid)"
  "keeps (lifted R) (persist_cancel_intent env)"
  "keeps (lifted R) (update_observation env updates)"
  "keeps (lifted R) (bind_verification env a b)"
  "keeps (lifted R) (clear_cycle_data env)"
  "keeps (lifted R) (assert_identity_unused r)"
  unfolding persist_intent_def persist_broker_order_id_def persist_cancel_intent_def Let_def
    update_observation_def bind_verification_def clear_cycle_data_def assert_identity_unused_def
  by (intro lw.keeps_bindM lw.keeps_liftR lw.keeps_raiseM_if lifted_journal_data lifted_write_data
      lifted_on_world keeps_now)+

lemma lifted_journal_transition: "keeps (lifted R) (journal_transition env event snap details)"
  unfolding journal_transition_def
  by (rule lw.keeps_bindM [OF lifted_require_payload])
    (auto intro!: lw.keeps_bindM lw.keeps_liftR lw.keeps_raiseM lifted_on_world keeps_now
      lifted_set_payload lifted_journal_write split: pyval.split)

lemma lifted_journal_open: "keeps (lifted R) (journal_open env)"
proof -
  have load: "keeps (lifted R) (load_file env)" unfolding load_file_def
    by (intro lw.keeps_tryM lw.keeps_bindM lifted_on_world keeps_read_file lw.keeps_getM)
      (auto intro: lw.keeps_intros split: journal_file.split if_splits)
  show ?thesis unfolding journal_open_def
    by (intro lw.keeps_bindM lw.keeps_getM lw.keeps_raiseM_if lw.keeps_if load lw.keeps_liftR
        lw.keeps_returnM lifted_set_payload lifted_on_world keeps_now lifted_journal_write)
qed

lemma lifted_transition_with: "keeps (lifted R) (transition_with env event details se pe)"
  unfolding transition_with_def
  by (intro lw.keeps_bindM lw.keeps_getM lw.keeps_liftR lifted_modify lifted_journal_transition) simp

lemma lifted_transition: "keeps (lifted R) (transition env event details)"
  unfolding transition_def by (rule lifted_transition_with)

lemmas lifted_basic =
  lw.keeps_bindM lw.keeps_getM lw.keeps_liftR lw.keeps_raiseM lw.keeps_raiseM_if lw.keeps_returnM
  lw.keeps_if lifted_journal_data lifted_journal_operations lifted_transition lifted_transition_with

lemma lifted_snapshot: "keeps (lifted R) (session_snapshot reason)"
  unfolding session_snapshot_def by (intro lifted_basic)

lemma lifted_require_open: "keeps (lifted R) require_open"
  unfolding require_open_def by (intro lifted_basic)

lemma lifted_to_unknown: "keeps (lifted R) (to_unknown env reason)"
  unfolding to_unknown_def by (intro lifted_basic)

lemma lifted_apply_observation: "keeps (lifted R) (apply_observation env ord)"
  unfolding apply_observation_def
  by (intro lw.keeps_bindM lw.keeps_if lw.keeps_liftR lw.keeps_getM lifted_journal_data lifted_transition
      lifted_snapshot lifted_journal_operations)
    (auto intro!: lw.keeps_bindM lifted_snapshot lifted_to_unknown lifted_transition
      split: sum.split option.split)

lemma lifted_locate_order: "keeps (lifted R) (locate_order env d)"
  unfolding locate_order_def Let_def
  by (rule lw.keeps_if, rule lifted_on_world, rule keeps_query_order)
    (auto intro!: lifted_basic lifted_on_world keeps_query_orders split: option.split)

lemma lifted_recover_unknown: "keeps (lifted R) (recover_unknown env)"
  unfolding recover_unknown_def
  by (intro lw.keeps_bindM lifted_journal_data lw.keeps_try_elseM lifted_locate_order
      lifted_apply_observation)
    (auto intro!: lw.keeps_bindM lifted_transition lifted_snapshot split: if_splits)

lemma lifted_poll: "keeps (lifted R) (session_poll env)"
  unfolding session_poll_def Let_def
  by (intro lw.keeps_bindM lifted_require_open lifted_journal_data lw.keeps_if lw.keeps_getM lw.keeps_raiseM
      lw.keeps_raiseM_if lifted_recover_unknown lw.keeps_try_elseM lifted_on_world keeps_query_order
      lifted_apply_observation)
    (auto intro!: lw.keeps_bindM lifted_to_unknown lifted_snapshot split: if_splits)

lemma lifted_next_cycle: "keeps (lifted R) (session_next_cycle env)"
  unfolding session_next_cycle_def by (intro lifted_basic lifted_require_open lifted_snapshot)

lemma lifted_reconcile:
  "keeps (lifted R) self_poll \<Longrightarrow> keeps (lifted R) (session_reconcile env self_poll)"
  unfolding session_reconcile_def
  by (intro lw.keeps_bindM lifted_require_open lw.keeps_getM lw.keeps_if lifted_recover_unknown
      lifted_snapshot)

lemma lifted_close: "keeps (lifted R) (session_close env)"
  unfolding session_close_def
  by (intro lifted_basic lifted_on_mutex lifted_release lifted_modify) simp_all

lemma lifted_record_call: "keeps (lifted R) (record_call c)"
  unfolding record_call_def by (rule lifted_modify) simp

lemma lifted_cancel:
  "keeps (lifted R) self_poll \<Longrightarrow> keeps (lifted R) (session_cancel env self_poll)"
  unfolding session_cancel_def Let_def
  by (intro lifted_basic lifted_require_open lifted_on_world keeps_before_broker_cancel lw.keeps_tryM
      lifted_record_call keeps_cancel_order)
    (auto intro: lw.keeps_returnM split: if_splits)

lemma lifted_open: "keeps (lifted R) (session_open env)"
proof -
  have build: "keeps (lifted R) (bind_build env)" unfolding bind_build_def by (intro lifted_basic)
  have res: "keeps (lifted R) (resume env b ev)" for b ev
    unfolding resume_def by (intro lifted_basic lifted_recover_unknown)
  show ?thesis unfolding session_open_def open_with_def
    by (intro lifted_basic lifted_snapshot lifted_on_mutex lifted_acquire lw.keeps_tryM
        lifted_journal_open build lifted_on_world keeps_verify_session res lifted_modify)
      (auto intro!: lw.keeps_bindM lifted_on_mutex lifted_release lw.keeps_raiseM split: if_splits)
qed

text \<open>For \<open>submit\<close>, the part that coordinates and calls the broker is left to the client.\<close>

lemma lifted_submit:
  "keeps (lifted R) (submit_intent env self_poll r) \<Longrightarrow> keeps (lifted R) (session_submit env self_poll r)"
  unfolding session_submit_def
  by (intro lifted_basic lifted_require_open lifted_on_world keeps_execution_healthy keeps_verify_request
      lifted_snapshot)

end

end
