(* ===== verification/Coordinated_Safety.thy ===== *)
theory Coordinated_Safety
  imports Coordinated_Session Session_World
begin

text \<open>
  What the coordinated session guarantees while other processes use the same database: the broker
  is never called for an order whose symbol is not claimed (and whose cash is not reserved) by
  this execution, and after every operation the claim is there if and only if the execution is
  unresolved.
\<close>

section \<open>Rows of one execution\<close>

definition own_rows :: "string \<times> string \<times> string \<Rightarrow> coordination_db \<Rightarrow> claim_row set \<times> reservation_row set" where
  "own_rows k d =
     ({c \<in> set (symbol_claim d). claim_owner_key c = k},
      {r \<in> set (cash_reservation d). reservation_owner_key r = k})"

lemma kept_own_rows: "foreign_rows_kept k' d d' \<Longrightarrow> k \<noteq> k' \<Longrightarrow> own_rows k d' = own_rows k d"
  unfolding foreign_rows_kept_def own_rows_def by (simp add: set_eq_iff) metis

lemma run_coord_own_rows:
  assumes "db_ok (committed s)" and "list_all (\<lambda>p. op_owner (snd p) \<noteq> k) ops"
  shows "own_rows k (committed (run_coord ops s)) = own_rows k (committed s)"
  using assms
proof (induction ops s rule: run_coord.induct)
  case (2 env oper ops s)
  have "own_rows k (committed (snd (coord_act env oper s))) = own_rows k (committed s)"
    using coord_act_ok [of s env oper] 2(2,3) by (auto intro: kept_own_rows)
  then show ?case using 2 coord_act_ok [of s env oper] by simp
qed simp

definition reserved_by :: "string \<Rightarrow> string \<Rightarrow> ExecutionRequest \<Rightarrow> coordination_db \<Rightarrow> bool" where
  "reserved_by acc eid request d \<longleftrightarrow>
     (\<exists>r \<in> set (cash_reservation d). reservation_owner_key r = owner_of acc eid request \<and> cr_active r = 1)"

text \<open>The claim of the symbol and, for a \<open>BUY\<close>, an active reservation of cash.\<close>

definition backed :: "string \<Rightarrow> string \<Rightarrow> ExecutionRequest \<Rightarrow> coordination_db \<Rightarrow> bool" where
  "backed acc eid request d \<longleftrightarrow>
     claimed_by acc eid request d \<and> (side request = BUY \<longrightarrow> reserved_by acc eid request d)"

lemma own_rows_claimed_by:
  "own_rows (owner_of acc eid request) d' = own_rows (owner_of acc eid request) d \<Longrightarrow>
     claimed_by acc eid request d' = claimed_by acc eid request d"
  unfolding own_rows_def claimed_by_def by (simp add: set_eq_iff) metis

lemma own_rows_backed:
  assumes "own_rows (owner_of acc eid request) d' = own_rows (owner_of acc eid request) d"
  shows "backed acc eid request d' = backed acc eid request d"
proof -
  have "reserved_by acc eid request d' = reserved_by acc eid request d"
    using assms unfolding own_rows_def reserved_by_def by (simp add: set_eq_iff) metis
  then show ?thesis using own_rows_claimed_by [OF assms] by (simp add: backed_def)
qed

lemma prepare_step_backed:
  assumes "prepare_step env acc eid request cash required d = (Inr x, d')" and "db_ok d"
  shows "db_ok d' \<and> backed acc eid request d'"
proof -
  note ok = prepare_step_ok [OF assms]
  have "reserved_by acc eid request d'" if buy: "side request = BUY"
  proof -
    obtain a r d1 where q: "cash_tx (reserved_total env acc) acc eid request a r d1 = (Inr (), d')"
      using prepare_step_Inr [OF assms(1)] buy by auto
    show ?thesis
      using q unfolding cash_tx_Inr
      by (auto simp: reserved_by_def insert_reservation_def bindR_eq_Inr reservation_key_owner owner_of_def
          dest!: find_reservation_Some) (auto simp: new_reservation_def key_defs)
  qed
  then show ?thesis using ok by (simp add: backed_def)
qed


section \<open>The invariant of the shared world\<close>

definition shared_ok :: "'v coordinated_env \<Rightarrow> 'v shared \<Rightarrow> bool" where
  "shared_ok env s \<longleftrightarrow>
     db_ok (committed (db_state s))
     \<and> (\<forall>(r, d) \<in> set (broker_log s). backed (account_key env) (own_execution_id env) r d)"

definition shared_step :: "'v coordinated_env \<Rightarrow> 'v shared \<Rightarrow> 'v shared \<Rightarrow> bool" where
  "shared_step env s s' \<longleftrightarrow> (shared_ok env s \<longrightarrow> shared_ok env s')"

lemma put_world_committed [simp]:
  "committed (db_state (put_world w s)) = committed (db_state s)" "broker_log (put_world w s) = broker_log s"
  by (simp_all add: put_world_def)

lemma interleave_ok:
  assumes "shared_ok env s"
  shows "shared_ok env (interleave env s)"
  using assms run_coord_ok by (auto simp: shared_ok_def interleave_def)

lemma interleave_backed:
  assumes "shared_ok env s" and "backed (account_key env) (own_execution_id env) r (committed (db_state s))"
  shows "backed (account_key env) (own_execution_id env) r (committed (db_state (interleave env s)))"
proof -
  have "list_all (\<lambda>p. op_owner (snd p) \<noteq> owner_of (account_key env) (own_execution_id env) r)
      (filter (\<lambda>p. foreign (account_key env) (own_execution_id env) (snd p)) ops)" for ops :: "('a coord_env \<times> coord_op) list"
    by (auto simp: list_all_iff foreign_def owner_of_def)
  then have "own_rows (owner_of (account_key env) (own_execution_id env) r) (committed (db_state (interleave env s)))
      = own_rows (owner_of (account_key env) (own_execution_id env) r) (committed (db_state s))"
    using assms(1) by (simp add: interleave_def shared_ok_def run_coord_own_rows)
  then show ?thesis using assms(2) own_rows_backed by blast
qed

lemma put_world_ok: "shared_ok env (put_world w s) = shared_ok env s"
  by (simp add: shared_ok_def)

lemma outside_eq: "outside env m s = (r, s') \<Longrightarrow> \<exists>w. s' = interleave env (put_world w s)"
  by (auto simp: outside_def split: prod.splits)

lemma outside_step: "keeps (shared_step env) (outside env m)"
  by (auto simp: keeps_def shared_step_def put_world_ok intro: interleave_ok dest!: outside_eq)

text \<open>The claim and the reservation, while outside calls run.\<close>

definition backed_world :: "'v coordinated_env \<Rightarrow> ExecutionRequest \<Rightarrow> 'v shared \<Rightarrow> bool" where
  "backed_world env r s \<longleftrightarrow>
     shared_ok env s \<and> backed (account_key env) (own_execution_id env) r (committed (db_state s))"

lemma outside_backed:
  "outside env m s = (q, s') \<Longrightarrow> backed_world env r s \<Longrightarrow> backed_world env r s'"
  by (auto simp: backed_world_def put_world_ok intro: interleave_ok interleave_backed dest!: outside_eq)

lemma on_db_eq: "on_db m s = (r, s') \<Longrightarrow> \<exists>d. m (db_state s) = (r, d) \<and> s' = s\<lparr>db_state := d\<rparr>"
  by (auto simp: on_db_def split: prod.splits)

lemma coord_op_db_ok:
  "coord_act c oper s = (r, s') \<Longrightarrow> db_ok (committed s) \<Longrightarrow> db_ok (committed s')"
  using coord_act_ok [of s c oper] by simp

lemma on_db_step: "keeps (shared_step env) (on_db (coord_act c oper))"
  by (auto simp: keeps_def shared_step_def shared_ok_def dest!: on_db_eq intro: coord_op_db_ok)

lemma release_step: "keeps (shared_step env) (release_resources env r)"
  using on_db_step [of env _ "UpdateFinality _ _ _ _"] by (simp add: release_resources_def)

lemma prepare_on_db_step: "keeps (shared_step env) (on_db (prepare c acc eid r a q))"
  using on_db_step [of env c "Prepare acc eid r a q"] by simp

lemma update_on_db_step: "keeps (shared_step env) (on_db (update_finality c acc eid r f))"
  using on_db_step [of env c "UpdateFinality acc eid r f"] by simp

lemma restore_on_db_step: "keeps (shared_step env) (on_db (restore c acc eid r q f))"
  using on_db_step [of env c "Restore acc eid r q f"] by simp

lemma has_claim_step: "keeps (shared_step env) (on_db (has_claim c acc eid r))"
  by (auto simp: keeps_def shared_step_def shared_ok_def dest!: on_db_eq has_claim_committed)

interpretation sw: step_preorder "shared_step env" for env
  by unfold_locales (auto simp: shared_step_def)

interpretation coordinated: session_world "shared_step env" "shared_env env" for env :: "'v coordinated_env"
  by unfold_locales
    (auto simp: shared_env_def Let_def shared_mutex_def outside_step
      simp: shared_step_def put_world_ok intro: interleave_ok split: prod.splits)



section \<open>The hooks and the broker port\<close>

lemma fresh_cash_step: "keeps (shared_step env) (fresh_cash env f r)"
  unfolding fresh_cash_def
  by (intro sw.keeps_tryM sw.keeps_bindM outside_step sw.keeps_liftR sw.keeps_returnM)
    (auto intro: sw.keeps_raiseM split: if_splits)

lemma prepare_backs:
  "triple (shared_ok env)
     (on_db (prepare (coordinator env) (account_key env) (own_execution_id env) r a q))
     (\<lambda>_. backed_world env r) (shared_ok env)"
proof (rule tripleI)
  fix s x s'
  assume i: "shared_ok env s" and run: "on_db (prepare (coordinator env) (account_key env)
      (own_execution_id env) r a q) s = (Inr x, s')"
  then obtain d where p: "prepare (coordinator env) (account_key env) (own_execution_id env) r a q (db_state s)
      = (Inr x, d)" and s': "s' = s\<lparr>db_state := d\<rparr>" by (auto dest: on_db_eq)
  have "prepare_step (coordinator env) (account_key env) (own_execution_id env) r a q
      (committed (db_state s)) = (Inr x, committed d)"
    using prepare_atomic p unfolding atomic_def by blast
  from prepare_step_backed [OF this] i show "backed_world env r s'"
    by (simp add: backed_world_def shared_ok_def s')
next
  fix s e s'
  assume "shared_ok env s" and "on_db (prepare (coordinator env) (account_key env)
      (own_execution_id env) r a q) s = (Inl e, s')"
  then show "shared_ok env s'" using keepsD [OF prepare_on_db_step] unfolding shared_step_def by blast
qed

lemma shared_triple: "keeps (shared_step env) m \<Longrightarrow> triple (shared_ok env) m (\<lambda>_. shared_ok env) (shared_ok env)"
  by (rule triple_keeps) (simp add: shared_step_def [abs_def])

lemma coordinate_backs:
  "triple (shared_ok env) (coordinate_before_submit env r) (\<lambda>_. backed_world env r) (shared_ok env)"
  unfolding coordinate_before_submit_def
proof (rule triple_bindM)
  show "triple (shared_ok env)
     (if side r = BUY then
          (case cash_estimator env of
             None \<Rightarrow> raiseM (Exn BrokerSubmissionRejected
               ''coordinated BUY requires an explicit CashRequirementEstimator; broker order was not invoked'')
           | Some estimator \<Rightarrow> fresh_cash env estimator r)
        else returnM (PyNone, PyNone)) (\<lambda>_. shared_ok env) (shared_ok env)"
    by (rule shared_triple)
      (auto intro: sw.keeps_returnM sw.keeps_raiseM fresh_cash_step split: option.split)
next
  fix x :: "pyval \<times> pyval"
  show "triple (shared_ok env) (case x of (available, required) \<Rightarrow>
      tryM (on_db (prepare (coordinator env) (account_key env) (own_execution_id env) r available required))
       (\<lambda>e. if isinstance_exn e CoordinationError then Some
              (raiseM (Exn BrokerSubmissionRejected
                 (''shared-account coordination rejected submit before broker side effect: '' @ exn_msg e)))
            else None)) (\<lambda>_. backed_world env r) (shared_ok env)"
    unfolding split_beta by (rule triple_tryM [OF prepare_backs]) (auto intro: triple_raiseM split: if_splits)
qed

lemma backed_outside:
  "triple (backed_world env r) (outside env m) (\<lambda>_. backed_world env r) (backed_world env r)"
  by (rule triple_keeps) (auto simp: keeps_def intro: outside_backed)

lemma backed_shared_ok: "backed_world env r s \<Longrightarrow> shared_ok env s"
  by (simp add: backed_world_def)

lemma sidecar_backs:
  "triple (backed_world env r) (run_project_sidecar env r) (\<lambda>_. backed_world env r) (shared_ok env)"
proof (cases "project_before_broker_submit env")
  case None
  then show ?thesis by (simp add: run_project_sidecar_def triple_returnM)
next
  case (Some hook)
  have r: "triple (backed_world env r) (bindM (release_resources env r) (\<lambda>_. raiseM e)) Q (shared_ok env)"
    for e and Q :: "unit \<Rightarrow> 'a shared \<Rightarrow> bool"
  proof -
    have "triple (shared_ok env) (bindM (release_resources env r) (\<lambda>_. raiseM e)) Q (shared_ok env)"
      by (rule triple_bindM [OF shared_triple [OF release_step] triple_raiseM])
    then show ?thesis by (rule triple_conseq) (auto dest: backed_shared_ok)
  qed
  show ?thesis unfolding run_project_sidecar_def Some option.case
    by (rule triple_tryM [OF backed_outside]) (auto intro: r dest: backed_shared_ok split: if_splits)
qed

lemma place_order_step:
  "triple (backed_world env r) (coordinated_place_order env r) (\<lambda>_. shared_ok env) (shared_ok env)"
  unfolding coordinated_place_order_def
proof (rule triple_tryM)
  have "triple (backed_world env r) (log_call r) (\<lambda>_. shared_ok env) (shared_ok env)"
    unfolding log_call_def by (rule triple_modifyM) (auto simp: backed_world_def shared_ok_def)
  then show "triple (backed_world env r) (bindM (log_call r) (\<lambda>_. outside env (place_order (base env) r)))
      (\<lambda>_. shared_ok env) (shared_ok env)"
    by (rule triple_bindM) (rule shared_triple [OF outside_step])
qed (auto intro: triple_raiseM triple_bindM [OF shared_triple [OF release_step]] split: if_splits)

text \<open>The same on the state of a session.\<close>

lemma on_world_triple:
  "triple P m (\<lambda>_. Q) E \<Longrightarrow>
     triple (\<lambda>s. P (world s)) (on_world m) (\<lambda>_ s. Q (world s)) (\<lambda>s. E (world s))"
  by (rule tripleI) (auto simp: on_world_def split: prod.splits dest: tripleD_Inr tripleD_Inl)

lemma shared_env_hooks [simp]:
  "place_order (shared_env env) = coordinated_place_order env"
  "before_submit_coordination (shared_env env) = coordinate_before_submit env"
  "before_broker_submit (shared_env env) = run_project_sidecar env"
  by (simp_all add: shared_env_def Let_def)

lemma lifted_triple:
  "keeps (lifted (shared_step env)) m \<Longrightarrow>
     triple (\<lambda>s. shared_ok env (world s)) m (\<lambda>_ s. shared_ok env (world s)) (\<lambda>s. shared_ok env (world s))"
  by (rule triple_keeps) (simp add: lifted_def [abs_def] shared_step_def)

lemma submit_to_broker_shared:
  assumes "keeps (lifted (shared_step env)) self_poll"
  shows "triple (\<lambda>s. backed_world env r (world s)) (submit_to_broker (shared_env env) self_poll r)
    (\<lambda>_ s. shared_ok env (world s)) (\<lambda>s. shared_ok env (world s))"
proof -
  have rec: "triple (\<lambda>s. backed_world env r (world s)) (record_call c)
      (\<lambda>_ s. backed_world env r (world s)) (\<lambda>s. shared_ok env (world s))" for c
    unfolding record_call_def by (rule triple_modifyM) simp
  show ?thesis unfolding submit_to_broker_def shared_env_hooks
    by (rule triple_try_elseM [OF triple_bindM [OF rec on_world_triple [OF place_order_step]]])
      (auto intro!: lifted_triple coordinated.lw.keeps_bindM coordinated.lifted_transition
        coordinated.lifted_snapshot coordinated.lifted_journal_operations assms split: if_splits)
qed

lemma submit_intent_shared:
  assumes "keeps (lifted (shared_step env)) self_poll"
  shows "keeps (lifted (shared_step env)) (submit_intent (shared_env env) self_poll r)"
proof -
  let ?S = "\<lambda>s. shared_ok env (world s)"
  have op: "keeps (lifted (shared_step env)) m \<Longrightarrow> triple ?S m (\<lambda>_. ?S) ?S"
    for m :: "('a shared, 'b) session_act" by (rule lifted_triple)
  have "triple ?S (submit_intent (shared_env env) self_poll r) (\<lambda>_. ?S) ?S"
    unfolding submit_intent_def shared_env_hooks
    by (rule triple_bindM [OF op [OF coordinated.lifted_journal_operations(1)]],
        rule triple_bindM [OF op [OF coordinated.lifted_transition]],
        rule triple_try_elseM [OF on_world_triple [OF coordinate_backs] _ _
          triple_try_elseM [OF on_world_triple [OF sidecar_backs] _ _ submit_to_broker_shared [OF assms]]])
      (auto intro!: op coordinated.lw.keeps_bindM coordinated.lifted_transition
        coordinated.lifted_snapshot coordinated.lw.keeps_raiseM split: if_splits)
  then show ?thesis by (auto simp: keeps_def lifted_def shared_step_def dest: triple_state)
qed



section \<open>Operations and their sequences\<close>

lemma sync_claim_step: "keeps (shared_step env) (sync_claim env r f)"
proof -
  have cash: "keeps (shared_step env) (required_cash_for_restore env r)"
    unfolding required_cash_for_restore_def
    by (auto intro!: sw.keeps_returnM sw.keeps_raiseM sw.keeps_tryM sw.keeps_bindM outside_step
        split: option.split if_splits)
  show ?thesis unfolding sync_claim_def Let_def
    by (intro sw.keeps_if sw.keeps_try_elseM sw.keeps_bindM has_claim_step update_on_db_step cash
        restore_on_db_step sw.keeps_returnM)
      (auto intro: sw.keeps_returnM split: if_splits)
qed

lemma lifted_sync: "keeps (lifted (shared_step env)) (sync env sn)"
  unfolding sync_def durable_request_def
  by (auto intro!: coordinated.lw.keeps_bindM coordinated.lw.keeps_getM coordinated.lw.keeps_if
      coordinated.lw.keeps_returnM coordinated.lw.keeps_liftR coordinated.lifted_journal_data
      coordinated.lifted_on_world sync_claim_step split: option.split)

lemma lifted_operations:
  "keeps (lifted (shared_step env)) (coordinated_open env)"
  "keeps (lifted (shared_step env)) (coordinated_poll env)"
  "keeps (lifted (shared_step env)) (coordinated_submit env r)"
  "keeps (lifted (shared_step env)) (coordinated_reconcile env)"
  "keeps (lifted (shared_step env)) (coordinated_cancel env)"
  "keeps (lifted (shared_step env)) (coordinated_next_cycle env)"
proof -
  show p: "keeps (lifted (shared_step env)) (coordinated_poll env)" unfolding coordinated_poll_def
    by (intro coordinated.lw.keeps_bindM coordinated.lifted_poll lifted_sync)
  show "keeps (lifted (shared_step env)) (coordinated_open env)"
    "keeps (lifted (shared_step env)) (coordinated_submit env r)"
    "keeps (lifted (shared_step env)) (coordinated_reconcile env)"
    "keeps (lifted (shared_step env)) (coordinated_cancel env)"
    "keeps (lifted (shared_step env)) (coordinated_next_cycle env)"
    unfolding coordinated_open_def coordinated_submit_def coordinated_reconcile_def
      coordinated_cancel_def coordinated_next_cycle_def
    by (intro coordinated.lw.keeps_bindM coordinated.lifted_open coordinated.lifted_submit
        coordinated.lifted_reconcile coordinated.lifted_cancel coordinated.lifted_next_cycle
        submit_intent_shared p lifted_sync)+
qed

text \<open>The base session's invariant, with the coordinated operations.\<close>

lemma inv_sync: "keeps (inv_step eid k) (sync env sn)"
  unfolding sync_def durable_request_def
  by (auto intro!: inv_basic split: option.split)

lemma inv_coordinated_poll: "keeps (inv_step eid k) (coordinated_poll env)"
  unfolding coordinated_poll_def by (intro si.keeps_bindM inv_poll inv_sync)

lemma inv_coordinated_operations:
  "own_execution_id env = eid \<Longrightarrow> keeps (inv_step eid k) (coordinated_open env)"
  "keeps (inv_step eid k) (coordinated_reconcile env)"
  "keeps (inv_step eid k) (coordinated_cancel env)"
  "keeps (inv_step eid k) (coordinated_next_cycle env)"
  unfolding coordinated_open_def coordinated_reconcile_def coordinated_cancel_def coordinated_next_cycle_def
  by (auto intro!: si.keeps_bindM inv_open inv_reconcile cancel_inv_ok inv_next_cycle inv_coordinated_poll
      inv_sync simp: shared_env_def Let_def own_execution_id_def)

definition run_coordinated_op ::
  "'v coordinated_env \<Rightarrow> session_op \<Rightarrow> 'v shared session_state \<Rightarrow> 'v shared session_state" where
  "run_coordinated_op env op' s =
     (case op' of
        Open \<Rightarrow> snd (coordinated_open env s)
      | Submit r \<Rightarrow> snd (coordinated_submit env r s)
      | Poll \<Rightarrow> snd (coordinated_poll env s)
      | Reconcile \<Rightarrow> snd (coordinated_reconcile env s)
      | Cancel \<Rightarrow> snd (coordinated_cancel env s)
      | NextCycle \<Rightarrow> snd (coordinated_next_cycle env s)
      | Close \<Rightarrow> snd (session_close (shared_env env) s)
      | Restart \<Rightarrow> new_session (world s) (disk s) (trace s))"

definition run_coordinated ::
  "'v coordinated_env \<Rightarrow> session_op list \<Rightarrow> 'v shared session_state \<Rightarrow> 'v shared session_state" where
  "run_coordinated env ops s = fold (run_coordinated_op env) ops s"

lemma lifted_snd: "keeps (lifted R) m \<Longrightarrow> R (world s) (world (snd (m s)))"
  by (cases "m s") (auto simp: keeps_def lifted_def)

lemma run_coordinated_op_shared:
  "shared_ok env (world s) \<Longrightarrow> shared_ok env (world (run_coordinated_op env op' s))"
  using lifted_snd [OF lifted_operations(1), of env s] lifted_snd [OF lifted_operations(2), of env s]
    lifted_snd [OF lifted_operations(3), of env s] lifted_snd [OF lifted_operations(4), of env s]
    lifted_snd [OF lifted_operations(5), of env s] lifted_snd [OF lifted_operations(6), of env s]
    lifted_snd [OF coordinated.lifted_close, of env s]
  by (cases op') (simp_all add: run_coordinated_op_def shared_step_def new_session_def)

lemma run_coordinated_shared:
  "shared_ok env (world s) \<Longrightarrow> shared_ok env (world (run_coordinated env ops s))"
  by (induction ops arbitrary: s) (simp_all add: run_coordinated_def run_coordinated_op_shared)

lemma run_coordinated_submit_inv:
  assumes "session_inv eid k s"
  shows "session_inv eid (Suc k) (run_coordinated_op env (Submit r) s)"
proof -
  obtain q t where run: "session_submit (shared_env env) (coordinated_poll env) r s = (q, t)" by fastforce
  have "session_inv eid (Suc k) t"
    using triple_state [OF submit_inv [OF inv_coordinated_poll] assms run] .
  then show ?thesis using run keeps_inv_snd [OF inv_sync]
    by (auto simp: run_coordinated_op_def coordinated_submit_def bindM_def split: sum.splits)
qed

lemma run_coordinated_op_inv:
  assumes "own_execution_id env = eid" and "session_inv eid k s" and "\<not> is_submit op'"
  shows "session_inv eid k (run_coordinated_op env op' s)"
  using assms
  by (cases op')
    (auto simp: run_coordinated_op_def intro: keeps_inv_snd inv_coordinated_operations inv_coordinated_poll
      inv_close inv_restart)

lemma run_coordinated_inv:
  assumes "own_execution_id env = eid" and "session_inv eid k s"
  shows "session_inv eid (k + submits ops) (run_coordinated env ops s)"
  using assms(2)
proof (induction ops arbitrary: k s)
  case Nil
  then show ?case by (simp add: run_coordinated_def submits_def)
next
  case (Cons op' ops)
  show ?case
  proof (cases "is_submit op'")
    case True
    then obtain r where r: "op' = Submit r" by (cases op') auto
    have "session_inv eid (Suc k) (run_coordinated_op env op' s)"
      unfolding r by (rule run_coordinated_submit_inv) (rule Cons.prems)
    from Cons.IH [OF this] show ?thesis by (simp add: r run_coordinated_def submits_def)
  next
    case False
    with Cons.IH [OF run_coordinated_op_inv [OF assms(1) Cons.prems False]] show ?thesis
      by (simp add: run_coordinated_def submits_def)
  qed
qed


section \<open>The claim follows the finality\<close>

lemma query_Inr:
  assumes "query c msg q k s = (Inr x, s')"
  shows "k (q (committed s)) = Inr x"
  using assms
  by (auto simp: query_def bindM_def finallyM_def tryM_def getM_def liftR_def raiseM_def
      dest!: sql_eq connect_eq split: prod.splits sum.splits option.splits if_splits)

lemma has_claim_Inr:
  assumes "has_claim c acc eid r s = (Inr b, s')" and "db_ok (committed s)"
  shows "b = claimed_by acc eid r (committed s)"
proof -
  from assms(1) have q: "(case find_claim acc (symbol r) (committed s) of
          None \<Rightarrow> Inr False
        | Some c \<Rightarrow> if owns eid r c then Inr True
            else Inl (Exn SymbolClaimConflict
                   ''same account/symbol is owned by another unresolved execution'')) = Inr b"
    by (auto simp: has_claim_def bindM_def liftR_def dest!: query_Inr split: sum.splits)
  show ?thesis
  proof (cases "find_claim acc (symbol r) (committed s)")
    case None
    then show ?thesis using q find_claim_None [OF None]
      by (auto simp: claimed_by_def key_defs)
  next
    case (Some x)
    then show ?thesis using q find_claim_claimed [OF Some] by (auto split: if_splits)
  qed
qed

lemma has_claim_conflict:
  assumes "has_claim c acc eid r s = (Inl e, s')" and "db_ok (committed s)"
    and "find_claim acc (symbol r) (committed s) = Some x" and "\<not> owns eid r x"
  shows "\<not> claimed_by acc eid r (committed s)"
proof
  assume "claimed_by acc eid r (committed s)"
  then obtain y where y: "y \<in> set (symbol_claim (committed s))" "claim_key acc (symbol r) y" "owns eid r y"
    by (auto simp: claimed_by_def key_defs owner_of_def)
  with claim_key_unique [OF assms(2,3)] assms(4) show False by blast
qed


lemma release_claims: "release_reservation acc eid cid d = Inr d' \<Longrightarrow> symbol_claim d' = symbol_claim d"
  by (auto simp: release_reservation_def)

lemma finality_resolved_unclaimed:
  assumes "finality_step acc eid r FINALITY_RESOLVED d = (Inr x, d')"
  shows "\<not> claimed_by acc eid r d'"
proof (cases "find_claim acc (symbol r) d")
  case None
  then have "symbol_claim d' = symbol_claim d"
    using assms by (auto simp: finality_step_def tx_Inr finality_tx_Inr dest: release_claims)
  then show ?thesis using find_claim_None [OF None] by (auto simp: claimed_by_def key_defs)
next
  case (Some c)
  then have "\<exists>d1. delete_claim acc (symbol r) eid (client_order_id r) d = Inr d1
      \<and> release_reservation acc eid (client_order_id r) d1 = Inr d'"
    using assms by (simp add: finality_step_def bindM_Inr liftR_Inr finality_tx_Inr)
  then obtain d1 where "delete_claim acc (symbol r) eid (client_order_id r) d = Inr d1"
    and "release_reservation acc eid (client_order_id r) d1 = Inr d'" by blast
  then have "symbol_claim d1 = filter (\<lambda>c. \<not> (claim_key acc (symbol r) c
      \<and> claim_owner acc eid (client_order_id r) c)) (symbol_claim d)" and "symbol_claim d' = symbol_claim d1"
    by (auto simp: delete_claim_def release_reservation_def)
  then have "symbol_claim d' = filter (\<lambda>c. \<not> (claim_key acc (symbol r) c
      \<and> claim_owner acc eid (client_order_id r) c)) (symbol_claim d)" by simp
  then show ?thesis by (auto simp: claimed_by_def key_defs owner_of_def)
qed

lemma update_claim_symbol_keys:
  "update_claim_finality acc smb f d = Inr d' \<Longrightarrow>
     claimed_by a e r d' = claimed_by a e r d"
proof -
  assume u: "update_claim_finality acc smb f d = Inr d'"
  have "map (\<lambda>c. (claim_symbol_key c, claim_owner_key c)) (symbol_claim d')
      = map (\<lambda>c. (claim_symbol_key c, claim_owner_key c)) (symbol_claim d)"
    using u by (auto simp: update_claim_finality_def)
  then have "set (map (\<lambda>c. (claim_symbol_key c, claim_owner_key c)) (symbol_claim d'))
      = set (map (\<lambda>c. (claim_symbol_key c, claim_owner_key c)) (symbol_claim d))"
    by (rule arg_cong)
  moreover have "claimed_by a e r x \<longleftrightarrow> ((a, symbol r), owner_of a e r)
      \<in> set (map (\<lambda>c. (claim_symbol_key c, claim_owner_key c)) (symbol_claim x))" for x
    by (auto simp: claimed_by_def image_iff) metis
  ultimately show ?thesis by blast
qed

lemma finality_open_claimed:
  assumes "finality_step acc eid r f d = (Inr x, d')" and "f \<noteq> FINALITY_RESOLVED"
  shows "claimed_by acc eid r d'"
  using assms
  by (auto simp: finality_step_def tx_Inr finality_tx_Inr dest: update_claim_symbol_keys find_claim_claimed
      split: option.splits)

lemma restored_claim_claimed:
  assumes "restored_claim acc eid r f d d1"
  shows "claimed_by acc eid r d1"
proof (cases "find_claim acc (symbol r) d")
  case None
  then have "insert_claim (new_claim acc eid r f) d = Inr d1" using assms by (simp add: restored_claim_def)
  then have "symbol_claim d1 = symbol_claim d @ [new_claim acc eid r f]"
    by (auto simp: insert_claim_def bindR_eq_Inr)
  then show ?thesis by (simp add: claimed_by_def)
next
  case (Some c)
  then show ?thesis
    using assms by (auto simp: restored_claim_def dest: update_claim_symbol_keys find_claim_claimed)
qed

lemma restore_claimed:
  assumes "restore_step acc eid r q f d = (Inr x, d')" and "f \<noteq> FINALITY_RESOLVED"
  shows "claimed_by acc eid r d'"
proof -
  obtain z where "restore_tx acc eid r z f d = (Inr (), d')"
    using assms by (auto simp: restore_step_def tx_Inr split: if_splits)
  then obtain d1 where c: "restored_claim acc eid r f d d1" and "symbol_claim d' = symbol_claim d1"
    unfolding restore_tx_Inr
    by (auto simp: insert_reservation_def reactivate_reservation_def bindR_eq_Inr
        split: if_splits option.splits)
  then show ?thesis using restored_claim_claimed [OF c] by (simp add: claimed_by_def)
qed

text \<open>SQLite raises its own exceptions, never the coordinator's.\<close>

definition sqlite_raises :: "'v coord_env \<Rightarrow> bool" where
  "sqlite_raises c \<longleftrightarrow>
     (\<forall>w e w'. sql_connect c w = (Inl e, w') \<or> sql_statement c w = (Inl e, w') \<or> sql_close c w = (Inl e, w')
        \<longrightarrow> exn_kind e \<noteq> SymbolClaimConflict)"

lemma conflict_kind: "isinstance_exn e SymbolClaimConflict \<longleftrightarrow> exn_kind e = SymbolClaimConflict"
  by (cases e; cases "exn_kind e") (auto simp: isinstance_exn_def)

lemma sql_raise: "sql m s = (Inl e, s') \<Longrightarrow> \<exists>w'. m (cworld s) = (Inl e, w')"
  by (auto simp: sql_def split: prod.splits)

lemma has_claim_raises_conflict:
  assumes "has_claim c acc eid r s = (Inl e, s')" and "exn_kind e = SymbolClaimConflict" and "sqlite_raises c"
  shows "\<exists>x. find_claim acc (symbol r) (committed s) = Some x \<and> \<not> owns eid r x"
proof -
  have v: "validate_owner acc eid = Inl e' \<Longrightarrow> exn_kind e' \<noteq> SymbolClaimConflict" for e'
    by (auto simp: validate_owner_def plain_non_empty_def bindR_eq_Inl split: if_splits)
  have st: "sql (sql_statement c) t = (q, t') \<Longrightarrow>
      committed t' = committed t \<and> (\<forall>e'. q = Inl e' \<longrightarrow> exn_kind e' \<noteq> SymbolClaimConflict)" for t q t'
    using assms(3) by (auto simp: sqlite_raises_def dest: sql_eq dest!: sql_raise)
  have cl: "sql (sql_close c) t = (q, t') \<Longrightarrow>
      committed t' = committed t \<and> (\<forall>e'. q = Inl e' \<longrightarrow> exn_kind e' \<noteq> SymbolClaimConflict)" for t q t'
    using assms(3) by (auto simp: sqlite_raises_def dest: sql_eq dest!: sql_raise)
  have cn: "connect c t = (q, t') \<Longrightarrow>
      committed t' = committed t \<and> (\<forall>e'. q = Inl e' \<longrightarrow> exn_kind e' \<noteq> SymbolClaimConflict)" for t q t'
    using assms(3) by (auto simp: connect_def sqlite_raises_def split: prod.splits sum.splits)
  show ?thesis
    using assms(1,2)
    by (auto simp: has_claim_def query_def bindM_def finallyM_def tryM_def getM_def liftR_def raiseM_def
        dest: v dest!: cn st cl split: prod.splits sum.splits option.splits if_splits)
qed


lemma on_db_step_Inr:
  assumes "on_db m s = (Inr x, s')" and "atomic m f"
  shows "f (committed (db_state s)) = (Inr x, committed (db_state s'))"
  using assms on_db_eq [OF assms(1)] unfolding atomic_def by auto

lemma sync_claim_spec:
  assumes "shared_ok env s" and "sqlite_raises (coordinator env)" and "sync_claim env r f s = (Inr (), s')"
  shows "claimed_by (account_key env) (own_execution_id env) r (committed (db_state s')) \<longleftrightarrow> f \<noteq> FINALITY_RESOLVED"
proof -
  let ?c = "coordinator env" and ?a = "account_key env" and ?e = "own_execution_id env"
  obtain q t where h: "on_db (has_claim ?c ?a ?e r) s = (q, t)" by fastforce
  then obtain d where hd: "has_claim ?c ?a ?e r (db_state s) = (q, d)" and t: "t = s\<lparr>db_state := d\<rparr>"
    by (auto dest: on_db_eq)
  have same: "committed (db_state t) = committed (db_state s)" using has_claim_committed [OF hd] by (simp add: t)
  have db: "db_ok (committed (db_state s))" using assms(1) by (simp add: shared_ok_def)
  show ?thesis
  proof (cases "f = FINALITY_RESOLVED")
    case True
    show ?thesis
    proof (cases q)
      case (Inl e)
      then have e: "exn_kind e = SymbolClaimConflict" "s' = t"
        using assms(3) h True by (auto simp: sync_claim_def try_elseM_def returnM_def conflict_kind
            split: if_splits option.splits)
      then have "\<not> claimed_by ?a ?e r (committed (db_state s))"
        using has_claim_raises_conflict [OF _ _ assms(2)] has_claim_conflict [OF _ db] hd Inl by metis
      then show ?thesis using True same e(2) by simp
    next
      case (Inr b)
      show ?thesis
      proof (cases b)
        case True
        then have "on_db (update_finality ?c ?a ?e r f) t = (Inr (), s')"
          using assms(3) h Inr \<open>f = FINALITY_RESOLVED\<close> by (simp add: sync_claim_def try_elseM_def)
        from on_db_step_Inr [OF this update_finality_atomic] show ?thesis
          using finality_resolved_unclaimed \<open>f = FINALITY_RESOLVED\<close> by blast
      next
        case False
        then have "s' = t" using assms(3) h Inr \<open>f = FINALITY_RESOLVED\<close>
          by (simp add: sync_claim_def try_elseM_def returnM_def)
        then show ?thesis using has_claim_Inr [OF _ db] hd Inr False same \<open>f = FINALITY_RESOLVED\<close> by auto
      qed
    qed
  next
    case False
    then obtain b where b: "q = Inr b"
      using assms(3) h by (cases q) (auto simp: sync_claim_def bindM_def)
    show ?thesis
    proof (cases b)
      case True
      then have "on_db (update_finality ?c ?a ?e r f) t = (Inr (), s')"
        using assms(3) h b False by (simp add: sync_claim_def bindM_def)
      from on_db_step_Inr [OF this update_finality_atomic] show ?thesis
        using finality_open_claimed False by blast
    next
      case no: False
      then obtain cash u where "on_db (restore ?c ?a ?e r cash f) u = (Inr (), s')"
        using assms(3) h b False by (auto simp: sync_claim_def bindM_def split: prod.splits sum.splits)
      from on_db_step_Inr [OF this restore_atomic] show ?thesis using restore_claimed False by blast
    qed
  qed
qed


text \<open>\<open>sync\<close> changes the world only, so the request and the finality it used are those of its final state.\<close>

lemma durable_request_state: "durable_request env s = (q, t) \<Longrightarrow> t = s"
  by (auto simp: durable_request_def journal_data_def require_payload_def bindM_def getM_def returnM_def
      raiseM_def liftR_def split: prod.splits sum.splits option.splits if_splits)

lemma durable_request_world:
  "payload s' = payload s \<Longrightarrow> fst (durable_request env s') = fst (durable_request env s)"
  by (auto simp: durable_request_def journal_data_def require_payload_def bindM_def getM_def returnM_def
      raiseM_def liftR_def split: prod.splits sum.splits option.splits if_splits)

lemma sync_spec:
  assumes "shared_ok env (world s)" and "sqlite_raises (coordinator env)"
    and "sync env sn s = (Inr sn', s')" and "fst (durable_request env s') = Inr (Some r)"
  shows "claimed_by (account_key env) (own_execution_id env) r (committed (db_state (world s')))
    \<longleftrightarrow> execution_finality (machine s') \<noteq> FINALITY_RESOLVED"
proof -
  obtain q t where dr: "durable_request env s = (q, t)" by fastforce
  then have t: "t = s" by (rule durable_request_state)
  have same: "payload s' = payload s \<and> machine s' = machine s"
    using assms(3) dr t
    by (auto simp: sync_def bindM_def getM_def returnM_def on_world_def split: prod.splits sum.splits option.splits)
  then have "q = Inr (Some r)" using assms(4) durable_request_world [of s' s env] dr by simp
  then have "on_world (sync_claim env r (execution_finality (machine s))) s = (Inr (), s')"
    using assms(3) dr t
    by (auto simp: sync_def bindM_def getM_def returnM_def split: prod.splits sum.splits)
  then obtain w where "sync_claim env r (execution_finality (machine s)) (world s) = (Inr (), w)"
    and "world s' = w" by (auto simp: on_world_def split: prod.splits)
  then show ?thesis using sync_claim_spec [OF assms(1,2)] same by metis
qed

lemma synced_operation:
  assumes "shared_ok env (world s)" and "sqlite_raises (coordinator env)"
    and "m \<in> {coordinated_open env, coordinated_submit env q, coordinated_poll env,
      coordinated_reconcile env, coordinated_cancel env}"
    and "m s = (Inr sn, s')" and "fst (durable_request env s') = Inr (Some r)"
  shows "claimed_by (account_key env) (own_execution_id env) r (committed (db_state (world s')))
    \<longleftrightarrow> execution_finality (machine s') \<noteq> FINALITY_RESOLVED"
proof -
  obtain b where m: "m = bindM b (sync env)" and b: "keeps (lifted (shared_step env)) b"
    using assms(3) unfolding coordinated_open_def coordinated_submit_def coordinated_poll_def
      coordinated_reconcile_def coordinated_cancel_def
    by (auto intro: coordinated.lifted_open coordinated.lifted_poll coordinated.lifted_reconcile
        coordinated.lifted_cancel coordinated.lifted_submit submit_intent_shared
        lifted_operations(2) [unfolded coordinated_poll_def])
  obtain x u where u: "b s = (Inr x, u)" and sy: "sync env x u = (Inr sn, s')"
    using assms(4) unfolding m by (auto simp: bindM_def split: prod.splits sum.splits)
  have "shared_ok env (world u)"
    using keepsD [OF b u] assms(1) by (simp add: lifted_def shared_step_def)
  from sync_spec [OF this assms(2) sy assms(5)] show ?thesis .
qed

end
