(* ===== verification/Act_Evaluation.thy ===== *)
theory Act_Evaluation
  imports Coordinated_Session
begin

text \<open>
  Code equations for the evaluation of concrete runs by the simplifier.  The operations of the
  model are functions of a state; with the equations of this theory an operation is unfolded only
  when it is applied to a state, and its continuation only when the operation before it has come
  to an end, so that a run is evaluated in the order in which the program runs.
\<close>

section \<open>Results handed to continuations\<close>

fun bind_k :: "('a \<Rightarrow> ('s, 'e, 'b) act) \<Rightarrow> ('e + 'a) \<times> 's \<Rightarrow> ('e + 'b) \<times> 's" where
  "bind_k f (Inl e, s) = (Inl e, s)" | "bind_k f (Inr x, s) = f x s"

fun handler_k :: "'e \<Rightarrow> 's \<Rightarrow> ('s, 'e, 'b) act option \<Rightarrow> ('e + 'b) \<times> 's" where
  "handler_k e s None = (Inl e, s)" | "handler_k e s (Some m) = m s"

fun try_k :: "('e \<Rightarrow> ('s, 'e, 'a) act option) \<Rightarrow> ('e + 'a) \<times> 's \<Rightarrow> ('e + 'a) \<times> 's" where
  "try_k h (Inl e, s) = handler_k e s (h e)" | "try_k h (Inr x, s) = (Inr x, s)"

fun try_else_k :: "('e \<Rightarrow> ('s, 'e, 'b) act option) \<Rightarrow> ('a \<Rightarrow> ('s, 'e, 'b) act) \<Rightarrow> ('e + 'a) \<times> 's \<Rightarrow> ('e + 'b) \<times> 's" where
  "try_else_k h k (Inl e, s) = handler_k e s (h e)" | "try_else_k h k (Inr x, s) = k x s"

fun fin_r :: "'e + 'a \<Rightarrow> ('e + unit) \<times> 's \<Rightarrow> ('e + 'a) \<times> 's" where
  "fin_r r (Inl e, s) = (Inl e, s)" | "fin_r r (Inr x, s) = (r, s)"

fun fin_k :: "('s, 'e, unit) act \<Rightarrow> ('e + 'a) \<times> 's \<Rightarrow> ('e + 'a) \<times> 's" where
  "fin_k g (r, s) = fin_r r (g s)"

fun put_k :: "('w \<Rightarrow> 's) \<Rightarrow> 'r \<times> 'w \<Rightarrow> 'r \<times> 's" where
  "put_k f (r, w) = (r, f w)"

section \<open>The combinators\<close>

lemma returnM_code [code]: "returnM a s = (Inr a, s)" by (simp add: returnM_def)

lemma raiseM_code [code]: "raiseM a s = (Inl a, s)" by (simp add: raiseM_def)

lemma getM_code [code]: "getM a s = (Inr (a s), s)" by (simp add: getM_def)

lemma modifyM_code [code]: "modifyM a s = (Inr (), a s)" by (simp add: modifyM_def)

lemma liftR_code [code]: "liftR a s = (a, s)" by (simp add: liftR_def)

lemma bindM_code [code]: "bindM a b s = bind_k b (a s)"
  by (auto simp: bindM_def split: prod.split sum.split)

lemma tryM_code [code]: "tryM a b s = try_k b (a s)"
  by (auto simp: tryM_def split: prod.split sum.split option.split)

lemma try_elseM_code [code]: "try_elseM a b c s = try_else_k b c (a s)"
  by (auto simp: try_elseM_def split: prod.split sum.split option.split)

lemma finallyM_code [code]: "finallyM a b s = fin_k b (a s)"
  by (auto simp: finallyM_def split: prod.split sum.split option.split)

lemma on_world_code [code]: "on_world a s = put_k (\<lambda>w. s\<lparr>world := w\<rparr>) (a (world s))"
  by (auto simp: on_world_def split: prod.split)

lemma outside_code [code]: "outside a b s = put_k (\<lambda>w. interleave a (put_world w s)) (b (cworld (db_state s)))"
  by (auto simp: outside_def split: prod.split)

lemma on_db_code [code]: "on_db a s = put_k (\<lambda>w. s\<lparr>db_state := w\<rparr>) (a (db_state s))"
  by (auto simp: on_db_def split: prod.split)

fun replace_k :: "pydict \<Rightarrow> ('w, 'a) journal_state_scheme \<Rightarrow> replace_outcome \<times> 'w
  \<Rightarrow> (exn + unit) \<times> ('w, 'a) journal_state_scheme" where
  "replace_k p s (Replaced, w) = (Inr (), s\<lparr>world := w, disk := FileJson (PyDict p)\<rparr>)"
| "replace_k p s (ReplaceRaised e done, w) =
          (Inl e, if done then s\<lparr>world := w, disk := FileJson (PyDict p)\<rparr> else s\<lparr>world := w\<rparr>)"

lemma replace_once_code [code]: "replace_once env p s = replace_k p s (os_replace env (world s))"
  by (auto simp: replace_once_def split: prod.split replace_outcome.split)

lemma sql_code [code]: "sql m s = put_k (\<lambda>w. s\<lparr>cworld := w\<rparr>) (m (cworld s))"
  by (auto simp: sql_def split: prod.split)

section \<open>Operations applied to a state\<close>

lemmas journal_write_at [code] = fun_cong [OF journal_write_def]
lemmas write_data_at [code] = fun_cong [OF write_data_def]
lemmas require_payload_at [code] = fun_cong [OF require_payload_def]
lemmas set_payload_at [code] = fun_cong [OF set_payload_def]
lemmas transition_with_at [code] = fun_cong [OF transition_with_def]
lemmas transition_at [code] = fun_cong [OF transition_def]
lemmas submit_to_broker_at [code] = fun_cong [OF submit_to_broker_def]
lemmas submit_intent_at [code] = fun_cong [OF submit_intent_def]
lemmas session_submit_at [code] = fun_cong [OF session_submit_def]
lemmas persist_intent_at [code] = fun_cong [OF persist_intent_def]
lemmas persist_broker_order_id_at [code] = fun_cong [OF persist_broker_order_id_def]
lemmas session_poll_at [code] = fun_cong [OF session_poll_def]
lemmas session_snapshot_at [code] = fun_cong [OF session_snapshot_def]
lemmas apply_observation_at [code] = fun_cong [OF apply_observation_def]
lemmas locate_order_at [code] = fun_cong [OF locate_order_def]
lemmas recover_unknown_at [code] = fun_cong [OF recover_unknown_def]
lemmas require_open_at [code] = fun_cong [OF require_open_def]
lemmas journal_data_at [code] = fun_cong [OF journal_data_def]
lemmas assert_identity_unused_at [code] = fun_cong [OF assert_identity_unused_def]
lemmas replace_loop_at [code] = replace_loop.simps [THEN fun_cong]

lemmas connect_at [code] = fun_cong [OF connect_def]
lemmas select_at [code] = fun_cong [OF select_def]
lemmas execute_at [code] = fun_cong [OF execute_def]
lemmas begin_immediate_at [code] = fun_cong [OF begin_immediate_def]
lemmas begin_write_at [code] = fun_cong [OF begin_write_def]
lemmas transaction_at [code] = fun_cong [OF transaction_def]
lemmas prepare_claim_at [code] = fun_cong [OF prepare_claim_def]
lemmas prepare_cash_at [code] = fun_cong [OF prepare_cash_def]
lemmas prepare_at [code] = fun_cong [OF prepare_def]
lemmas update_finality_at [code] = fun_cong [OF update_finality_def]
lemmas restore_claim_at [code] = fun_cong [OF restore_claim_def]
lemmas restore_cash_at [code] = fun_cong [OF restore_cash_def]
lemmas restore_at [code] = fun_cong [OF restore_def]
lemmas has_claim_at [code] = fun_cong [OF has_claim_def]
lemmas log_call_at [code] = fun_cong [OF log_call_def]
lemmas release_resources_at [code] = fun_cong [OF release_resources_def]
lemmas coordinated_place_order_at [code] = fun_cong [OF coordinated_place_order_def]
lemmas fresh_cash_at [code] = fun_cong [OF fresh_cash_def]
lemmas coordinate_before_submit_at [code] = fun_cong [OF coordinate_before_submit_def]
lemmas run_project_sidecar_at [code] = fun_cong [OF run_project_sidecar_def]
lemmas durable_request_at [code] = fun_cong [OF durable_request_def]
lemmas required_cash_for_restore_at [code] = fun_cong [OF required_cash_for_restore_def]
lemmas sync_claim_at [code] = fun_cong [OF sync_claim_def]
lemmas sync_at [code] = fun_cong [OF sync_def]
lemmas coordinated_open_at [code] = fun_cong [OF coordinated_open_def]
lemmas coordinated_poll_at [code] = fun_cong [OF coordinated_poll_def]
lemmas coordinated_submit_at [code] = fun_cong [OF coordinated_submit_def]
lemmas coordinated_reconcile_at [code] = fun_cong [OF coordinated_reconcile_def]
lemmas coordinated_cancel_at [code] = fun_cong [OF coordinated_cancel_def]
lemmas coordinated_next_cycle_at [code] = fun_cong [OF coordinated_next_cycle_def]
lemmas to_unknown_at [code] = fun_cong [OF to_unknown_def]
lemmas session_reconcile_at [code] = fun_cong [OF session_reconcile_def]
lemmas session_cancel_at [code] = fun_cong [OF session_cancel_def]
lemmas clear_cycle_data_at [code] = fun_cong [OF clear_cycle_data_def]
lemmas persist_cancel_intent_at [code] = fun_cong [OF persist_cancel_intent_def]
lemmas update_observation_at [code] = fun_cong [OF update_observation_def]
lemmas journal_transition_at [code] = fun_cong [OF journal_transition_def]
lemmas record_call_at [code] = fun_cong [OF record_call_def]

end
