(* ===== verification/Coordinated_Properties.thy ===== *)
theory Coordinated_Properties
  imports Session_Properties Coordinated_Safety Act_Evaluation
begin

text \<open>
  Properties of a coordinated session that shares its database with other processes, and runs of
  the model in a concrete environment.
\<close>

section \<open>A concrete environment\<close>

definition counting_sql :: "nat coord_env" where
  "counting_sql = \<lparr>sql_connect = returnM (), sql_created = (\<lambda>_. False), sql_begin = returnM (), sql_statement = returnM (),
     sql_commit = (\<lambda>w. (Committed, w)), sql_rollback = returnM (), sql_close = returnM (),
     sql_sum = foldl fadd (Finite 0)\<rparr>"

text \<open>
  The environment of the session's examples, on a database.  When the world has counted nine
  writes, the one of the broker's order id, another execution asks for the same symbol.
\<close>

definition rival :: "nat \<Rightarrow> (nat coord_env \<times> coord_op) list" where
  "rival n = (if n = 9 then [(counting_sql, Prepare ''A'' ''other'' other_request (PyInt 2000) (PyInt 1105))]
              else [])"

definition fixed_estimate :: CashRequirementEstimate where
  "fixed_estimate =
     \<lparr>ce_required_cash = Finite 1105, ce_order_notional = Finite 1000,
      ce_transaction_cost_buffer = Finite 5, ce_temporary_withholding_buffer = Finite 0,
      ce_fx_rounding_buffer = Finite 0, ce_safety_buffer = Finite 100\<rparr>"

definition coordinated_example :: "nat coordinated_env" where
  "coordinated_example =
     \<lparr>base = good_env, account_key = ''A'', coordinator = counting_sql,
      query_asset = returnM empty_asset,
      cash_estimator = Some (\<lambda>r a. returnM fixed_estimate),
      project_before_broker_submit = None, others = rival\<rparr>"

definition fresh_shared :: "nat \<Rightarrow> nat shared" where
  "fresh_shared n =
     \<lparr>db_state = \<lparr>cworld = n, db_exists = True, committed = empty_db, working = empty_db\<rparr>, broker_log = []\<rparr>"

text \<open>The state of the session after it was opened.\<close>

definition ready_shared :: "nat shared session_state" where
  "ready_shared =
     \<lparr>world = fresh_shared 3, disk = FileJson (PyDict ready_payload), payload = Some ready_payload,
      machine = \<lparr>state = WAIT_TRIGGER,
        facts = no_facts\<lparr>environment_verified := True, account_verified := True\<rparr>\<rparr>,
      is_open = True, is_closed = False, owned = True, trace = []\<rparr>"

lemma shared_ok_fresh: "shared_ok env (fresh_shared n)"
  by (simp add: shared_ok_def fresh_shared_def db_ok_empty)

text \<open>
  The order is accepted and stays open; the rival's request comes too late and fails.
\<close>

definition example_run :: "(exn + ExecutionSnapshot) \<times> nat shared session_state" where
  "example_run = coordinated_submit coordinated_example example_request ready_shared"

lemma example_run_result:
  "(case example_run of (q, s) \<Rightarrow> (isOk q, map fst (broker_log (world s)),
      fst (durable_request coordinated_example s), execution_finality (machine s)))
     = (True, [example_request], Inr (Some example_request), FINALITY_OPEN)"
  by code_simp

lemma run_coordinated_example:
  "run_coordinated coordinated_example [Submit example_request] ready_shared = snd example_run"
  by (simp add: run_coordinated_def run_coordinated_op_def example_run_def)

section \<open>Properties\<close>

text \<open>
  C6. Claim before the side effect: over any sequence of operations of a coordinated session, with
  any failures, and with any operations of other executions in between, whenever the raw broker
  is asked to place an order, the committed database holds this execution's claim on the symbol
  and, for a \<open>BUY\<close>, its active cash reservation.
\<close>

theorem broker_called_only_with_claim:
  assumes "db_ok (committed (db_state (world s)))" and "broker_log (world s) = []"
    and "(r, d) \<in> set (broker_log (world (run_coordinated env ops s)))"
  shows "(\<exists>c \<in> set (symbol_claim d). sc_account_key c = account_key env \<and> sc_symbol c = symbol r
      \<and> sc_execution_id c = own_execution_id env \<and> sc_client_order_id c = client_order_id r)
    \<and> (side r = BUY \<longrightarrow> (\<exists>q \<in> set (cash_reservation d). cr_account_key q = account_key env
      \<and> cr_execution_id q = own_execution_id env \<and> cr_client_order_id q = client_order_id r
      \<and> cr_active q = 1))"
proof -
  have "shared_ok env (world s)" using assms(1,2) by (simp add: shared_ok_def)
  then have "backed (account_key env) (own_execution_id env) r d"
    using run_coordinated_shared assms(3) unfolding shared_ok_def by fastforce
  then show ?thesis by (auto simp: backed_def claimed_by_def reserved_by_def key_defs owner_of_def)
qed

theorem broker_called_only_with_claim_witness:
  "\<exists>d. (example_request, d)
      \<in> set (broker_log (world (run_coordinated coordinated_example [Submit example_request] ready_shared)))
    \<and> (\<exists>c \<in> set (symbol_claim d). sc_symbol c = ''600000.SH'' \<and> sc_client_order_id c = ''c1'')"
proof -
  have "example_request \<in> fst ` set (broker_log (world (run_coordinated coordinated_example
      [Submit example_request] ready_shared)))"
    using example_run_result unfolding run_coordinated_example
    by (metis (no_types, lifting) list.set_intros(1) prod.collapse prod.inject case_prod_unfold set_map)
  then obtain d where d: "(example_request, d) \<in> set (broker_log (world (run_coordinated coordinated_example
      [Submit example_request] ready_shared)))" by auto
  from broker_called_only_with_claim [OF _ _ d] d show ?thesis
    by (auto simp: ready_shared_def fresh_shared_def db_ok_empty example_request_def)
qed

text \<open>
  C7. The claim follows the finality: when an operation of the coordinated session returns and the
  journal holds an intent, this execution has a claim on the symbol if and only if its finality is
  not resolved (with a SQLite that raises its own exceptions only).
\<close>

theorem claim_follows_finality:
  assumes "shared_ok env (world s)" and "sqlite_raises (coordinator env)"
    and "m \<in> {coordinated_open env, coordinated_submit env q, coordinated_poll env,
      coordinated_reconcile env, coordinated_cancel env}"
    and "m s = (Inr sn, s')" and "fst (durable_request env s') = Inr (Some r)"
  shows "claimed_by (account_key env) (own_execution_id env) r (committed (db_state (world s')))
    \<longleftrightarrow> execution_finality (machine s') \<noteq> FINALITY_RESOLVED"
  by (rule synced_operation [OF assms])

theorem claim_follows_finality_witness:
  "claimed_by ''A'' ''default'' example_request (committed (db_state (world (snd example_run))))"
proof -
  obtain q s' where e: "example_run = (q, s')" by fastforce
  from example_run_result have "isOk q" and facts:
    "fst (durable_request coordinated_example s') = Inr (Some example_request)"
    "execution_finality (machine s') = FINALITY_OPEN" by (simp_all add: e)
  then obtain sn where run: "example_run = (Inr sn, s')" using e by (auto simp: isOk_def split: sum.splits)
  have sq: "sqlite_raises (coordinator coordinated_example)"
    by (simp add: sqlite_raises_def coordinated_example_def counting_sql_def returnM_def)
  have ok: "shared_ok coordinated_example (world ready_shared)"
    by (simp add: ready_shared_def shared_ok_fresh)
  have run': "coordinated_submit coordinated_example example_request ready_shared = (Inr sn, s')"
    using run by (simp add: example_run_def)
  have "claimed_by (account_key coordinated_example) (own_execution_id coordinated_example)
      example_request (committed (db_state (world s')))
    \<longleftrightarrow> execution_finality (machine s') \<noteq> FINALITY_RESOLVED"
    by (rule claim_follows_finality [where q = example_request and s = ready_shared
          and m = "coordinated_submit coordinated_example example_request" and sn = sn])
      (use ok sq run' facts(1) in simp_all)
  with facts(2) show ?thesis
    by (simp add: run coordinated_example_def own_execution_id_def good_env_def example_env_def)
qed

text \<open>
  C8. Coordination keeps the guarantee of the base session: over any sequence of operations of a
  coordinated session, with failures, crashes, restarts and other processes in between, no client
  order id and no order remark is passed to \<open>place_order\<close> twice, as long as the execution submits at
  most 10000 times (the length of the list of used identities that the journal keeps; an older identity
  is accepted again).
\<close>

theorem coordinated_place_order_at_most_once:
  assumes "int (submits ops) \<le> USED_WINDOW"
  shows "distinct (placed_ids (trace (run_coordinated env ops (new_session w NoFile []))))
    \<and> distinct (placed_remarks (trace (run_coordinated env ops (new_session w NoFile []))))"
  using run_coordinated_inv [OF refl session_inv_new, of env ops w] assms
  by (simp add: session_inv_def trace_ok_def)

theorem coordinated_place_order_at_most_once_witness:
  "distinct (placed_ids (trace (run_coordinated coordinated_example
     [Open, Submit example_request, Restart, Open, Submit example_request]
     (new_session (fresh_shared 0) NoFile []))))"
  using coordinated_place_order_at_most_once [of
      "[Open, Submit example_request, Restart, Open, Submit example_request]" coordinated_example
      "fresh_shared 0"]
  by (simp add: submits_def USED_WINDOW_def)

end
