(* ===== verification/Three_Process_Model.thy ===== *)
theory Three_Process_Model
  imports Machine_Verifier "HOL-Library.Product_Lexorder"
begin

text \<open>
  The coordination model of \<open>formal.py\<close>: the graph of all snapshots that one session can reach,
  and the interleaving of three such sessions that share symbol claims and cash.  A process is
  coded as twice the number of its snapshot, plus one while it holds shared resources; a global
  state is the list of the three codes.
\<close>

section \<open>The graph of one session\<close>

definition formal_step :: "MachineSnapshot \<Rightarrow> TradeEvent \<Rightarrow> MachineSnapshot pyres" where
  "formal_step snap event =
     (if event = SESSION_READY then advance snap event (Some canonical_session_evidence) None
      else if event = PRECHECK_VERIFIED then advance snap event None (Some canonical_precheck_evidence)
      else advance snap event None None)"

text \<open>
  A dictionary is a map; the assignments of a loop are applied in their order, so that a later
  one replaces an earlier one.
\<close>

definition dict_of :: "('k \<times> 'v) list \<Rightarrow> 'k \<Rightarrow> 'v option" where
  "dict_of kvs = fold (\<lambda>(k, v) m. m(k \<mapsto> v)) kvs Map.empty"

record graph_search =
  gs_queue :: "MachineSnapshot list"
  gs_reachable :: "MachineSnapshot list"
  gs_raw_edges :: "MachineSnapshot \<Rightarrow> (TradeEvent \<times> MachineSnapshot) list option"

record local_graph =
  snapshots :: "MachineSnapshot list"
  ids :: "MachineSnapshot \<Rightarrow> nat option"
  graph_edges :: "nat \<Rightarrow> (TradeEvent \<times> nat) list option"
  by_event :: "nat \<times> TradeEvent \<Rightarrow> nat option"

text \<open>The \<open>for event in TRANSITIONS[current.state]\<close> loop; the last argument is \<open>current_edges\<close>.\<close>

primrec graph_visit ::
  "MachineSnapshot \<Rightarrow> TradeEvent list \<Rightarrow> (TradeEvent \<times> MachineSnapshot) list \<Rightarrow> graph_search
    \<Rightarrow> ((TradeEvent \<times> MachineSnapshot) list \<times> graph_search) pyres" where
  "graph_visit cur [] es b = Inr (es, b)"
| "graph_visit cur (event # events) es b =
     (case formal_step cur event of
        Inl e \<Rightarrow>
          if isinstance_exn e InvalidTransition \<or> isinstance_exn e InvariantViolation
          then graph_visit cur events es b else Inl e
      | Inr succ \<Rightarrow>
          bindR (assert_invariants succ) (\<lambda>_.
          graph_visit cur events (es @ [(event, succ)])
            (if succ \<in> set (gs_reachable b) then b
             else b\<lparr>gs_reachable := gs_reachable b @ [succ], gs_queue := gs_queue b @ [succ]\<rparr>)))"

definition graph_measure :: "graph_search \<Rightarrow> nat" where
  "graph_measure b = 2 * card (UNIV - set (gs_reachable b)) + length (gs_queue b)"

lemma graph_measure_add:
  "graph_measure (if succ \<in> set (gs_reachable b) then b
     else b\<lparr>gs_reachable := gs_reachable b @ [succ], gs_queue := gs_queue b @ [succ]\<rparr>) \<le> graph_measure b"
proof (cases "succ \<in> set (gs_reachable b)")
  case False
  have "card (UNIV - set (gs_reachable b)) = Suc (card (UNIV - insert succ (set (gs_reachable b))))"
    using False finite_MachineSnapshot
    by (metis DiffI Diff_insert UNIV_I card_Suc_Diff1 finite_Diff)
  with False show ?thesis by (simp add: graph_measure_def)
qed simp

lemma graph_visit_measure:
  "graph_visit cur events es b = Inr (es', b') \<Longrightarrow> graph_measure b' \<le> graph_measure b"
proof (induction events arbitrary: es b)
  case (Cons event events)
  then show ?case using graph_measure_add [of _ b]
    by (fastforce simp: bindR_eq_Inr split: sum.splits if_splits dest: order_trans)
qed simp

text \<open>The \<open>while queue\<close> loop of \<open>_build_local_graph\<close>.\<close>

function graph_explore :: "graph_search \<Rightarrow> graph_search pyres" where
  "graph_explore b =
     (case gs_queue b of
        [] \<Rightarrow> Inr b
      | cur # rest \<Rightarrow>
          bindR (assert_invariants cur) (\<lambda>_.
          bindR (graph_visit cur (map fst (TRANSITIONS (state cur))) [] (b\<lparr>gs_queue := rest\<rparr>))
            (\<lambda>r. graph_explore ((snd r)\<lparr>gs_raw_edges := (gs_raw_edges (snd r))(cur \<mapsto> fst r)\<rparr>))))"
  by pat_completeness auto

termination
proof (relation "measure graph_measure")
  fix b cur rest u r
  assume q: "gs_queue b = cur # rest"
    and v: "graph_visit cur (map fst (TRANSITIONS (state cur))) [] (b\<lparr>gs_queue := rest\<rparr>) = Inr r"
  obtain es b' where r: "r = (es, b')" by (cases r)
  from graph_visit_measure [OF v [unfolded r]] q
  show "((snd r)\<lparr>gs_raw_edges := (gs_raw_edges (snd r))(cur \<mapsto> fst r)\<rparr>, b) \<in> measure graph_measure"
    by (simp add: graph_measure_def r)
qed simp

declare graph_explore.simps [simp del]

definition initial_graph_search :: graph_search where
  "initial_graph_search =
     \<lparr>gs_queue = [initial_snapshot], gs_reachable = [initial_snapshot], gs_raw_edges = Map.empty\<rparr>"

text \<open>\<open>repr\<close> of the facts, the second part of the sort key.\<close>

definition py_bool_repr :: "bool \<Rightarrow> string" where
  "py_bool_repr b = (if b then ''True'' else ''False'')"

definition repr_facts :: "SafetyFacts \<Rightarrow> string" where
  "repr_facts f =
     ''SafetyFacts(environment_verified='' @ py_bool_repr (environment_verified f)
     @ '', account_verified='' @ py_bool_repr (account_verified f)
     @ '', broker_snapshot_verified='' @ py_bool_repr (broker_snapshot_verified f)
     @ '', position_verified='' @ py_bool_repr (position_verified f)
     @ '', cash_verified='' @ py_bool_repr (cash_verified f)
     @ '', quote_verified='' @ py_bool_repr (quote_verified f)
     @ '', intent_persisted='' @ py_bool_repr (intent_persisted f)
     @ '', reservation_persisted='' @ py_bool_repr (reservation_persisted f)
     @ '', unresolved_order='' @ py_bool_repr (unresolved_order f)
     @ '', terminal_order_confirmed='' @ py_bool_repr (terminal_order_confirmed f)
     @ '', submitted_once='' @ py_bool_repr (submitted_once f)
     @ '', cancel_intent_persisted='' @ py_bool_repr (cancel_intent_persisted f) @ '')''"

text \<open>The edges of a snapshot, with \<open>ids[successor]\<close> for every successor.\<close>

definition number_edges ::
  "(MachineSnapshot \<Rightarrow> nat option) \<Rightarrow> (TradeEvent \<times> MachineSnapshot) list \<Rightarrow> (TradeEvent \<times> nat) list pyres" where
  "number_edges number es =
     mapR (\<lambda>et. case number (snd et) of
        None \<Rightarrow> Inl (Exn KeyError '''') | Some target \<Rightarrow> Inr (fst et, target)) es"

definition build_local_graph :: "local_graph pyres" where
  "build_local_graph =
     bindR (graph_explore initial_graph_search) (\<lambda>b.
     let snaps = sort_key (\<lambda>s. (TradeState_value (state s), repr_facts (facts s))) (gs_reachable b);
         number = dict_of (zip snaps [0..<length snaps])
     in
     bindR (mapR (\<lambda>s. number_edges number (case gs_raw_edges b s of None \<Rightarrow> [] | Some es \<Rightarrow> es)) snaps)
       (\<lambda>numbered.
     Inr \<lparr>snapshots = snaps, ids = number,
          graph_edges = dict_of (zip [0..<length snaps] numbered),
          by_event = dict_of (concat (map (\<lambda>(sid, es). map (\<lambda>et. ((sid, fst et), snd et)) es)
            (zip [0..<length snaps] numbered)))\<rparr>))"

section \<open>Three processes\<close>

record FormalProcessSpec =
  fp_account :: int
  fp_symbol :: int
  fp_side :: Side
  fp_required_cash :: int

record FormalScenario =
  fs_name :: string
  fs_processes :: "FormalProcessSpec list"
  fs_cash_by_account :: "int list"
  fs_require_all_working :: bool
  fs_require_cross_account_same_symbol_working :: bool

type_synonym global_state = "nat list"

text \<open>\<open>xs[i]\<close>: a negative index counts from the end, an index out of range raises.\<close>

definition py_index :: "'a list \<Rightarrow> int \<Rightarrow> 'a pyres" where
  "py_index xs i =
     (let j = (if i < 0 then i + int (length xs) else i) in
      if 0 \<le> j \<and> j < int (length xs) then Inr (xs ! nat j)
      else Inl (Exn IndexError ''list index out of range''))"

definition encode_process :: "nat \<Rightarrow> bool \<Rightarrow> nat" where
  "encode_process snapshot_id h = snapshot_id * 2 + (if h then 1 else 0)"

definition decode_process :: "nat \<Rightarrow> nat \<times> bool" where
  "decode_process code = (code div 2, code mod 2 \<noteq> 0)"

definition replace_process :: "global_state \<Rightarrow> nat \<Rightarrow> nat \<Rightarrow> global_state" where
  "replace_process st index code = st[index := code]"

definition held :: "global_state \<Rightarrow> nat \<Rightarrow> bool" where
  "held st index = (st ! index mod 2 \<noteq> 0)"

text \<open>The specification and the snapshot of a process.\<close>

abbreviation spec_of :: "FormalScenario \<Rightarrow> nat \<Rightarrow> FormalProcessSpec" where
  "spec_of sc index \<equiv> fs_processes sc ! index"

abbreviation snapshot_at :: "local_graph \<Rightarrow> global_state \<Rightarrow> nat \<Rightarrow> MachineSnapshot" where
  "snapshot_at graph st index \<equiv> snapshots graph ! fst (decode_process (st ! index))"

definition same_claim :: "FormalProcessSpec \<Rightarrow> FormalProcessSpec \<Rightarrow> bool" where
  "same_claim a b = (fp_account a = fp_account b \<and> fp_symbol a = fp_symbol b)"

definition claim_free :: "global_state \<Rightarrow> FormalScenario \<Rightarrow> nat \<Rightarrow> bool" where
  "claim_free st sc index =
     list_all (\<lambda>other. \<not> (other \<noteq> index \<and> held st other \<and> same_claim (spec_of sc other) (spec_of sc index)))
       [0..<3]"

definition active_reserved_cash :: "global_state \<Rightarrow> FormalScenario \<Rightarrow> int \<Rightarrow> nat option \<Rightarrow> int" where
  "active_reserved_cash st sc account exclude =
     sum_list (map (\<lambda>index.
         if Some index = exclude \<or> \<not> held st index then 0
         else if fp_account (spec_of sc index) = account \<and> fp_side (spec_of sc index) = BUY
         then fp_required_cash (spec_of sc index) else 0)
       [0..<length (fs_processes sc)])"

definition can_prepare :: "global_state \<Rightarrow> FormalScenario \<Rightarrow> nat \<Rightarrow> bool pyres" where
  "can_prepare st sc index =
     (let spec = spec_of sc index in
      if \<not> claim_free st sc index then Inr False
      else if fp_side spec \<noteq> BUY then Inr True
      else
        bindR (py_index (fs_cash_by_account sc) (fp_account spec)) (\<lambda>capacity.
        let already_reserved = active_reserved_cash st sc (fp_account spec) (Some index)
        in Inr (fp_required_cash spec \<le> capacity - already_reserved)))"

definition can_restore :: "global_state \<Rightarrow> FormalScenario \<Rightarrow> nat \<Rightarrow> bool" where
  "can_restore st sc index = claim_free st sc index"

definition sync_phase ::
  "global_state \<Rightarrow> FormalScenario \<Rightarrow> local_graph \<Rightarrow> nat \<Rightarrow> nat \<Rightarrow> bool \<Rightarrow> bool \<Rightarrow> global_state option" where
  "sync_phase st sc graph index target_sid current_held entered_submitted =
     (let finality = execution_finality (snapshots graph ! target_sid) in
      if entered_submitted then Some (replace_process st index (encode_process target_sid False))
      else if finality = FINALITY_RESOLVED then
        Some (replace_process st index (encode_process target_sid False))
      else if current_held then Some (replace_process st index (encode_process target_sid True))
      else if \<not> can_restore st sc index then None
      else Some (replace_process st index (encode_process target_sid True)))"

text \<open>The label of a step, \<open>f"p{index}:{text}"\<close>.\<close>

definition step_label :: "nat \<Rightarrow> string \<Rightarrow> string" where
  "step_label index txt = [CHR ''p'', char_of (48 + index), CHR '':''] @ txt"

definition opt_list :: "'a option \<Rightarrow> 'a list" where
  "opt_list o' = (case o' of None \<Rightarrow> [] | Some x \<Rightarrow> [x])"

text \<open>\<open>SUBMITTED\<close> without resources: the durable intent is written, coordination has not run.\<close>

definition uncoordinated_successors ::
  "global_state \<Rightarrow> FormalScenario \<Rightarrow> local_graph \<Rightarrow> nat \<Rightarrow> nat \<Rightarrow> (string \<times> global_state) list pyres" where
  "uncoordinated_successors st sc graph index sid =
     bindR (can_prepare st sc index) (\<lambda>ok.
     let go = (\<lambda>txt target h. (step_label index txt, replace_process st index (encode_process target h)))
     in Inr
       ((if ok then [go ''coordination_ok'' sid True]
         else map (\<lambda>reject_sid. go ''coordination_rejected'' reject_sid False)
                (opt_list (by_event graph (sid, PRE_BROKER_REJECTED))))
        @ map (\<lambda>abort_sid. go ''coordination_abort'' abort_sid False)
            (opt_list (by_event graph (sid, PRE_BROKER_ABORTED)))
        @ (case by_event graph (sid, RESTART_RECOVERY) of
             None \<Rightarrow> []
           | Some restart_sid \<Rightarrow>
               (case by_event graph (restart_sid, RECOVERY_FAILED) of
                  None \<Rightarrow> []
                | Some failed_sid \<Rightarrow>
                    if can_restore st sc index
                    then [go ''restart_precoord_quarantine'' failed_sid True] else []))))"

text \<open>\<open>SUBMITTED\<close> with resources: the project's hook may abort, or the broker is called.\<close>

definition coordinated_successors ::
  "global_state \<Rightarrow> local_graph \<Rightarrow> nat \<Rightarrow> nat \<Rightarrow> (string \<times> global_state) list" where
  "coordinated_successors st graph index sid =
     map (\<lambda>abort_sid. (step_label index ''sidecar_abort'',
            replace_process st index (encode_process abort_sid False)))
       (opt_list (by_event graph (sid, PRE_BROKER_ABORTED)))
     @ concat (map (\<lambda>event.
         map (\<lambda>target_sid. (step_label index (TradeEvent_value event),
                replace_process st index (encode_process target_sid (event \<noteq> SUBMIT_REJECTED))))
           (opt_list (by_event graph (sid, event))))
       [SUBMIT_ACCEPTED, SUBMIT_AMBIGUOUS, SUBMIT_REJECTED, RESTART_RECOVERY])"

definition other_successors ::
  "global_state \<Rightarrow> FormalScenario \<Rightarrow> local_graph \<Rightarrow> nat \<Rightarrow> nat \<Rightarrow> bool \<Rightarrow> (string \<times> global_state) list pyres" where
  "other_successors st sc graph index sid h =
     (case graph_edges graph sid of
        None \<Rightarrow> Inl (Exn KeyError '''')
      | Some es \<Rightarrow> Inr (concat (map (\<lambda>(event, target_sid).
          if event = NEXT_CYCLE then []
          else map (\<lambda>candidate. (step_label index (TradeEvent_value event), candidate))
            (opt_list (sync_phase st sc graph index target_sid h
              (event = INTENT_PERSISTED \<and> state (snapshots graph ! target_sid) = SUBMITTED)))) es)))"

definition process_successors ::
  "global_state \<Rightarrow> FormalScenario \<Rightarrow> local_graph \<Rightarrow> nat \<Rightarrow> (string \<times> global_state) list pyres" where
  "process_successors st sc graph index =
     (case decode_process (st ! index) of (sid, h) \<Rightarrow>
        if state (snapshots graph ! sid) = SUBMITTED then
          (if \<not> h then uncoordinated_successors st sc graph index sid
           else Inr (coordinated_successors st graph index sid))
        else other_successors st sc graph index sid h)"

definition global_successors ::
  "global_state \<Rightarrow> FormalScenario \<Rightarrow> local_graph \<Rightarrow> (string \<times> global_state) list pyres" where
  "global_successors st sc graph =
     bindR (mapR (process_successors st sc graph) [0..<3]) (\<lambda>lists. Inr (concat lists))"

section \<open>The invariants that are checked\<close>

text \<open>\<open>for x in xs\<close> over checks that may raise.\<close>

primrec check_all :: "('a \<Rightarrow> unit pyres) \<Rightarrow> 'a list \<Rightarrow> unit pyres" where
  "check_all c [] = Inr ()"
| "check_all c (x # xs) = bindR (c x) (\<lambda>_. check_all c xs)"

definition violation :: "FormalScenario \<Rightarrow> string \<Rightarrow> exn" where
  "violation sc txt = Exn RuntimeError (fs_name sc @ '': '' @ txt)"

definition assert_process ::
  "global_state \<Rightarrow> FormalScenario \<Rightarrow> local_graph \<Rightarrow> nat \<Rightarrow> unit pyres" where
  "assert_process st sc graph left =
     (let lsnap = snapshot_at graph st left;
          lheld = snd (decode_process (st ! left));
          lfinality = execution_finality lsnap
      in
      bindR
        (if lheld then
           bindR (raise_if (lfinality = FINALITY_RESOLVED)
             (violation sc ''RESOLVED process retained shared resources'')) (\<lambda>_.
           raise_if (\<not> intent_persisted (facts lsnap))
             (violation sc ''process holds resources without durable intent''))
         else if lfinality \<in> {FINALITY_OPEN, FINALITY_QUARANTINED} then
           raise_if (state lsnap \<noteq> SUBMITTED) (violation sc ''unresolved process lost shared claim'')
         else Inr ()) (\<lambda>_.
      bindR (raise_if (state lsnap \<in> {UNKNOWN, CANCEL_REJECTED} \<and> \<not> lheld)
        (violation sc ''recoverable process does not hold symbol claim'')) (\<lambda>_.
      bindR (raise_if (state lsnap = FAILED \<and> unresolved_order (facts lsnap) \<and> \<not> lheld)
        (violation sc ''quarantined FAILED process released symbol claim'')) (\<lambda>_.
      check_all (\<lambda>right.
        let rheld = snd (decode_process (st ! right)) in
        if \<not> (lheld \<and> rheld) then Inr ()
        else raise_if (same_claim (spec_of sc left) (spec_of sc right))
          (violation sc ''duplicate unresolved claim'')) [left + 1..<3]))))"

definition active_submitted :: "global_state \<Rightarrow> FormalScenario \<Rightarrow> local_graph \<Rightarrow> nat \<Rightarrow> int" where
  "active_submitted st sc graph account =
     sum_list (map (\<lambda>index.
         if snd (decode_process (st ! index)) \<and> fp_account (spec_of sc index) = int account
            \<and> fp_side (spec_of sc index) = BUY \<and> submitted_once (facts (snapshot_at graph st index))
         then fp_required_cash (spec_of sc index) else 0)
       [0..<length (fs_processes sc)])"

definition assert_global_invariants ::
  "global_state \<Rightarrow> FormalScenario \<Rightarrow> local_graph \<Rightarrow> unit pyres" where
  "assert_global_invariants st sc graph =
     bindR (check_all (assert_process st sc graph) [0..<3]) (\<lambda>_.
     check_all (\<lambda>(account, capacity).
       raise_if (capacity < active_submitted st sc graph account)
         (violation sc ''broker-invoked active BUY cash exceeds capacity''))
       (zip [0..<length (fs_cash_by_account sc)] (fs_cash_by_account sc)))"

definition is_all_working :: "global_state \<Rightarrow> local_graph \<Rightarrow> bool" where
  "is_all_working st graph =
     list_all (\<lambda>index. held st index \<and> state (snapshot_at graph st index) = WORKING) [0..<3]"

definition has_cross_account_same_symbol_working ::
  "global_state \<Rightarrow> FormalScenario \<Rightarrow> local_graph \<Rightarrow> bool" where
  "has_cross_account_same_symbol_working st sc graph =
     list_ex (\<lambda>left.
       held st left \<and> state (snapshot_at graph st left) = WORKING
       \<and> list_ex (\<lambda>right.
           held st right \<and> state (snapshot_at graph st right) = WORKING
           \<and> fp_account (spec_of sc left) \<noteq> fp_account (spec_of sc right)
           \<and> fp_symbol (spec_of sc left) = fp_symbol (spec_of sc right)) [left + 1..<3])
       [0..<3]"


section \<open>The search of the global states\<close>

record progress =
  gp_queue :: "global_state list"
  gp_reachable :: "global_state list"
  gp_edges :: nat
  gp_all_working :: bool
  gp_cross_account :: bool
  gp_deadlocks :: nat

definition add_global :: "global_state \<Rightarrow> progress \<Rightarrow> progress" where
  "add_global succ b =
     (let b = b\<lparr>gp_edges := gp_edges b + 1\<rparr> in
      if succ \<in> set (gp_reachable b) then b
      else b\<lparr>gp_reachable := gp_reachable b @ [succ], gp_queue := gp_queue b @ [succ]\<rparr>)"

text \<open>\<open>for _, successor in successors\<close>\<close>

primrec add_successors ::
  "FormalScenario \<Rightarrow> local_graph \<Rightarrow> (string \<times> global_state) list \<Rightarrow> progress \<Rightarrow> progress pyres" where
  "add_successors sc graph [] b = Inr b"
| "add_successors sc graph (s # ss) b =
     bindR (assert_global_invariants (snd s) sc graph) (\<lambda>_.
     add_successors sc graph ss (add_global (snd s) b))"

text \<open>One round of the \<open>while queue\<close> loop.\<close>

definition visit_global ::
  "FormalScenario \<Rightarrow> local_graph \<Rightarrow> global_state \<Rightarrow> progress \<Rightarrow> progress pyres" where
  "visit_global sc graph cur b =
     bindR (assert_global_invariants cur sc graph) (\<lambda>_.
     let b = b\<lparr>gp_all_working := gp_all_working b \<or> is_all_working cur graph,
               gp_cross_account := gp_cross_account b \<or> has_cross_account_same_symbol_working cur sc graph\<rparr>
     in
     bindR (global_successors cur sc graph) (\<lambda>ss.
     bindR
       (if ss = [] then
          (if list_all (\<lambda>index. state (snapshot_at graph cur index) \<in> TERMINAL_STATES) [0..<3]
           then Inr (b\<lparr>gp_deadlocks := gp_deadlocks b + 1\<rparr>)
           else Inl (violation sc ''unexpected global deadlock''))
        else Inr b)
       (add_successors sc graph ss)))"

partial_function (option) global_search ::
  "FormalScenario \<Rightarrow> local_graph \<Rightarrow> progress \<Rightarrow> progress pyres option" where
  "global_search sc graph b =
     (case gp_queue b of
        [] \<Rightarrow> Some (Inr b)
      | cur # rest \<Rightarrow>
          (case visit_global sc graph cur (b\<lparr>gp_queue := rest\<rparr>) of
             Inl e \<Rightarrow> Some (Inl e)
           | Inr b' \<Rightarrow> global_search sc graph b'))"

record scenario_report =
  reachable_global_states :: nat
  reachable_interleaving_edges :: nat
  all_three_working_reached :: bool
  cross_account_working_reached :: bool
  legitimate_terminal_deadlocks :: nat
  invariant_violations :: nat

definition scenario_result :: "FormalScenario \<Rightarrow> progress \<Rightarrow> scenario_report pyres" where
  "scenario_result sc b =
     bindR (raise_if (fs_require_all_working sc \<and> \<not> gp_all_working b)
       (violation sc ''three processes never reached WORKING concurrently'')) (\<lambda>_.
     bindR (raise_if (fs_require_cross_account_same_symbol_working sc \<and> \<not> gp_cross_account b)
       (violation sc ''cross-account same-symbol concurrency witness missing'')) (\<lambda>_.
     Inr \<lparr>reachable_global_states = length (gp_reachable b),
          reachable_interleaving_edges = gp_edges b,
          all_three_working_reached = gp_all_working b,
          cross_account_working_reached = gp_cross_account b,
          legitimate_terminal_deadlocks = gp_deadlocks b, invariant_violations = 0\<rparr>))"

definition initial_progress :: "global_state \<Rightarrow> progress" where
  "initial_progress st =
     \<lparr>gp_queue = [st], gp_reachable = [st], gp_edges = 0, gp_all_working = False,
      gp_cross_account = False, gp_deadlocks = 0\<rparr>"

text \<open>\<open>None\<close> is a search that does not end.\<close>

definition verify_scenario :: "FormalScenario \<Rightarrow> local_graph \<Rightarrow> scenario_report pyres option" where
  "verify_scenario sc graph =
     (case ids graph initial_snapshot of
        None \<Rightarrow> Some (Inl (Exn KeyError ''''))
      | Some initial_sid \<Rightarrow>
          map_option (\<lambda>r. bindR r (scenario_result sc))
            (global_search sc graph (initial_progress (replicate 3 (encode_process initial_sid False)))))"

end
