(* ===== verification/Three_Process_Safety.thy ===== *)
theory Three_Process_Safety
  imports Three_Process_Model
begin

text \<open>
  The coordination model of \<open>formal.py\<close> verifies: the local graph is the graph of the reachable
  snapshots, the checked invariants hold in every global state of every well-formed scenario, no
  process is stuck before a terminal state, and the search ends without an error.
\<close>

section \<open>Dictionaries\<close>

lemma dict_of_rev: "dict_of kvs = map_of (rev kvs)"
  by (induction kvs rule: rev_induct) (auto simp: dict_of_def)

lemma dict_of_iff: "distinct (map fst kvs) \<Longrightarrow> dict_of kvs k = Some v \<longleftrightarrow> (k, v) \<in> set kvs"
  using map_of_eq_Some_iff [of "rev kvs" k v] by (simp add: dict_of_rev rev_map [symmetric])

lemma zip_upt_iff: "length ys = length xs \<Longrightarrow>
  (i, y) \<in> set (zip [0..<length xs] ys) \<longleftrightarrow> i < length xs \<and> ys ! i = y"
  by (force simp: set_zip)


section \<open>The local graph\<close>

lemma formal_step_eq: "formal_step = verifier_step"
  by (simp add: fun_eq_iff formal_step_def verifier_step_def)

definition step_pairs :: "MachineSnapshot \<Rightarrow> (TradeEvent \<times> MachineSnapshot) set" where
  "step_pairs s = {(e, t). verifier_step s e = Inr t}"

lemma successors_declared: "successors s (map fst (TRANSITIONS (state s))) = step_pairs s"
  by (auto simp: successors_def step_pairs_def dest: verifier_step_declared)

lemma distinct_TRANSITIONS: "distinct (map fst (TRANSITIONS s))"
  by (cases s) simp_all

lemma graph_visit_spec:
  assumes "reachable cur" and "\<forall>e \<in> set events. declared (state cur) e"
  shows "\<exists>es' b'. graph_visit cur events es b = Inr (es @ es', b')
    \<and> set es' = successors cur events
    \<and> (distinct events \<longrightarrow> distinct (map fst es'))
    \<and> set (gs_reachable b') = set (gs_reachable b) \<union> snd ` successors cur events
    \<and> set (gs_queue b') = set (gs_queue b) \<union> (snd ` successors cur events - set (gs_reachable b))
    \<and> gs_raw_edges b' = gs_raw_edges b
    \<and> (distinct (gs_reachable b) \<longrightarrow> distinct (gs_reachable b'))"
  using assms(2)
proof (induction events arbitrary: es b)
  case Nil
  then show ?case by (simp add: successors_def)
next
  case (Cons e events)
  then have declared: "\<forall>e \<in> set events. declared (state cur) e" by simp
  show ?case
  proof (cases "verifier_step cur e")
    case (Inl x)
    then have "isinstance_exn x InvalidTransition"
      using verifier_step_error [OF assms(1) _ Inl] Cons.prems by simp
    moreover have "successors cur (e # events) = successors cur events"
      using Inl by (auto simp: successors_def)
    ultimately show ?thesis using Inl Cons.IH [OF declared, of es b]
      by (simp add: formal_step_eq) blast
  next
    case (Inr t)
    then have t: "reachable t" using verifier_step_reachable [OF assms(1)] by blast
    let ?b = "if t \<in> set (gs_reachable b) then b
      else b\<lparr>gs_reachable := gs_reachable b @ [t], gs_queue := gs_queue b @ [t]\<rparr>"
    have succ: "successors cur (e # events) = insert (e, t) (successors cur events)"
      using Inr by (auto simp: successors_def)
    from Cons.IH [OF declared, of "es @ [(e, t)]" ?b] obtain es' b' where b':
      "graph_visit cur events (es @ [(e, t)]) ?b = Inr ((es @ [(e, t)]) @ es', b')"
      "set es' = successors cur events" "distinct events \<longrightarrow> distinct (map fst es')"
      "set (gs_reachable b') = set (gs_reachable ?b) \<union> snd ` successors cur events"
      "set (gs_queue b') = set (gs_queue ?b) \<union> (snd ` successors cur events - set (gs_reachable ?b))"
      "gs_raw_edges b' = gs_raw_edges ?b"
      "distinct (gs_reachable ?b) \<longrightarrow> distinct (gs_reachable b')" by blast
    have fresh: "e \<notin> set events \<Longrightarrow> e \<notin> fst ` set es'"
      unfolding b'(2) by (auto simp: successors_def)
    show ?thesis
      by (rule exI [of _ "(e, t) # es'"], rule exI [of _ b'])
        (use b' fresh Inr succ t in \<open>auto simp: formal_step_eq reachable_assert split: if_splits\<close>)
  qed
qed

definition recorded :: "graph_search \<Rightarrow> MachineSnapshot \<Rightarrow> bool" where
  "recorded b s \<longleftrightarrow> (\<exists>es. gs_raw_edges b s = Some es \<and> set es = step_pairs s \<and> distinct (map fst es))"

definition graph_inv :: "graph_search \<Rightarrow> bool" where
  "graph_inv b \<longleftrightarrow> distinct (gs_reachable b) \<and> set (gs_queue b) \<subseteq> set (gs_reachable b)
     \<and> initial_snapshot \<in> set (gs_reachable b)
     \<and> (\<forall>s \<in> set (gs_reachable b). reachable s
          \<and> (s \<in> set (gs_queue b) \<or> recorded b s \<and> snd ` step_pairs s \<subseteq> set (gs_reachable b)))"

lemma graph_inv_visit:
  assumes inv: "graph_inv b" and q: "gs_queue b = cur # rest"
  shows "\<exists>r. graph_visit cur (map fst (TRANSITIONS (state cur))) [] (b\<lparr>gs_queue := rest\<rparr>) = Inr r
    \<and> graph_inv ((snd r)\<lparr>gs_raw_edges := (gs_raw_edges (snd r))(cur \<mapsto> fst r)\<rparr>)"
proof -
  let ?es = "map fst (TRANSITIONS (state cur))"
  have cur: "reachable cur" "cur \<in> set (gs_reachable b)" using inv q by (auto simp: graph_inv_def)
  have "\<forall>e \<in> set ?es. declared (state cur) e" by (simp add: declared_iff)
  from graph_visit_spec [OF cur(1) this, of "[]" "b\<lparr>gs_queue := rest\<rparr>"] distinct_TRANSITIONS [of "state cur"]
  obtain es' b' where b': "graph_visit cur ?es [] (b\<lparr>gs_queue := rest\<rparr>) = Inr (es', b')"
    "set es' = step_pairs cur" "distinct (map fst es')"
    "set (gs_reachable b') = set (gs_reachable b) \<union> snd ` step_pairs cur"
    "set (gs_queue b') = set rest \<union> (snd ` step_pairs cur - set (gs_reachable b))"
    "gs_raw_edges b' = gs_raw_edges b" "distinct (gs_reachable b')"
    using inv by (auto simp: successors_declared graph_inv_def)
  let ?b = "b'\<lparr>gs_raw_edges := (gs_raw_edges b')(cur \<mapsto> es')\<rparr>"
  have rec: "recorded ?b cur" using b' by (simp add: recorded_def)
  have mono: "recorded b s \<Longrightarrow> recorded ?b s" for s using b' by (auto simp: recorded_def)
  have reach: "t \<in> snd ` step_pairs cur \<Longrightarrow> reachable t" for t
    using verifier_step_reachable [OF cur(1)] by (auto simp: step_pairs_def)
  have old: "s \<in> set (gs_reachable b) \<Longrightarrow> reachable s
      \<and> (s \<in> insert cur (set rest) \<or> recorded b s \<and> snd ` step_pairs s \<subseteq> set (gs_reachable b))" for s
    using inv q by (auto simp: graph_inv_def)
  have "\<forall>s \<in> set (gs_reachable ?b). reachable s
      \<and> (s \<in> set (gs_queue ?b) \<or> recorded ?b s \<and> snd ` step_pairs s \<subseteq> set (gs_reachable ?b))"
    using rec mono reach old by (simp add: b'(4,5) del: fun_upd_apply) blast
  then have "graph_inv ?b" using inv q b' unfolding graph_inv_def by auto
  with b'(1) show ?thesis by auto
qed

lemma graph_explore_spec:
  "graph_inv b \<Longrightarrow> \<exists>b'. graph_explore b = Inr b' \<and> graph_inv b' \<and> gs_queue b' = []"
proof (induction b rule: graph_explore.induct)
  case (1 b)
  show ?case
  proof (cases "gs_queue b")
    case Nil
    then show ?thesis using 1 by (simp add: graph_explore.simps)
  next
    case (Cons cur rest)
    then have r: "assert_invariants cur = Inr ()"
      using 1(2) by (auto simp: graph_inv_def intro: reachable_assert)
    obtain r where r': "graph_visit cur (map fst (TRANSITIONS (state cur))) [] (b\<lparr>gs_queue := rest\<rparr>) = Inr r"
      "graph_inv ((snd r)\<lparr>gs_raw_edges := (gs_raw_edges (snd r))(cur \<mapsto> fst r)\<rparr>)"
      using graph_inv_visit [OF 1(2) Cons] by blast
    from 1(1) [OF Cons r r'] r show ?thesis
      by (simp add: graph_explore.simps [of b] Cons r'(1))
  qed
qed

lemma graph_explore_initial:
  "\<exists>b. graph_explore initial_graph_search = Inr b \<and> distinct (gs_reachable b)
     \<and> set (gs_reachable b) = Collect reachable \<and> (\<forall>s. reachable s \<longrightarrow> recorded b s)"
proof -
  have "graph_inv initial_graph_search"
    by (simp add: graph_inv_def initial_graph_search_def reachable.start)
  from graph_explore_spec [OF this] obtain b where
    b: "graph_explore initial_graph_search = Inr b" "graph_inv b" "gs_queue b = []" by blast
  then have all: "s \<in> set (gs_reachable b) \<Longrightarrow>
      reachable s \<and> recorded b s \<and> snd ` step_pairs s \<subseteq> set (gs_reachable b)" for s
    by (auto simp: graph_inv_def)
  have "reachable s \<Longrightarrow> s \<in> set (gs_reachable b)" for s
  proof (induction rule: reachable.induct)
    case start
    then show ?case using b by (simp add: graph_inv_def)
  next
    case (step s e se pe t)
    then have "(e, t) \<in> step_pairs s" by (simp add: step_pairs_def verifier_step_complete)
    then show ?case using all [OF step.IH] by force
  qed
  with all b show ?thesis by (auto simp: graph_inv_def)
qed

definition graph_ok :: "local_graph \<Rightarrow> bool" where
  "graph_ok g \<longleftrightarrow>
     distinct (snapshots g) \<and> set (snapshots g) = Collect reachable
     \<and> (\<forall>s i. ids g s = Some i \<longleftrightarrow> i < length (snapshots g) \<and> snapshots g ! i = s)
     \<and> (\<forall>i < length (snapshots g). \<exists>es. graph_edges g i = Some es
          \<and> set es = {(e, j). j < length (snapshots g)
              \<and> verifier_step (snapshots g ! i) e = Inr (snapshots g ! j)})
     \<and> (\<forall>i e j. by_event g (i, e) = Some j \<longleftrightarrow>
          i < length (snapshots g) \<and> j < length (snapshots g)
          \<and> verifier_step (snapshots g ! i) e = Inr (snapshots g ! j))"

lemma number_edges_spec:
  assumes "\<And>s i. number s = Some i \<longleftrightarrow> i < length snaps \<and> snaps ! i = s"
    and "snd ` set es \<subseteq> set snaps"
  shows "\<exists>ns. number_edges number es = Inr ns \<and> map fst ns = map fst es
    \<and> set ns = {(e, j). j < length snaps \<and> (e, snaps ! j) \<in> set es}"
  using assms(2)
proof (induction es)
  case Nil
  then show ?case by (simp add: number_edges_def)
next
  case (Cons et es)
  then obtain ns where ns: "number_edges number es = Inr ns" "map fst ns = map fst es"
    "set ns = {(e, j). j < length snaps \<and> (e, snaps ! j) \<in> set es}" by auto
  obtain i where i: "i < length snaps" "snaps ! i = snd et" using Cons.prems by (auto simp: in_set_conv_nth)
  then have num: "number (snd et) = Some i" using assms(1) by blast
  then have "number_edges number (et # es) = Inr ((fst et, i) # ns)"
    using ns(1) by (simp add: number_edges_def)
  moreover have "set ((fst et, i) # ns)
      = {(e, j). j < length snaps \<and> (e, snaps ! j) \<in> set (et # es)}"
  proof -
    have "j < length snaps \<and> snaps ! j = snd et \<longleftrightarrow> j = i" for j
      using assms(1) [of "snd et" j] assms(1) [of "snd et" i] num by auto
    then have "(e, j) \<in> set ((fst et, i) # ns) \<longleftrightarrow> j < length snaps \<and> (e, snaps ! j) \<in> set (et # es)" for e j
      unfolding set_simps insert_iff ns(3) prod_eq_iff by auto
    then show ?thesis by blast
  qed
  ultimately show ?case using ns(2) by simp
qed

lemma distinct_keyed:
  assumes "\<forall>es \<in> set ess. distinct (map fst es)"
  shows "distinct (map fst (concat (map (\<lambda>(sid, es). map (\<lambda>et. ((sid, fst et), snd et)) es)
    (zip [k..<k + length ess] ess))))"
  using assms
proof (induction ess arbitrary: k)
  case Nil
  then show ?case by simp
next
  case (Cons es ess)
  have upt: "[k..<k + length (es # ess)] = k # [Suc k..<Suc k + length ess]" 
    using upt_conv_Cons [of k "k + length (es # ess)"] by (simp del: upt_Suc)
  have keys: "distinct (map (\<lambda>et. (k, fst et)) es)"
    using Cons.prems by (simp add: distinct_map inj_on_def)
  define rest where "rest = concat (map (\<lambda>(sid, es). map (\<lambda>et. ((sid, fst et), snd et)) es)
      (zip [Suc k..<Suc k + length ess] ess))"
  have "(k, e) \<notin> fst ` set rest" for e
    by (auto simp: rest_def simp del: upt_Suc dest: set_zip_leftD)
  moreover have "distinct (map fst rest)" using Cons.IH [of "Suc k"] Cons.prems by (simp add: rest_def)
  moreover have "concat (map (\<lambda>(sid, es). map (\<lambda>et. ((sid, fst et), snd et)) es)
      (zip [k..<k + length (es # ess)] (es # ess))) = map (\<lambda>et. ((k, fst et), snd et)) es @ rest"
    unfolding upt by (simp only: zip_Cons_Cons list.map prod.case concat.simps rest_def)
  ultimately show ?case using keys by (simp only:) (auto simp: comp_def)
qed

lemma mapR_total:
  "(\<And>x. x \<in> set xs \<Longrightarrow> \<exists>y. f x = Inr y) \<Longrightarrow>
   \<exists>ys. mapR f xs = Inr ys \<and> length ys = length xs \<and> (\<forall>i < length xs. f (xs ! i) = Inr (ys ! i))"
proof (induction xs)
  case (Cons x xs)
  then obtain y ys where "f x = Inr y" "mapR f xs = Inr ys" "length ys = length xs"
    "\<forall>i < length xs. f (xs ! i) = Inr (ys ! i)" by fastforce
  then show ?case by (auto simp: nth_Cons split: nat.split)
qed simp

lemma build_local_graph_ok:
  "\<exists>g. build_local_graph = Inr g \<and> graph_ok g"
proof -
  obtain b where b: "graph_explore initial_graph_search = Inr b" "distinct (gs_reachable b)"
    "set (gs_reachable b) = Collect reachable" "\<And>s. reachable s \<Longrightarrow> recorded b s"
    using graph_explore_initial by blast
  define snaps where "snaps = sort_key (\<lambda>s. (TradeState_value (state s), repr_facts (facts s))) (gs_reachable b)"
  define n where "n = length snaps"
  define number where "number = dict_of (zip snaps [0..<n])"
  define raw where "raw s = (case gs_raw_edges b s of None \<Rightarrow> [] | Some es \<Rightarrow> es)" for s
  have snaps: "distinct snaps" "set snaps = Collect reachable" using b by (simp_all add: snaps_def)
  have number: "number s = Some i \<longleftrightarrow> i < length snaps \<and> snaps ! i = s" for s i
    using snaps(1) by (simp add: number_def n_def dict_of_iff set_zip) auto
  have raw: "set (raw s) = step_pairs s" "distinct (map fst (raw s))" if "s \<in> set snaps" for s
    using b(4) [of s] that snaps(2) by (auto simp: raw_def recorded_def)
  have closed: "snd ` set (raw s) \<subseteq> set snaps" if "s \<in> set snaps" for s
    using raw(1) [OF that] that snaps(2) verifier_step_reachable by (auto simp: step_pairs_def)
  obtain numbered where m: "mapR (\<lambda>s. number_edges number (raw s)) snaps = Inr numbered"
    "length numbered = n" "\<And>i. i < n \<Longrightarrow> number_edges number (raw (snaps ! i)) = Inr (numbered ! i)"
    using mapR_total [of snaps "\<lambda>s. number_edges number (raw s)"] number_edges_spec [OF number closed]
    unfolding n_def by blast
  have ns: "map fst (numbered ! i) = map fst (raw (snaps ! i))"
    "set (numbered ! i) = {(e, j). j < n \<and> verifier_step (snaps ! i) e = Inr (snaps ! j)}"
    if "i < n" for i
    using number_edges_spec [OF number closed [OF nth_mem]] raw(1) [OF nth_mem] m(3) that
    unfolding n_def by (fastforce simp: step_pairs_def)+
  define kvs where "kvs = concat (map (\<lambda>(sid, es). map (\<lambda>et. ((sid, fst et), snd et)) es) (zip [0..<n] numbered))"
  have "distinct (map fst (numbered ! i))" if "i < n" for i
    using ns(1) [OF that] raw(2) [OF nth_mem, of i] that by (simp add: n_def)
  then have "\<forall>es \<in> set numbered. distinct (map fst es)" using m(2) by (auto simp: in_set_conv_nth)
  from distinct_keyed [OF this, of 0] have "distinct (map fst kvs)" by (simp add: kvs_def m(2))
  then have by_event: "dict_of kvs (i, e) = Some j \<longleftrightarrow> i < n \<and> (e, j) \<in> set (numbered ! i)" for i e j
    by (auto simp: dict_of_iff kvs_def set_zip m(2)) force
  have edges: "dict_of (zip [0..<n] numbered) i = Some (numbered ! i)" if "i < n" for i
    using that m(2) by (simp add: dict_of_iff set_zip) force
  define g where "g = \<lparr>snapshots = snaps, ids = number, graph_edges = dict_of (zip [0..<n] numbered),
    by_event = dict_of kvs\<rparr>"
  have "build_local_graph = Inr g"
    by (simp only: build_local_graph_def b(1) bindR_simps Let_def m(1) [unfolded raw_def] g_def kvs_def
        snaps_def [symmetric] n_def [symmetric] number_def [symmetric])
  moreover have "graph_ok g"
    unfolding graph_ok_def g_def using snaps number edges ns(2) by_event
    by (auto simp: n_def)
  ultimately show ?thesis by blast
qed

section \<open>Steps of one process\<close>

lemma verifier_step_pure:
  assumes "verifier_step s e = Inr t" and "e \<noteq> SESSION_READY" and "e \<noteq> PRECHECK_VERIFIED"
  shows "(e, state t) \<in> set (TRANSITIONS (state s))"
    and "facts t = projr (advance_facts (facts s) e None None)"
  using assms advance_facts_other [OF assms(2,3), of "facts s" None None]
  by (auto simp: verifier_step_def advance_Inr dest: map_of_TRANSITIONS)

lemma verifier_step_table: "verifier_step s e = Inr t \<Longrightarrow> (e, state t) \<in> set (TRANSITIONS (state s))"
  by (auto simp: verifier_step_def advance_Inr dest: map_of_TRANSITIONS split: if_splits)

lemma unresolved_intent: "sm_inv s \<Longrightarrow> execution_finality s \<noteq> FINALITY_RESOLVED \<Longrightarrow> intent_persisted (facts s)"
  by (cases "state s") (auto simp: sm_inv_def finality_simps split: if_splits)

lemma resolved_step:
  assumes "reachable s" and "execution_finality s = FINALITY_RESOLVED" and "state s \<noteq> SUBMITTED"
    and "verifier_step s e = Inr t" and "e \<noteq> NEXT_CYCLE"
  shows "execution_finality t = FINALITY_RESOLVED \<or> e = INTENT_PERSISTED \<and> state t = SUBMITTED"
proof -
  have table: "(e, state t) \<in> set (TRANSITIONS (state s))" by (rule verifier_step_table [OF assms(4)])
  have early: "state s \<in> {IDLE, WAIT_TRIGGER, TRIGGER, PRE_CHECK}"
    using assms(2,3,5) table by (cases "state s") (simp_all add: finality_simps)
  show ?thesis
  proof (cases "state t = FAILED")
    case True
    with early table have e: "e = FATAL" by auto
    then have "facts t = facts s" using verifier_step_pure(2) [OF assms(4)] by (simp add: advance_facts_def)
    moreover have "\<not> unresolved_order (facts s)"
      using early reachable_sm_inv [OF assms(1)] by (auto simp: sm_inv_def)
    ultimately show ?thesis using True by (simp add: finality_simps)
  next
    case False
    with early table show ?thesis by (auto simp: finality_simps)
  qed
qed

lemma submitted_step:
  assumes "reachable s" and "state s = SUBMITTED" and "verifier_step s e = Inr t"
  shows "e \<in> {PRE_BROKER_REJECTED, PRE_BROKER_ABORTED, SUBMIT_REJECTED}
      \<Longrightarrow> execution_finality t = FINALITY_RESOLVED"
    and "e \<in> {SUBMIT_ACCEPTED, SUBMIT_AMBIGUOUS, RESTART_RECOVERY}
      \<Longrightarrow> execution_finality t \<noteq> FINALITY_RESOLVED \<and> \<not> submitted_once (facts s)"
proof -
  have e: "e \<noteq> SESSION_READY" "e \<noteq> PRECHECK_VERIFIED"
    using verifier_step_table [OF assms(3)] assms(2) by auto
  note t = verifier_step_pure [OF assms(3) e]
  show "execution_finality t = FINALITY_RESOLVED"
    if "e \<in> {PRE_BROKER_REJECTED, PRE_BROKER_ABORTED, SUBMIT_REJECTED}"
  proof (cases "e = PRE_BROKER_ABORTED")
    case True
    with t assms(2) have "facts t = projr (advance_facts (facts s) PRE_BROKER_ABORTED None None)"
      and "state t = FAILED" by auto
    then show ?thesis by (simp add: advance_facts_def finality_simps)
  next
    case False
    with that t(1) assms(2) have "state t = REJECTED" by auto
    then show ?thesis by (simp add: finality_simps)
  qed
  show "e \<in> {SUBMIT_ACCEPTED, SUBMIT_AMBIGUOUS, RESTART_RECOVERY}
      \<Longrightarrow> execution_finality t \<noteq> FINALITY_RESOLVED \<and> \<not> submitted_once (facts s)"
    using t assms(2) reachable_sm_inv [OF assms(1)] by (auto simp: finality_simps sm_inv_def)
qed

lemma restart_quarantine:
  assumes "reachable s" and "state s = SUBMITTED" and "verifier_step s RESTART_RECOVERY = Inr r"
    and "verifier_step r RECOVERY_FAILED = Inr t"
  shows "state t = FAILED \<and> \<not> submitted_once (facts t) \<and> execution_finality t \<noteq> FINALITY_RESOLVED"
  using verifier_step_pure [OF assms(3)] verifier_step_pure [OF assms(4)] assms(2)
    reachable_sm_inv [OF assms(1)]
  by (auto simp: finality_simps sm_inv_def advance_facts_def)

lemma submitted_can_step:
  assumes "reachable s" and "state s = SUBMITTED" and "e \<in> {PRE_BROKER_ABORTED, SUBMIT_ACCEPTED}"
  shows "\<exists>t. verifier_step s e = Inr t"
proof -
  obtain st' where "map_of (TRANSITIONS (state s)) e = Some st'" using assms(2,3) by auto
  moreover have "advance_guards (facts s) e = Inr ()" using assms(3) by (auto simp: advance_guards_Inr)
  ultimately show ?thesis using verifier_step_total [OF assms(1)] by blast
qed


section \<open>The global invariant\<close>

definition wf_scenario :: "FormalScenario \<Rightarrow> bool" where
  "wf_scenario sc \<longleftrightarrow> length (fs_processes sc) = 3
     \<and> (\<forall>p \<in> set (fs_processes sc). 0 \<le> fp_account p \<and> nat (fp_account p) < length (fs_cash_by_account sc)
          \<and> 0 \<le> fp_required_cash p)
     \<and> (\<forall>c \<in> set (fs_cash_by_account sc). 0 \<le> c)"

text \<open>
  A process that holds its resources was authorised by \<open>prepare\<close>, unless it is a failed one that
  a restart has quarantined before its coordination.
\<close>

definition authorised :: "MachineSnapshot \<Rightarrow> bool" where
  "authorised s \<longleftrightarrow> state s \<noteq> FAILED \<or> submitted_once (facts s)"

definition snap_of :: "local_graph \<Rightarrow> nat \<Rightarrow> MachineSnapshot" where
  "snap_of g code = snapshots g ! (code div 2)"

definition holding :: "nat \<Rightarrow> bool" where
  "holding code \<longleftrightarrow> code mod 2 \<noteq> 0"

definition authorised_amount :: "FormalScenario \<Rightarrow> local_graph \<Rightarrow> int \<Rightarrow> nat \<Rightarrow> nat \<Rightarrow> int" where
  "authorised_amount sc g account index code =
     (if holding code \<and> fp_account (spec_of sc index) = account \<and> fp_side (spec_of sc index) = BUY
        \<and> authorised (snap_of g code) then fp_required_cash (spec_of sc index) else 0)"

definition authorised_cash :: "FormalScenario \<Rightarrow> local_graph \<Rightarrow> global_state \<Rightarrow> int \<Rightarrow> int" where
  "authorised_cash sc g st account = (\<Sum>index < 3. authorised_amount sc g account index (st ! index))"

definition process_inv :: "local_graph \<Rightarrow> nat \<Rightarrow> bool" where
  "process_inv g code \<longleftrightarrow> code div 2 < length (snapshots g)
     \<and> (if holding code then execution_finality (snap_of g code) \<noteq> FINALITY_RESOLVED
        else execution_finality (snap_of g code) = FINALITY_RESOLVED \<or> state (snap_of g code) = SUBMITTED)"

definition global_inv :: "FormalScenario \<Rightarrow> local_graph \<Rightarrow> global_state \<Rightarrow> bool" where
  "global_inv sc g st \<longleftrightarrow> length st = 3 \<and> (\<forall>i < 3. process_inv g (st ! i))
     \<and> (\<forall>i < 3. \<forall>j < 3. i \<noteq> j \<longrightarrow> holding (st ! i) \<longrightarrow> holding (st ! j)
          \<longrightarrow> \<not> same_claim (spec_of sc i) (spec_of sc j))
     \<and> (\<forall>a < length (fs_cash_by_account sc). authorised_cash sc g st (int a) \<le> fs_cash_by_account sc ! a)"

lemma code_simps [simp]:
  "encode_process sid h div 2 = sid" "holding (encode_process sid h) = h"
  "snap_of g (encode_process sid h) = snapshots g ! sid"
  by (auto simp: encode_process_def holding_def snap_of_def)

lemma decode_process_eq: "decode_process code = (code div 2, holding code)"
  by (simp add: decode_process_def holding_def)

lemma held_eq: "held st i = holding (st ! i)"
  by (simp add: held_def holding_def)

lemma authorised_cash_update:
  assumes "i < 3" and "length st = 3"
  shows "authorised_cash sc g (st[i := c]) a
    = authorised_cash sc g st a - authorised_amount sc g a i (st ! i) + authorised_amount sc g a i c"
proof -
  have "(\<Sum>j \<in> {..<3} - {i}. authorised_amount sc g a j (st[i := c] ! j))
      = (\<Sum>j \<in> {..<3} - {i}. authorised_amount sc g a j (st ! j))"
    by (rule sum.cong) auto
  then show ?thesis
    using assms sum.remove [of "{..<3}" i "\<lambda>j. authorised_amount sc g a j (st[i := c] ! j)"]
      sum.remove [of "{..<3}" i "\<lambda>j. authorised_amount sc g a j (st ! j)"]
    by (simp add: authorised_cash_def)
qed

text \<open>One process moves: it ends in a good code, its claim is free, and the cash still suffices.\<close>

lemma global_inv_move:
  assumes inv: "global_inv sc g st" and i: "i < 3" and p: "process_inv g c"
    and claim: "holding c \<Longrightarrow> holding (st ! i) \<or> claim_free st sc i"
    and cash: "\<And>a. a < length (fs_cash_by_account sc) \<Longrightarrow>
      authorised_amount sc g (int a) i c \<le> authorised_amount sc g (int a) i (st ! i)
      \<or> authorised_cash sc g st (int a) - authorised_amount sc g (int a) i (st ! i)
          + authorised_amount sc g (int a) i c \<le> fs_cash_by_account sc ! a"
  shows "global_inv sc g (st[i := c])"
proof -
  have len: "length st = 3" using inv by (simp add: global_inv_def)
  have other: "\<not> same_claim (spec_of sc j) (spec_of sc i)"
    if "j < 3" "j \<noteq> i" "holding (st ! j)" "holding c" for j
    using claim [OF that(4)] inv that i by (auto simp: global_inv_def claim_free_def held_eq list_all_iff)
  have symmetric: "same_claim p q = same_claim q p" for p q by (auto simp: same_claim_def)
  have "process_inv g (st[i := c] ! j)" if "j < 3" for j
    using inv p that len by (cases "j = i") (simp_all add: global_inv_def)
  moreover have "\<not> same_claim (spec_of sc j) (spec_of sc k)"
    if "j < 3" "k < 3" "j \<noteq> k" "holding (st[i := c] ! j)" "holding (st[i := c] ! k)" for j k
    using that other [of j] other [of k] inv len symmetric
    by (cases "j = i"; cases "k = i") (auto simp: global_inv_def)
  moreover have "authorised_cash sc g (st[i := c]) (int a) \<le> fs_cash_by_account sc ! a"
    if "a < length (fs_cash_by_account sc)" for a
    using cash [OF that] inv that unfolding authorised_cash_update [OF i len] global_inv_def by fastforce
  ultimately show ?thesis using len by (simp add: global_inv_def)
qed

lemma global_inv_release:
  assumes "global_inv sc g st" and "i < 3" and "t < length (snapshots g)" and "wf_scenario sc"
    and "execution_finality (snapshots g ! t) = FINALITY_RESOLVED \<or> state (snapshots g ! t) = SUBMITTED"
  shows "global_inv sc g (st[i := encode_process t False])"
proof -
  have "0 \<le> authorised_amount sc g a i code" for a code
    using assms(2,4) by (auto simp: authorised_amount_def wf_scenario_def)
  then show ?thesis
    by (intro global_inv_move [OF assms(1,2)]) (use assms in \<open>auto simp: process_inv_def authorised_amount_def\<close>)
qed

lemma global_inv_keep:
  assumes "global_inv sc g st" and "i < 3" and "t < length (snapshots g)" and "wf_scenario sc"
    and "holding (st ! i)" and "execution_finality (snapshots g ! t) \<noteq> FINALITY_RESOLVED"
    and "authorised (snap_of g (st ! i))"
  shows "global_inv sc g (st[i := encode_process t True])"
proof -
  have "authorised_amount sc g a i (encode_process t True) \<le> authorised_amount sc g a i (st ! i)" for a
    using assms(2,4,5,7) by (auto simp: authorised_amount_def wf_scenario_def)
  then show ?thesis
    by (intro global_inv_move [OF assms(1,2)]) (use assms in \<open>auto simp: process_inv_def\<close>)
qed

lemma global_inv_quarantine:
  assumes "global_inv sc g st" and "i < 3" and "t < length (snapshots g)" and "wf_scenario sc"
    and "claim_free st sc i" and "execution_finality (snapshots g ! t) \<noteq> FINALITY_RESOLVED"
    and "\<not> authorised (snapshots g ! t)"
  shows "global_inv sc g (st[i := encode_process t True])"
proof -
  have "authorised_amount sc g a i (encode_process t True) \<le> authorised_amount sc g a i (st ! i)" for a
    using assms(2,4,7) by (auto simp: authorised_amount_def wf_scenario_def)
  then show ?thesis
    by (intro global_inv_move [OF assms(1,2)]) (use assms in \<open>auto simp: process_inv_def\<close>)
qed

lemma can_prepare_total:
  assumes "wf_scenario sc" and "i < 3"
  shows "\<exists>ok. can_prepare st sc i = Inr ok"
    and "can_prepare st sc i = Inr True \<Longrightarrow> claim_free st sc i
      \<and> (fp_side (spec_of sc i) = BUY \<longrightarrow>
           fp_required_cash (spec_of sc i) + active_reserved_cash st sc (fp_account (spec_of sc i)) (Some i)
             \<le> fs_cash_by_account sc ! nat (fp_account (spec_of sc i)))"
proof -
  have "0 \<le> fp_account (spec_of sc i) \<and> nat (fp_account (spec_of sc i)) < length (fs_cash_by_account sc)"
    using assms by (simp add: wf_scenario_def)
  then have "py_index (fs_cash_by_account sc) (fp_account (spec_of sc i))
      = Inr (fs_cash_by_account sc ! nat (fp_account (spec_of sc i)))"
    by (auto simp: py_index_def Let_def nat_less_iff)
  then show "\<exists>ok. can_prepare st sc i = Inr ok"
    and "can_prepare st sc i = Inr True \<Longrightarrow> claim_free st sc i
      \<and> (fp_side (spec_of sc i) = BUY \<longrightarrow>
           fp_required_cash (spec_of sc i) + active_reserved_cash st sc (fp_account (spec_of sc i)) (Some i)
             \<le> fs_cash_by_account sc ! nat (fp_account (spec_of sc i)))"
    by (auto simp: can_prepare_def Let_def split: if_splits)
qed

lemma authorised_cash_reserved:
  assumes "wf_scenario sc" and "i < 3"
  shows "authorised_cash sc g st a - authorised_amount sc g a i (st ! i)
    \<le> active_reserved_cash st sc a (Some i)"
proof -
  have len: "length (fs_processes sc) = 3" using assms(1) by (simp add: wf_scenario_def)
  have pos: "0 \<le> fp_required_cash (spec_of sc j)" if "j < 3" for j
    using assms(1) that by (simp add: wf_scenario_def)
  let ?held = "\<lambda>j. if Some j = Some i \<or> \<not> held st j then 0
    else if fp_account (spec_of sc j) = a \<and> fp_side (spec_of sc j) = BUY then fp_required_cash (spec_of sc j) else 0"
  have "authorised_cash sc g st a - authorised_amount sc g a i (st ! i)
      = (\<Sum>j \<in> {..<3} - {i}. authorised_amount sc g a j (st ! j))"
    using assms(2) sum.remove [of "{..<3}" i "\<lambda>j. authorised_amount sc g a j (st ! j)"]
    by (simp add: authorised_cash_def)
  also have "\<dots> \<le> (\<Sum>j \<in> {..<3} - {i}. ?held j)"
    by (rule sum_mono) (use pos in \<open>auto simp: authorised_amount_def held_eq\<close>)
  also have "\<dots> = (\<Sum>j<3. ?held j)"
    using assms(2) sum.remove [of "{..<3}" i ?held] by simp
  also have "\<dots> = active_reserved_cash st sc a (Some i)"
    by (simp add: active_reserved_cash_def len interv_sum_list_conv_sum_set_nat atLeast0LessThan)
  finally show ?thesis .
qed

lemma global_inv_acquire:
  assumes inv: "global_inv sc g st" and i: "i < 3" and wf: "wf_scenario sc"
    and ok: "can_prepare st sc i = Inr True" and s: "state (snap_of g (st ! i)) = SUBMITTED"
  shows "global_inv sc g (st[i := encode_process (st ! i div 2) True])"
proof -
  have pos: "0 \<le> authorised_amount sc g a i code" for a code
    using i wf by (auto simp: authorised_amount_def wf_scenario_def)
  note prep = can_prepare_total(2) [OF wf i ok]
  let ?spec = "spec_of sc i"
  show ?thesis
  proof (rule global_inv_move [OF inv i])
    show "process_inv g (encode_process (st ! i div 2) True)"
      using inv i s by (auto simp: process_inv_def global_inv_def snap_of_def finality_simps)
    show "holding (st ! i) \<or> claim_free st sc i" using prep by simp
    fix a assume a: "a < length (fs_cash_by_account sc)"
    show "authorised_amount sc g (int a) i (encode_process (st ! i div 2) True)
          \<le> authorised_amount sc g (int a) i (st ! i)
        \<or> authorised_cash sc g st (int a) - authorised_amount sc g (int a) i (st ! i)
            + authorised_amount sc g (int a) i (encode_process (st ! i div 2) True)
          \<le> fs_cash_by_account sc ! a"
    proof (cases "fp_account ?spec = int a \<and> fp_side ?spec = BUY")
      case True
      then have "authorised_amount sc g (int a) i (encode_process (st ! i div 2) True) \<le> fp_required_cash ?spec"
        using wf i by (simp add: authorised_amount_def wf_scenario_def)
      moreover have "fp_required_cash ?spec + active_reserved_cash st sc (int a) (Some i) \<le> fs_cash_by_account sc ! a"
        using prep True by simp
      ultimately show ?thesis using authorised_cash_reserved [OF wf i, of g st "int a"] by linarith
    next
      case False
      then have "authorised_amount sc g (int a) i (encode_process (st ! i div 2) True) = 0"
        by (auto simp: authorised_amount_def)
      then show ?thesis using pos [of "int a" "st ! i"] by simp
    qed
  qed
qed

lemma by_event_iff:
  "graph_ok g \<Longrightarrow> by_event g (i, e) = Some j \<longleftrightarrow>
     i < length (snapshots g) \<and> j < length (snapshots g)
     \<and> verifier_step (snapshots g ! i) e = Inr (snapshots g ! j)"
  by (simp add: graph_ok_def)

lemma by_event_Some:
  "graph_ok g \<Longrightarrow> by_event g (i, e) = Some t \<Longrightarrow>
   t < length (snapshots g) \<and> verifier_step (snapshots g ! i) e = Inr (snapshots g ! t)"
  by (simp add: by_event_iff)

lemma graph_reachable: "graph_ok g \<Longrightarrow> i < length (snapshots g) \<Longrightarrow> reachable (snapshots g ! i)"
  using nth_mem [of i "snapshots g"] by (simp add: graph_ok_def)

lemma graph_index: "graph_ok g \<Longrightarrow> reachable s \<Longrightarrow> \<exists>i < length (snapshots g). snapshots g ! i = s"
  by (simp add: graph_ok_def in_set_conv_nth [symmetric])

lemma by_event_total:
  assumes "graph_ok g" and "i < length (snapshots g)" and "verifier_step (snapshots g ! i) e = Inr t"
  shows "\<exists>j. by_event g (i, e) = Some j"
  using graph_index [OF assms(1) verifier_step_reachable [OF graph_reachable [OF assms(1,2)] assms(3)]]
    assms by (auto simp: by_event_iff)

lemma opt_list_iff [simp]: "x \<in> set (opt_list o') \<longleftrightarrow> o' = Some x"
  by (cases o') (auto simp: opt_list_def)

lemma opt_list_Some [simp]: "opt_list (Some x) = [x]"
  by (simp add: opt_list_def)

text \<open>What the three kinds of successor lists preserve, for a process in a good state.\<close>

definition good_list ::
  "FormalScenario \<Rightarrow> local_graph \<Rightarrow> (string \<times> global_state) list pyres \<Rightarrow> bool \<Rightarrow> bool" where
  "good_list sc g l live \<longleftrightarrow>
     (\<exists>ss. l = Inr ss \<and> (\<forall>p \<in> set ss. global_inv sc g (snd p)) \<and> (live \<longrightarrow> ss \<noteq> []))"

lemma uncoordinated_good:
  assumes g: "graph_ok g" and wf: "wf_scenario sc" and inv: "global_inv sc g st" and i: "i < 3"
    and s: "state (snap_of g (st ! i)) = SUBMITTED" and h: "\<not> holding (st ! i)"
  shows "good_list sc g (uncoordinated_successors st sc g i (st ! i div 2)) True"
proof -
  let ?sid = "st ! i div 2"
  have sid: "?sid < length (snapshots g)" using inv i by (auto simp: global_inv_def process_inv_def)
  then have r: "reachable (snapshots g ! ?sid)" by (rule graph_reachable [OF g])
  have sub: "state (snapshots g ! ?sid) = SUBMITTED" using s by (simp add: snap_of_def)
  obtain ok where ok: "can_prepare st sc i = Inr ok" using can_prepare_total(1) [OF wf i] by blast
  have release: "global_inv sc g (st[i := encode_process t False])"
    if "by_event g (?sid, e) = Some t" "e \<in> {PRE_BROKER_REJECTED, PRE_BROKER_ABORTED}" for t e
    using global_inv_release [OF inv i _ wf] by_event_Some [OF g that(1)] submitted_step(1) [OF r sub] that(2)
    by blast
  have quarantine: "global_inv sc g (st[i := encode_process t True])"
    if "by_event g (?sid, RESTART_RECOVERY) = Some u" "by_event g (u, RECOVERY_FAILED) = Some t"
      "can_restore st sc i" for u t
  proof -
    note u = by_event_Some [OF g that(1)] and t = by_event_Some [OF g that(2)]
    note q = restart_quarantine [OF r sub conjunct2 [OF u] conjunct2 [OF t]]
    show ?thesis
      by (rule global_inv_quarantine [OF inv i conjunct1 [OF t] wf])
        (use q that(3) in \<open>auto simp: can_restore_def authorised_def\<close>)
  qed
  have acquire: "global_inv sc g (st[i := encode_process ?sid True])" if ok
    using global_inv_acquire [OF inv i wf _ s] ok that by simp
  obtain t where "by_event g (?sid, PRE_BROKER_ABORTED) = Some t"
    using submitted_can_step [OF r sub, of PRE_BROKER_ABORTED] by_event_total [OF g sid] by blast
  then show ?thesis
    using acquire release quarantine [OF sym sym]
    by (auto simp: good_list_def uncoordinated_successors_def ok Let_def replace_process_def
        split: option.splits)
qed

lemma coordinated_good:
  assumes g: "graph_ok g" and wf: "wf_scenario sc" and inv: "global_inv sc g st" and i: "i < 3"
    and s: "state (snap_of g (st ! i)) = SUBMITTED" and h: "holding (st ! i)"
  shows "good_list sc g (Inr (coordinated_successors st g i (st ! i div 2))) True"
proof -
  let ?sid = "st ! i div 2"
  have sid: "?sid < length (snapshots g)" using inv i by (auto simp: global_inv_def process_inv_def)
  then have r: "reachable (snapshots g ! ?sid)" by (rule graph_reachable [OF g])
  have sub: "state (snapshots g ! ?sid) = SUBMITTED" using s by (simp add: snap_of_def)
  have auth: "authorised (snap_of g (st ! i))" using s by (simp add: authorised_def)
  have release: "global_inv sc g (st[i := encode_process t False])"
    if "by_event g (?sid, e) = Some t" "e \<in> {PRE_BROKER_ABORTED, SUBMIT_REJECTED}" for t e
    using global_inv_release [OF inv i _ wf] by_event_Some [OF g that(1)] submitted_step(1) [OF r sub] that(2)
    by blast
  have keep: "global_inv sc g (st[i := encode_process t True])"
    if "by_event g (?sid, e) = Some t" "e \<in> {SUBMIT_ACCEPTED, SUBMIT_AMBIGUOUS, RESTART_RECOVERY}" for t e
    using global_inv_keep [OF inv i _ wf h _ auth] by_event_Some [OF g that(1)] submitted_step(2) [OF r sub] that(2)
    by blast
  obtain t where "by_event g (?sid, PRE_BROKER_ABORTED) = Some t"
    using submitted_can_step [OF r sub, of PRE_BROKER_ABORTED] by_event_total [OF g sid] by blast
  then show ?thesis
    using release keep by (auto simp: good_list_def coordinated_successors_def replace_process_def)
qed

lemma other_good:
  assumes g: "graph_ok g" and wf: "wf_scenario sc" and inv: "global_inv sc g st" and i: "i < 3"
    and s: "state (snap_of g (st ! i)) \<noteq> SUBMITTED"
  shows "good_list sc g (other_successors st sc g i (st ! i div 2) (holding (st ! i)))
    (state (snap_of g (st ! i)) \<notin> TERMINAL_STATES)"
proof -
  let ?sid = "st ! i div 2"
  let ?s = "snapshots g ! ?sid"
  have sid: "?sid < length (snapshots g)" using inv i by (auto simp: global_inv_def process_inv_def)
  then have r: "reachable ?s" by (rule graph_reachable [OF g])
  obtain es where es: "graph_edges g ?sid = Some es"
    "set es = {(e, j). j < length (snapshots g) \<and> verifier_step ?s e = Inr (snapshots g ! j)}"
    using g sid unfolding graph_ok_def by blast
  have sync: "\<exists>st'. sync_phase st sc g i t (holding (st ! i))
        (e = INTENT_PERSISTED \<and> state (snapshots g ! t) = SUBMITTED) = Some st' \<and> global_inv sc g st'"
    if et: "(e, t) \<in> set es" and e: "e \<noteq> NEXT_CYCLE" for e t
  proof -
    have t: "t < length (snapshots g)" "verifier_step ?s e = Inr (snapshots g ! t)"
      using et by (simp_all add: es(2))
    have "state ?s \<noteq> FAILED" using verifier_step_table [OF t(2)] by auto
    then have auth: "authorised (snap_of g (st ! i))" by (simp add: authorised_def snap_of_def)
    note release = global_inv_release [OF inv i t(1) wf]
    show ?thesis
    proof (cases "holding (st ! i)")
      case True
      then show ?thesis using release global_inv_keep [OF inv i t(1) wf True _ auth]
        by (auto simp: sync_phase_def Let_def replace_process_def)
    next
      case False
      then have "execution_finality ?s = FINALITY_RESOLVED"
        using inv i s by (auto simp: global_inv_def process_inv_def snap_of_def)
      from resolved_step [OF r this _ t(2) e] s release show ?thesis
        by (auto simp: sync_phase_def Let_def replace_process_def snap_of_def)
    qed
  qed
  have live: "\<exists>e t. (e, t) \<in> set es \<and> e \<noteq> NEXT_CYCLE"
    if nt: "state (snap_of g (st ! i)) \<notin> TERMINAL_STATES"
  proof -
    obtain e t where t: "verifier_step ?s e = Inr t" "state t = FAILED"
      using reachable_can_fail [OF r] nt by (auto simp: snap_of_def)
    then have "e \<noteq> NEXT_CYCLE" using verifier_step_table [OF t(1)] by (cases "state ?s") auto
    moreover obtain j where "j < length (snapshots g)" "snapshots g ! j = t"
      using graph_index [OF g verifier_step_reachable [OF r t(1)]] by blast
    ultimately show ?thesis using t(1) by (auto simp: es(2))
  qed
  let ?ss = "concat (map (\<lambda>(event, target_sid).
      if event = NEXT_CYCLE then []
      else map (\<lambda>candidate. (step_label i (TradeEvent_value event), candidate))
        (opt_list (sync_phase st sc g i target_sid (holding (st ! i))
          (event = INTENT_PERSISTED \<and> state (snapshots g ! target_sid) = SUBMITTED)))) es)"
  have "global_inv sc g (snd p)" if "p \<in> set ?ss" for p
    using that sync by (fastforce split: if_splits)
  moreover have "?ss \<noteq> []" if "state (snap_of g (st ! i)) \<notin> TERMINAL_STATES"
    using live [OF that] sync by (fastforce simp: opt_list_def)
  ultimately show ?thesis by (simp add: good_list_def other_successors_def es(1))
qed

lemma process_good:
  assumes "graph_ok g" and "wf_scenario sc" and "global_inv sc g st" and "i < 3"
  shows "good_list sc g (process_successors st sc g i) (state (snap_of g (st ! i)) \<notin> TERMINAL_STATES)"
  using uncoordinated_good [OF assms] coordinated_good [OF assms] other_good [OF assms]
  by (auto simp: process_successors_def decode_process_eq snap_of_def TERMINAL_STATES_def)

lemma global_successors_good:
  assumes "graph_ok g" and "wf_scenario sc" and "global_inv sc g st"
  shows "good_list sc g (global_successors st sc g) (\<exists>i < 3. state (snap_of g (st ! i)) \<notin> TERMINAL_STATES)"
proof -
  note good = process_good [OF assms]
  have "\<exists>ss. process_successors st sc g i = Inr ss" if "i \<in> set [0..<3]" for i
    using good [of i] that by (auto simp: good_list_def)
  then obtain lists where l: "mapR (process_successors st sc g) [0..<3] = Inr lists" "length lists = 3"
    "\<And>i. i < 3 \<Longrightarrow> process_successors st sc g i = Inr (lists ! i)"
    using mapR_total [of "[0..<3]" "process_successors st sc g"] by auto
  have "global_inv sc g (snd p)" if p: "p \<in> set (concat lists)" for p
  proof -
    obtain xs where xs: "xs \<in> set lists" "p \<in> set xs" using p by auto
    then obtain i where "i < 3" "xs = lists ! i" using l(2) by (metis in_set_conv_nth)
    with xs have "i < 3" "p \<in> set (lists ! i)" by simp_all
    then show ?thesis using good [of i] l(3) by (auto simp: good_list_def)
  qed
  moreover have "concat lists \<noteq> []" if "i < 3" "state (snap_of g (st ! i)) \<notin> TERMINAL_STATES" for i
    using good [OF that(1)] l(2,3) that by (auto simp: good_list_def concat_eq_Nil_conv)
  ultimately show ?thesis by (auto simp: good_list_def global_successors_def l(1))
qed


section \<open>The checks never fire\<close>

lemma check_all_iff: "check_all c xs = Inr () \<longleftrightarrow> (\<forall>x \<in> set xs. c x = Inr ())"
  by (induction xs) (auto simp: bindR_eq_Inr)

lemma assert_process_ok:
  assumes g: "graph_ok g" and inv: "global_inv sc g st" and i: "i < 3"
  shows "assert_process st sc g i = Inr ()"
proof -
  let ?s = "snap_of g (st ! i)"
  have p: "process_inv g (st ! i)" using inv i by (simp add: global_inv_def)
  then have "sm_inv ?s" using reachable_sm_inv [OF graph_reachable [OF g]]
    by (simp add: process_inv_def snap_of_def)
  note intent = unresolved_intent [OF this]
  have "\<not> same_claim (spec_of sc i) (spec_of sc j)" if "j \<in> {Suc i..<3}" "holding (st ! i)" "holding (st ! j)" for j
    using inv i that by (auto simp: global_inv_def)
  moreover have "snapshots g ! (st ! i div 2) = ?s" by (simp add: snap_of_def)
  moreover have "execution_finality ?s = FINALITY_RESOLVED \<or> state ?s = SUBMITTED" if "\<not> holding (st ! i)"
    using p that by (simp add: process_inv_def)
  moreover have "execution_finality ?s \<noteq> FINALITY_RESOLVED" if "holding (st ! i)"
    using p that by (simp add: process_inv_def)
  moreover have "state ?s \<in> {UNKNOWN, CANCEL_REJECTED} \<or> state ?s = FAILED \<and> unresolved_order (facts ?s)
      \<Longrightarrow> execution_finality ?s \<noteq> FINALITY_RESOLVED \<and> state ?s \<noteq> SUBMITTED"
    by (auto simp: finality_simps)
  ultimately show ?thesis using intent
    unfolding assert_process_def Let_def decode_process_eq bindR_eq_Inr raise_if_eq check_all_iff fst_conv snd_conv
    by (auto simp: bindR_eq_Inr check_all_iff)
qed

lemma active_submitted_le:
  assumes "wf_scenario sc" and "global_inv sc g st"
  shows "active_submitted st sc g a \<le> authorised_cash sc g st (int a)"
proof -
  have len: "length (fs_processes sc) = 3" using assms(1) by (simp add: wf_scenario_def)
  have pos: "0 \<le> fp_required_cash (spec_of sc j)" if "j < 3" for j
    using assms(1) that by (simp add: wf_scenario_def)
  show ?thesis
    unfolding active_submitted_def authorised_cash_def len interv_sum_list_conv_sum_set_nat set_upt
      atLeast0LessThan
    by (rule sum_mono) (use pos in \<open>auto simp: authorised_amount_def decode_process_eq authorised_def snap_of_def\<close>)
qed

lemma global_inv_assert:
  assumes "graph_ok g" and "wf_scenario sc" and inv: "global_inv sc g st"
  shows "assert_global_invariants st sc g = Inr ()"
proof -
  have "active_submitted st sc g a \<le> fs_cash_by_account sc ! a" if "a < length (fs_cash_by_account sc)" for a
    using active_submitted_le [OF assms(2) inv, of a] inv that unfolding global_inv_def by fastforce
  then have "\<forall>(a, c) \<in> set (zip [0..<length (fs_cash_by_account sc)] (fs_cash_by_account sc)).
      active_submitted st sc g a \<le> c" by (auto simp: set_zip)
  then show ?thesis using assert_process_ok [OF assms(1) inv]
    by (fastforce simp: assert_global_invariants_def bindR_eq_Inr check_all_iff)
qed

end
