(* ===== verification/Three_Process_Search.thy ===== *)
theory Three_Process_Search
  imports Three_Process_Safety
begin

text \<open>
  The search of \<open>formal.py\<close> over the interleavings of three processes: it ends, it never raises
  on a well-formed scenario except for a missing witness of progress, and what it reports is the
  set of the reachable global states.
\<close>

section \<open>Reachable global states\<close>

definition initial_global :: "local_graph \<Rightarrow> global_state option" where
  "initial_global g = map_option (\<lambda>sid. replicate 3 (encode_process sid False)) (ids g initial_snapshot)"

inductive global_reachable :: "FormalScenario \<Rightarrow> local_graph \<Rightarrow> global_state \<Rightarrow> bool"
  for sc g where
  start: "initial_global g = Some st \<Longrightarrow> global_reachable sc g st"
| step: "global_reachable sc g st \<Longrightarrow> global_successors st sc g = Inr ss \<Longrightarrow> (l, st') \<in> set ss
    \<Longrightarrow> global_reachable sc g st'"

lemma initial_global_Some:
  assumes "graph_ok g"
  obtains sid where "initial_global g = Some (replicate 3 (encode_process sid False))"
    "ids g initial_snapshot = Some sid" "sid < length (snapshots g)" "snapshots g ! sid = initial_snapshot"
  using graph_index [OF assms reachable.start] assms
  by (auto simp: graph_ok_def initial_global_def)

lemma global_inv_initial:
  assumes g: "graph_ok g" and wf: "wf_scenario sc" and st: "initial_global g = Some st"
  shows "global_inv sc g st"
proof -
  obtain sid where sid: "st = replicate 3 (encode_process sid False)"
    "sid < length (snapshots g)" "snapshots g ! sid = initial_snapshot"
    using initial_global_Some [OF g] st by auto
  have "authorised_cash sc g st a = 0" for a
    by (simp add: authorised_cash_def authorised_amount_def sid(1))
  then show ?thesis using sid wf
    by (auto simp: global_inv_def process_inv_def finality_simps initial_snapshot_def wf_scenario_def)
qed

lemma global_inv_successor:
  assumes "graph_ok g" and "wf_scenario sc" and "global_inv sc g st"
    and "global_successors st sc g = Inr ss" and "p \<in> set ss"
  shows "global_inv sc g (snd p)"
  using global_successors_good [OF assms(1-3)] assms(4,5) by (auto simp: good_list_def)

lemma global_reachable_inv:
  assumes "graph_ok g" and "wf_scenario sc" and "global_reachable sc g st"
  shows "global_inv sc g st"
  using assms(3)
proof (induction rule: global_reachable.induct)
  case (start st)
  then show ?case by (rule global_inv_initial [OF assms(1,2)])
next
  case (step st ss l st')
  then show ?case using global_inv_successor [OF assms(1,2) step.IH step.hyps(2,3)] by simp
qed

text \<open>The search space of the codes is finite.\<close>

definition code_space :: "local_graph \<Rightarrow> global_state set" where
  "code_space g = {st. set st \<subseteq> {..<2 * length (snapshots g)} \<and> length st = 3}"

lemma finite_code_space: "finite (code_space g)"
  unfolding code_space_def by (rule finite_lists_length_eq) simp

lemma global_inv_code_space: "global_inv sc g st \<Longrightarrow> st \<in> code_space g"
  unfolding global_inv_def process_inv_def code_space_def
  by (fastforce simp: in_set_conv_nth)


section \<open>The search\<close>

definition succs_of :: "FormalScenario \<Rightarrow> local_graph \<Rightarrow> global_state \<Rightarrow> (string \<times> global_state) list" where
  "succs_of sc g st = (case global_successors st sc g of Inl e \<Rightarrow> [] | Inr ss \<Rightarrow> ss)"

definition progress_measure :: "local_graph \<Rightarrow> progress \<Rightarrow> nat" where
  "progress_measure g b = 2 * card (code_space g - set (gp_reachable b)) + length (gp_queue b)"

lemma progress_measure_add:
  assumes "st \<in> code_space g"
  shows "progress_measure g (add_global st b) \<le> progress_measure g b"
proof (cases "st \<in> set (gp_reachable b)")
  case False
  have "card (code_space g - set (gp_reachable b)) = Suc (card (code_space g - insert st (set (gp_reachable b))))"
    using False assms finite_code_space
    by (metis DiffI Diff_insert card_Suc_Diff1 finite_Diff)
  with False show ?thesis by (simp add: progress_measure_def add_global_def Let_def)
qed (simp add: progress_measure_def add_global_def Let_def)

lemma add_global_simps:
  "set (gp_reachable (add_global st b)) = insert st (set (gp_reachable b))"
  "set (gp_queue (add_global st b)) = set (gp_queue b) \<union> ({st} - set (gp_reachable b))"
  "distinct (gp_reachable (add_global st b)) = distinct (gp_reachable b)"
  "set (gp_queue b) \<subseteq> set (gp_reachable b) \<Longrightarrow> distinct (gp_queue b) \<Longrightarrow> distinct (gp_queue (add_global st b))"
  "gp_edges (add_global st b) = Suc (gp_edges b)"
  "gp_all_working (add_global st b) = gp_all_working b"
  "gp_cross_account (add_global st b) = gp_cross_account b"
  "gp_deadlocks (add_global st b) = gp_deadlocks b"
  by (auto simp: add_global_def Let_def)

lemma add_successors_spec:
  assumes "graph_ok g" and "wf_scenario sc" and "\<forall>p \<in> set ss. global_inv sc g (snd p)"
    and "set (gp_queue b) \<subseteq> set (gp_reachable b)" and "distinct (gp_queue b)" and "distinct (gp_reachable b)"
  shows "\<exists>b'. add_successors sc g ss b = Inr b'
    \<and> set (gp_reachable b') = set (gp_reachable b) \<union> snd ` set ss
    \<and> set (gp_queue b') = set (gp_queue b) \<union> (snd ` set ss - set (gp_reachable b))
    \<and> distinct (gp_queue b') \<and> distinct (gp_reachable b')
    \<and> gp_edges b' = gp_edges b + length ss \<and> gp_all_working b' = gp_all_working b
    \<and> gp_cross_account b' = gp_cross_account b \<and> gp_deadlocks b' = gp_deadlocks b
    \<and> progress_measure g b' \<le> progress_measure g b"
  using assms(3-)
proof (induction ss arbitrary: b)
  case (Cons p ss)
  let ?b = "add_global (snd p) b"
  have "global_inv sc g (snd p)" using Cons.prems(1) by simp
  then have ok: "assert_global_invariants (snd p) sc g = Inr ()" and
    le: "progress_measure g ?b \<le> progress_measure g b"
    by (auto intro: global_inv_assert [OF assms(1,2)] progress_measure_add global_inv_code_space)
  have "\<exists>b'. add_successors sc g ss ?b = Inr b'
    \<and> set (gp_reachable b') = set (gp_reachable ?b) \<union> snd ` set ss
    \<and> set (gp_queue b') = set (gp_queue ?b) \<union> (snd ` set ss - set (gp_reachable ?b))
    \<and> distinct (gp_queue b') \<and> distinct (gp_reachable b')
    \<and> gp_edges b' = gp_edges ?b + length ss \<and> gp_all_working b' = gp_all_working ?b
    \<and> gp_cross_account b' = gp_cross_account ?b \<and> gp_deadlocks b' = gp_deadlocks ?b
    \<and> progress_measure g b' \<le> progress_measure g ?b"
    by (rule Cons.IH) (use Cons.prems in \<open>auto simp: add_global_simps\<close>)
  then show ?case using ok le by (auto simp: add_global_simps)
qed simp

text \<open>What has been visited is what is reachable and no longer queued.\<close>

definition visited :: "progress \<Rightarrow> global_state set" where
  "visited b = set (gp_reachable b) - set (gp_queue b)"

definition progress_inv :: "FormalScenario \<Rightarrow> local_graph \<Rightarrow> progress \<Rightarrow> bool" where
  "progress_inv sc g b \<longleftrightarrow>
     set (gp_queue b) \<subseteq> set (gp_reachable b) \<and> distinct (gp_queue b) \<and> distinct (gp_reachable b)
     \<and> (\<exists>st. initial_global g = Some st \<and> st \<in> set (gp_reachable b))
     \<and> (\<forall>st \<in> set (gp_reachable b). global_reachable sc g st)
     \<and> (\<forall>st \<in> visited b. snd ` set (succs_of sc g st) \<subseteq> set (gp_reachable b))
     \<and> gp_edges b = (\<Sum>st \<in> visited b. length (succs_of sc g st))
     \<and> gp_all_working b = (\<exists>st \<in> visited b. is_all_working st g)
     \<and> gp_cross_account b = (\<exists>st \<in> visited b. has_cross_account_same_symbol_working st sc g)
     \<and> gp_deadlocks b = card {st \<in> visited b. succs_of sc g st = []}"

lemma visit_global_spec:
  assumes g: "graph_ok g" and wf: "wf_scenario sc" and inv: "progress_inv sc g b"
    and q: "gp_queue b = cur # rest"
  shows "\<exists>b'. visit_global sc g cur (b\<lparr>gp_queue := rest\<rparr>) = Inr b' \<and> progress_inv sc g b'
    \<and> progress_measure g b' < progress_measure g b"
proof -
  have cur: "cur \<in> set (gp_reachable b)" "cur \<notin> set rest" "global_reachable sc g cur"
    and dist: "distinct rest" "distinct (gp_reachable b)" "set rest \<subseteq> set (gp_reachable b)"
    using inv q by (auto simp: progress_inv_def)
  note ginv = global_reachable_inv [OF g wf cur(3)]
  obtain ss where ss: "global_successors cur sc g = Inr ss" "\<forall>p \<in> set ss. global_inv sc g (snd p)"
    "(\<exists>i < 3. state (snap_of g (cur ! i)) \<notin> TERMINAL_STATES) \<longrightarrow> ss \<noteq> []"
    using global_successors_good [OF g wf ginv] by (auto simp: good_list_def)
  have succs: "succs_of sc g cur = ss" by (simp add: succs_of_def ss(1))
  define b1 where "b1 = b\<lparr>gp_queue := rest, gp_all_working := gp_all_working b \<or> is_all_working cur g,
    gp_cross_account := gp_cross_account b \<or> has_cross_account_same_symbol_working cur sc g,
    gp_deadlocks := gp_deadlocks b + (if ss = [] then 1 else 0)\<rparr>"
  have terminal: "state (snapshot_at g cur i) \<in> TERMINAL_STATES" if "ss = []" "i < 3" for i
    using ss(3) that by (auto simp: decode_process_eq snap_of_def)
  have visit: "visit_global sc g cur (b\<lparr>gp_queue := rest\<rparr>) = add_successors sc g ss b1"
    using terminal
    by (auto simp: visit_global_def global_inv_assert [OF g wf ginv] ss(1) b1_def Let_def list_all_iff)
  from add_successors_spec [OF g wf ss(2), of b1] dist obtain b' where b':
    "add_successors sc g ss b1 = Inr b'"
    "set (gp_reachable b') = set (gp_reachable b) \<union> snd ` set ss"
    "set (gp_queue b') = set rest \<union> (snd ` set ss - set (gp_reachable b))"
    "distinct (gp_queue b')" "distinct (gp_reachable b')"
    "gp_edges b' = gp_edges b + length ss" "gp_all_working b' = gp_all_working b1"
    "gp_cross_account b' = gp_cross_account b1" "gp_deadlocks b' = gp_deadlocks b1"
    "progress_measure g b' \<le> progress_measure g b1"
    by (auto simp: b1_def)
  have new: "visited b' = insert cur (visited b)" "cur \<notin> visited b" "finite (visited b)"
    using cur q dist by (auto simp: visited_def b'(2,3))
  have "global_reachable sc g st" if "st \<in> set (gp_reachable b')" for st
    using that inv global_reachable.step [OF cur(3) ss(1)] unfolding b'(2) progress_inv_def by auto
  moreover have "snd ` set (succs_of sc g st) \<subseteq> set (gp_reachable b')" if "st \<in> visited b'" for st
  proof (cases "st = cur")
    case False
    then have "st \<in> visited b" using that new(1) by simp
    then have "snd ` set (succs_of sc g st) \<subseteq> set (gp_reachable b)" using inv by (simp add: progress_inv_def)
    then show ?thesis unfolding b'(2) by blast
  qed (simp add: succs b'(2))
  moreover have "{st \<in> visited b'. succs_of sc g st = []}
      = (if ss = [] then insert cur {st \<in> visited b. succs_of sc g st = []}
         else {st \<in> visited b. succs_of sc g st = []})"
    using succs by (auto simp: new(1))
  moreover have "set (gp_queue b') \<subseteq> set (gp_reachable b')" using b'(2,3) dist by auto
  ultimately have "progress_inv sc g b'"
    using inv b' new succs by (auto simp: progress_inv_def b1_def)
  moreover have "progress_measure g b1 < progress_measure g b"
    by (simp add: progress_measure_def b1_def q)
  ultimately show ?thesis using visit b'(1,10) by auto
qed

lemma global_search_ends:
  assumes g: "graph_ok g" and wf: "wf_scenario sc"
  shows "progress_inv sc g b \<Longrightarrow>
    \<exists>b'. global_search sc g b = Some (Inr b') \<and> progress_inv sc g b' \<and> gp_queue b' = []"
proof (induction b rule: measure_induct_rule [of "progress_measure g"])
  case (less b)
  show ?case
  proof (cases "gp_queue b")
    case Nil
    then show ?thesis using less.prems by (simp add: global_search.simps)
  next
    case (Cons cur rest)
    then obtain b' where b': "visit_global sc g cur (b\<lparr>gp_queue := rest\<rparr>) = Inr b'" "progress_inv sc g b'"
      "progress_measure g b' < progress_measure g b"
      using visit_global_spec [OF g wf less.prems] by blast
    from less.IH [OF b'(3,2)] show ?thesis
      by (simp add: global_search.simps [of sc g b] Cons b'(1))
  qed
qed

lemma progress_inv_initial:
  "initial_global g = Some st \<Longrightarrow> progress_inv sc g (initial_progress st)"
  by (auto simp: progress_inv_def initial_progress_def visited_def global_reachable.start)

lemma progress_inv_complete:
  assumes inv: "progress_inv sc g b" and q: "gp_queue b = []"
  shows "set (gp_reachable b) = Collect (global_reachable sc g)"
proof -
  have "st \<in> set (gp_reachable b)" if "global_reachable sc g st" for st
    using that
  proof (induction rule: global_reachable.induct)
    case (start st)
    then show ?case using inv by (auto simp: progress_inv_def)
  next
    case (step st ss l st')
    then have "snd ` set (succs_of sc g st) \<subseteq> set (gp_reachable b)"
      using inv q by (simp add: progress_inv_def visited_def)
    with step(2,3) show ?case by (force simp: succs_of_def)
  qed
  then show ?thesis using inv by (auto simp: progress_inv_def)
qed

lemma verify_scenario_result:
  assumes g: "graph_ok g" and wf: "wf_scenario sc"
  obtains b where "verify_scenario sc g = Some (scenario_result sc b)"
    "distinct (gp_reachable b)" "set (gp_reachable b) = Collect (global_reachable sc g)"
    "gp_edges b = (\<Sum>st | global_reachable sc g st. length (succs_of sc g st))"
    "gp_all_working b = (\<exists>st. global_reachable sc g st \<and> is_all_working st g)"
    "gp_cross_account b = (\<exists>st. global_reachable sc g st \<and> has_cross_account_same_symbol_working st sc g)"
    "gp_deadlocks b = card {st. global_reachable sc g st \<and> succs_of sc g st = []}"
proof -
  obtain sid where sid: "ids g initial_snapshot = Some sid"
    "initial_global g = Some (replicate 3 (encode_process sid False))"
    using initial_global_Some [OF g] by blast
  from global_search_ends [OF g wf progress_inv_initial [OF sid(2)]] obtain b where
    b: "global_search sc g (initial_progress (replicate 3 (encode_process sid False))) = Some (Inr b)"
    "progress_inv sc g b" "gp_queue b = []" by blast
  note all = progress_inv_complete [OF b(2,3)]
  have "verify_scenario sc g = Some (scenario_result sc b)" by (simp add: verify_scenario_def sid(1) b(1))
  with that b(2,3) all show ?thesis by (auto simp: progress_inv_def visited_def)
qed

end
