(* ===== verification/Three_Process_Properties.thy ===== *)
theory Three_Process_Properties
  imports Three_Process_Search
begin

text \<open>
  \<open>verify_three_process_coordination\<close> of \<open>formal.py\<close>: the four scenarios, the paths on which
  the three processes reach \<open>WORKING\<close> together, and the properties of the verification.
\<close>

section \<open>The four scenarios\<close>

abbreviation buyer :: "int \<Rightarrow> int \<Rightarrow> int \<Rightarrow> FormalProcessSpec" where
  "buyer a s cash \<equiv>
     \<lparr>fp_account = a, fp_symbol = s, fp_side = BUY, fp_required_cash = cash\<rparr>"

definition scenario_distinct_symbols :: FormalScenario where
  "scenario_distinct_symbols =
     \<lparr>fs_name = ''same_account_three_distinct_symbols'',
      fs_processes = [buyer 0 0 30, buyer 0 1 30, buyer 0 2 30],
      fs_cash_by_account = [100], fs_require_all_working = True,
      fs_require_cross_account_same_symbol_working = False\<rparr>"

definition scenario_same_symbol :: FormalScenario where
  "scenario_same_symbol =
     \<lparr>fs_name = ''same_account_same_symbol_exclusion'',
      fs_processes = [buyer 0 0 30, buyer 0 0 30,
        \<lparr>fp_account = 0, fp_symbol = 0, fp_side = SELL, fp_required_cash = 0\<rparr>],
      fs_cash_by_account = [100], fs_require_all_working = False,
      fs_require_cross_account_same_symbol_working = False\<rparr>"

definition scenario_cash_contention :: FormalScenario where
  "scenario_cash_contention =
     \<lparr>fs_name = ''same_account_cash_contention'',
      fs_processes = [buyer 0 0 60, buyer 0 1 50, buyer 0 2 40],
      fs_cash_by_account = [100], fs_require_all_working = False,
      fs_require_cross_account_same_symbol_working = False\<rparr>"

definition scenario_cross_account :: FormalScenario where
  "scenario_cross_account =
     \<lparr>fs_name = ''cross_account_same_symbol_independence'',
      fs_processes = [buyer 0 0 30, buyer 1 0 30, buyer 0 1 30],
      fs_cash_by_account = [100, 100], fs_require_all_working = True,
      fs_require_cross_account_same_symbol_working = True\<rparr>"

definition formal_scenarios :: "FormalScenario list" where
  "formal_scenarios =
     [scenario_distinct_symbols, scenario_same_symbol, scenario_cash_contention, scenario_cross_account]"

record coordination_report =
  cr_processes :: nat
  logical_execution_cycles_per_process :: nat
  local_reachable_snapshots :: nat
  scenario_count :: nat
  scenarios :: "(string \<times> scenario_report) list"
  total_reachable_global_states :: nat
  total_reachable_interleaving_edges :: nat
  same_symbol_exclusivity_violations :: nat
  shared_cash_authorization_violations :: nat
  resource_release_violations :: nat
  quarantine_claim_violations :: nat
  cross_symbol_concurrency_witness :: bool
  cross_account_same_symbol_concurrency_witness :: bool

text \<open>The dictionary comprehension over the scenarios; their names differ, so a list keeps them all.\<close>

primrec verify_scenarios ::
  "FormalScenario list \<Rightarrow> local_graph \<Rightarrow> (string \<times> scenario_report) list pyres option" where
  "verify_scenarios [] graph = Some (Inr [])"
| "verify_scenarios (sc # scs) graph =
     (case verify_scenario sc graph of
        None \<Rightarrow> None
      | Some (Inl e) \<Rightarrow> Some (Inl e)
      | Some (Inr r) \<Rightarrow>
          map_option (\<lambda>rest. bindR rest (\<lambda>rs. Inr ((fs_name sc, r) # rs))) (verify_scenarios scs graph))"

definition report_flag ::
  "(string \<times> scenario_report) list \<Rightarrow> string \<Rightarrow> (scenario_report \<Rightarrow> bool) \<Rightarrow> bool pyres" where
  "report_flag reports name get =
     (case map_of reports name of None \<Rightarrow> Inl (Exn KeyError name) | Some r \<Rightarrow> Inr (get r))"

definition coordination_result ::
  "local_graph \<Rightarrow> (string \<times> scenario_report) list \<Rightarrow> coordination_report pyres" where
  "coordination_result graph reports =
     bindR (report_flag reports ''same_account_three_distinct_symbols'' all_three_working_reached) (\<lambda>w.
     bindR (report_flag reports ''cross_account_same_symbol_independence'' cross_account_working_reached) (\<lambda>x.
     Inr \<lparr>cr_processes = 3, logical_execution_cycles_per_process = 1,
          local_reachable_snapshots = length (snapshots graph), scenario_count = length reports,
          scenarios = reports,
          total_reachable_global_states = sum_list (map (\<lambda>r. reachable_global_states (snd r)) reports),
          total_reachable_interleaving_edges = sum_list (map (\<lambda>r. reachable_interleaving_edges (snd r)) reports),
          same_symbol_exclusivity_violations = 0, shared_cash_authorization_violations = 0,
          resource_release_violations = 0, quarantine_claim_violations = 0,
          cross_symbol_concurrency_witness = w,
          cross_account_same_symbol_concurrency_witness = x\<rparr>))"

definition verify_three_process_coordination :: "coordination_report pyres option" where
  "verify_three_process_coordination =
     (case build_local_graph of
        Inl e \<Rightarrow> Some (Inl e)
      | Inr graph \<Rightarrow>
          map_option (\<lambda>r. bindR r (coordination_result graph)) (verify_scenarios formal_scenarios graph))"

lemma wf_formal_scenarios: "\<forall>sc \<in> set formal_scenarios. wf_scenario sc"
  by (simp add: formal_scenarios_def wf_scenario_def scenario_distinct_symbols_def
      scenario_same_symbol_def scenario_cash_contention_def scenario_cross_account_def)


section \<open>A process on its way to \<open>WORKING\<close>\<close>

definition working_events :: "TradeEvent list" where
  "working_events = [SESSION_READY, TRIGGERED, BEGIN_PRECHECK, PRECHECK_VERIFIED, INTENT_PERSISTED,
     SUBMIT_ACCEPTED, ORDER_WORKING]"

definition stage :: "nat \<Rightarrow> MachineSnapshot" where
  "stage k = projr (run_events initial_snapshot (take k working_events))"

lemma stage_steps:
  "\<forall>k \<in> {..<7}. verifier_step (stage k) (working_events ! k) = Inr (stage (Suc k))"
  by code_simp

lemma stage_before:
  "\<forall>k \<in> {..<5}. state (stage k) \<noteq> SUBMITTED
     \<and> (execution_finality (stage (Suc k)) = FINALITY_RESOLVED
        \<or> working_events ! k = INTENT_PERSISTED \<and> state (stage (Suc k)) = SUBMITTED)"
  by code_simp

lemma stage_values:
  "stage 0 = initial_snapshot" "state (stage 5) = SUBMITTED" "state (stage 6) = ACCEPTED"
  "state (stage 7) = WORKING" "execution_finality (stage 7) = FINALITY_OPEN"
  by code_simp+

definition code_of :: "local_graph \<Rightarrow> MachineSnapshot \<Rightarrow> bool \<Rightarrow> nat" where
  "code_of g s h = encode_process (the (ids g s)) h"

lemma code_of:
  assumes "graph_ok g" and "reachable s"
  shows "the (ids g s) < length (snapshots g)" and "snapshots g ! the (ids g s) = s"
    and "code_of g s h div 2 = the (ids g s)" and "snap_of g (code_of g s h) = s" and "holding (code_of g s h) = h"
proof -
  have "\<exists>i. ids g s = Some i" using graph_index [OF assms] assms(1) by (simp add: graph_ok_def)
  then have "ids g s = Some (the (ids g s))" by auto
  then show r: "the (ids g s) < length (snapshots g)" "snapshots g ! the (ids g s) = s"
    using assms(1) unfolding graph_ok_def by blast+
  show "code_of g s h div 2 = the (ids g s)" "holding (code_of g s h) = h" by (simp_all add: code_of_def)
  show "snap_of g (code_of g s h) = s" using r by (simp add: code_of_def)
qed

lemma by_event_code:
  assumes "graph_ok g" and "reachable s" and "verifier_step s e = Inr t"
  shows "by_event g (the (ids g s), e) = Some (the (ids g t))"
  using code_of(1,2) [OF assms(1,2)] code_of(1,2) [OF assms(1) verifier_step_reachable [OF assms(2,3)]] assms(1,3)
  by (simp add: graph_ok_def)

lemma edges_code:
  assumes g: "graph_ok g" and s: "reachable s" and e: "verifier_step s e = Inr t"
  shows "\<exists>es. graph_edges g (the (ids g s)) = Some es \<and> (e, the (ids g t)) \<in> set es"
proof -
  let ?i = "the (ids g s)" and ?j = "the (ids g t)"
  note i = code_of(1,2) [OF g s] and j = code_of(1,2) [OF g verifier_step_reachable [OF s e]]
  obtain es where "graph_edges g ?i = Some es"
    "set es = {(e, j). j < length (snapshots g) \<and> verifier_step (snapshots g ! ?i) e = Inr (snapshots g ! j)}"
    using g i(1) unfolding graph_ok_def by blast
  then show ?thesis using i(2) j e by simp
qed

lemma global_reachable_move:
  assumes g: "graph_ok g" and wf: "wf_scenario sc" and r: "global_reachable sc g st" and i: "i < 3"
    and p: "process_successors st sc g i = Inr ps" "(l, st') \<in> set ps"
  shows "global_reachable sc g st'"
proof -
  obtain ss where ss: "global_successors st sc g = Inr ss"
    using global_successors_good [OF g wf global_reachable_inv [OF g wf r]] by (auto simp: good_list_def)
  then obtain lists where l: "mapR (process_successors st sc g) [0..<3] = Inr lists" "ss = concat lists"
    by (auto simp: global_successors_def bindR_eq_Inr)
  have "\<exists>y. process_successors st sc g j = Inr y" if "j \<in> set [0..<3]" for j
    using process_good [OF g wf global_reachable_inv [OF g wf r], of j] that by (auto simp: good_list_def)
  from mapR_total [of "[0..<3]" "process_successors st sc g", OF this] l(1)
  have "process_successors st sc g i = Inr (lists ! i)" "length lists = 3"
    using i by auto
  then have "ps \<in> set lists" using p(1) i by auto
  then show ?thesis using global_reachable.step [OF r ss] p(2) l(2) by fastforce
qed

lemma other_successors_member:
  assumes es: "graph_edges g sid = Some es" "(e, t) \<in> set es" and e: "e \<noteq> NEXT_CYCLE"
    and c: "sync_phase st sc g i t h (e = INTENT_PERSISTED \<and> state (snapshots g ! t) = SUBMITTED) = Some c"
  obtains ps where "other_successors st sc g i sid h = Inr ps" "(step_label i (TradeEvent_value e), c) \<in> set ps"
proof -
  let ?f = "\<lambda>(event, target_sid). if event = NEXT_CYCLE then []
    else map (\<lambda>candidate. (step_label i (TradeEvent_value event), candidate))
      (opt_list (sync_phase st sc g i target_sid h
        (event = INTENT_PERSISTED \<and> state (snapshots g ! target_sid) = SUBMITTED)))"
  have "(step_label i (TradeEvent_value e), c) \<in> set (?f (e, t))" using e c by simp
  then have "(step_label i (TradeEvent_value e), c) \<in> set (concat (map ?f es))"
    unfolding set_concat set_map using es(2) by blast
  with that show ?thesis by (simp add: other_successors_def es(1))
qed

lemma move_before_submission:
  assumes g: "graph_ok g" and wf: "wf_scenario sc" and r: "global_reachable sc g st" and i: "i < 3"
    and at: "st ! i = code_of g s False" and s: "reachable s" "state s \<noteq> SUBMITTED"
    and e: "verifier_step s e = Inr t" "e \<noteq> NEXT_CYCLE"
    and t: "execution_finality t = FINALITY_RESOLVED \<or> e = INTENT_PERSISTED \<and> state t = SUBMITTED"
  shows "global_reachable sc g (st[i := code_of g t False])"
proof -
  note c = code_of [OF g s(1)] and d = code_of [OF g verifier_step_reachable [OF s(1) e(1)]]
  obtain es where es: "graph_edges g (the (ids g s)) = Some es" "(e, the (ids g t)) \<in> set es"
    using edges_code [OF g s(1) e(1)] by blast
  have "process_successors st sc g i = other_successors st sc g i (the (ids g s)) False"
    using s(2) c by (simp add: process_successors_def decode_process_eq at)
  moreover have "sync_phase st sc g i (the (ids g t)) False
      (e = INTENT_PERSISTED \<and> state (snapshots g ! the (ids g t)) = SUBMITTED)
    = Some (st[i := code_of g t False])"
    using t d by (auto simp: sync_phase_def Let_def replace_process_def code_of_def)
  ultimately show ?thesis
    using other_successors_member [OF es e(2)] global_reachable_move [OF g wf r i] by metis
qed

lemma move_coordination:
  assumes g: "graph_ok g" and wf: "wf_scenario sc" and r: "global_reachable sc g st" and i: "i < 3"
    and at: "st ! i = code_of g s False" and s: "reachable s" "state s = SUBMITTED"
    and ok: "can_prepare st sc i = Inr True"
  shows "global_reachable sc g (st[i := code_of g s True])"
proof -
  note c = code_of [OF g s(1)]
  have "process_successors st sc g i = uncoordinated_successors st sc g i (the (ids g s))"
    using s(2) c by (simp add: process_successors_def decode_process_eq at)
  then show ?thesis
    using ok by (intro global_reachable_move [OF g wf r i])
      (auto simp: uncoordinated_successors_def replace_process_def code_of_def)
qed

lemma move_accepted:
  assumes g: "graph_ok g" and wf: "wf_scenario sc" and r: "global_reachable sc g st" and i: "i < 3"
    and at: "st ! i = code_of g s True" and s: "reachable s" "state s = SUBMITTED"
    and e: "verifier_step s SUBMIT_ACCEPTED = Inr t"
  shows "global_reachable sc g (st[i := code_of g t True])"
proof -
  note c = code_of [OF g s(1)]
  have "process_successors st sc g i = Inr (coordinated_successors st g i (the (ids g s)))"
    using s(2) c by (simp add: process_successors_def decode_process_eq at)
  then show ?thesis
    using by_event_code [OF g s(1) e] by (intro global_reachable_move [OF g wf r i])
      (auto simp: coordinated_successors_def replace_process_def code_of_def)
qed

lemma move_held:
  assumes g: "graph_ok g" and wf: "wf_scenario sc" and r: "global_reachable sc g st" and i: "i < 3"
    and at: "st ! i = code_of g s True" and s: "reachable s" "state s \<noteq> SUBMITTED"
    and e: "verifier_step s e = Inr t" "e \<noteq> NEXT_CYCLE" "e \<noteq> INTENT_PERSISTED"
    and t: "execution_finality t \<noteq> FINALITY_RESOLVED"
  shows "global_reachable sc g (st[i := code_of g t True])"
proof -
  note c = code_of [OF g s(1)] and d = code_of [OF g verifier_step_reachable [OF s(1) e(1)]]
  obtain es where es: "graph_edges g (the (ids g s)) = Some es" "(e, the (ids g t)) \<in> set es"
    using edges_code [OF g s(1) e(1)] by blast
  have "process_successors st sc g i = other_successors st sc g i (the (ids g s)) True"
    using s(2) c by (simp add: process_successors_def decode_process_eq at)
  moreover have "sync_phase st sc g i (the (ids g t)) True
      (e = INTENT_PERSISTED \<and> state (snapshots g ! the (ids g t)) = SUBMITTED)
    = Some (st[i := code_of g t True])"
    using t e(3) d by (auto simp: sync_phase_def Let_def replace_process_def code_of_def)
  ultimately show ?thesis
    using other_successors_member [OF es e(2)] global_reachable_move [OF g wf r i] by metis
qed

lemma reachable_stage: "k \<le> 7 \<Longrightarrow> reachable (stage k)"
proof (induction k)
  case 0
  then show ?case by (simp add: stage_values(1) reachable.start)
next
  case (Suc k)
  then have "verifier_step (stage k) (working_events ! k) = Inr (stage (Suc k))" using stage_steps by simp
  then show ?case using verifier_step_reachable Suc by simp
qed

lemma reach_submitted:
  assumes g: "graph_ok g" and wf: "wf_scenario sc" and r: "global_reachable sc g st" and i: "i < 3"
    and at: "st ! i = code_of g initial_snapshot False"
  shows "k \<le> 5 \<Longrightarrow> global_reachable sc g (st[i := code_of g (stage k) False])"
proof (induction k)
  case 0
  then show ?case using r at list_update_id [of st i] by (simp add: stage_values(1))
next
  case (Suc k)
  have len: "length st = 3" using global_reachable_inv [OF g wf r] by (simp add: global_inv_def)
  have "global_reachable sc g ((st[i := code_of g (stage k) False])[i := code_of g (stage (Suc k)) False])"
  proof (rule move_before_submission [OF g wf Suc.IH i])
    show "k \<le> 5" using Suc.prems by simp
    show "st[i := code_of g (stage k) False] ! i = code_of g (stage k) False" using i len by simp
    show "reachable (stage k)" using Suc.prems by (intro reachable_stage) simp
    show "verifier_step (stage k) (working_events ! k) = Inr (stage (Suc k))"
      using stage_steps Suc.prems by simp
    show "working_events ! k \<noteq> NEXT_CYCLE"
      using Suc.prems by (auto simp: working_events_def nth_Cons split: nat.splits)
  qed (use stage_before Suc.prems in auto)
  then show ?case by simp
qed

lemma can_prepare_frame:
  assumes "i < length st"
  shows "can_prepare (st[i := c]) sc i = can_prepare st sc i"
proof -
  have "claim_free (st[i := c]) sc i = claim_free st sc i"
    using assms by (auto simp: claim_free_def held_eq list_all_iff nth_list_update)
  moreover have "active_reserved_cash (st[i := c]) sc a (Some i) = active_reserved_cash st sc a (Some i)" for a
    using assms unfolding active_reserved_cash_def
    by (intro arg_cong [of _ _ sum_list] map_cong refl) (auto simp: held_eq nth_list_update)
  ultimately show ?thesis by (simp add: can_prepare_def Let_def)
qed

lemma reach_working:
  assumes g: "graph_ok g" and wf: "wf_scenario sc" and r: "global_reachable sc g st" and i: "i < 3"
    and at: "st ! i = code_of g initial_snapshot False" and ok: "can_prepare st sc i = Inr True"
  shows "global_reachable sc g (st[i := code_of g (stage 7) True])"
proof -
  have len: "i < length st" using global_reachable_inv [OF g wf r] i by (simp add: global_inv_def)
  have s: "reachable (stage 5)" "reachable (stage 6)" by (simp_all add: reachable_stage)
  have steps: "verifier_step (stage 5) SUBMIT_ACCEPTED = Inr (stage 6)"
    "verifier_step (stage 6) ORDER_WORKING = Inr (stage 7)"
    using bspec [OF stage_steps, of 5] bspec [OF stage_steps, of 6] by (simp_all add: working_events_def)
  have "global_reachable sc g (st[i := code_of g (stage 5) False])"
    by (rule reach_submitted [OF g wf r i at]) simp
  from move_coordination [OF g wf this i _ s(1) stage_values(2)] len ok
  have "global_reachable sc g (st[i := code_of g (stage 5) True])" by (simp add: can_prepare_frame)
  from move_accepted [OF g wf this i _ s(1) stage_values(2) steps(1)] len
  have "global_reachable sc g (st[i := code_of g (stage 6) True])" by simp
  from move_held [OF g wf this i _ s(2) _ steps(2)] len show ?thesis
    by (simp add: stage_values)
qed

lemma initial_global_code:
  assumes "graph_ok g"
  shows "initial_global g = Some (replicate 3 (code_of g initial_snapshot False))"
  using initial_global_Some [OF assms] by (metis code_of_def option.sel)

lemma three_working:
  assumes g: "graph_ok g" and wf: "wf_scenario sc"
    and ok: "can_prepare [i, i, i] sc 0 = Inr True" "can_prepare [w, i, i] sc 1 = Inr True"
      "can_prepare [w, w, i] sc 2 = Inr True"
    and codes: "i = code_of g initial_snapshot False" "w = code_of g (stage 7) True"
  shows "global_reachable sc g [w, w, w]"
proof -
  have "global_reachable sc g [i, i, i]"
    using global_reachable.start [OF initial_global_code [OF g]] by (simp add: numeral_3_eq_3 codes)
  from reach_working [OF g wf this, of 0] ok(1) have "global_reachable sc g [w, i, i]" by (simp add: codes)
  from reach_working [OF g wf this, of 1] ok(2) have "global_reachable sc g [w, w, i]" by (simp add: codes)
  from reach_working [OF g wf this, of 2] ok(3) show ?thesis by (simp add: codes)
qed

lemma witness_states:
  assumes g: "graph_ok g"
  defines "w \<equiv> code_of g (stage 7) True"
  shows "global_reachable scenario_distinct_symbols g [w, w, w]"
    and "global_reachable scenario_cross_account g [w, w, w]"
    and "is_all_working [w, w, w] g"
    and "has_cross_account_same_symbol_working [w, w, w] scenario_cross_account g"
proof -
  note c = code_of [OF g reachable.start] and d = code_of [OF g reachable_stage [of 7]]
  have "state (snapshots g ! (w div 2)) = WORKING" "holding w"
    using d by (simp_all add: w_def stage_values)
  then have w: "state (snapshots g ! (w div 2)) = WORKING \<and> holding w" by simp
  have wf: "wf_scenario scenario_distinct_symbols" "wf_scenario scenario_cross_account"
    using wf_formal_scenarios by (simp_all add: formal_scenarios_def)
  note eval = can_prepare_def claim_free_def active_reserved_cash_def held_eq same_claim_def Let_def
    py_index_def upt_rec nth_Cons c(5) w
  show "global_reachable scenario_distinct_symbols g [w, w, w]"
    by (rule three_working [OF g wf(1) _ _ _ refl w_def [THEN meta_eq_to_obj_eq]])
      (simp_all add: eval scenario_distinct_symbols_def)
  show "global_reachable scenario_cross_account g [w, w, w]"
    by (rule three_working [OF g wf(2) _ _ _ refl w_def [THEN meta_eq_to_obj_eq]])
      (simp_all add: eval scenario_cross_account_def)
  show "is_all_working [w, w, w] g"
    using w by (simp add: is_all_working_def held_eq decode_process_eq list_all_iff nth_Cons split: nat.split)
  show "has_cross_account_same_symbol_working [w, w, w] scenario_cross_account g"
    using w by (simp add: has_cross_account_same_symbol_working_def held_eq decode_process_eq
        upt_rec nth_Cons scenario_cross_account_def)
qed



section \<open>The properties of the verification\<close>

lemma built_graph_ok: "build_local_graph = Inr g \<Longrightarrow> graph_ok g"
  using build_local_graph_ok by (metis Inr_inject)

text \<open>
  C29: the local graph that the verification builds is the graph of the state machine: its nodes
  are exactly the reachable snapshots, each once, and the numbered edges and the table by event
  are exactly the steps that succeed.
\<close>

theorem local_graph_is_reachability:
  "\<exists>g. build_local_graph = Inr g \<and> distinct (snapshots g) \<and> set (snapshots g) = Collect reachable
     \<and> (\<forall>s i. ids g s = Some i \<longleftrightarrow> i < length (snapshots g) \<and> snapshots g ! i = s)
     \<and> (\<forall>i e j. by_event g (i, e) = Some j \<longleftrightarrow> i < length (snapshots g) \<and> j < length (snapshots g)
          \<and> formal_step (snapshots g ! i) e = Inr (snapshots g ! j))"
proof -
  obtain g where "build_local_graph = Inr g" "graph_ok g" using build_local_graph_ok by blast
  then show ?thesis unfolding graph_ok_def formal_step_eq by blast
qed

text \<open>
  C26: in every global state that three processes can reach, under any interleaving, in any
  scenario with non-negative amounts and existing accounts, the checked invariants hold: shared
  resources are held by unresolved processes only, every unresolved process but one that has not
  been coordinated yet holds its claim, no two processes hold the same symbol of the same
  account, and the cash of the purchases that reached the broker fits the account.
\<close>

theorem interleavings_keep_invariants:
  assumes "build_local_graph = Inr g" and "wf_scenario sc" and "global_reachable sc g st"
  shows "assert_global_invariants st sc g = Inr ()
    \<and> (\<forall>i \<in> {..<3}. \<forall>j \<in> {..<3}. i \<noteq> j \<longrightarrow> held st i \<longrightarrow> held st j \<longrightarrow> \<not> same_claim (spec_of sc i) (spec_of sc j))
    \<and> (\<forall>a < length (fs_cash_by_account sc). active_submitted st sc g a \<le> fs_cash_by_account sc ! a)"
proof (intro conjI)
  have g: "graph_ok g" by (rule built_graph_ok [OF assms(1)])
  note inv = global_reachable_inv [OF g assms(2,3)]
  show "assert_global_invariants st sc g = Inr ()" by (rule global_inv_assert [OF g assms(2) inv])
  show "\<forall>i \<in> {..<3}. \<forall>j \<in> {..<3}. i \<noteq> j \<longrightarrow> held st i \<longrightarrow> held st j \<longrightarrow> \<not> same_claim (spec_of sc i) (spec_of sc j)"
    using inv by (simp add: global_inv_def held_eq)
  show "\<forall>a < length (fs_cash_by_account sc). active_submitted st sc g a \<le> fs_cash_by_account sc ! a"
    using active_submitted_le [OF assms(2) inv] inv by (fastforce simp: global_inv_def intro: order_trans)
qed

theorem interleavings_keep_invariants_witness:
  "\<exists>g st. build_local_graph = Inr g \<and> is_all_working st g
     \<and> assert_global_invariants st scenario_cross_account g = Inr ()"
proof -
  obtain g where g: "build_local_graph = Inr g" "graph_ok g" using build_local_graph_ok by blast
  have "wf_scenario scenario_cross_account" using wf_formal_scenarios by (simp add: formal_scenarios_def)
  from interleavings_keep_invariants [OF g(1) this witness_states(2) [OF g(2)]]
  show ?thesis using g(1) witness_states(3) [OF g(2)] by blast
qed

text \<open>
  C27: no interleaving is stuck: a global state without a successor has three processes in
  terminal states, and while one process is not terminal some step is possible.
\<close>

theorem interleavings_deadlock_free:
  assumes "build_local_graph = Inr g" and "wf_scenario sc" and "global_reachable sc g st"
    and "i < 3" and "state (snapshot_at g st i) \<notin> TERMINAL_STATES"
  shows "\<exists>l st'. global_reachable sc g st' \<and> (\<exists>ss. global_successors st sc g = Inr ss \<and> (l, st') \<in> set ss)"
proof -
  have g: "graph_ok g" by (rule built_graph_ok [OF assms(1)])
  from global_successors_good [OF g assms(2) global_reachable_inv [OF g assms(2,3)]]
  obtain ss where ss: "global_successors st sc g = Inr ss"
    "(\<exists>i < 3. state (snap_of g (st ! i)) \<notin> TERMINAL_STATES) \<longrightarrow> ss \<noteq> []"
    by (auto simp: good_list_def)
  then have "ss \<noteq> []" using assms(4,5) by (auto simp: decode_process_eq snap_of_def)
  then obtain l st' where p: "(l, st') \<in> set ss" by (cases ss) auto
  with ss(1) global_reachable.step [OF assms(3) ss(1) p] show ?thesis by blast
qed

theorem interleavings_deadlock_free_witness:
  "\<exists>g st l st'. build_local_graph = Inr g \<and> is_all_working st g
     \<and> (\<exists>ss. global_successors st scenario_cross_account g = Inr ss \<and> (l, st') \<in> set ss)"
proof -
  obtain g where g: "build_local_graph = Inr g" "graph_ok g" using build_local_graph_ok by blast
  let ?w = "[code_of g (stage 7) True, code_of g (stage 7) True, code_of g (stage 7) True]"
  have "wf_scenario scenario_cross_account" using wf_formal_scenarios by (simp add: formal_scenarios_def)
  moreover have "state (snapshot_at g ?w 0) \<notin> TERMINAL_STATES"
    using witness_states(3) [OF g(2)] unfolding is_all_working_def list_all_iff
    by (auto simp: TERMINAL_STATES_def dest!: bspec [of _ _ 0])
  ultimately show ?thesis
    using interleavings_deadlock_free [OF g(1) _ witness_states(2) [OF g(2)], of 0] g(1) witness_states(3) [OF g(2)]
    by fastforce
qed

lemma scenario_result_eq:
  "scenario_result sc b =
     (if fs_require_all_working sc \<and> \<not> gp_all_working b
      then Inl (violation sc ''three processes never reached WORKING concurrently'')
      else if fs_require_cross_account_same_symbol_working sc \<and> \<not> gp_cross_account b
      then Inl (violation sc ''cross-account same-symbol concurrency witness missing'')
      else Inr \<lparr>reachable_global_states = length (gp_reachable b),
          reachable_interleaving_edges = gp_edges b,
          all_three_working_reached = gp_all_working b,
          cross_account_working_reached = gp_cross_account b,
          legitimate_terminal_deadlocks = gp_deadlocks b, invariant_violations = 0\<rparr>)"
  by (simp add: scenario_result_def raise_if_def)

text \<open>
  C28: the breadth-first verification of a scenario always ends, and with one of three outcomes
  only: the report of the scenario, or one of the two errors for a witness of progress that the
  scenario requires and that no interleaving gives.  The report counts the reachable global
  states, their steps and the states where all three have ended, and its flags tell whether the
  states they name are reachable.
\<close>

theorem verify_scenario_is_exhaustive:
  assumes "build_local_graph = Inr g" and "wf_scenario sc"
  shows "\<exists>r. verify_scenario sc g = Some r
    \<and> r = (if fs_require_all_working sc \<and> (\<nexists>st. global_reachable sc g st \<and> is_all_working st g)
           then Inl (violation sc ''three processes never reached WORKING concurrently'')
           else if fs_require_cross_account_same_symbol_working sc
             \<and> (\<nexists>st. global_reachable sc g st \<and> has_cross_account_same_symbol_working st sc g)
           then Inl (violation sc ''cross-account same-symbol concurrency witness missing'')
           else Inr \<lparr>reachable_global_states = card {st. global_reachable sc g st},
             reachable_interleaving_edges =
               (\<Sum>st | global_reachable sc g st. length (projr (global_successors st sc g))),
             all_three_working_reached = (\<exists>st. global_reachable sc g st \<and> is_all_working st g),
             cross_account_working_reached =
               (\<exists>st. global_reachable sc g st \<and> has_cross_account_same_symbol_working st sc g),
             legitimate_terminal_deadlocks =
               card {st. global_reachable sc g st \<and> global_successors st sc g = Inr []},
             invariant_violations = 0\<rparr>)"
proof -
  have g: "graph_ok g" by (rule built_graph_ok [OF assms(1)])
  have ok: "global_successors st sc g = Inr (succs_of sc g st)" if "global_reachable sc g st" for st
    using global_successors_good [OF g assms(2) global_reachable_inv [OF g assms(2) that]]
    by (auto simp: good_list_def succs_of_def)
  obtain b where b: "verify_scenario sc g = Some (scenario_result sc b)"
    "distinct (gp_reachable b)" "set (gp_reachable b) = Collect (global_reachable sc g)"
    "gp_edges b = (\<Sum>st | global_reachable sc g st. length (succs_of sc g st))"
    "gp_all_working b = (\<exists>st. global_reachable sc g st \<and> is_all_working st g)"
    "gp_cross_account b = (\<exists>st. global_reachable sc g st \<and> has_cross_account_same_symbol_working st sc g)"
    "gp_deadlocks b = card {st. global_reachable sc g st \<and> succs_of sc g st = []}"
    by (rule verify_scenario_result [OF g assms(2)])
  have count: "length (gp_reachable b) = card {st. global_reachable sc g st}"
    using b(2,3) by (metis distinct_card)
  have steps: "gp_edges b = (\<Sum>st | global_reachable sc g st. length (projr (global_successors st sc g)))"
    unfolding b(4) by (rule sum.cong) (simp_all add: ok)
  have ends: "{st. global_reachable sc g st \<and> succs_of sc g st = []}
      = {st. global_reachable sc g st \<and> global_successors st sc g = Inr []}"
    using ok by (metis (no_types, lifting) Inr_inject)
  show ?thesis
    unfolding b(1) scenario_result_eq count steps b(5,6,7) ends by blast
qed

theorem verify_scenario_is_exhaustive_witness:
  "\<exists>g r. build_local_graph = Inr g \<and> verify_scenario scenario_cash_contention g = Some (Inr r)
     \<and> reachable_global_states r = card {st. global_reachable scenario_cash_contention g st}"
proof -
  obtain g where g: "build_local_graph = Inr g" using build_local_graph_ok by blast
  have "wf_scenario scenario_cash_contention" using wf_formal_scenarios by (simp add: formal_scenarios_def)
  note result = verify_scenario_is_exhaustive [OF g this]
  have flags: "fs_require_all_working scenario_cash_contention = False"
    "fs_require_cross_account_same_symbol_working scenario_cash_contention = False"
    by (simp_all add: scenario_cash_contention_def)
  from result [unfolded flags simp_thms if_False]
  have "\<exists>r. verify_scenario scenario_cash_contention g = Some (Inr r)
    \<and> reachable_global_states r = card {st. global_reachable scenario_cash_contention g st}"
    by (elim exE conjE, hypsubst, intro exI conjI) (assumption, rule scenario_report.select_convs)
  with g show ?thesis by blast
qed

lemma verify_scenario_Inr:
  assumes g: "graph_ok g" and wf: "wf_scenario sc"
    and w: "fs_require_all_working sc \<Longrightarrow> \<exists>st. global_reachable sc g st \<and> is_all_working st g"
    and x: "fs_require_cross_account_same_symbol_working sc
      \<Longrightarrow> \<exists>st. global_reachable sc g st \<and> has_cross_account_same_symbol_working st sc g"
  shows "\<exists>r. verify_scenario sc g = Some (Inr r)
    \<and> all_three_working_reached r = (\<exists>st. global_reachable sc g st \<and> is_all_working st g)
    \<and> cross_account_working_reached r
        = (\<exists>st. global_reachable sc g st \<and> has_cross_account_same_symbol_working st sc g)
    \<and> reachable_global_states r = card {st. global_reachable sc g st}"
proof -
  obtain b where b: "verify_scenario sc g = Some (scenario_result sc b)"
    "distinct (gp_reachable b)" "set (gp_reachable b) = Collect (global_reachable sc g)"
    "gp_all_working b = (\<exists>st. global_reachable sc g st \<and> is_all_working st g)"
    "gp_cross_account b = (\<exists>st. global_reachable sc g st \<and> has_cross_account_same_symbol_working st sc g)"
    by (rule verify_scenario_result [OF g wf])
  have "length (gp_reachable b) = card {st. global_reachable sc g st}"
    using b(2,3) by (metis distinct_card)
  moreover have "\<not> (fs_require_all_working sc \<and> \<not> gp_all_working b)"
    "\<not> (fs_require_cross_account_same_symbol_working sc \<and> \<not> gp_cross_account b)"
    using w x b(4,5) by blast+
  ultimately show ?thesis using b(1,4,5) by (simp add: scenario_result_eq)
qed

lemma coordination_report_ok:
  "\<exists>g r. build_local_graph = Inr g \<and> verify_three_process_coordination = Some (Inr r)
     \<and> local_reachable_snapshots r = card {s. reachable s}
     \<and> scenario_count r = 4 \<and> map fst (scenarios r) = map fs_name formal_scenarios
     \<and> total_reachable_global_states r
         = sum_list (map (\<lambda>sc. card {st. global_reachable sc g st}) formal_scenarios)
     \<and> cross_symbol_concurrency_witness r \<and> cross_account_same_symbol_concurrency_witness r"
proof -
  obtain g where g: "build_local_graph = Inr g" "graph_ok g" using build_local_graph_ok by blast
  note w = witness_states [OF g(2)]
  have wf: "wf_scenario scenario_distinct_symbols" "wf_scenario scenario_same_symbol"
    "wf_scenario scenario_cash_contention" "wf_scenario scenario_cross_account"
    using wf_formal_scenarios by (simp_all add: formal_scenarios_def)
  define ok where "ok sc r \<longleftrightarrow> verify_scenario sc g = Some (Inr r)
    \<and> reachable_global_states r = card {st. global_reachable sc g st}" for sc r
  obtain r1 where r1: "ok scenario_distinct_symbols r1" "all_three_working_reached r1"
    using verify_scenario_Inr [OF g(2) wf(1)] w(1,3) unfolding ok_def
    by (auto simp: scenario_distinct_symbols_def)
  obtain r2 where r2: "ok scenario_same_symbol r2"
    using verify_scenario_Inr [OF g(2) wf(2)] unfolding ok_def by (auto simp: scenario_same_symbol_def)
  obtain r3 where r3: "ok scenario_cash_contention r3"
    using verify_scenario_Inr [OF g(2) wf(3)] unfolding ok_def by (auto simp: scenario_cash_contention_def)
  obtain r4 where r4: "ok scenario_cross_account r4" "cross_account_working_reached r4"
    using verify_scenario_Inr [OF g(2) wf(4)] w(2,3,4) unfolding ok_def by blast
  note rs = r1 r2 r3 r4
  define reports where "reports = [(fs_name scenario_distinct_symbols, r1), (fs_name scenario_same_symbol, r2),
    (fs_name scenario_cash_contention, r3), (fs_name scenario_cross_account, r4)]"
  have reports: "verify_scenarios formal_scenarios g = Some (Inr reports)"
    using rs by (simp add: formal_scenarios_def reports_def ok_def)
  have "map_of reports ''same_account_three_distinct_symbols'' = Some r1"
    "map_of reports ''cross_account_same_symbol_independence'' = Some r4"
    by (simp_all add: reports_def scenario_distinct_symbols_def scenario_same_symbol_def
        scenario_cash_contention_def scenario_cross_account_def)
  then obtain r where r: "coordination_result g reports = Inr r"
    "local_reachable_snapshots r = length (snapshots g)" "scenario_count r = length reports" "scenarios r = reports"
    "total_reachable_global_states r = sum_list (map (\<lambda>r. reachable_global_states (snd r)) reports)"
    "cross_symbol_concurrency_witness r" "cross_account_same_symbol_concurrency_witness r"
    using rs by (simp add: coordination_result_def report_flag_def)
  have "length (snapshots g) = card {s. reachable s}"
    using g(2) unfolding graph_ok_def by (metis distinct_card)
  moreover have "verify_three_process_coordination = Some (Inr r)"
    by (simp add: verify_three_process_coordination_def g(1) reports r(1))
  moreover have "map fst reports = map fs_name formal_scenarios" "length reports = 4"
    by (simp_all add: reports_def formal_scenarios_def)
  moreover have "sum_list (map (\<lambda>r. reachable_global_states (snd r)) reports)
      = sum_list (map (\<lambda>sc. card {st. global_reachable sc g st}) formal_scenarios)"
    using rs by (simp add: reports_def formal_scenarios_def ok_def)
  ultimately show ?thesis using g(1) r by metis
qed

text \<open>
  \<open>verify_three_process_coordination\<close> succeeds: all four searches end without an error, all
  three processes of the first scenario can work at the same time, the same symbol can be traded
  at the same time in two accounts, and the totals are the numbers of the global states that the
  interleavings reach.
\<close>

theorem verify_three_process_coordination_succeeds:
  "\<exists>g r. build_local_graph = Inr g \<and> verify_three_process_coordination = Some (Inr r)
     \<and> local_reachable_snapshots r = card {s. reachable s}
     \<and> scenario_count r = 4 \<and> map fst (scenarios r) = map fs_name formal_scenarios
     \<and> total_reachable_global_states r
         = sum_list (map (\<lambda>sc. card {st. global_reachable sc g st}) formal_scenarios)
     \<and> cross_symbol_concurrency_witness r \<and> cross_account_same_symbol_concurrency_witness r"
  by (rule coordination_report_ok)

end
