(* ===== verification/Runtime_Refinement.thy ===== *)
theory Runtime_Refinement
  imports Order_Recovery "HOL-Library.List_Lexorder" "HOL-Library.Char_ord"
begin

text \<open>
  \<open>verify_runtime_transition_refinement\<close> of \<open>formal.py\<close>: the verifier reads the syntax trees of
  \<open>session.py\<close>, \<open>coordinated_session.py\<close> and \<open>recovery.py\<close>, collects the places that emit an
  event or write the snapshot, and compares them with \<open>TRANSITIONS\<close>.  The parser and the visitor
  are a parameter: for every file the functions in their order, each with the nodes that
  \<open>ast.walk\<close> yields and their line.
\<close>

section \<open>Syntax trees\<close>

text \<open>The node types that the verifier looks into; any other node is known by its type's name.\<close>

datatype py_ast =
    Name (ast_id: string)
  | Attribute py_ast string
  | TupleNode "py_ast list"
  | ListNode "py_ast list"
  | Call py_ast "py_ast list"
  | Assign "py_ast list" py_ast
  | AnnAssign py_ast "py_ast option"
  | AugAssign py_ast py_ast
  | OtherNode string

type_synonym source_trees = "string \<Rightarrow> (string \<times> (nat \<times> py_ast) list) list pyres"

fun type_name :: "py_ast \<Rightarrow> string" where
  "type_name (Name _) = ''Name''"
| "type_name (Attribute _ _) = ''Attribute''"
| "type_name (TupleNode _) = ''Tuple''"
| "type_name (ListNode _) = ''List''"
| "type_name (Call _ _) = ''Call''"
| "type_name (Assign _ _) = ''Assign''"
| "type_name (AnnAssign _ _) = ''AnnAssign''"
| "type_name (AugAssign _ _) = ''AugAssign''"
| "type_name (OtherNode name) = name"

fun trade_event_name :: "py_ast \<Rightarrow> string option" where
  "trade_event_name (Attribute (Name n) attr) = (if n = ''TradeEvent'' then Some attr else None)"
| "trade_event_name _ = None"

fun target_contains_snapshot :: "py_ast \<Rightarrow> bool" where
  "target_contains_snapshot (Attribute (Name n) attr) = (n = ''self'' \<and> attr = ''_snapshot'')"
| "target_contains_snapshot (TupleNode elts) = list_ex target_contains_snapshot elts"
| "target_contains_snapshot (ListNode elts) = list_ex target_contains_snapshot elts"
| "target_contains_snapshot _ = False"

text \<open>The dotted name of a chain of attributes, innermost part first.\<close>

fun attribute_parts :: "py_ast \<Rightarrow> string list" where
  "attribute_parts (Attribute v attr) = attribute_parts v @ [attr]"
| "attribute_parts (Name n) = [n]"
| "attribute_parts _ = []"

definition join_dots :: "string list \<Rightarrow> string" where
  "join_dots parts = (case parts of [] \<Rightarrow> [] | p # ps \<Rightarrow> p @ concat (map (\<lambda>q. ''.'' @ q) ps))"

definition producer_name :: "py_ast option \<Rightarrow> string" where
  "producer_name node =
     (case node of
        None \<Rightarrow> ''None''
      | Some (Call func args) \<Rightarrow>
          (case func of
             Name n \<Rightarrow> n
           | Attribute _ _ \<Rightarrow> join_dots (attribute_parts func)
           | _ \<Rightarrow> type_name func)
      | Some n \<Rightarrow> type_name n)"

section \<open>The extracted surface\<close>

record RuntimeTransitionCall =
  rc_source :: string
  rc_function :: string
  rc_line :: nat
  rc_event :: "string option"

record RuntimeStateWrite =
  rw_source :: string
  rw_function :: string
  rw_line :: nat
  rw_producer :: string

type_synonym surface = "RuntimeTransitionCall list \<times> RuntimeStateWrite list \<times> string set"

definition RUNTIME_SOURCE_FILES :: "string list" where
  "RUNTIME_SOURCE_FILES = [''session.py'', ''coordinated_session.py'']"

definition EVENT_SOURCE_FILES :: "string list" where
  "EVENT_SOURCE_FILES = [''session.py'', ''recovery.py'']"

definition transition_call :: "string \<Rightarrow> string \<Rightarrow> nat \<times> py_ast \<Rightarrow> RuntimeTransitionCall list" where
  "transition_call relative function node =
     (case snd node of
        Call (Attribute v attr) (arg # args) \<Rightarrow>
          if attr = ''_transition''
          then [\<lparr>rc_source = relative, rc_function = function, rc_line = fst node,
                 rc_event = trade_event_name arg\<rparr>]
          else []
      | _ \<Rightarrow> [])"

definition recovery_reference :: "string \<Rightarrow> string \<Rightarrow> nat \<times> py_ast \<Rightarrow> string list" where
  "recovery_reference relative function node =
     (case snd node of
        Attribute v attr \<Rightarrow>
          if relative = ''recovery.py'' \<and> function = ''event_for_observation''
          then (case trade_event_name (snd node) of None \<Rightarrow> [] | Some n \<Rightarrow> [n]) else []
      | _ \<Rightarrow> [])"

definition state_write :: "string \<Rightarrow> string \<Rightarrow> nat \<times> py_ast \<Rightarrow> RuntimeStateWrite list" where
  "state_write relative function node =
     (let (targets, val) =
        (case snd node of
           Assign ts v \<Rightarrow> (ts, Some v)
         | AnnAssign t v \<Rightarrow> ([t], v)
         | AugAssign t v \<Rightarrow> ([t], Some v)
         | _ \<Rightarrow> ([], None))
      in if list_ex target_contains_snapshot targets
         then [\<lparr>rw_source = relative, rw_function = function, rw_line = fst node,
                rw_producer = producer_name val\<rparr>]
         else [])"

text \<open>All results of \<open>f\<close> on the nodes of the files, in the order of the three nested loops.\<close>

definition collect_nodes ::
  "source_trees \<Rightarrow> (string \<Rightarrow> string \<Rightarrow> nat \<times> py_ast \<Rightarrow> 'a list) \<Rightarrow> string list \<Rightarrow> 'a list pyres" where
  "collect_nodes trees f files =
     bindR (mapR (\<lambda>relative.
         bindR (trees relative) (\<lambda>fns.
         Inr (concat (map (\<lambda>fn. concat (map (f relative (fst fn)) (snd fn))) fns)))) files)
       (\<lambda>xs. Inr (concat xs))"

definition extract_source_surface :: "source_trees \<Rightarrow> surface pyres" where
  "extract_source_surface trees =
     bindR (collect_nodes trees transition_call EVENT_SOURCE_FILES) (\<lambda>calls.
     bindR (collect_nodes trees recovery_reference EVENT_SOURCE_FILES) (\<lambda>refs.
     bindR (collect_nodes trees state_write RUNTIME_SOURCE_FILES) (\<lambda>writes.
     Inr (calls, writes, set refs))))"

section \<open>The comparison with the transition table\<close>

text \<open>\<open>event.name\<close>: the name of every member is its value in upper case.\<close>

definition to_upper :: "char \<Rightarrow> char" where
  "to_upper c =
     (if 97 \<le> (of_char c :: int) \<and> of_char c \<le> (122 :: int) then char_of (of_char c - 32 :: int) else c)"

definition TradeEvent_name :: "TradeEvent \<Rightarrow> string" where
  "TradeEvent_name e = map to_upper (TradeEvent_value e)"

definition declared_events :: "string set" where
  "declared_events =
     set (concat (map (\<lambda>s. map (\<lambda>et. TradeEvent_name (fst et)) (TRANSITIONS s)) all_TradeStates))"

definition OBSERVATION_ENTRY_STATES :: "TradeState list" where
  "OBSERVATION_ENTRY_STATES =
     [ACCEPTED, WORKING, PARTIALLY_FILLED, PENDING_CANCEL, CANCELLING, CANCEL_REJECTED, UNKNOWN]"

definition expected_writes :: "(string \<times> string \<times> string) set" where
  "expected_writes =
     {(''session.py'', ''__init__'', ''MachineSnapshot''),
      (''session.py'', ''open'', ''self.journal.open''),
      (''session.py'', ''_transition'', ''advance'')}"

record observation_count =
  illegal_edges :: "(TradeState \<times> BrokerOrderStatus \<times> TradeEvent) list"
  legal_edges :: nat
  ambiguous_pairs :: nat
  no_op_pairs :: nat

text \<open>The body of the two nested loops over states and statuses.\<close>

definition count_observation ::
  "TradeState \<times> BrokerOrderStatus \<Rightarrow> observation_count \<Rightarrow> observation_count pyres" where
  "count_observation p c =
     (case event_for_observation (fst p) (snd p) of
        Inl e \<Rightarrow>
          if isinstance_exn e RecoveryAmbiguous then Inr (c\<lparr>ambiguous_pairs := ambiguous_pairs c + 1\<rparr>)
          else Inl e
      | Inr None \<Rightarrow> Inr (c\<lparr>no_op_pairs := no_op_pairs c + 1\<rparr>)
      | Inr (Some event) \<Rightarrow>
          Inr (let c = c\<lparr>legal_edges := legal_edges c + 1\<rparr> in
               if event \<in> set (map fst (TRANSITIONS (fst p))) then c
               else c\<lparr>illegal_edges := illegal_edges c @ [(fst p, snd p, event)]\<rparr>))"

primrec count_observations ::
  "(TradeState \<times> BrokerOrderStatus) list \<Rightarrow> observation_count \<Rightarrow> observation_count pyres" where
  "count_observations [] c = Inr c"
| "count_observations (p # ps) c = bindR (count_observation p c) (count_observations ps)"

definition observation_pairs :: "(TradeState \<times> BrokerOrderStatus) list" where
  "observation_pairs =
     concat (map (\<lambda>s. map (\<lambda>b. (s, b)) all_BrokerOrderStatuses)
       (sort_key TradeState_value OBSERVATION_ENTRY_STATES))"

record refinement_report =
  direct_transition_call_sites :: nat
  literal_runtime_events :: nat
  recovery_runtime_events :: nat
  dynamic_transition_call_sites :: nat
  runtime_state_write_sites :: nat
  observation_entry_states :: nat
  broker_order_statuses :: nat
  legal_observation_edges :: nat
  ambiguous_observation_pairs :: nat
  no_op_observation_pairs :: nat

text \<open>The texts of the errors are shortened.  \<open>check_surface\<close> is the part before the loops.\<close>

definition literal_events :: "surface \<Rightarrow> string set" where
  "literal_events sf = set (concat (map (\<lambda>c. case rc_event c of None \<Rightarrow> [] | Some e \<Rightarrow> [e]) (fst sf)))"

definition dynamic_calls :: "surface \<Rightarrow> RuntimeTransitionCall list" where
  "dynamic_calls sf = filter (\<lambda>c. rc_event c = None) (fst sf)"

definition transition_writes :: "surface \<Rightarrow> RuntimeStateWrite list" where
  "transition_writes sf =
     filter (\<lambda>w. rw_source w = ''session.py'' \<and> rw_function w = ''_transition'') (fst (snd sf))"

definition check_surface :: "surface \<Rightarrow> unit pyres" where
  "check_surface sf =
     (let runtime_events = literal_events sf \<union> snd (snd sf) in
      bindR (raise_if (runtime_events - declared_events \<noteq> {})
        (Exn RuntimeError ''runtime emits events not declared by TRANSITIONS'')) (\<lambda>_.
      bindR (raise_if (declared_events - runtime_events \<noteq> {})
        (Exn RuntimeError ''declared transition events have no runtime emitter/refinement source'')) (\<lambda>_.
      bindR (raise_if ((\<lambda>c. (rc_source c, rc_function c)) ` set (dynamic_calls sf)
                       \<noteq> {(''session.py'', ''_apply_observation'')})
        (Exn RuntimeError ''unexpected dynamic _transition call sites'')) (\<lambda>_.
      raise_if ((\<lambda>w. (rw_source w, rw_function w, rw_producer w)) ` set (fst (snd sf)) \<noteq> expected_writes)
        (Exn RuntimeError ''execution state mutation surface drifted'')))))"

definition verify_surface :: "surface \<Rightarrow> refinement_report pyres" where
  "verify_surface sf =
     bindR (check_surface sf) (\<lambda>_.
     bindR (count_observations observation_pairs
       \<lparr>illegal_edges = [], legal_edges = 0, ambiguous_pairs = 0, no_op_pairs = 0\<rparr>) (\<lambda>c.
     bindR (raise_if (illegal_edges c \<noteq> [])
       (Exn RuntimeError ''broker observation refinement emits illegal state-machine edges'')) (\<lambda>_.
     bindR (raise_if (length (transition_writes sf) \<noteq> 1
                      \<or> rw_producer (transition_writes sf ! 0) \<noteq> ''advance'')
       (Exn RuntimeError ''_transition no longer delegates exclusively to advance()'')) (\<lambda>_.
     Inr \<lparr>direct_transition_call_sites = length (fst sf),
          literal_runtime_events = card (literal_events sf),
          recovery_runtime_events = card (snd (snd sf)),
          dynamic_transition_call_sites = length (dynamic_calls sf),
          runtime_state_write_sites = length (fst (snd sf)),
          observation_entry_states = length OBSERVATION_ENTRY_STATES,
          broker_order_statuses = length all_BrokerOrderStatuses,
          legal_observation_edges = legal_edges c,
          ambiguous_observation_pairs = ambiguous_pairs c,
          no_op_observation_pairs = no_op_pairs c\<rparr>))))"

definition verify_runtime_transition_refinement :: "source_trees \<Rightarrow> refinement_report pyres" where
  "verify_runtime_transition_refinement trees = bindR (extract_source_surface trees) verify_surface"


section \<open>What an accepted surface looks like\<close>

text \<open>All observations are legal, whatever the sources: 63 pairs, none of them illegal.\<close>

lemma observations_counted:
  "count_observations observation_pairs
     \<lparr>illegal_edges = [], legal_edges = 0, ambiguous_pairs = 0, no_op_pairs = 0\<rparr>
   = Inr \<lparr>illegal_edges = [], legal_edges = 51, ambiguous_pairs = 11, no_op_pairs = 1\<rparr>"
  by code_simp

lemma check_surface_Inr:
  "check_surface sf = Inr () \<longleftrightarrow>
     literal_events sf \<union> snd (snd sf) = declared_events
     \<and> (\<lambda>c. (rc_source c, rc_function c)) ` set (dynamic_calls sf) = {(''session.py'', ''_apply_observation'')}
     \<and> (\<lambda>w. (rw_source w, rw_function w, rw_producer w)) ` set (fst (snd sf)) = expected_writes"
  unfolding check_surface_def Let_def by (auto simp: bindR_eq_Inr)

lemma transition_writes_advance:
  assumes "(\<lambda>w. (rw_source w, rw_function w, rw_producer w)) ` set (fst (snd sf)) = expected_writes"
    and "w \<in> set (transition_writes sf)"
  shows "rw_producer w = ''advance''"
proof -
  have "(rw_source w, rw_function w, rw_producer w) \<in> expected_writes" "rw_function w = ''_transition''"
    using assms(2) imageI [of w "set (fst (snd sf))" "\<lambda>w. (rw_source w, rw_function w, rw_producer w)"]
    unfolding assms(1) [symmetric] by (simp_all add: transition_writes_def)
  then show ?thesis by (auto simp: expected_writes_def)
qed

lemma length_one: "length xs = 1 \<longleftrightarrow> (\<exists>x. xs = [x])"
  by (simp add: length_Suc_conv)

lemma verify_surface_Inr:
  "(\<exists>r. verify_surface sf = Inr r) \<longleftrightarrow> check_surface sf = Inr () \<and> length (transition_writes sf) = 1"
proof
  assume "\<exists>r. verify_surface sf = Inr r"
  then show "check_surface sf = Inr () \<and> length (transition_writes sf) = 1"
    unfolding verify_surface_def observations_counted bindR_eq_Inr bindR_simps raise_if_eq
    by (elim exE conjE) simp
next
  assume *: "check_surface sf = Inr () \<and> length (transition_writes sf) = 1"
  then have first: "transition_writes sf ! 0 \<in> set (transition_writes sf)" by simp
  have producer: "rw_producer (transition_writes sf ! 0) = ''advance''"
    using * unfolding check_surface_Inr by (elim conjE) (rule transition_writes_advance [OF _ first])
  show "\<exists>r. verify_surface sf = Inr r"
    unfolding verify_surface_def observations_counted conjunct1 [OF *] conjunct2 [OF *] producer bindR_simps
      raise_if_def observation_count.select_convs by simp
qed

text \<open>
  The refinement check of the sources accepts exactly the sources in which the events that
  are emitted, by a literal in a \<open>_transition\<close> call or by \<open>event_for_observation\<close>, are the
  declared events, no more and no fewer, \<open>_apply_observation\<close> is the only place that computes an
  event, and the snapshot is written in three places only: the constructor, \<open>open\<close> from the
  journal, and once in \<open>_transition\<close> from \<open>advance\<close>.  The check of the 63 observations never
  fails.
\<close>

theorem refinement_check_characterised:
  "(\<exists>r. verify_runtime_transition_refinement trees = Inr r) \<longleftrightarrow>
     (\<exists>calls writes refs. extract_source_surface trees = Inr (calls, writes, refs)
        \<and> {e. \<exists>c \<in> set calls. rc_event c = Some e} \<union> refs = declared_events
        \<and> {(rc_source c, rc_function c) | c. c \<in> set calls \<and> rc_event c = None}
            = {(''session.py'', ''_apply_observation'')}
        \<and> {(rw_source w, rw_function w, rw_producer w) | w. w \<in> set writes}
            = {(''session.py'', ''__init__'', ''MachineSnapshot''),
               (''session.py'', ''open'', ''self.journal.open''),
               (''session.py'', ''_transition'', ''advance'')}
        \<and> (\<exists>w. filter (\<lambda>w. rw_source w = ''session.py'' \<and> rw_function w = ''_transition'') writes = [w]))"
proof -
  have lit: "literal_events (calls, writes, refs) = {e. \<exists>c \<in> set calls. rc_event c = Some e}"
    for calls writes refs by (auto simp: literal_events_def split: option.splits)
  have dyn: "(\<lambda>c. (rc_source c, rc_function c)) ` set (dynamic_calls (calls, writes, refs))
      = {(rc_source c, rc_function c) | c. c \<in> set calls \<and> rc_event c = None}" for calls writes refs
    by (auto simp: dynamic_calls_def)
  have wr: "(\<lambda>w. (rw_source w, rw_function w, rw_producer w)) ` set writes
      = {(rw_source w, rw_function w, rw_producer w) | w. w \<in> set writes}"
    for writes :: "RuntimeStateWrite list" by auto
  have "(\<exists>r. verify_surface (calls, writes, refs) = Inr r) \<longleftrightarrow>
      ({e. \<exists>c \<in> set calls. rc_event c = Some e} \<union> refs = declared_events
      \<and> {(rc_source c, rc_function c) | c. c \<in> set calls \<and> rc_event c = None}
          = {(''session.py'', ''_apply_observation'')}
      \<and> {(rw_source w, rw_function w, rw_producer w) | w. w \<in> set writes} = expected_writes)
      \<and> (\<exists>w. filter (\<lambda>w. rw_source w = ''session.py'' \<and> rw_function w = ''_transition'') writes = [w])"
    for calls writes refs
    unfolding verify_surface_Inr check_surface_Inr lit dyn fst_conv snd_conv wr transition_writes_def
      length_one by (rule refl)
  note accepted = this [unfolded expected_writes_def conj_assoc]
  have "(\<exists>r. verify_runtime_transition_refinement trees = Inr r) \<longleftrightarrow>
      (\<exists>calls writes refs. extract_source_surface trees = Inr (calls, writes, refs)
        \<and> (\<exists>r. verify_surface (calls, writes, refs) = Inr r))"
    by (cases "extract_source_surface trees") (auto simp: verify_runtime_transition_refinement_def)
  then show ?thesis unfolding accepted .
qed

text \<open>A source of that shape, with one call for every declared event, is accepted.\<close>

definition sample_trees :: source_trees where
  "sample_trees relative =
     (let me = Name ''self''; emit = (\<lambda>arg. (1, Call (Attribute me ''_transition'') [arg]));
          literal = (\<lambda>e. emit (Attribute (Name ''TradeEvent'') (TradeEvent_name e)));
          events = remdups (concat (map (\<lambda>s. map fst (TRANSITIONS s)) all_TradeStates))
      in if relative = ''session.py'' then Inr
           [(''__init__'', [(2, AnnAssign (Attribute me ''_snapshot'') (Some (Call (Name ''MachineSnapshot'') [])))]),
            (''open'', [(3, Assign [TupleNode [Attribute me ''_snapshot'', Name ''created'']]
               (Call (Attribute (Attribute me ''journal'') ''open'') []))]),
            (''_transition'', [(4, Assign [Attribute me ''_snapshot''] (Call (Name ''advance'') []))]),
            (''_apply_observation'', [emit (Name ''event'')]),
            (''run'', map literal events)]
         else if relative = ''recovery.py'' then Inr
           [(''event_for_observation'', [(5, Attribute (Name ''TradeEvent'') ''QUERY_AMBIGUOUS'')])]
         else Inr [])"

lemma sample_trees_accepted: "isOk (verify_runtime_transition_refinement sample_trees)"
  by code_simp

end
