(* ===== verification/Release_Gate.thy ===== *)
theory Release_Gate
  imports Three_Process_Properties Runtime_Refinement
begin

text \<open>
  \<open>verify_release_model\<close> of \<open>verifier.py\<close>: the search of the state machine, the refinement check
  of the sources and the verification of three processes, one after the other.
\<close>

record release_report =
  state_machine_report :: report
  implementation_refinement :: refinement_report
  three_process_coordination :: coordination_report
  release_formal_verification :: string

definition verify_release_model ::
  "(string \<Rightarrow> string) \<Rightarrow> (string \<Rightarrow> string option) \<Rightarrow> string \<Rightarrow> string option \<Rightarrow> source_trees
    \<Rightarrow> release_report pyres option" where
  "verify_release_model sha256 files here resolved trees =
     (case verify_state_machine sha256 files here resolved of
        Inl e \<Rightarrow> Some (Inl e)
      | Inr r \<Rightarrow>
          (case verify_runtime_transition_refinement trees of
             Inl e \<Rightarrow> Some (Inl e)
           | Inr rr \<Rightarrow>
               map_option (\<lambda>c. bindR c (\<lambda>c.
                   Inr \<lparr>state_machine_report = r, implementation_refinement = rr,
                        three_process_coordination = c, release_formal_verification = ''PASS''\<rparr>))
                 verify_three_process_coordination))"

text \<open>
  C30: the release gate passes exactly when the protected sources can be read and hashed and the
  refinement check accepts the sources: the state machine and the coordination of three
  processes never make it fail, and it always ends.
\<close>

theorem release_gate_characterised:
  "\<exists>r. verify_release_model sha256 files here resolved trees = Some r
     \<and> (isOk r \<longleftrightarrow> isOk (execution_source_sha256 sha256 files here resolved)
         \<and> isOk (verify_runtime_transition_refinement trees))
     \<and> (\<forall>x. r = Inr x \<longrightarrow> release_formal_verification x = ''PASS''
         \<and> cross_symbol_concurrency_witness (three_process_coordination x)
         \<and> cross_account_same_symbol_concurrency_witness (three_process_coordination x))"
proof -
  obtain c where c: "verify_three_process_coordination = Some (Inr c)"
    "cross_symbol_concurrency_witness c" "cross_account_same_symbol_concurrency_witness c"
    using coordination_report_ok by blast
  have sources: "isOk (verify_state_machine sha256 files here resolved)
      \<longleftrightarrow> isOk (execution_source_sha256 sha256 files here resolved)"
  proof (cases "execution_source_sha256 sha256 files here resolved")
    case (Inl e)
    then show ?thesis by (auto simp: verify_state_machine_def isOk_iff bindR_eq_Inr)
  next
    case (Inr h)
    from verify_build_succeeds [OF this] Inr show ?thesis by (auto simp: isOk_iff)
  qed
  show ?thesis unfolding sources [symmetric] verify_release_model_def c(1)
    using c(2,3) by (auto split: sum.splits)
qed

theorem release_gate_characterised_witness:
  "\<exists>x. verify_release_model (\<lambda>_. ''h'') (\<lambda>_. Some ''x'') ''/pkg'' None sample_trees = Some (Inr x)
     \<and> cross_symbol_concurrency_witness (three_process_coordination x)"
proof -
  have "isOk (execution_source_sha256 (\<lambda>_. ''h'') (\<lambda>_. Some ''x'') ''/pkg'' None)"
    by (simp add: execution_source_sha256_def resolve_package_root_def PROTECTED_EXECUTION_SOURCES_def)
  then show ?thesis
    using release_gate_characterised [of "\<lambda>_. ''h''" "\<lambda>_. Some ''x''" "''/pkg''" None sample_trees]
      sample_trees_accepted by (auto simp: isOk_iff)
qed

end
