(* ===== verification/Execution_Guards.thy ===== *)
theory Execution_Guards
  imports Execution_Session
begin

text \<open>
  \<open>guards.py\<close>: hard execution limits and a kill switch in front of the project's own guard, and
  what they give a session that uses them.
\<close>

section \<open>Limits\<close>

record ExecutionLimits =
  allowlist :: "string list"
  max_order_qty :: int
  max_order_notional :: pyval

text \<open>
  The first argument is the members of the \<open>frozenset\<close>, in some order, or \<open>None\<close> for a value
  of another type.
\<close>

definition mk_ExecutionLimits :: "pyval list option \<Rightarrow> pyval \<Rightarrow> pyval \<Rightarrow> ExecutionLimits pyres" where
  "mk_ExecutionLimits members max_qty max_notional =
     (case members of
        None \<Rightarrow> Inl (Exn ValueError ''allowlist must be a non-empty frozenset'')
      | Some xs \<Rightarrow>
          bindR (raise_if (xs = []) (Exn ValueError ''allowlist must be a non-empty frozenset'')) (\<lambda>_.
          bindR (raise_if (list_ex (\<lambda>x. \<not> nonempty_str x) xs)
            (Exn ValueError ''allowlist symbols must be non-empty strings'')) (\<lambda>_.
          bindR (raise_if (\<not> pos_int max_qty)
            (Exn ValueError ''max_order_qty must be a positive plain int'')) (\<lambda>_.
          bindR (raise_if (\<not> is_number max_notional)
            (Exn ValueError ''max_order_notional must be numeric'')) (\<lambda>_.
          bindR (py_float max_notional) (\<lambda>f.
          bindR (raise_if (\<not> isfinite f \<or> \<not> num_pos max_notional)
            (Exn ValueError ''max_order_notional must be finite and positive'')) (\<lambda>_.
          Inr \<lparr>allowlist = map the_str xs, max_order_qty = the_int max_qty,
               max_order_notional = max_notional\<rparr>)))))))"

text \<open>\<open>x > v\<close> for a float \<open>x\<close>; Python compares a float with an integer exactly.\<close>

definition float_exceeds :: "pyfloat \<Rightarrow> pyval \<Rightarrow> bool" where
  "float_exceeds x v =
     (case v of
        PyFloat y \<Rightarrow> flt y x
      | PyInt n \<Rightarrow> (case x of Finite r \<Rightarrow> of_int n < r | PosInf \<Rightarrow> True | _ \<Rightarrow> False)
      | _ \<Rightarrow> False)"

section \<open>The guard\<close>

text \<open>The state of the guard object next to the world of the guard that it wraps.\<close>

record 'w guarded =
  inner_world :: 'w
  kill_switch :: bool

definition rejected :: "string \<Rightarrow> PrecheckEvidence" where
  "rejected reason =
     \<lparr>pe_allowed = PyBool False, pe_environment_verified = PyBool False,
      pe_account_verified = PyBool False, pe_broker_snapshot_verified = PyBool False,
      pe_position_verified = PyBool False, pe_cash_verified = PyBool False,
      pe_quote_verified = PyBool False, pe_reason = PyStr reason\<rparr>"

definition engage_kill_switch :: "('w guarded, unit) pyact" where
  "engage_kill_switch = modifyM (\<lambda>w. w\<lparr>kill_switch := True\<rparr>)"

text \<open>A call of the inner guard.\<close>

definition on_inner :: "('w, 'a) pyact \<Rightarrow> ('w guarded, 'a) pyact" where
  "on_inner m = (\<lambda>w. case m (inner_world w) of (r, v) \<Rightarrow> (r, w\<lparr>inner_world := v\<rparr>))"

definition limit_verify_session :: "('w, SessionEvidence) pyact \<Rightarrow> ('w guarded, SessionEvidence) pyact" where
  "limit_verify_session inner = on_inner inner"

definition limit_verify ::
  "ExecutionLimits \<Rightarrow> (ExecutionRequest \<Rightarrow> ('w, PrecheckEvidence) pyact) \<Rightarrow> ExecutionRequest
    \<Rightarrow> ('w guarded, PrecheckEvidence) pyact" where
  "limit_verify limits inner request =
     bindM (getM kill_switch) (\<lambda>killed.
     if killed then returnM (rejected ''kill switch engaged'')
     else if symbol request \<notin> set (allowlist limits) then
       returnM (rejected ''symbol is not on the execution allowlist'')
     else if max_order_qty limits < qty request then
       returnM (rejected ''order quantity exceeds hard execution limit'')
     else
       bindM (liftR (bindR (py_float (limit_price request)) (int_mul_float (qty request)))) (\<lambda>notional.
       if float_exceeds notional (max_order_notional limits) then
         returnM (rejected ''order notional exceeds hard execution limit'')
       else on_inner (inner request)))"


section \<open>What passes the limits\<close>

definition wf_ExecutionLimits :: "ExecutionLimits \<Rightarrow> bool" where
  "wf_ExecutionLimits l \<longleftrightarrow> allowlist l \<noteq> [] \<and> (\<forall>s \<in> set (allowlist l). s \<noteq> [])
     \<and> 0 < max_order_qty l \<and> finite_number (max_order_notional l) \<and> num_pos (max_order_notional l)"

lemma mk_ExecutionLimits_wf: "mk_ExecutionLimits m q n = Inr l \<Longrightarrow> wf_ExecutionLimits l"
  by (fastforce simp: mk_ExecutionLimits_def wf_ExecutionLimits_def bindR_eq_Inr finite_number_def
      pos_int_iff list_ex_iff nonempty_str_iff split: option.splits)

definition within_limits :: "ExecutionLimits \<Rightarrow> ExecutionRequest \<Rightarrow> bool" where
  "within_limits l r \<longleftrightarrow> symbol r \<in> set (allowlist l) \<and> qty r \<le> max_order_qty l
     \<and> (\<exists>f x. py_float (limit_price r) = Inr f \<and> int_mul_float (qty r) f = Inr x
          \<and> \<not> float_exceeds x (max_order_notional l))"

lemma truthy_rejected [simp]: "truthy (pe_allowed (rejected reason)) = False"
  by (simp add: rejected_def)

lemma rejected_valid: "PrecheckEvidence_validate (rejected reason) = Inr ()"
  by (simp add: PrecheckEvidence_validate_def rejected_def check_fields.simps)

lemma limit_verify_allowed:
  assumes "limit_verify limits inner request w = (Inr evidence, w')" and "truthy (pe_allowed evidence)"
  shows "within_limits limits request" and "\<not> kill_switch w"
    and "\<exists>v. inner request (inner_world w) = (Inr evidence, v) \<and> w' = w\<lparr>inner_world := v\<rparr>"
  using assms
  by (auto simp: limit_verify_def within_limits_def bindM_def getM_def liftR_def returnM_def on_inner_def
      bindR_eq_Inr split: if_splits sum.splits prod.splits)


section \<open>A session behind the limits\<close>

text \<open>The calls at the broker that a step adds.\<close>

definition only_calls :: "(broker_call \<Rightarrow> bool) \<Rightarrow> 'w session_state \<Rightarrow> 'w session_state \<Rightarrow> bool" where
  "only_calls P s s' \<longleftrightarrow> (\<forall>c \<in> set (trace s'). c \<in> set (trace s) \<or> P (fst c))"

interpretation oc: step_preorder "only_calls P" for P
  by unfold_locales (auto simp: only_calls_def)

lemma oc_same_trace:
  "(\<And>s r s'. m s = (r, s') \<Longrightarrow> trace s' = trace s) \<Longrightarrow> keeps (only_calls P) m"
  unfolding keeps_def only_calls_def by fastforce

lemma oc_journal_op: "keeps jstep m \<Longrightarrow> keeps (only_calls P) m"
  by (rule oc_same_trace) (blast dest: keepsD jstep_session(2))

lemma oc_modify: "(\<And>s. trace (f s) = trace s) \<Longrightarrow> keeps (only_calls P) (modifyM f)"
  by (rule keeps_modifyM) (simp add: only_calls_def)

lemma oc_on_mutex: "keeps (only_calls P) (on_mutex m)"
  by (rule oc_same_trace) (auto simp: on_mutex_def split: prod.splits)

lemma oc_record_call: "P c \<Longrightarrow> keeps (only_calls P) (record_call c)"
  unfolding record_call_def by (rule keeps_modifyM) (auto simp: only_calls_def)

lemma oc_on_world: "keeps (only_calls P) (on_world m)"
  by (rule oc_journal_op [OF keeps_on_world])

lemma oc_transition_with: "keeps (only_calls P) (transition_with env event details se pe)"
  unfolding transition_with_def
  by (intro oc.keeps_bindM oc.keeps_getM oc.keeps_liftR oc_journal_op [OF keeps_journal_transition] oc_modify) simp

lemma oc_transition: "keeps (only_calls P) (transition env event details)"
  unfolding transition_def by (rule oc_transition_with)

lemmas oc_basic =
  oc.keeps_bindM oc.keeps_getM oc.keeps_liftR oc.keeps_raiseM oc.keeps_raiseM_if oc.keeps_returnM
  oc.keeps_if oc_on_world oc_journal_op [OF keeps_journal_data] oc_journal_op [OF keeps_journal_operations(1)]
  oc_journal_op [OF keeps_journal_operations(2)] oc_journal_op [OF keeps_journal_operations(3)]
  oc_journal_op [OF keeps_journal_operations(4)] oc_journal_op [OF keeps_journal_operations(5)]
  oc_journal_op [OF keeps_journal_operations(6)] oc_journal_op [OF keeps_journal_operations(7)]
  oc_journal_op [OF keeps_journal_open] oc_transition oc_transition_with oc_on_mutex

lemma oc_snapshot: "keeps (only_calls P) (session_snapshot reason)"
  unfolding session_snapshot_def by (intro oc_basic)

lemma oc_require_open: "keeps (only_calls P) require_open"
  unfolding require_open_def by (intro oc_basic)

lemma oc_to_unknown: "keeps (only_calls P) (to_unknown env reason)"
  unfolding to_unknown_def by (intro oc_basic)

lemma oc_apply_observation: "keeps (only_calls P) (apply_observation env ord)"
  unfolding apply_observation_def
  by (intro oc_basic oc_snapshot)
    (auto intro!: oc.keeps_bindM oc_snapshot oc_to_unknown oc_transition split: sum.split option.split)

lemma oc_locate_order: "keeps (only_calls P) (locate_order env d)"
  unfolding locate_order_def Let_def
  by (rule oc.keeps_if, rule oc_on_world) (auto intro!: oc_basic split: option.split)

lemma oc_recover_unknown: "keeps (only_calls P) (recover_unknown env)"
  unfolding recover_unknown_def
  by (intro oc_basic oc.keeps_try_elseM oc_locate_order oc_apply_observation)
    (auto intro!: oc.keeps_bindM oc_transition oc_snapshot split: if_splits)

lemma oc_poll: "keeps (only_calls P) (session_poll env)"
  unfolding session_poll_def Let_def
  by (intro oc_basic oc_require_open oc_recover_unknown oc.keeps_try_elseM oc_apply_observation)
    (auto intro!: oc.keeps_bindM oc_to_unknown oc_snapshot split: if_splits)

lemma oc_open: "keeps (only_calls P) (session_open env)"
proof -
  have build: "keeps (only_calls P) (bind_build env)" unfolding bind_build_def by (intro oc_basic)
  have res: "keeps (only_calls P) (resume env existed evidence)" for existed evidence
    unfolding resume_def by (intro oc_basic oc_recover_unknown)
  show ?thesis unfolding session_open_def open_with_def
    by (intro oc_basic oc_snapshot oc.keeps_tryM build res oc_modify)
      (auto intro: oc.keeps_bindM oc_on_mutex oc.keeps_raiseM split: if_splits)
qed

lemma oc_cancel:
  assumes "\<And>i. P (CancelOrder i)"
  shows "keeps (only_calls P) (session_cancel env (session_poll env))"
  unfolding session_cancel_def Let_def
  by (intro oc_basic oc_require_open oc.keeps_tryM oc_record_call assms oc_poll)
    (auto intro!: oc.keeps_returnM split: if_splits)

lemma oc_submit_intent:
  assumes "P (PlaceOrder r)"
  shows "keeps (only_calls P) (submit_intent env (session_poll env) r)"
  unfolding submit_intent_def submit_to_broker_def
  by (intro oc_basic oc.keeps_try_elseM oc_record_call assms oc_poll)
    (auto intro!: oc.keeps_bindM oc_transition oc.keeps_raiseM oc_snapshot split: if_splits)

text \<open>The continuation only matters for the results that the first part can return.\<close>

lemma oc_bindM_result:
  fixes m :: "('w, 'a) session_act"
  assumes "keeps (only_calls P) m" and "\<And>x s s'. m s = (Inr x, s') \<Longrightarrow> keeps (only_calls P) (f x)"
  shows "keeps (only_calls P) (bindM m f)"
  unfolding keeps_def
proof (intro allI impI)
  fix s r s' assume run: "bindM m f s = (r, s')"
  obtain q t where m: "m s = (q, t)" by fastforce
  note first = keepsD [OF assms(1) m]
  show "only_calls P s s'"
  proof (cases q)
    case (Inl e)
    with run m first show ?thesis by (simp add: bindM_def)
  next
    case (Inr x)
    with run m have "f x t = (r, s')" by (simp add: bindM_def)
    from keepsD [OF assms(2) [OF m [unfolded Inr]] this] first show ?thesis by (rule oc.R_trans [rotated])
  qed
qed

lemma oc_submit:
  assumes "\<And>w e w'. verify_request env r w = (Inr e, w') \<Longrightarrow> truthy (pe_allowed e) \<Longrightarrow> P (PlaceOrder r)"
  shows "keeps (only_calls P) (session_submit env (session_poll env) r)"
proof -
  let ?tail = "\<lambda>evidence. bindM (liftR (PrecheckEvidence_validate evidence)) (\<lambda>_.
     if \<not> truthy (pe_allowed evidence) then
       bindM (transition env PRECHECK_REJECTED
         (reason_details (str_or (pe_reason evidence) ''precheck rejected''))) (\<lambda>_.
       session_snapshot (the_str (pe_reason evidence)))
     else
       bindM (transition_with env PRECHECK_VERIFIED [(''source'', PyStr ''execution_guard'')]
         None (Some evidence)) (\<lambda>_. submit_intent env (session_poll env) r))"
  have tail: "keeps (only_calls P) (?tail e)" if "on_world (verify_request env r) s = (Inr e, s')" for e s s'
  proof (cases "truthy (pe_allowed e)")
    case True
    have "\<exists>w'. verify_request env r (world s) = (Inr e, w')"
      using that by (auto simp: on_world_def split: prod.splits)
    then have "P (PlaceOrder r)" using assms True by blast
    then show ?thesis using True by (auto intro!: oc_basic oc_submit_intent)
  next
    case False
    then show ?thesis by (auto intro!: oc_basic oc_snapshot)
  qed
  show ?thesis unfolding session_submit_def
    by (intro oc.keeps_bindM oc_require_open oc.keeps_getM oc.keeps_raiseM_if oc_on_world oc_transition
        oc_journal_op [OF keeps_journal_operations(1)] oc_bindM_result [OF oc_on_world tail])
qed


lemma oc_run_op:
  assumes "\<And>w e w' r. verify_request env r w = (Inr e, w') \<Longrightarrow> truthy (pe_allowed e) \<Longrightarrow> P (PlaceOrder r)"
    and "\<And>i. P (CancelOrder i)"
  shows "only_calls P s (run_op env op' s)"
proof -
  have submit: "keeps (only_calls P) (session_submit env (session_poll env) r)" for r
    by (rule oc_submit) (rule assms(1))
  have cancel: "keeps (only_calls P) (session_cancel env (session_poll env))"
    by (rule oc_cancel) (rule assms(2))
  have result: "only_calls P s (snd (m s))" if "keeps (only_calls P) m" for m :: "('a, 'b) session_act"
    using that by (cases "m s") (auto simp: keeps_def)
  have next_cycle: "keeps (only_calls P) (session_next_cycle env)"
    unfolding session_next_cycle_def by (intro oc_basic oc_require_open oc_snapshot)
  have rec: "keeps (only_calls P) (session_reconcile env (session_poll env))"
    unfolding session_reconcile_def by (intro oc_basic oc_require_open oc_recover_unknown oc_snapshot oc_poll)
  have close: "keeps (only_calls P) (session_close env)"
    unfolding session_close_def by (intro oc_basic oc_modify) simp_all
  show ?thesis
    using result [OF oc_open] result [OF submit] result [OF oc_poll] result [OF rec]
      result [OF cancel] result [OF next_cycle] result [OF close]
    by (cases op') (simp_all add: run_op_def only_calls_def new_session_def)
qed

lemma only_calls_run_ops:
  assumes "\<And>w e w' r. verify_request env r w = (Inr e, w') \<Longrightarrow> truthy (pe_allowed e) \<Longrightarrow> P (PlaceOrder r)"
    and "\<And>i. P (CancelOrder i)"
  shows "only_calls P s (run_ops env ops s)"
proof (induction ops arbitrary: s)
  case Nil
  then show ?case by (simp add: run_ops_def oc.R_refl)
next
  case (Cons op' ops)
  have "only_calls P s (run_op env op' s)" by (rule oc_run_op) (rule assms, assumption+, rule assms(2))
  from oc.R_trans [OF this Cons] show ?case by (simp add: run_ops_def)
qed

end
