(* ===== verification/Guarded_Session.thy ===== *)
theory Guarded_Session
  imports Execution_Guards Session_Properties Act_Evaluation
begin

text \<open>
  The properties of the limits of \<open>guards.py\<close>, alone and in front of a session.
\<close>

section \<open>A concrete session behind limits\<close>

definition example_limits :: ExecutionLimits where
  "example_limits = \<lparr>allowlist = [''600000.SH''], max_order_qty = 1000, max_order_notional = PyInt 5000\<rparr>"

definition limited_env :: "unit guarded session_env" where
  "limited_env =
     \<lparr>execution_id = ''default'', now = returnM ''2024-01-01'', read_file = returnM (),
      make_parent = returnM (), write_temporary = returnM (), os_replace = (\<lambda>w. (Replaced, w)),
      sleep = returnM (), remove_temporary = returnM (),
      mutex = \<lparr>timeout_seconds = Finite 0, poll_seconds = Finite (1 / 4), make_lock_parent = returnM (),
        open_lock_file = returnM (), monotonic = returnM (Finite 0), try_lock = returnM (),
        sleep_for = (\<lambda>_. returnM ()), write_owner = returnM (), unlock = returnM (),
        close_handle = returnM ()\<rparr>,
      lock_fuel = 1, sha256 = (\<lambda>_. zero_digest), source_files = (\<lambda>_ _. Some ''x''),
      package_dir = ''/pkg'', py_repr = (\<lambda>_. ''''),
      place_order = (\<lambda>_. returnM (PyInt 7)), cancel_order = (\<lambda>_. returnM CR_ACCEPTED),
      query_order = (\<lambda>_. returnM (example_order B_ACCEPTED)), query_orders = returnM [],
      execution_healthy = returnM True, verify_session = limit_verify_session (returnM ready_evidence),
      verify_request = limit_verify example_limits (\<lambda>_. returnM allowed_evidence),
      before_submit_coordination = (\<lambda>_. returnM ()), before_broker_submit = (\<lambda>_. returnM ()),
      before_broker_cancel = (\<lambda>_. returnM ())\<rparr>"

definition limited_state :: "unit guarded session_state" where
  "limited_state =
     \<lparr>world = \<lparr>inner_world = (), kill_switch = False\<rparr>, disk = disk ready_state,
      payload = payload ready_state, machine = machine ready_state, is_open = True, is_closed = False,
      owned = True, trace = []\<rparr>"

lemmas limit_verify_at [code] = fun_cong [OF limit_verify_def]
lemmas on_inner_at [code] = fun_cong [OF on_inner_def]

lemma limited_submit:
  "map fst (trace (run_ops limited_env [Submit example_request] limited_state)) = [PlaceOrder example_request]"
  by code_simp

section \<open>Properties\<close>

text \<open>
  \<open>LimitExecutionGuard.verify\<close> asks the project's guard exactly when the kill switch is off
  and the request is within the limits, and hands its answer on; otherwise the project's guard is
  not called, nothing changes, and the evidence is a valid rejection, or the notional cannot be
  computed and the conversion raises.
\<close>

theorem limit_verify_characterised:
  "if \<not> kill_switch w \<and> within_limits limits request
   then limit_verify limits inner request w
          = (fst (inner request (inner_world w)), w\<lparr>inner_world := snd (inner request (inner_world w))\<rparr>)
   else snd (limit_verify limits inner request w) = w
        \<and> (case fst (limit_verify limits inner request w) of
             Inr evidence \<Rightarrow> PrecheckEvidence_validate evidence = Inr () \<and> \<not> truthy (pe_allowed evidence)
           | Inl e \<Rightarrow> \<not> isOk (bindR (py_float (limit_price request)) (int_mul_float (qty request))))"
  by (auto simp: limit_verify_def within_limits_def bindM_def getM_def liftR_def returnM_def on_inner_def
      bindR_eq_Inr bindR_eq_Inl rejected_valid isOk_iff split: sum.splits prod.splits)

text \<open>
  C31: behind \<open>LimitExecutionGuard\<close> no order outside the limits reaches the broker: whatever
  operations a session runs, with any failures and restarts and any project guard, every request
  that \<open>place_order\<close> is called with is on the allowlist and within the quantity and the notional
  limit.
\<close>

theorem guarded_session_places_within_limits:
  assumes "verify_request env = limit_verify limits inner" and "trace s = []"
    and "PlaceOrder r \<in> fst ` set (trace (run_ops env ops s))"
  shows "within_limits limits r"
proof -
  let ?P = "\<lambda>c. case c of PlaceOrder r \<Rightarrow> within_limits limits r | CancelOrder i \<Rightarrow> True"
  have "only_calls ?P s (run_ops env ops s)"
    by (rule only_calls_run_ops) (use assms(1) limit_verify_allowed(1) in auto)
  then show ?thesis using assms(2,3) by (force simp: only_calls_def)
qed

theorem guarded_session_places_within_limits_witness:
  "PlaceOrder example_request \<in> fst ` set (trace (run_ops limited_env [Submit example_request] limited_state))
   \<and> within_limits example_limits example_request"
proof -
  have placed: "PlaceOrder example_request
      \<in> fst ` set (trace (run_ops limited_env [Submit example_request] limited_state))"
    unfolding set_map [symmetric] limited_submit by simp
  have "verify_request limited_env = limit_verify example_limits (\<lambda>_. returnM allowed_evidence)"
    "trace limited_state = []"
    by (simp_all add: limited_env_def limited_state_def)
  from guarded_session_places_within_limits [OF this placed] placed show ?thesis by simp
qed

end
