(* ===== verification/Event_Queue.thy ===== *)
theory Event_Queue
  imports Py_Runtime "HOL-Library.Sublist"
begin

text \<open>
  \<open>event_queue.py\<close>: the bounded queue between the broker's callback threads and the one thread
  that handles their events.  Every part of a method that runs under the lock, and every operation
  of the underlying \<open>queue.Queue\<close>, is one atomic function on the state; the step relation
  interleaves any number of threads inside the methods.
\<close>

section \<open>State\<close>

datatype EventQueueState = Q_NEW | Q_RUNNING | Q_STOPPED | Q_FAILED

fun EventQueueState_value :: "EventQueueState \<Rightarrow> string" where
  "EventQueueState_value Q_NEW = ''new''"
| "EventQueueState_value Q_RUNNING = ''running''"
| "EventQueueState_value Q_STOPPED = ''stopped''"
| "EventQueueState_value Q_FAILED = ''failed''"

datatype 'e item = Event 'e | Stop

text \<open>
  Where the consumer's thread is in \<open>_run\<close>: waiting in \<open>get\<close>, in the handler, before \<open>_fail\<close>
  after the handler raised, before the test at the end of the loop, or at its end.
\<close>

datatype 'e consumer = NoThread | Getting | Handling "'e item" | Raised exn | Looping | Ended

text \<open>
  The threads inside \<open>try_emit\<close> after its test (\<open>putting\<close>, with their events) and between the
  overflow and \<open>_fail\<close> (\<open>failing\<close>), and those inside \<open>stop\<close> before its \<open>put_nowait\<close>
  (\<open>stopping\<close>).  Ghost fields: the events that \<open>put_nowait\<close> took, that the consumer took, that
  the handler finished, and that overflowed, in their order.
\<close>

record 'e event_queue =
  q_state :: EventQueueState
  q_failure :: "exn option"
  q_items :: "'e item list"
  q_consumer :: "'e consumer"
  putting :: "'e list"
  failing :: nat
  stopping :: nat
  accepted :: "'e list"
  taken :: "'e list"
  handled :: "'e list"
  overflowed :: "'e list"

definition new_event_queue :: "'e event_queue" where
  "new_event_queue =
     \<lparr>q_state = Q_NEW, q_failure = None, q_items = [], q_consumer = NoThread, putting = [], failing = 0,
      stopping = 0, accepted = [], taken = [], handled = [], overflowed = []\<rparr>"

text \<open>The constructor's checks; the result is the bound of the queue.\<close>

definition queue_size :: "bool \<Rightarrow> pyval \<Rightarrow> nat pyres" where
  "queue_size handler_callable maxsize =
     bindR (raise_if (\<not> handler_callable) (Exn TypeError ''handler must be callable'')) (\<lambda>_.
     case maxsize of
       PyInt n \<Rightarrow> if 0 < n then Inr (nat n) else Inl (Exn ValueError ''maxsize must be a positive plain int'')
     | _ \<Rightarrow> Inl (Exn ValueError ''maxsize must be a positive plain int''))"

definition queue_healthy :: "'e event_queue \<Rightarrow> bool" where
  "queue_healthy q = (q_state q = Q_RUNNING)"

section \<open>Operations\<close>

definition queue_fail :: "exn \<Rightarrow> 'e event_queue \<Rightarrow> 'e event_queue" where
  "queue_fail e q = q\<lparr>q_failure := Some e, q_state := Q_FAILED\<rparr>"

text \<open>\<open>thread_starts\<close>: the system could create the thread; otherwise \<open>Thread.start\<close> raises.\<close>

definition queue_start :: "bool \<Rightarrow> 'e event_queue \<Rightarrow> unit pyres \<times> 'e event_queue" where
  "queue_start thread_starts q =
     (if q_state q = Q_RUNNING then (Inr (), q)
      else if q_state q \<noteq> Q_NEW then
        (Inl (Exn EventQueueUnhealthy
           (''event queue cannot start from '' @ EventQueueState_value (q_state q))), q)
      else if thread_starts then (Inr (), q\<lparr>q_state := Q_RUNNING, q_consumer := Getting\<rparr>)
      else (Inl (Exn RuntimeError ''thread''), q\<lparr>q_state := Q_RUNNING\<rparr>))"

text \<open>\<open>try_emit\<close>: the test under the lock, the \<open>put_nowait\<close> outside it, and \<open>_fail\<close>.\<close>

definition emit_check :: "'e \<Rightarrow> 'e event_queue \<Rightarrow> bool \<times> 'e event_queue" where
  "emit_check e q =
     (if q_state q \<noteq> Q_RUNNING then (False, q) else (True, q\<lparr>putting := e # putting q\<rparr>))"

definition emit_put :: "nat \<Rightarrow> 'e \<Rightarrow> 'e event_queue \<Rightarrow> bool \<times> 'e event_queue" where
  "emit_put maxsize e q =
     (let q = q\<lparr>putting := remove1 e (putting q)\<rparr> in
      if length (q_items q) < maxsize
      then (True, q\<lparr>q_items := q_items q @ [Event e], accepted := accepted q @ [e]\<rparr>)
      else (False, q\<lparr>failing := failing q + 1, overflowed := overflowed q @ [e]\<rparr>))"

definition emit_fail :: "'e event_queue \<Rightarrow> 'e event_queue" where
  "emit_fail q =
     (queue_fail (Exn EventQueueUnhealthy ''event queue overflow'') q)\<lparr>failing := failing q - 1\<rparr>"

text \<open>What \<open>emit\<close> makes of the result of \<open>try_emit\<close>.\<close>

definition emit_result :: "bool \<Rightarrow> unit pyres" where
  "emit_result ok = raise_if (\<not> ok) (Exn EventQueueUnhealthy ''event queue is not accepting events'')"

definition stop_check :: "'e event_queue \<Rightarrow> 'e event_queue" where
  "stop_check q =
     (if q_state q = Q_NEW then q\<lparr>q_state := Q_STOPPED\<rparr>
      else if q_state q \<in> {Q_STOPPED, Q_FAILED} then q
      else q\<lparr>q_state := Q_STOPPED, stopping := stopping q + 1\<rparr>)"

definition stop_put :: "nat \<Rightarrow> 'e event_queue \<Rightarrow> 'e event_queue" where
  "stop_put maxsize q =
     (let q = q\<lparr>stopping := stopping q - 1\<rparr> in
      if length (q_items q) < maxsize then q\<lparr>q_items := q_items q @ [Stop]\<rparr> else q)"

text \<open>
  The consumer's next step, \<open>None\<close> while it waits, has not started or has ended.  The handler may
  raise, depending on what it has handled before.
\<close>

definition consumer_step :: "('e list \<Rightarrow> 'e \<Rightarrow> exn option) \<Rightarrow> 'e event_queue \<Rightarrow> 'e event_queue option" where
  "consumer_step handler q =
     (case q_consumer q of
        NoThread \<Rightarrow> None
      | Ended \<Rightarrow> None
      | Getting \<Rightarrow>
          (case q_items q of
             [] \<Rightarrow> None
           | item # rest \<Rightarrow> Some (q\<lparr>q_items := rest, q_consumer := Handling item,
               taken := taken q @ (case item of Event e \<Rightarrow> [e] | Stop \<Rightarrow> [])\<rparr>))
      | Handling item \<Rightarrow>
          (case item of
             Stop \<Rightarrow> Some (q\<lparr>q_consumer := Ended\<rparr>)
           | Event e \<Rightarrow>
               (case handler (handled q) e of
                  Some x \<Rightarrow> Some (q\<lparr>q_consumer := Raised x\<rparr>)
                | None \<Rightarrow> Some (q\<lparr>q_consumer := Looping, handled := handled q @ [e]\<rparr>)))
      | Raised x \<Rightarrow> Some ((queue_fail x q)\<lparr>q_consumer := Ended\<rparr>)
      | Looping \<Rightarrow>
          Some (q\<lparr>q_consumer := (if q_state q = Q_STOPPED \<and> q_items q = [] then Ended else Getting)\<rparr>))"


section \<open>Interleavings\<close>

inductive queue_step ::
  "nat \<Rightarrow> ('e list \<Rightarrow> 'e \<Rightarrow> exn option) \<Rightarrow> 'e event_queue \<Rightarrow> 'e event_queue \<Rightarrow> bool"
  for maxsize handler where
  start: "queue_step maxsize handler q (snd (queue_start ok q))"
| check: "queue_step maxsize handler q (snd (emit_check e q))"
| put: "e \<in> set (putting q) \<Longrightarrow> queue_step maxsize handler q (snd (emit_put maxsize e q))"
| overflow: "0 < failing q \<Longrightarrow> queue_step maxsize handler q (emit_fail q)"
| stop: "queue_step maxsize handler q (stop_check q)"
| stop_item: "0 < stopping q \<Longrightarrow> queue_step maxsize handler q (stop_put maxsize q)"
| consume: "consumer_step handler q = Some q' \<Longrightarrow> queue_step maxsize handler q q'"

inductive_cases queue_stepE: "queue_step maxsize handler q q'"

inductive queue_reachable ::
  "nat \<Rightarrow> ('e list \<Rightarrow> 'e \<Rightarrow> exn option) \<Rightarrow> 'e event_queue \<Rightarrow> bool"
  for maxsize handler where
  new: "queue_reachable maxsize handler new_event_queue"
| step: "queue_reachable maxsize handler q \<Longrightarrow> queue_step maxsize handler q q'
    \<Longrightarrow> queue_reachable maxsize handler q'"

lemmas queue_defs = queue_start_def emit_check_def emit_put_def emit_fail_def queue_fail_def
  stop_check_def stop_put_def consumer_step_def Let_def

section \<open>The invariant\<close>

definition item_events :: "'e item list \<Rightarrow> 'e list" where
  "item_events items = concat (map (\<lambda>i. case i of Event e \<Rightarrow> [e] | Stop \<Rightarrow> []) items)"

lemma item_events_simps [simp]:
  "item_events [] = []" "item_events (Event e # items) = e # item_events items"
  "item_events (Stop # items) = item_events items"
  "item_events (items @ items') = item_events items @ item_events items'"
  by (simp_all add: item_events_def)

text \<open>The event that was taken and not handled: the one in the handler, or the one that raised.\<close>

definition in_flight :: "'e event_queue \<Rightarrow> 'e list \<Rightarrow> bool" where
  "in_flight q es =
     (case q_consumer q of
        Handling (Event e) \<Rightarrow> es = [e]
      | Raised x \<Rightarrow> length es = 1
      | Ended \<Rightarrow> es = [] \<or> length es = 1 \<and> q_state q = Q_FAILED
      | _ \<Rightarrow> es = [])"

definition queue_inv :: "nat \<Rightarrow> 'e event_queue \<Rightarrow> bool" where
  "queue_inv maxsize q \<longleftrightarrow>
     length (q_items q) \<le> maxsize
     \<and> accepted q = taken q @ item_events (q_items q)
     \<and> (\<exists>es. in_flight q es \<and> taken q = handled q @ es)
     \<and> (overflowed q \<noteq> [] \<longrightarrow> q_state q = Q_FAILED \<or> 0 < failing q)
     \<and> (q_state q = Q_STOPPED \<and> q_consumer q = Getting \<longrightarrow> q_items q \<noteq> [] \<or> 0 < stopping q)
     \<and> (q_failure q \<noteq> None \<longleftrightarrow> q_state q = Q_FAILED)
     \<and> (q_state q = Q_NEW \<longrightarrow> q_consumer q = NoThread)"

lemma queue_inv_new: "queue_inv maxsize new_event_queue"
  by (simp add: queue_inv_def new_event_queue_def in_flight_def)

lemma in_flight_frame:
  "q_consumer q' = q_consumer q \<Longrightarrow> q_state q' = q_state q \<or> q_state q' = Q_FAILED \<or> q_state q \<noteq> Q_FAILED
    \<Longrightarrow> in_flight q es \<Longrightarrow> in_flight q' es"
  by (auto simp: in_flight_def split: consumer.splits item.splits)

lemma in_flight_simps:
  "q_consumer q = Getting \<Longrightarrow> in_flight q es \<longleftrightarrow> es = []"
  "q_consumer q = Looping \<Longrightarrow> in_flight q es \<longleftrightarrow> es = []"
  "q_consumer q = NoThread \<Longrightarrow> in_flight q es \<longleftrightarrow> es = []"
  "q_consumer q = Handling Stop \<Longrightarrow> in_flight q es \<longleftrightarrow> es = []"
  "q_consumer q = Handling (Event e) \<Longrightarrow> in_flight q es \<longleftrightarrow> es = [e]"
  "q_consumer q = Raised x \<Longrightarrow> in_flight q es \<longleftrightarrow> length es = 1"
  "q_consumer q = Ended \<Longrightarrow> in_flight q es \<longleftrightarrow> es = [] \<or> length es = 1 \<and> q_state q = Q_FAILED"
  by (simp_all add: in_flight_def)

lemma queue_inv_consumer:
  assumes inv: "queue_inv maxsize q" and step: "consumer_step handler q = Some q'"
  shows "queue_inv maxsize q'"
proof -
  obtain es where es: "in_flight q es" "taken q = handled q @ es" using inv by (auto simp: queue_inv_def)
  show ?thesis
  proof (cases "q_consumer q")
    case Getting
    then obtain item rest where item: "q_items q = item # rest"
      using step by (auto simp: consumer_step_def split: list.splits)
    show ?thesis using inv step es Getting
      by (cases item) (simp_all add: item queue_inv_def consumer_step_def in_flight_simps, auto simp: in_flight_simps)
  next
    case (Handling item)
    show ?thesis
    proof (cases item)
      case (Event e)
      show ?thesis using inv step es Handling
        by (cases "handler (handled q) e")
          (simp_all add: Event queue_inv_def consumer_step_def in_flight_simps, auto simp: in_flight_simps)
    next
      case Stop
      then show ?thesis using inv step es Handling
        by (simp add: queue_inv_def consumer_step_def in_flight_simps) (auto simp: in_flight_simps)
    qed
  next
    case (Raised x)
    then show ?thesis using inv step es
      by (simp add: queue_inv_def consumer_step_def in_flight_simps queue_fail_def) (auto simp: in_flight_simps)
  next
    case Looping
    then show ?thesis using inv step es
      by (simp add: queue_inv_def consumer_step_def in_flight_simps split: if_splits) (auto simp: in_flight_simps)
  qed (use step in \<open>simp_all add: consumer_step_def\<close>)
qed

lemma queue_inv_frame:
  assumes "queue_inv maxsize q" and "q_consumer q' = q_consumer q" and "taken q' = taken q"
    and "handled q' = handled q" and "q_state q' = q_state q \<or> q_state q' = Q_FAILED \<or> q_state q \<noteq> Q_FAILED"
    and "length (q_items q') \<le> maxsize"
    and "accepted q' = taken q' @ item_events (q_items q')"
    and "overflowed q' \<noteq> [] \<longrightarrow> q_state q' = Q_FAILED \<or> 0 < failing q'"
    and "q_state q' = Q_STOPPED \<and> q_consumer q' = Getting \<longrightarrow> q_items q' \<noteq> [] \<or> 0 < stopping q'"
    and "q_failure q' \<noteq> None \<longleftrightarrow> q_state q' = Q_FAILED"
    and "q_state q' = Q_NEW \<longrightarrow> q_consumer q' = NoThread"
  shows "queue_inv maxsize q'"
  using assms in_flight_frame [OF assms(2,5)] unfolding queue_inv_def by metis

lemma queue_inv_step:
  assumes "queue_step maxsize handler q q'" and "0 < maxsize" and inv: "queue_inv maxsize q"
  shows "queue_inv maxsize q'"
  using assms(1)
proof (cases rule: queue_step.cases)
  case (start ok)
  show ?thesis
  proof (cases "q_state q = Q_NEW \<and> ok")
    case True
    then show ?thesis using inv
      by (auto simp: start queue_start_def queue_inv_def in_flight_simps)
  next
    case False
    show ?thesis unfolding start
      by (rule queue_inv_frame [OF inv]) (use inv False in \<open>auto simp: queue_start_def queue_inv_def\<close>)
  qed
next
  case (check e)
  show ?thesis unfolding check
    by (rule queue_inv_frame [OF inv]) (use inv in \<open>auto simp: emit_check_def queue_inv_def\<close>)
next
  case (put e)
  show ?thesis unfolding put
    by (rule queue_inv_frame [OF inv]) (use inv in \<open>auto simp: emit_put_def queue_inv_def Let_def\<close>)
next
  case overflow
  show ?thesis unfolding overflow
    by (rule queue_inv_frame [OF inv]) (use inv in \<open>auto simp: emit_fail_def queue_fail_def queue_inv_def\<close>)
next
  case stop
  show ?thesis unfolding stop
    by (rule queue_inv_frame [OF inv]) (use inv in \<open>auto simp: stop_check_def queue_inv_def\<close>)
next
  case stop_item
  show ?thesis unfolding stop_item
    by (rule queue_inv_frame [OF inv]) (use inv assms(2) in \<open>auto simp: stop_put_def queue_inv_def Let_def\<close>)
next
  case consume
  then show ?thesis by (rule queue_inv_consumer [OF inv])
qed

lemma queue_reachable_inv:
  "queue_reachable maxsize handler q \<Longrightarrow> 0 < maxsize \<Longrightarrow> queue_inv maxsize q"
  by (induction rule: queue_reachable.induct) (auto intro: queue_inv_new queue_inv_step)

text \<open>The state only moves forward.\<close>

fun state_rank :: "EventQueueState \<Rightarrow> nat" where
  "state_rank Q_NEW = 0"
| "state_rank Q_RUNNING = 1"
| "state_rank Q_STOPPED = 2"
| "state_rank Q_FAILED = 3"

lemma state_rank_consumer:
  "consumer_step handler q = Some q' \<Longrightarrow> q_state q' = q_state q \<or> q_state q' = Q_FAILED"
  by (auto simp: consumer_step_def queue_fail_def
      split: consumer.split_asm list.split_asm item.split_asm option.split_asm)

lemma state_rank_step:
  assumes "queue_step maxsize handler q q'"
  shows "state_rank (q_state q) \<le> state_rank (q_state q')"
  using assms
proof (cases rule: queue_step.cases)
  case consume
  then show ?thesis using state_rank_consumer by (cases "q_state q") fastforce+
qed (cases "q_state q"; simp add: queue_start_def emit_check_def emit_put_def emit_fail_def queue_fail_def
    stop_check_def stop_put_def Let_def)+



section \<open>The consumer ends after a stop\<close>

primrec consumer_iter :: "('e list \<Rightarrow> 'e \<Rightarrow> exn option) \<Rightarrow> nat \<Rightarrow> 'e event_queue \<Rightarrow> 'e event_queue" where
  "consumer_iter handler 0 q = q"
| "consumer_iter handler (Suc n) q =
     (case consumer_step handler q of None \<Rightarrow> q | Some q' \<Rightarrow> consumer_iter handler n q')"

fun consumer_work :: "'e consumer \<Rightarrow> nat" where
  "consumer_work (Handling item) = 2"
| "consumer_work (Raised x) = 1"
| "consumer_work Looping = 1"
| "consumer_work _ = 0"

definition queue_work :: "'e event_queue \<Rightarrow> nat" where
  "queue_work q = 3 * length (q_items q) + consumer_work (q_consumer q)"

lemma consumer_iter_ended: "q_consumer q = Ended \<Longrightarrow> consumer_iter handler n q = q"
  by (cases n) (simp_all add: consumer_step_def)

lemma consumer_step_stopped:
  assumes "queue_inv maxsize q" and "q_state q = Q_STOPPED" and "stopping q = 0"
    and "q_consumer q \<notin> {NoThread, Ended}"
  shows "\<exists>q'. consumer_step handler q = Some q' \<and> queue_inv maxsize q' \<and> queue_work q' < queue_work q
    \<and> (q_consumer q' = Ended \<or> q_state q' = Q_STOPPED \<and> stopping q' = 0 \<and> q_consumer q' \<noteq> NoThread)"
proof -
  have "\<exists>q'. consumer_step handler q = Some q' \<and> queue_work q' < queue_work q
    \<and> (q_consumer q' = Ended \<or> q_state q' = Q_STOPPED \<and> stopping q' = 0 \<and> q_consumer q' \<noteq> NoThread)"
  proof (cases "q_consumer q")
    case Getting
    then obtain item rest where "q_items q = item # rest"
      using assms by (cases "q_items q") (auto simp: queue_inv_def)
    then show ?thesis using Getting assms by (simp add: consumer_step_def queue_work_def)
  next
    case (Handling item)
    then show ?thesis using assms
      by (cases item) (simp_all add: consumer_step_def queue_work_def split: option.split)
  qed (use assms in \<open>simp_all add: consumer_step_def queue_work_def queue_fail_def\<close>)
  then show ?thesis using queue_inv_consumer [OF assms(1)] by blast
qed

text \<open>
  What the handler will have finished when the consumer ends: what was taken, and the events that are
  in the queue ahead of the stop item.
\<close>

definition drained :: "'e event_queue \<Rightarrow> 'e list" where
  "drained q =
     (if q_consumer q = Ended \<or> q_consumer q = Handling Stop then taken q
      else taken q @ item_events (takeWhile (\<lambda>i. i \<noteq> Stop) (q_items q)))"

lemma drained_step:
  "consumer_step handler q = Some q' \<Longrightarrow> q_state q' \<noteq> Q_FAILED \<Longrightarrow> drained q' = drained q"
  by (auto simp: consumer_step_def drained_def queue_fail_def
      split: consumer.splits item.splits list.splits option.splits if_splits)

lemma consumer_iter_drains:
  "q_state (consumer_iter handler n q) \<noteq> Q_FAILED \<Longrightarrow> drained (consumer_iter handler n q) = drained q"
proof (induction n arbitrary: q)
  case (Suc n)
  show ?case
  proof (cases "consumer_step handler q")
    case (Some q')
    have "q_state q' \<noteq> Q_FAILED"
    proof
      assume failed: "q_state q' = Q_FAILED"
      have "q_state (consumer_iter handler n q') = Q_FAILED" using failed
        by (induction n arbitrary: q') (auto split: option.split dest: state_rank_consumer)
      with Suc.prems Some show False by simp
    qed
    then show ?thesis using Suc Some drained_step by simp
  qed simp
qed simp

lemma ended_drained:
  "queue_inv maxsize q \<Longrightarrow> q_consumer q = Ended \<Longrightarrow> q_state q \<noteq> Q_FAILED \<Longrightarrow> handled q = drained q"
  by (auto simp: queue_inv_def in_flight_simps drained_def)

lemma consumer_iter_inv: "queue_inv maxsize q \<Longrightarrow> queue_inv maxsize (consumer_iter handler n q)"
  by (induction n arbitrary: q) (auto split: option.split dest: queue_inv_consumer)

lemma consumer_ends:
  "queue_inv maxsize q \<Longrightarrow> q_state q = Q_STOPPED \<and> stopping q = 0 \<and> q_consumer q \<noteq> NoThread
    \<Longrightarrow> queue_work q \<le> n \<Longrightarrow> q_consumer (consumer_iter handler n q) = Ended"
proof (induction n arbitrary: q)
  case 0
  show ?case
  proof (rule ccontr)
    assume "\<not> ?case"
    then show False using consumer_step_stopped [of maxsize q handler] 0 by auto
  qed
next
  case (Suc n)
  show ?case
  proof (cases "q_consumer q = Ended")
    case True
    then show ?thesis by (simp add: consumer_step_def)
  next
    case False
    then obtain q' where q': "consumer_step handler q = Some q'" "queue_inv maxsize q'"
      "queue_work q' < queue_work q"
      "q_consumer q' = Ended \<or> q_state q' = Q_STOPPED \<and> stopping q' = 0 \<and> q_consumer q' \<noteq> NoThread"
      using consumer_step_stopped [of maxsize q handler] Suc.prems by auto
    show ?thesis
    proof (cases "q_consumer q' = Ended")
      case True
      then show ?thesis by (simp add: q'(1) consumer_iter_ended)
    next
      case False
      with q' Suc.prems show ?thesis by (simp add: q'(1) Suc.IH [OF q'(2)])
    qed
  qed
qed


section \<open>Two runs\<close>

lemma reachable_steps:
  "queue_reachable maxsize handler q \<Longrightarrow> queue_reachable maxsize handler (snd (queue_start ok q))"
  "queue_reachable maxsize handler q \<Longrightarrow> queue_reachable maxsize handler (snd (emit_check e q))"
  "queue_reachable maxsize handler q \<Longrightarrow> e \<in> set (putting q)
    \<Longrightarrow> queue_reachable maxsize handler (snd (emit_put maxsize e q))"
  "queue_reachable maxsize handler q \<Longrightarrow> 0 < failing q \<Longrightarrow> queue_reachable maxsize handler (emit_fail q)"
  "queue_reachable maxsize handler q \<Longrightarrow> queue_reachable maxsize handler (stop_check q)"
  "queue_reachable maxsize handler q \<Longrightarrow> 0 < stopping q \<Longrightarrow> queue_reachable maxsize handler (stop_put maxsize q)"
  "queue_reachable maxsize handler q \<Longrightarrow> queue_reachable maxsize handler (consumer_iter handler n q)"
proof -
  show "queue_reachable maxsize handler q \<Longrightarrow> queue_reachable maxsize handler (consumer_iter handler n q)"
    by (induction n arbitrary: q) (auto split: option.split intro: queue_reachable.step queue_step.consume)
qed (auto intro: queue_reachable.step queue_step.intros)

text \<open>An event for which \<open>try_emit\<close> returns true while \<open>stop\<close> runs: it is never handled.\<close>

definition lost_run :: "nat event_queue" where
  "lost_run =
     (let q = snd (emit_check 7 (snd (queue_start True new_event_queue))) in
      snd (emit_put 4 7 (consumer_iter (\<lambda>_ _. None) 9 (stop_put 4 (stop_check q)))))"

lemma accepted_event_can_be_lost:
  "queue_reachable 4 (\<lambda>_ _. None) lost_run
   \<and> 7 \<in> set (accepted lost_run) \<and> 7 \<notin> set (taken lost_run) \<and> q_consumer lost_run = Ended
   \<and> q_state lost_run = Q_STOPPED"
proof (intro conjI)
  show "queue_reachable 4 (\<lambda>_ _. None) lost_run"
    unfolding lost_run_def Let_def
    by (intro reachable_steps queue_reachable.new) (simp_all add: queue_defs new_event_queue_def numeral_eq_Suc)
qed (simp_all add: lost_run_def queue_defs new_event_queue_def numeral_eq_Suc)

text \<open>After an overflow the consumer waits for ever: \<open>stop\<close> does not reach it any more.\<close>

definition stuck :: "'e event_queue \<Rightarrow> bool" where
  "stuck q \<longleftrightarrow> q_state q = Q_FAILED \<and> q_consumer q = Getting \<and> q_items q = [] \<and> putting q = [] \<and> stopping q = 0"

lemma stuck_step: "queue_step maxsize handler q q' \<Longrightarrow> stuck q \<Longrightarrow> stuck q'"
  by (cases rule: queue_step.cases, assumption) (auto simp: stuck_def queue_defs)

definition overflow_run :: "nat event_queue" where
  "overflow_run =
     (let q = snd (emit_check 2 (snd (emit_check 1 (snd (queue_start True new_event_queue))))) in
      consumer_iter (\<lambda>_ _. None) 9 (emit_fail (snd (emit_put 1 2 (snd (emit_put 1 1 q))))))"

lemma overflow_leaves_consumer_waiting:
  "queue_reachable 1 (\<lambda>_ _. None) overflow_run
   \<and> (\<forall>q. (queue_step 1 (\<lambda>_ _. None))\<^sup>*\<^sup>* overflow_run q \<longrightarrow> q_consumer q = Getting)"
proof (intro conjI allI impI)
  show "queue_reachable 1 (\<lambda>_ _. None) overflow_run"
    unfolding overflow_run_def Let_def
    by (intro reachable_steps queue_reachable.new) (simp_all add: queue_defs new_event_queue_def numeral_eq_Suc)
  fix q assume "(queue_step 1 (\<lambda>_ _. None))\<^sup>*\<^sup>* overflow_run q"
  then have "stuck q"
  proof (induction rule: rtranclp_induct)
    case base
    show ?case by (simp add: overflow_run_def stuck_def queue_defs new_event_queue_def numeral_eq_Suc)
  next
    case (step q q')
    then show ?case using stuck_step by blast
  qed
  then show "q_consumer q = Getting" by (simp add: stuck_def)
qed


section \<open>Properties\<close>

text \<open>
  C32: the events are handled one at a time, each at most once and in the order in which the queue
  took them: whatever the threads do, what the handler has finished is a prefix of what the
  consumer took, at most one event ahead of it, what the consumer took is a prefix of what the
  queue accepted, the rest is still in the queue, and the queue never exceeds its bound.
\<close>

theorem event_queue_fifo:
  assumes "queue_reachable maxsize handler q" and "0 < maxsize"
  shows "accepted q = taken q @ item_events (q_items q) \<and> prefix (handled q) (taken q)
    \<and> length (taken q) \<le> length (handled q) + 1 \<and> length (q_items q) \<le> maxsize"
proof -
  obtain es where es: "in_flight q es" "taken q = handled q @ es"
    and inv: "accepted q = taken q @ item_events (q_items q)" "length (q_items q) \<le> maxsize"
    using queue_reachable_inv [OF assms] unfolding queue_inv_def by blast
  have "length es \<le> 1" using es(1) by (auto simp: in_flight_def split: consumer.splits item.splits)
  then show ?thesis using es(2) inv by simp
qed

definition working_run :: "nat event_queue" where
  "working_run =
     (let q = snd (emit_check 2 (snd (emit_check 1 (snd (queue_start True new_event_queue))))) in
      consumer_iter (\<lambda>_ _. None) 4 (snd (emit_put 2 2 (snd (emit_put 2 1 q)))))"

theorem event_queue_fifo_witness:
  "accepted working_run = [1, 2] \<and> handled working_run = [1] \<and> prefix (handled working_run) (taken working_run)
   \<and> taken working_run = [1, 2]"
proof -
  have "queue_reachable 2 (\<lambda>_ _. None) working_run"
    unfolding working_run_def Let_def
    by (intro reachable_steps queue_reachable.new) (simp_all add: queue_defs new_event_queue_def)
  moreover have "accepted working_run = [1, 2]" "handled working_run = [1]" "q_items working_run = []"
    by (simp_all add: working_run_def queue_defs new_event_queue_def numeral_eq_Suc)
  ultimately show ?thesis using event_queue_fifo [of 2 "\<lambda>_ _. None" working_run] by simp
qed

text \<open>
  The queue fails closed.  Once an event has overflowed and its thread has left \<open>try_emit\<close>, or
  the handler has raised and the consumer has recorded it, the queue is not healthy, and no
  sequence of steps makes it healthy again.
\<close>

theorem event_queue_fails_closed:
  assumes "queue_reachable maxsize handler q" and "0 < maxsize"
    and "overflowed q \<noteq> [] \<and> failing q = 0 \<or> q_failure q \<noteq> None"
    and "(queue_step maxsize handler)\<^sup>*\<^sup>* q q'"
  shows "\<not> queue_healthy q' \<and> (\<forall>e. fst (emit_check e q') = False)"
proof -
  have "q_state q = Q_FAILED" using queue_reachable_inv [OF assms(1,2)] assms(3) by (auto simp: queue_inv_def)
  with assms(4) have "state_rank (q_state q') \<ge> 3"
    by (induction rule: rtranclp_induct) (auto dest: state_rank_step)
  then have "q_state q' = Q_FAILED" by (cases "q_state q'") simp_all
  then show ?thesis by (simp add: queue_healthy_def emit_check_def)
qed

theorem event_queue_fails_closed_witness:
  "overflowed overflow_run = [2] \<and> \<not> queue_healthy overflow_run"
proof -
  have "overflowed overflow_run = [2]" "failing overflow_run = 0"
    by (simp_all add: overflow_run_def queue_defs new_event_queue_def numeral_eq_Suc)
  then show ?thesis
    using event_queue_fails_closed [of 1 "\<lambda>_ _. None" overflow_run overflow_run]
      overflow_leaves_consumer_waiting by simp
qed

text \<open>
  C33: a stop is answered.  When \<open>stop\<close> has returned on a queue that was started and did not fail, the
  consumer's thread ends after at most three steps for every item in the queue and two more, even if
  the queue was full and took no stop item; and unless the handler raised, which puts the queue into its
  failed state, it has then handled everything that it took and that was ahead of the stop item.
\<close>

theorem event_queue_stop_ends:
  assumes "queue_reachable maxsize handler q" and "0 < maxsize"
    and "q_state q = Q_STOPPED" and "stopping q = 0" and "q_consumer q \<noteq> NoThread"
  shows "let q' = consumer_iter handler (3 * length (q_items q) + 2) q in
    q_consumer q' = Ended \<and> (if q_state q' = Q_FAILED then q_failure q' \<noteq> None else handled q' = drained q)"
proof -
  let ?q' = "consumer_iter handler (3 * length (q_items q) + 2) q"
  have "queue_work q \<le> 3 * length (q_items q) + 2"
    by (cases "q_consumer q") (simp_all add: queue_work_def)
  with consumer_ends [OF queue_reachable_inv [OF assms(1,2)]] assms(3-)
  have ended: "q_consumer ?q' = Ended" by blast
  have inv: "queue_inv maxsize ?q'" by (rule consumer_iter_inv [OF queue_reachable_inv [OF assms(1,2)]])
  then have "q_state ?q' = Q_FAILED \<Longrightarrow> q_failure ?q' \<noteq> None" by (simp add: queue_inv_def)
  moreover have "q_state ?q' \<noteq> Q_FAILED \<Longrightarrow> handled ?q' = drained q"
    using ended_drained [OF inv ended] consumer_iter_drains by metis
  ultimately show ?thesis using ended by (simp add: Let_def del: consumer_iter.simps)
qed

definition stopped_run :: "nat event_queue" where
  "stopped_run =
     (let q = snd (emit_check 1 (snd (queue_start True new_event_queue))) in
      stop_put 1 (stop_check (snd (emit_put 1 1 q))))"

theorem event_queue_stop_ends_witness:
  "length (q_items stopped_run) = 1 \<and> q_consumer (consumer_iter (\<lambda>_ _. None) 5 stopped_run) = Ended
   \<and> handled (consumer_iter (\<lambda>_ _. None) 5 stopped_run) = [1]"
proof -
  have "queue_reachable 1 (\<lambda>_ _. None) stopped_run"
    unfolding stopped_run_def Let_def
    by (intro reachable_steps queue_reachable.new) (simp_all add: queue_defs new_event_queue_def)
  moreover have "q_state stopped_run = Q_STOPPED" "stopping stopped_run = 0"
    "q_consumer stopped_run \<noteq> NoThread" "length (q_items stopped_run) = 1"
    by (simp_all add: stopped_run_def queue_defs new_event_queue_def)
  moreover have "q_state (consumer_iter (\<lambda>_ _. None) 5 stopped_run) \<noteq> Q_FAILED" "drained stopped_run = [1]"
    by (simp_all add: stopped_run_def drained_def queue_defs new_event_queue_def numeral_eq_Suc)
  ultimately show ?thesis using event_queue_stop_ends [of 1 "\<lambda>_ _. None" stopped_run]
    by (simp add: Let_def del: consumer_iter.simps)
qed

end
