(* ===== verification/Qmt_Adapter.thy ===== *)
theory Qmt_Adapter
  imports Trade_Domain
begin

text \<open>
  \<open>miniqmt/status.py\<close> and \<open>miniqmt/adapter.py\<close>: the broker port on top of the trading library
  XtQuant.  The library's trader is a parameter: its calls act on a world, may raise and return
  values of any kind.
\<close>

section \<open>Order status\<close>

datatype QmtOrderStatus = UNREPORTED | WAIT_REPORTING | REPORTED | REPORTED_CANCEL | PARTSUCC_CANCEL
  | PART_CANCEL | CANCELED | PART_SUCC | SUCCEEDED | JUNK | QMT_UNKNOWN

fun QmtOrderStatus_value :: "QmtOrderStatus \<Rightarrow> int" where
  "QmtOrderStatus_value UNREPORTED = 48"
| "QmtOrderStatus_value WAIT_REPORTING = 49"
| "QmtOrderStatus_value REPORTED = 50"
| "QmtOrderStatus_value REPORTED_CANCEL = 51"
| "QmtOrderStatus_value PARTSUCC_CANCEL = 52"
| "QmtOrderStatus_value PART_CANCEL = 53"
| "QmtOrderStatus_value CANCELED = 54"
| "QmtOrderStatus_value PART_SUCC = 55"
| "QmtOrderStatus_value SUCCEEDED = 56"
| "QmtOrderStatus_value JUNK = 57"
| "QmtOrderStatus_value QMT_UNKNOWN = 255"

definition all_QmtOrderStatuses :: "QmtOrderStatus list" where
  "all_QmtOrderStatuses = [UNREPORTED, WAIT_REPORTING, REPORTED, REPORTED_CANCEL, PARTSUCC_CANCEL,
     PART_CANCEL, CANCELED, PART_SUCC, SUCCEEDED, JUNK, QMT_UNKNOWN]"

fun STATUS_MAP :: "QmtOrderStatus \<Rightarrow> BrokerOrderStatus" where
  "STATUS_MAP UNREPORTED = B_ACCEPTED"
| "STATUS_MAP WAIT_REPORTING = B_ACCEPTED"
| "STATUS_MAP REPORTED = B_WORKING"
| "STATUS_MAP REPORTED_CANCEL = B_CANCEL_PENDING"
| "STATUS_MAP PARTSUCC_CANCEL = B_CANCEL_PENDING"
| "STATUS_MAP PART_CANCEL = B_PARTIAL_CANCELLED"
| "STATUS_MAP CANCELED = B_CANCELLED"
| "STATUS_MAP PART_SUCC = B_PARTIALLY_FILLED"
| "STATUS_MAP SUCCEEDED = B_FILLED"
| "STATUS_MAP JUNK = B_REJECTED"
| "STATUS_MAP QMT_UNKNOWN = B_UNKNOWN"

definition normalize_qmt_order_status :: "pyval \<Rightarrow> BrokerOrderStatus" where
  "normalize_qmt_order_status raw =
     (case raw of
        PyInt n \<Rightarrow>
          (case find (\<lambda>s. QmtOrderStatus_value s = n) all_QmtOrderStatuses of
             None \<Rightarrow> B_UNKNOWN | Some s \<Rightarrow> STATUS_MAP s)
      | _ \<Rightarrow> B_UNKNOWN)"

section \<open>Objects of the library\<close>

text \<open>
  An object is known by its attributes; a value without attributes (\<open>None\<close>, a number) is the
  empty map.  A query returns \<open>None\<close>, a list or tuple of objects, or another object.
\<close>

type_synonym py_object = "string \<Rightarrow> pyval option"

datatype query_value = QNone | QList "py_object list" | QObject py_object

fun as_object :: "query_value \<Rightarrow> py_object" where
  "as_object (QObject x) = x"
| "as_object _ = Map.empty"

definition getattr :: "py_object \<Rightarrow> string \<Rightarrow> pyval pyres" where
  "getattr x name = (case x name of None \<Rightarrow> Inl (Exn AttributeError name) | Some v \<Rightarrow> Inr v)"

definition getattr_default :: "py_object \<Rightarrow> string \<Rightarrow> pyval \<Rightarrow> pyval" where
  "getattr_default x name d = (case x name of None \<Rightarrow> d | Some v \<Rightarrow> v)"

definition int_attr :: "py_object \<Rightarrow> string \<Rightarrow> int pyres" where
  "int_attr x name = bindR (getattr x name) py_int"

definition float_attr :: "py_object \<Rightarrow> string \<Rightarrow> pyfloat pyres" where
  "float_attr x name = bindR (getattr x name) py_float"

text \<open>\<open>str(getattr(raw, name))\<close> and \<open>str(getattr(raw, name, "") or "")\<close>\<close>

definition str_attr :: "(pyval \<Rightarrow> string) \<Rightarrow> py_object \<Rightarrow> string \<Rightarrow> string pyres" where
  "str_attr rp x name = bindR (getattr x name) (\<lambda>v. Inr (py_str rp v))"

definition text_attr :: "(pyval \<Rightarrow> string) \<Rightarrow> py_object \<Rightarrow> string \<Rightarrow> string" where
  "text_attr rp x name =
     (let v = getattr_default x name (PyStr '''') in if truthy v then py_str rp v else '''')"

text \<open>\<open>except (TypeError, ValueError, AttributeError)\<close> around a conversion.\<close>

definition malformed :: "string \<Rightarrow> 'a pyres \<Rightarrow> 'a pyres" where
  "malformed msg r =
     (case r of
        Inl e \<Rightarrow>
          if isinstance_exn e TypeError \<or> isinstance_exn e ValueError \<or> isinstance_exn e AttributeError
          then Inl (Exn BrokerQueryAmbiguous msg) else Inl e
      | Inr x \<Rightarrow> Inr x)"

section \<open>Configuration and state\<close>

record QmtOrderConfig =
  buy_order_type :: int
  sell_order_type :: int
  price_type :: int

definition mk_QmtOrderConfig :: "pyval \<Rightarrow> pyval \<Rightarrow> pyval \<Rightarrow> QmtOrderConfig pyres" where
  "mk_QmtOrderConfig buy sell price =
     bindR (check_fields is_int TypeError '' must be a plain int''
       [(''buy_order_type'', buy), (''sell_order_type'', sell), (''price_type'', price)]) (\<lambda>_.
     Inr \<lparr>buy_order_type = the_int buy, sell_order_type = the_int sell, price_type = the_int price\<rparr>)"

definition config_from_xtconstant :: "py_object \<Rightarrow> pyval \<Rightarrow> QmtOrderConfig pyres" where
  "config_from_xtconstant xtconstant price =
     (let buy = getattr_default xtconstant ''STOCK_BUY'' PyNone;
          sell = getattr_default xtconstant ''STOCK_SELL'' PyNone
      in if \<not> is_int buy \<or> \<not> is_int sell \<or> \<not> is_int price
         then Inl (Exn TypeError ''MiniQMT order constants must be plain ints'')
         else mk_QmtOrderConfig buy sell price)"

text \<open>
  The trader, the health probe and the order gate, and what the constructor stores.
  \<open>order_stock\<close> gets the symbol, the order type, the quantity, the price type, the price, the
  strategy's name and the remark.
\<close>

record 'w qmt_env =
  order_config :: QmtOrderConfig
  qmt_strategy_name :: string
  query_attempts :: nat
  order_stock :: "string \<Rightarrow> int \<Rightarrow> int \<Rightarrow> int \<Rightarrow> pyfloat \<Rightarrow> string \<Rightarrow> string \<Rightarrow> ('w, pyval) pyact"
  cancel_order_stock :: "int \<Rightarrow> ('w, pyval) pyact"
  query_stock_order :: "int \<Rightarrow> ('w, query_value) pyact"
  query_stock_orders :: "('w, query_value) pyact"
  query_stock_asset :: "('w, query_value) pyact"
  query_stock_positions :: "('w, query_value) pyact"
  query_stock_trades :: "('w, query_value) pyact"
  query_sleep :: "('w, unit) pyact"
  health_probe :: "('w, pyval) pyact option"
  order_gate :: "('w, pyval) pyact option"
  text_of :: "pyval \<Rightarrow> string"

record 'w adapter_state =
  broker_world :: 'w
  transport_connected :: bool
  recovery_ready :: bool

type_synonym ('w, 'a) adapter_act = "('w adapter_state, 'a) pyact"

definition on_broker :: "('w, 'a) pyact \<Rightarrow> ('w, 'a) adapter_act" where
  "on_broker m = (\<lambda>s. case m (broker_world s) of (r, w) \<Rightarrow> (r, s\<lparr>broker_world := w\<rparr>))"

text \<open>The constructor's checks and the state of the new adapter.\<close>

definition check_adapter :: "pyval \<Rightarrow> pyval \<Rightarrow> pyval \<Rightarrow> pyval \<Rightarrow> unit pyres" where
  "check_adapter strategy attempts conn ready =
     bindR (raise_if (\<not> nonempty_str strategy)
       (Exn ValueError ''strategy_name must be a non-empty string'')) (\<lambda>_.
     bindR (raise_if (\<not> pos_int attempts)
       (Exn ValueError ''query_attempts must be a positive plain int'')) (\<lambda>_.
     raise_if (\<not> is_bool conn \<or> \<not> is_bool ready)
       (Exn TypeError ''connection/recovery flags must be bool'')))"

definition new_adapter :: "'w \<Rightarrow> bool \<Rightarrow> bool \<Rightarrow> 'w adapter_state" where
  "new_adapter w conn ready =
     \<lparr>broker_world = w, transport_connected = conn, recovery_ready = ready\<rparr>"

section \<open>Health\<close>

definition mark_disconnected :: "('w, unit) adapter_act" where
  "mark_disconnected = modifyM (\<lambda>s. s\<lparr>transport_connected := False, recovery_ready := False\<rparr>)"

definition mark_transport_connected :: "('w, unit) adapter_act" where
  "mark_transport_connected = modifyM (\<lambda>s. s\<lparr>transport_connected := True, recovery_ready := False\<rparr>)"

definition mark_recovery_required :: "('w, unit) adapter_act" where
  "mark_recovery_required = modifyM (\<lambda>s. s\<lparr>recovery_ready := False\<rparr>)"

definition mark_recovery_complete :: "('w, unit) adapter_act" where
  "mark_recovery_complete =
     bindM (getM transport_connected) (\<lambda>conn.
     bindM (raiseM_if (\<not> conn)
       (Exn RuntimeError ''cannot complete recovery while transport is disconnected'')) (\<lambda>_.
     modifyM (\<lambda>s. s\<lparr>recovery_ready := True\<rparr>)))"

text \<open>A probe that is there must return \<open>True\<close> itself.\<close>

definition probe :: "('w, pyval) pyact option \<Rightarrow> ('w, bool) adapter_act" where
  "probe p =
     (case p of
        None \<Rightarrow> returnM True
      | Some m \<Rightarrow> bindM (on_broker m) (\<lambda>v. returnM (v = PyBool True)))"

definition adapter_healthy :: "'w qmt_env \<Rightarrow> ('w, bool) adapter_act" where
  "adapter_healthy env =
     bindM (getM (\<lambda>s. transport_connected s \<and> recovery_ready s)) (\<lambda>ready.
     if \<not> ready then returnM False
     else
       bindM (probe (health_probe env)) (\<lambda>healthy.
       if \<not> healthy then returnM False else probe (order_gate env)))"

section \<open>Orders\<close>

definition validate_qmt_remark :: "string \<Rightarrow> unit pyres" where
  "validate_qmt_remark remark =
     bindR (raise_if (list_ex (\<lambda>c. 128 \<le> (of_char c :: int)) remark)
       (Exn BrokerSubmissionRejected ''MiniQMT order_remark must be ASCII for deterministic identity'')) (\<lambda>_.
     raise_if (24 < length remark)
       (Exn BrokerSubmissionRejected ''MiniQMT order_remark exceeds 24 characters''))"

text \<open>What \<open>place_order\<close> makes of the value that the library returned.\<close>

definition submit_result :: "pyval \<Rightarrow> int pyres" where
  "submit_result result =
     (case result of
        PyInt n \<Rightarrow>
          if n = -1 then Inl (Exn BrokerSubmissionRejected ''MiniQMT definitively rejected submit'')
          else if n \<le> 0 then
            Inl (Exn BrokerSubmissionAmbiguous ''MiniQMT submit returned unexpected order id'')
          else Inr n
      | _ \<Rightarrow> Inl (Exn BrokerSubmissionAmbiguous ''MiniQMT submit returned non-int result''))"

definition call_order_stock :: "'w qmt_env \<Rightarrow> ExecutionRequest \<Rightarrow> ('w, pyval) adapter_act" where
  "call_order_stock env request =
     bindM (liftR (py_float (limit_price request))) (\<lambda>price.
     on_broker (order_stock env (symbol request)
       (if side request = BUY then buy_order_type (order_config env) else sell_order_type (order_config env))
       (qty request) (price_type (order_config env)) price (qmt_strategy_name env) (order_remark request)))"

definition adapter_place_order :: "'w qmt_env \<Rightarrow> ExecutionRequest \<Rightarrow> ('w, int) adapter_act" where
  "adapter_place_order env request =
     bindM (adapter_healthy env) (\<lambda>healthy.
     bindM (raiseM_if (\<not> healthy) (Exn BrokerSubmissionRejected
       ''MiniQMT execution gate is not ready; order was not invoked'')) (\<lambda>_.
     bindM (liftR (validate_qmt_remark (order_remark request))) (\<lambda>_.
     bindM (tryM (call_order_stock env request)
         (\<lambda>e. if isinstance_exn e PyException
              then Some (raiseM (Exn BrokerSubmissionAmbiguous ''MiniQMT submit raised; outcome unknown''))
              else None)) (\<lambda>result.
     liftR (submit_result result)))))"

definition adapter_cancel_order :: "'w qmt_env \<Rightarrow> int \<Rightarrow> ('w, CancelRequestResult) adapter_act" where
  "adapter_cancel_order env order_id =
     bindM (raiseM_if (order_id \<le> 0) (Exn ValueError ''order_id must be a positive plain int'')) (\<lambda>_.
     tryM (bindM (on_broker (cancel_order_stock env order_id)) (\<lambda>result.
           returnM (if result = PyInt 0 then CR_ACCEPTED else CR_REJECTED)))
       (\<lambda>e. if isinstance_exn e PyException then Some (returnM CR_REJECTED) else None))"

section \<open>Queries\<close>

text \<open>
  \<open>_strict_query\<close>: the argument counts the attempts that are left; an attempt that raises counts
  as one that returned \<open>None\<close>, and there is a pause between two attempts.
\<close>

primrec strict_query ::
  "'w qmt_env \<Rightarrow> string \<Rightarrow> ('w, query_value) pyact \<Rightarrow> nat \<Rightarrow> ('w, query_value) adapter_act" where
  "strict_query env label fn 0 =
     raiseM (Exn BrokerQueryAmbiguous (label @ '' remained ambiguous''))"
| "strict_query env label fn (Suc left) =
     bindM (tryM (on_broker fn)
       (\<lambda>e. if isinstance_exn e PyException then Some (returnM QNone) else None)) (\<lambda>v.
     case v of
       QNone \<Rightarrow>
         bindM (if 0 < left then on_broker (query_sleep env) else returnM ()) (\<lambda>_.
         strict_query env label fn left)
     | _ \<Rightarrow> returnM v)"

definition side_from_qmt_order_type :: "QmtOrderConfig \<Rightarrow> int \<Rightarrow> Side pyres" where
  "side_from_qmt_order_type config t =
     (if t = buy_order_type config then Inr BUY
      else if t = sell_order_type config then Inr SELL
      else Inl (Exn BrokerQueryAmbiguous ''MiniQMT order side/type is not recognized''))"

text \<open>The status of an order, withdrawn where the quantities contradict it.\<close>

definition consistent_status :: "pyval \<Rightarrow> int \<Rightarrow> int \<Rightarrow> BrokerOrderStatus" where
  "consistent_status raw_status filled volume =
     (let status = normalize_qmt_order_status raw_status;
          status = (if status \<in> {B_PARTIALLY_FILLED, B_PARTIAL_CANCELLED} \<and> \<not> (0 < filled \<and> filled < volume)
                    then B_UNKNOWN else status);
          status = (if status = B_CANCEL_PENDING \<and> raw_status = PyInt 52 \<and> \<not> (0 < filled \<and> filled < volume)
                    then B_UNKNOWN else status);
          status = (if status = B_FILLED \<and> filled \<noteq> volume then B_UNKNOWN else status);
          status = (if status \<in> {B_ACCEPTED, B_WORKING, B_CANCELLED, B_REJECTED}
                       \<and> \<not> (0 \<le> filled \<and> filled \<le> volume)
                    then B_UNKNOWN else status)
      in status)"

text \<open>The conversions inside the \<open>try\<close> of \<open>_to_broker_order\<close>.\<close>

record order_fields =
  of_order_id :: int
  of_symbol :: string
  of_order_type :: int
  of_qty :: int
  of_filled_qty :: int
  of_status :: pyval
  of_remark :: string
  of_strategy_name :: string
  of_sysid :: string
  of_message :: string
  of_average :: pyval

definition order_fields_of :: "(pyval \<Rightarrow> string) \<Rightarrow> py_object \<Rightarrow> order_fields pyres" where
  "order_fields_of rp raw =
     bindR (int_attr raw ''order_id'') (\<lambda>order_id.
     bindR (str_attr rp raw ''stock_code'') (\<lambda>smb.
     bindR (int_attr raw ''order_type'') (\<lambda>order_type.
     bindR (int_attr raw ''order_volume'') (\<lambda>volume.
     bindR (int_attr raw ''traded_volume'') (\<lambda>filled.
     bindR (getattr raw ''order_status'') (\<lambda>raw_status.
     bindR (if getattr_default raw ''traded_price'' PyNone = PyNone then Inr PyNone
            else bindR (py_float (getattr_default raw ''traded_price'' PyNone)) (\<lambda>x. Inr (PyFloat x))) (\<lambda>average.
     Inr \<lparr>of_order_id = order_id, of_symbol = smb, of_order_type = order_type, of_qty = volume,
          of_filled_qty = filled, of_status = raw_status, of_remark = text_attr rp raw ''order_remark'',
          of_strategy_name = text_attr rp raw ''strategy_name'', of_sysid = text_attr rp raw ''order_sysid'',
          of_message = text_attr rp raw ''status_msg'', of_average = average\<rparr>)))))))"

definition to_broker_order :: "'w qmt_env \<Rightarrow> py_object \<Rightarrow> BrokerOrder pyres" where
  "to_broker_order env raw =
     bindR (malformed ''MiniQMT order payload is malformed'' (order_fields_of (text_of env) raw)) (\<lambda>f.
     bindR (side_from_qmt_order_type (order_config env) (of_order_type f)) (\<lambda>sd.
     mk_BrokerOrder (PyInt (of_order_id f)) (PyStr (of_symbol f)) (PyStr (Side_value sd)) (PyInt (of_qty f))
       (PyInt (of_filled_qty f))
       (PyStr (BrokerOrderStatus_value (consistent_status (of_status f) (of_filled_qty f) (of_qty f))))
       (PyStr (of_remark f)) (PyStr '''') (PyStr (of_strategy_name f)) (PyStr (of_sysid f))
       (PyStr (of_message f)) (of_average f)))"

definition to_broker_position :: "'w qmt_env \<Rightarrow> py_object \<Rightarrow> BrokerPosition pyres" where
  "to_broker_position env raw =
     malformed ''MiniQMT position payload is malformed''
       (bindR (str_attr (text_of env) raw ''stock_code'') (\<lambda>smb.
        bindR (int_attr raw ''volume'') (\<lambda>vol.
        bindR (int_attr raw ''can_use_volume'') (\<lambda>can.
        bindR (py_int (getattr_default raw ''frozen_volume'' (PyInt 0))) (\<lambda>frozen.
        bindR (py_float (getattr_default raw ''market_value'' (PyFloat (Finite 0)))) (\<lambda>mv.
        bindR (py_float (getattr_default raw ''avg_price'' (PyFloat (Finite 0)))) (\<lambda>avg.
        mk_BrokerPosition (PyStr smb) (PyInt vol) (PyInt can) (PyInt frozen) (PyFloat mv) (PyFloat avg))))))))"

definition to_broker_trade :: "'w qmt_env \<Rightarrow> py_object \<Rightarrow> BrokerTrade pyres" where
  "to_broker_trade env raw =
     malformed ''MiniQMT trade payload is malformed''
       (bindR (int_attr raw ''order_type'') (\<lambda>order_type.
        bindR (int_attr raw ''order_id'') (\<lambda>order_id.
        bindR (str_attr (text_of env) raw ''stock_code'') (\<lambda>smb.
        bindR (side_from_qmt_order_type (order_config env) order_type) (\<lambda>sd.
        bindR (int_attr raw ''traded_volume'') (\<lambda>vol.
        bindR (float_attr raw ''traded_price'') (\<lambda>price.
        bindR (py_float (getattr_default raw ''traded_amount'' (PyFloat (Finite 0)))) (\<lambda>amount.
        mk_BrokerTrade (PyInt order_id) (PyStr smb) (PyStr (Side_value sd)) (PyInt vol) (PyFloat price)
          (PyFloat amount) (PyStr (text_attr (text_of env) raw ''traded_id''))
          (PyStr (text_attr (text_of env) raw ''strategy_name''))
          (PyStr (text_attr (text_of env) raw ''order_remark''))))))))))"

definition to_broker_asset :: "py_object \<Rightarrow> BrokerAsset pyres" where
  "to_broker_asset raw =
     malformed ''MiniQMT asset payload is malformed''
       (bindR (float_attr raw ''cash'') (\<lambda>cash.
        bindR (float_attr raw ''frozen_cash'') (\<lambda>frozen.
        bindR (float_attr raw ''market_value'') (\<lambda>mv.
        bindR (float_attr raw ''total_asset'') (\<lambda>tot.
        mk_BrokerAsset (PyFloat cash) (PyFloat frozen) (PyFloat mv) (PyFloat tot))))))"

definition adapter_query_order :: "'w qmt_env \<Rightarrow> int \<Rightarrow> ('w, BrokerOrder) adapter_act" where
  "adapter_query_order env order_id =
     bindM (raiseM_if (order_id \<le> 0) (Exn ValueError ''order_id must be a positive plain int'')) (\<lambda>_.
     bindM (strict_query env ''query_stock_order'' (query_stock_order env order_id) (query_attempts env)) (\<lambda>raw.
     liftR (to_broker_order env (as_object raw))))"

text \<open>The queries that return a list or tuple: each item is converted, the first error ends it.\<close>

definition query_list ::
  "'w qmt_env \<Rightarrow> string \<Rightarrow> ('w, query_value) pyact \<Rightarrow> (py_object \<Rightarrow> 'a pyres) \<Rightarrow> ('w, 'a list) adapter_act" where
  "query_list env label fn convert =
     bindM (strict_query env label fn (query_attempts env)) (\<lambda>raw.
     case raw of
       QList items \<Rightarrow> liftR (mapR convert items)
     | _ \<Rightarrow> raiseM (Exn BrokerQueryAmbiguous (label @ '' returned unexpected type'')))"

definition adapter_query_orders :: "'w qmt_env \<Rightarrow> ('w, BrokerOrder list) adapter_act" where
  "adapter_query_orders env =
     query_list env ''query_stock_orders'' (query_stock_orders env) (to_broker_order env)"

definition adapter_query_positions :: "'w qmt_env \<Rightarrow> ('w, BrokerPosition list) adapter_act" where
  "adapter_query_positions env =
     query_list env ''query_stock_positions'' (query_stock_positions env) (to_broker_position env)"

definition adapter_query_trades :: "'w qmt_env \<Rightarrow> ('w, BrokerTrade list) adapter_act" where
  "adapter_query_trades env =
     query_list env ''query_stock_trades'' (query_stock_trades env) (to_broker_trade env)"

definition adapter_query_asset :: "'w qmt_env \<Rightarrow> ('w, BrokerAsset) adapter_act" where
  "adapter_query_asset env =
     bindM (strict_query env ''query_stock_asset'' (query_stock_asset env) (query_attempts env)) (\<lambda>raw.
     liftR (to_broker_asset (as_object raw)))"

section \<open>Conversions give well-formed values\<close>

lemma malformed_Inr [simp]: "malformed msg r = Inr x \<longleftrightarrow> r = Inr x"
  by (auto simp: malformed_def split: sum.splits)

lemma consistent_status_cases:
  "consistent_status raw f q = B_FILLED \<Longrightarrow> f = q"
  "consistent_status raw f q \<in> {B_PARTIALLY_FILLED, B_PARTIAL_CANCELLED} \<Longrightarrow> 0 < f \<and> f < q"
  "consistent_status raw f q \<noteq> B_UNKNOWN \<Longrightarrow> consistent_status raw f q = normalize_qmt_order_status raw"
  unfolding consistent_status_def Let_def by (auto split: if_splits)

lemma normalize_known:
  "normalize_qmt_order_status raw \<noteq> B_UNKNOWN \<Longrightarrow>
    \<exists>st. raw = PyInt (QmtOrderStatus_value st) \<and> STATUS_MAP st = normalize_qmt_order_status raw"
proof (cases raw)
  case (PyInt n)
  assume known: "normalize_qmt_order_status raw \<noteq> B_UNKNOWN"
  then obtain st where st: "find (\<lambda>s. QmtOrderStatus_value s = n) all_QmtOrderStatuses = Some st"
    by (auto simp: normalize_qmt_order_status_def PyInt split: option.splits)
  then have "QmtOrderStatus_value st = n" by (auto simp: find_Some_iff)
  with st show ?thesis by (auto simp: normalize_qmt_order_status_def PyInt)
qed (simp_all add: normalize_qmt_order_status_def)

lemma mk_BrokerOrder_fields:
  assumes "mk_BrokerOrder (PyInt oid) smb sd (PyInt q) (PyInt f) (PyStr (BrokerOrderStatus_value st)) a b c d e g = Inr o'"
  shows "bo_qty o' = q" "bo_filled_qty o' = f" "bo_status o' = st" "bo_order_id o' = oid"
  using assms by (auto simp: mk_BrokerOrder_def bindR_eq_Inr)

lemma to_broker_order_Inr:
  assumes "to_broker_order env raw = Inr b"
  obtains f where "order_fields_of (text_of env) raw = Inr f" "bo_qty b = of_qty f"
    "bo_filled_qty b = of_filled_qty f"
    "bo_status b = consistent_status (of_status f) (of_filled_qty f) (of_qty f)" "wf_BrokerOrder b"
  using assms mk_BrokerOrder_fields mk_BrokerOrder_wf
  unfolding to_broker_order_def bindR_eq_Inr malformed_Inr by metis

lemma order_fields_status: "order_fields_of rp raw = Inr f \<Longrightarrow> raw ''order_status'' = Some (of_status f)"
  by (auto simp: order_fields_of_def bindR_eq_Inr getattr_def split: option.splits)

section \<open>What a call of the broker can change\<close>

definition quiet_probe :: "('w \<Rightarrow> 'o) \<Rightarrow> ('w, pyval) pyact option \<Rightarrow> bool" where
  "quiet_probe orders p \<longleftrightarrow> (\<forall>m w. p = Some m \<longrightarrow> orders (snd (m w)) = orders w)"

lemma probe_quiet:
  "quiet_probe orders p \<Longrightarrow> probe p s = (r, s') \<Longrightarrow>
    orders (broker_world s') = orders (broker_world s)
    \<and> transport_connected s' = transport_connected s \<and> recovery_ready s' = recovery_ready s"
  by (cases p) (auto simp: probe_def quiet_probe_def bindM_def returnM_def on_broker_def
      split: prod.splits sum.splits dest!: spec [where x = "broker_world s"])

lemma adapter_healthy_quiet:
  assumes "quiet_probe orders (health_probe env)" and "quiet_probe orders (order_gate env)"
    and run: "adapter_healthy env s = (r, s')"
  shows "orders (broker_world s') = orders (broker_world s)"
    and "r = Inr True \<Longrightarrow> transport_connected s \<and> recovery_ready s"
proof -
  obtain q t where q: "probe (health_probe env) s = (q, t)" by fastforce
  note h = probe_quiet [OF assms(1) q]
  note g = probe_quiet [OF assms(2), of t r s']
  show "orders (broker_world s') = orders (broker_world s)"
    using run q h g
    by (auto simp: adapter_healthy_def bindM_def getM_def returnM_def split: if_splits sum.splits)
  show "r = Inr True \<Longrightarrow> transport_connected s \<and> recovery_ready s"
    using run by (auto simp: adapter_healthy_def bindM_def getM_def returnM_def split: if_splits)
qed



section \<open>Properties\<close>

text \<open>
  C35: an order that the broker reports is accepted only if it is consistent: the result of the
  conversion is a well-formed order with the reported quantities; it is filled only if the whole
  quantity is filled, partially filled or partially cancelled only if a proper part is filled, and
  its status is anything but \<open>UNKNOWN\<close> only if the raw status is one of the known codes, of which
  it is the translation.
\<close>

theorem broker_order_is_consistent:
  assumes "to_broker_order env raw = Inr b"
  shows "wf_BrokerOrder b
    \<and> (bo_status b = B_FILLED \<longrightarrow> bo_filled_qty b = bo_qty b)
    \<and> (bo_status b \<in> {B_PARTIALLY_FILLED, B_PARTIAL_CANCELLED} \<longrightarrow> 0 < bo_filled_qty b \<and> bo_filled_qty b < bo_qty b)
    \<and> (bo_status b \<noteq> B_UNKNOWN \<longrightarrow>
        (\<exists>st. raw ''order_status'' = Some (PyInt (QmtOrderStatus_value st)) \<and> STATUS_MAP st = bo_status b))"
proof -
  obtain f where f: "order_fields_of (text_of env) raw = Inr f" "bo_qty b = of_qty f"
    "bo_filled_qty b = of_filled_qty f"
    "bo_status b = consistent_status (of_status f) (of_filled_qty f) (of_qty f)" "wf_BrokerOrder b"
    using to_broker_order_Inr [OF assms] by blast
  have "\<exists>st. raw ''order_status'' = Some (PyInt (QmtOrderStatus_value st)) \<and> STATUS_MAP st = bo_status b"
    if "bo_status b \<noteq> B_UNKNOWN"
    using normalize_known [of "of_status f"] consistent_status_cases(3) [of "of_status f" "of_filled_qty f" "of_qty f"]
      order_fields_status [OF f(1)] that f(4) by auto
  then show ?thesis using consistent_status_cases(1,2) [of "of_status f" "of_filled_qty f" "of_qty f"] f by auto
qed

definition example_qmt_env :: "nat qmt_env" where
  "example_qmt_env =
     \<lparr>order_config = \<lparr>buy_order_type = 23, sell_order_type = 24, price_type = 11\<rparr>,
      qmt_strategy_name = ''s1'', query_attempts = 3,
      order_stock = (\<lambda>_ _ _ _ _ _ _ n. if n < 2 then (Inr (PyInt 101), n + 1) else (Inr (PyInt (-1)), n)),
      cancel_order_stock = (\<lambda>_. returnM (PyInt 0)), query_stock_order = (\<lambda>_. returnM QNone),
      query_stock_orders = returnM (QList []), query_stock_asset = returnM QNone,
      query_stock_positions = returnM (QList []), query_stock_trades = returnM (QList []),
      query_sleep = returnM (), health_probe = Some (returnM (PyBool True)), order_gate = None,
      text_of = (\<lambda>_. '''')\<rparr>"

definition raw_order :: "int \<Rightarrow> int \<Rightarrow> int \<Rightarrow> py_object" where
  "raw_order status volume filled =
     [''order_id'' \<mapsto> PyInt 101, ''stock_code'' \<mapsto> PyStr ''600000.SH'', ''order_type'' \<mapsto> PyInt 23,
      ''order_volume'' \<mapsto> PyInt volume, ''traded_volume'' \<mapsto> PyInt filled, ''order_status'' \<mapsto> PyInt status,
      ''order_remark'' \<mapsto> PyStr ''r1'']"

lemma convert_raw_order:
  "to_broker_order example_qmt_env (raw_order 55 100 40) =
     Inr \<lparr>bo_order_id = 101, bo_symbol = ''600000.SH'', bo_side = BUY, bo_qty = 100, bo_filled_qty = 40,
          bo_status = B_PARTIALLY_FILLED, bo_order_remark = ''r1'', bo_client_order_id = '''',
          bo_strategy_name = '''', bo_order_sysid = '''', bo_status_message = '''',
          bo_average_fill_price = PyNone\<rparr>"
  by code_simp

theorem broker_order_is_consistent_witness:
  "\<exists>b. to_broker_order example_qmt_env (raw_order 55 100 40) = Inr b \<and> bo_status b = B_PARTIALLY_FILLED
     \<and> 0 < bo_filled_qty b \<and> bo_filled_qty b < bo_qty b"
  using broker_order_is_consistent [OF convert_raw_order] convert_raw_order by simp

lemma rejected_is_exception: "isinstance_exn e BrokerSubmissionRejected \<Longrightarrow> isinstance_exn e PyException"
  by (cases "exn_kind e") (simp_all add: isinstance_exn_def)

text \<open>
  C34: what a submission can do at the broker.  If the health probe and the order gate send no
  orders, and the library keeps its promise that a result of -1 means that no order was sent, then
  \<open>place_order\<close> adds an order at the broker only while the transport is connected and the recovery
  is complete, and when it reports a rejection it has added none; an order id that it returns is
  positive.
\<close>

theorem rejected_submission_sent_nothing:
  fixes env :: "'w qmt_env" and orders :: "'w \<Rightarrow> 'o"
  assumes probes: "quiet_probe orders (health_probe env)" "quiet_probe orders (order_gate env)"
    and library: "\<And>a b c d e f g w w'. order_stock env a b c d e f g w = (Inr (PyInt (-1)), w') \<Longrightarrow> orders w' = orders w"
    and run: "adapter_place_order env request s = (r, s')"
  shows "(orders (broker_world s') \<noteq> orders (broker_world s) \<longrightarrow>
      transport_connected s \<and> recovery_ready s
      \<and> (\<forall>e. r = Inl e \<longrightarrow> \<not> isinstance_exn e BrokerSubmissionRejected))
    \<and> (\<forall>n. r = Inr n \<longrightarrow> 0 < n)"
proof -
  obtain h t where h: "adapter_healthy env s = (h, t)" by fastforce
  note quiet = adapter_healthy_quiet [OF probes h]
  let ?call = "order_stock env (symbol request)
       (if side request = BUY then buy_order_type (order_config env) else sell_order_type (order_config env))
       (qty request) (price_type (order_config env))"
  show ?thesis
  proof (cases "h = Inr True \<and> validate_qmt_remark (order_remark request) = Inr ()")
    case True
    obtain q u where q: "call_order_stock env request t = (q, u)" by fastforce
    have same: "orders (broker_world u) = orders (broker_world t)" if "q = Inr (PyInt (-1))"
      using q library that
      by (auto simp: call_order_stock_def on_broker_def bindM_def liftR_def split: sum.splits prod.splits)
    have r: "(r, s') = (case q of
        Inl e \<Rightarrow> if isinstance_exn e PyException
          then (Inl (Exn BrokerSubmissionAmbiguous ''MiniQMT submit raised; outcome unknown''), u) else (Inl e, u)
      | Inr v \<Rightarrow> (submit_result v, u))"
      using run True h q by (auto simp: adapter_place_order_def bindM_def liftR_def tryM_def raiseM_def
          raiseM_if_def returnM_def split: sum.splits if_splits)
    show ?thesis
    proof (cases q)
      case (Inl e)
      then show ?thesis using r quiet True rejected_is_exception by (auto split: if_splits)
    next
      case (Inr v)
      then have "s' = u" "r = submit_result v" using r by auto
      then show ?thesis using Inr same quiet True
        by (auto simp: submit_result_def split: pyval.splits if_splits)
    qed
  next
    case False
    then have "s' = t" "\<exists>e. r = Inl e" using run h
      by (auto simp: adapter_place_order_def bindM_def liftR_def raiseM_if_def returnM_def raiseM_def
          split: sum.splits if_splits)
    then show ?thesis using quiet(1) by auto
  qed
qed

theorem rejected_submission_sent_nothing_witness:
  "\<exists>r s'. adapter_place_order example_qmt_env
       \<lparr>client_order_id = ''c1'', symbol = ''600000.SH'', side = BUY, qty = 100, limit_price = PyInt 10,
        strategy_id = ''s1'', order_remark = ''r1''\<rparr> (new_adapter 2 True True) = (r, s')
     \<and> (broker_world s' = 2)"
proof -
  let ?r = "\<lparr>client_order_id = ''c1'', symbol = ''600000.SH'', side = BUY, qty = 100, limit_price = PyInt 10,
        strategy_id = ''s1'', order_remark = ''r1''\<rparr>"
  have run: "adapter_place_order example_qmt_env ?r (new_adapter 2 True True)
      = (Inl (Exn BrokerSubmissionRejected ''MiniQMT definitively rejected submit''), new_adapter 2 True True)"
    by code_simp
  have "quiet_probe id (health_probe example_qmt_env)" "quiet_probe id (order_gate example_qmt_env)"
    by (simp_all add: quiet_probe_def example_qmt_env_def returnM_def)
  from rejected_submission_sent_nothing [OF this _ run] show ?thesis
    using run by (auto simp: example_qmt_env_def new_adapter_def split: if_splits)
qed

text \<open>
  The check of the quantities does not have the effect that it is written for: an order with more
  filled than ordered gets the status \<open>UNKNOWN\<close>, and then the constructor of \<open>BrokerOrder\<close> raises
  \<open>ValueError\<close>, outside the handler that turns malformed payloads into \<open>BrokerQueryAmbiguous\<close>.
\<close>

lemma overfilled_order_escapes:
  "consistent_status (PyInt 50) 120 100 = B_UNKNOWN
   \<and> to_broker_order example_qmt_env (raw_order 50 100 120)
       = Inl (Exn ValueError ''filled_qty must be within [0, qty]'')"
  by code_simp

end
