(* ===== verification/Runtime_Gate.thy ===== *)
theory Runtime_Gate
  imports Trade_Domain Execution_Mutex
begin

text \<open>
  \<open>miniqmt/runtime_gate.py\<close> and \<open>miniqmt/session_id.py\<close>: the gate that live orders must pass, and
  the leases of session ids from a bounded pool.
\<close>

section \<open>The configuration of the gate\<close>

record RuntimeGateConfig =
  environment :: string
  live_trading_enabled :: bool
  confirmation_token_sha256 :: string

definition is_hex :: "char \<Rightarrow> bool" where
  "is_hex c = (c \<in> set ''0123456789abcdef'')"

text \<open>
  \<open>v in {"simulation", "live"}\<close>, and \<open>v.strip().lower()\<close>; white space outside ASCII is not
  modelled.
\<close>

definition in_environments :: "pyval \<Rightarrow> bool pyres" where
  "in_environments v =
     (case v of
        PyStr s \<Rightarrow> Inr (s \<in> {''simulation'', ''live''})
      | PyList _ \<Rightarrow> Inl (Exn TypeError ''unhashable'')
      | PyDict _ \<Rightarrow> Inl (Exn TypeError ''unhashable'')
      | _ \<Rightarrow> Inr False)"

definition strip_lower :: "pyval \<Rightarrow> string pyres" where
  "strip_lower v =
     (case v of PyStr s \<Rightarrow> Inr (map to_lower (strip_ascii s)) | _ \<Rightarrow> Inl (Exn AttributeError ''strip''))"

definition mk_RuntimeGateConfig :: "pyval \<Rightarrow> pyval \<Rightarrow> pyval \<Rightarrow> RuntimeGateConfig pyres" where
  "mk_RuntimeGateConfig env live token =
     bindR (in_environments env) (\<lambda>known.
     bindR (raise_if (\<not> known)
       (Exn RuntimeConfigurationError ''environment must be simulation or live'')) (\<lambda>_.
     bindR (raise_if (\<not> is_bool live)
       (Exn RuntimeConfigurationError ''live_trading_enabled must be a plain bool'')) (\<lambda>_.
     bindR (strip_lower token) (\<lambda>digest.
     bindR (raise_if (digest \<noteq> [] \<and> (length digest \<noteq> 64 \<or> list_ex (\<lambda>c. \<not> is_hex c) digest))
       (Exn RuntimeConfigurationError ''confirmation_token_sha256 must be a SHA-256 digest'')) (\<lambda>_.
     bindR (raise_if (the_str env = ''simulation'' \<and> truthy live)
       (Exn RuntimeConfigurationError ''simulation cannot enable live trading'')) (\<lambda>_.
     bindR (raise_if (the_str env = ''live'' \<and> truthy live \<and> digest = [])
       (Exn RuntimeConfigurationError
          ''live trading enablement requires a non-persisted runtime token digest'')) (\<lambda>_.
     Inr \<lparr>environment = the_str env, live_trading_enabled = truthy live,
          confirmation_token_sha256 = digest\<rparr>)))))))"

section \<open>The gate\<close>

record gate =
  gate_config :: RuntimeGateConfig
  confirmed :: bool

definition token_sha256 :: "(string \<Rightarrow> string) \<Rightarrow> pyval \<Rightarrow> string pyres" where
  "token_sha256 sha256 token =
     (if \<not> nonempty_str token
      then Inl (Exn RuntimeConfirmationError ''runtime confirmation token must be non-empty'')
      else Inr (sha256 (the_str token)))"

definition new_gate :: "RuntimeGateConfig \<Rightarrow> gate" where
  "new_gate config = \<lparr>gate_config = config, confirmed = (environment config = ''simulation'')\<rparr>"

definition execution_allowed :: "gate \<Rightarrow> bool" where
  "execution_allowed g =
     (if environment (gate_config g) = ''simulation'' then True
      else live_trading_enabled (gate_config g) \<and> confirmed g)"

definition gate_confirm :: "(string \<Rightarrow> string) \<Rightarrow> pyval \<Rightarrow> (gate, unit) pyact" where
  "gate_confirm sha256 token =
     bindM (getM gate_config) (\<lambda>config.
     bindM (raiseM_if (environment config \<noteq> ''live'')
       (Exn RuntimeConfirmationError ''runtime confirmation applies only to live environment'')) (\<lambda>_.
     bindM (raiseM_if (\<not> live_trading_enabled config)
       (Exn RuntimeConfirmationError ''live trading is disabled by configuration'')) (\<lambda>_.
     bindM (liftR (token_sha256 sha256 token)) (\<lambda>digest.
     bindM (raiseM_if (digest \<noteq> confirmation_token_sha256 config)
       (Exn RuntimeConfirmationError ''runtime confirmation token mismatch'')) (\<lambda>_.
     modifyM (\<lambda>g. g\<lparr>confirmed := True\<rparr>))))))"

definition gate_revoke :: "(gate, unit) pyact" where
  "gate_revoke =
     bindM (getM gate_config) (\<lambda>config.
     if environment config = ''live'' then modifyM (\<lambda>g. g\<lparr>confirmed := False\<rparr>) else returnM ())"

section \<open>Session ids\<close>

record allocator =
  pool_start :: int
  pool_size :: int
  attempts :: int

definition mk_allocator :: "pyval \<Rightarrow> pyval \<Rightarrow> pyval \<Rightarrow> allocator pyres" where
  "mk_allocator start size' tries =
     bindR (raise_if (\<not> pos_int start) (Exn ValueError ''pool_start must be a positive plain int'')) (\<lambda>_.
     bindR (raise_if (\<not> pos_int size') (Exn ValueError ''pool_size must be a positive plain int'')) (\<lambda>_.
     bindR (raise_if (\<not> pos_int tries) (Exn ValueError ''attempts must be a positive plain int'')) (\<lambda>_.
     bindR (raise_if (2147483647 < the_int start + the_int size' - 1)
       (Exn ValueError ''session id pool exceeds signed 32-bit range'')) (\<lambda>_.
     Inr \<lparr>pool_start = the_int start, pool_size = the_int size',
          attempts = min (the_int tries) (the_int size')\<rparr>))))"

text \<open>\<open>seed\<close> is the number in the first eight bytes of the key's digest.\<close>

definition candidate_ids :: "(string \<Rightarrow> nat) \<Rightarrow> allocator \<Rightarrow> pyval \<Rightarrow> int list pyres" where
  "candidate_ids seed a key =
     (if \<not> nonempty_str key then Inl (Exn ValueError ''preferred_key must be a non-empty string'')
      else
        let offset = int (seed (the_str key)) mod pool_size a in
        Inr (map (\<lambda>index. pool_start a + (offset + index) mod pool_size a) [0..attempts a - 1]))"

record lease =
  lease_session_id :: int
  released :: bool

text \<open>
  \<open>lease_mutex i\<close> is the mutex on the lease file of the id \<open>i\<close>, in a world that all ids share.
\<close>

definition acquire_exact :: "(int \<Rightarrow> 'w mutex_env) \<Rightarrow> nat \<Rightarrow> int \<Rightarrow> ('w, lease) pyact" where
  "acquire_exact lease_mutex fuel i w =
     (if i \<le> 0 then (Inl (Exn ValueError ''session_id must be a positive plain int''), w)
      else
        case acquire (lease_mutex i) fuel \<lparr>mx_world = w, mx_owned = False\<rparr> of
          (Inl e, s) \<Rightarrow>
            (if isinstance_exn e ConcurrentExecutionError
             then (Inl (Exn SessionIdUnavailable (''MiniQMT session id '' @ int_repr i @ '' is already leased'')),
                   mx_world s)
             else (Inl e, mx_world s))
        | (Inr _, s) \<Rightarrow> (Inr \<lparr>lease_session_id = i, released = False\<rparr>, mx_world s))"

primrec acquire_first :: "(int \<Rightarrow> ('w, lease) pyact) \<Rightarrow> int list \<Rightarrow> ('w, lease) pyact" where
  "acquire_first exact [] =
     raiseM (Exn SessionIdUnavailable
       ''no MiniQMT session id is available in the configured bounded attempts'')"
| "acquire_first exact (i # is') =
     tryM (exact i) (\<lambda>e. if isinstance_exn e SessionIdUnavailable then Some (acquire_first exact is') else None)"

definition allocate :: "(string \<Rightarrow> nat) \<Rightarrow> (int \<Rightarrow> 'w mutex_env) \<Rightarrow> nat \<Rightarrow> allocator \<Rightarrow> pyval \<Rightarrow> ('w, lease) pyact" where
  "allocate seed lease_mutex fuel a key =
     bindM (liftR (candidate_ids seed a key)) (acquire_first (acquire_exact lease_mutex fuel))"

definition lease_release :: "('w, unit) pyact \<Rightarrow> lease \<Rightarrow> ('w, lease) pyact" where
  "lease_release release_mutex l =
     (if released l then returnM l else bindM release_mutex (\<lambda>_. returnM (l\<lparr>released := True\<rparr>)))"

section \<open>Runs of the gate\<close>

datatype gate_op = Confirm pyval | Revoke

definition run_gate_op :: "(string \<Rightarrow> string) \<Rightarrow> gate_op \<Rightarrow> gate \<Rightarrow> gate" where
  "run_gate_op sha256 op' g =
     (case op' of Confirm token \<Rightarrow> snd (gate_confirm sha256 token g) | Revoke \<Rightarrow> snd (gate_revoke g))"

definition run_gate :: "(string \<Rightarrow> string) \<Rightarrow> gate_op list \<Rightarrow> gate \<Rightarrow> gate" where
  "run_gate sha256 ops g = fold (run_gate_op sha256) ops g"

lemma gate_confirm_cases:
  "snd (gate_confirm sha256 token g) =
     (if environment (gate_config g) = ''live'' \<and> live_trading_enabled (gate_config g) \<and> nonempty_str token
         \<and> sha256 (the_str token) = confirmation_token_sha256 (gate_config g)
      then g\<lparr>confirmed := True\<rparr> else g)"
  by (simp add: gate_confirm_def token_sha256_def bindM_def getM_def liftR_def raiseM_if_def raiseM_def
      returnM_def modifyM_def)

lemma gate_revoke_cases:
  "snd (gate_revoke g) = (if environment (gate_config g) = ''live'' then g\<lparr>confirmed := False\<rparr> else g)"
  by (simp add: gate_revoke_def bindM_def getM_def returnM_def modifyM_def)

lemma run_gate_config [simp]: "gate_config (run_gate sha256 ops g) = gate_config g"
proof (induction ops arbitrary: g)
  case (Cons op' ops)
  then show ?case
    by (cases op') (simp_all add: run_gate_def run_gate_op_def gate_confirm_cases gate_revoke_cases)
qed (simp add: run_gate_def)

lemma confirmed_run:
  assumes "environment (gate_config g) = ''live''" and "\<not> confirmed g"
    and "confirmed (run_gate sha256 ops g)"
  shows "\<exists>before token after. ops = before @ Confirm (PyStr token) # after \<and> Revoke \<notin> set after
    \<and> token \<noteq> [] \<and> sha256 token = confirmation_token_sha256 (gate_config g)"
  using assms(3)
proof (induction ops rule: rev_induct)
  case Nil
  then show ?case using assms(2) by (simp add: run_gate_def)
next
  case (snoc op' ops)
  let ?h = "run_gate sha256 ops g"
  have last: "run_gate sha256 (ops @ [op']) g = run_gate_op sha256 op' ?h" by (simp add: run_gate_def)
  show ?case
  proof (cases op')
    case Revoke
    with snoc.prems last assms(1) show ?thesis by (simp add: run_gate_op_def gate_revoke_cases)
  next
    case (Confirm t)
    show ?thesis
    proof (cases "confirmed ?h")
      case True
      then obtain before token after where "ops = before @ Confirm (PyStr token) # after"
        "Revoke \<notin> set after" "token \<noteq> []" "sha256 token = confirmation_token_sha256 (gate_config g)"
        using snoc.IH by blast
      then show ?thesis using Confirm
        by (intro exI [of _ before] exI [of _ token] exI [of _ "after @ [op']"]) simp
    next
      case False
      then have "nonempty_str t" "sha256 (the_str t) = confirmation_token_sha256 (gate_config g)"
        using snoc.prems last Confirm by (auto simp: run_gate_op_def gate_confirm_cases split: if_splits)
      then show ?thesis using Confirm
        by (intro exI [of _ ops] exI [of _ "the_str t"] exI [of _ "[]"]) (auto simp: nonempty_str_iff)
    qed
  qed
qed

lemma mk_RuntimeGateConfig_live:
  "mk_RuntimeGateConfig e l t = Inr config \<Longrightarrow> environment config = ''live'' \<Longrightarrow> live_trading_enabled config
    \<Longrightarrow> length (confirmation_token_sha256 config) = 64"
  by (auto simp: mk_RuntimeGateConfig_def bindR_eq_Inr)

lemma acquire_first_Inr:
  "acquire_first exact ids w = (Inr l, w') \<Longrightarrow>
    \<exists>before i after v. ids = before @ i # after \<and> exact i v = (Inr l, w')"
proof (induction ids arbitrary: w)
  case (Cons i ids)
  show ?case
  proof (cases "exact i w")
    case (Pair r v)
    show ?thesis
    proof (cases r)
      case (Inl e)
      then have "acquire_first exact ids v = (Inr l, w')" using Cons.prems Pair
        by (auto simp: tryM_def split: if_splits)
      from Cons.IH [OF this] show ?thesis by (metis append_Cons)
    next
      case (Inr x)
      then show ?thesis using Cons.prems Pair by (intro exI [of _ "[]"]) (auto simp: tryM_def)
    qed
  qed
qed (simp add: raiseM_def)


section \<open>Properties\<close>

text \<open>
  C36: the double gate of live trading.  In the live environment execution is allowed only if the
  configuration enables it with a digest of 64 characters and, since the last revocation, a
  non-empty token with that digest was confirmed, whatever was confirmed or revoked before.
\<close>

theorem live_execution_needs_both_gates:
  assumes "mk_RuntimeGateConfig e l t = Inr config" and "environment config = ''live''"
    and "execution_allowed (run_gate sha256 ops (new_gate config))"
  shows "live_trading_enabled config \<and> length (confirmation_token_sha256 config) = 64
    \<and> (\<exists>before token after. ops = before @ Confirm (PyStr token) # after \<and> Revoke \<notin> set after
         \<and> token \<noteq> [] \<and> sha256 token = confirmation_token_sha256 config)"
proof -
  let ?g = "new_gate config"
  have g: "gate_config ?g = config" "\<not> confirmed ?g" using assms(2) by (simp_all add: new_gate_def)
  have allowed: "live_trading_enabled config" "confirmed (run_gate sha256 ops ?g)"
    using assms(2,3) g(1) by (simp_all add: execution_allowed_def)
  show ?thesis
    using confirmed_run [OF _ g(2) allowed(2)] mk_RuntimeGateConfig_live [OF assms(1,2) allowed(1)]
      allowed(1) assms(2) unfolding g(1) by blast
qed

definition example_gate_config :: RuntimeGateConfig where
  "example_gate_config =
     \<lparr>environment = ''live'', live_trading_enabled = True,
      confirmation_token_sha256 = replicate 64 (CHR ''a'')\<rparr>"

theorem live_execution_needs_both_gates_witness:
  "execution_allowed (run_gate (\<lambda>_. replicate 64 (CHR ''a'')) [Revoke, Confirm (PyStr ''secret'')]
      (new_gate example_gate_config))
   \<and> length (confirmation_token_sha256 example_gate_config) = 64"
proof -
  have config: "mk_RuntimeGateConfig (PyStr ''live'') (PyBool True) (PyStr (replicate 64 (CHR ''A'')))
      = Inr example_gate_config" by code_simp
  have allowed: "execution_allowed (run_gate (\<lambda>_. replicate 64 (CHR ''a'')) [Revoke, Confirm (PyStr ''secret'')]
      (new_gate example_gate_config))" by code_simp
  have "environment example_gate_config = ''live''" by (simp add: example_gate_config_def)
  from live_execution_needs_both_gates [OF config this allowed] allowed show ?thesis by blast
qed

text \<open>
  The session ids that an allocator tries are as many as it may try, all different, in its
  pool, and positive numbers of 31 bits, whatever the digest of the key is.
\<close>

theorem candidate_ids_in_pool:
  assumes "mk_allocator start size' tries = Inr a" and "candidate_ids seed a key = Inr ids"
  shows "distinct ids \<and> int (length ids) = attempts a \<and> attempts a \<le> pool_size a
    \<and> (\<forall>i \<in> set ids. 0 < i \<and> pool_start a \<le> i \<and> i < pool_start a + pool_size a \<and> i \<le> 2147483647)"
proof -
  have a: "0 < pool_start a" "0 < pool_size a" "0 < attempts a" "attempts a \<le> pool_size a"
    "pool_start a + pool_size a - 1 \<le> 2147483647"
    using assms(1) by (auto simp: mk_allocator_def bindR_eq_Inr pos_int_iff)
  define offset where "offset = int (seed (the_str key)) mod pool_size a"
  have ids: "ids = map (\<lambda>index. pool_start a + (offset + index) mod pool_size a) [0..attempts a - 1]"
    using assms(2) by (simp add: candidate_ids_def Let_def offset_def split: if_splits)
  have "inj_on (\<lambda>index. pool_start a + (offset + index) mod pool_size a) {0..attempts a - 1}"
  proof (rule inj_onI)
    fix x y assume x: "x \<in> {0..attempts a - 1}" and y: "y \<in> {0..attempts a - 1}"
      and "pool_start a + (offset + x) mod pool_size a = pool_start a + (offset + y) mod pool_size a"
    then have "(offset + x) mod pool_size a = (offset + y) mod pool_size a" by simp
    from mod_diff_cong [OF this refl, of offset] have "x mod pool_size a = y mod pool_size a" by simp
    then show "x = y" using x y a by simp
  qed
  then have "distinct ids" by (simp add: ids distinct_map)
  moreover have "0 < i \<and> pool_start a \<le> i \<and> i < pool_start a + pool_size a \<and> i \<le> 2147483647"
    if "i \<in> set ids" for i
  proof -
    obtain index where "i = pool_start a + (offset + index) mod pool_size a" using \<open>i \<in> set ids\<close> ids by auto
    moreover have "0 \<le> (offset + index) mod pool_size a" "(offset + index) mod pool_size a < pool_size a"
      using a(2) by simp_all
    ultimately show ?thesis using a by linarith
  qed
  ultimately show ?thesis using a(3,4) by (simp add: ids)
qed

theorem candidate_ids_in_pool_witness:
  "candidate_ids (\<lambda>_. 7) \<lparr>pool_start = 100000000, pool_size = 4, attempts = 3\<rparr> (PyStr ''k'')
     = Inr [100000003, 100000000, 100000001] \<and> distinct [100000003, 100000000, 100000001 :: int]"
proof -
  let ?a = "\<lparr>pool_start = 100000000, pool_size = 4, attempts = 3\<rparr>"
  have "mk_allocator (PyInt 100000000) (PyInt 4) (PyInt 3) = Inr ?a" by code_simp
  moreover have ids: "candidate_ids (\<lambda>_. 7) ?a (PyStr ''k'')
      = Inr [100000003, 100000000, 100000001]" by code_simp
  ultimately show ?thesis using candidate_ids_in_pool [OF _ ids] by blast
qed

end
