(* ===== verification/Account_Authority.thy ===== *)
theory Account_Authority
  imports Coordination Runtime_Gate Execution_Journal
begin

text \<open>
  \<open>authority.py\<close>: the record that certifies, for one account, the one coordination database that
  its executions share.  The state holds the authority files and the databases by path; the lock of
  an account is the mutex of \<open>mutex.py\<close>, and a database is created by the coordinator of
  \<open>coordination.py\<close>.
\<close>

section \<open>Checks\<close>

definition require_account_key :: "pyval \<Rightarrow> string pyres" where
  "require_account_key v =
     (if \<not> nonempty_str v then Inl (Exn RuntimeAuthorityError ''account_key must be a non-empty string'')
      else Inr (the_str v))"

definition require_environment :: "pyval \<Rightarrow> string pyres" where
  "require_environment v =
     (if v \<noteq> PyStr ''simulation'' \<and> v \<noteq> PyStr ''live''
      then Inl (Exn RuntimeAuthorityError ''environment must be simulation or live'')
      else Inr (the_str v))"

definition require_account_type :: "pyval \<Rightarrow> int pyres" where
  "require_account_type v =
     (if \<not> is_int v then Inl (Exn RuntimeAuthorityError ''account_type must be a plain int'')
      else Inr (the_int v))"

definition require_account_id_sha256 :: "(pyval \<Rightarrow> string) \<Rightarrow> pyval \<Rightarrow> string pyres" where
  "require_account_id_sha256 rp v =
     (let digest = map to_lower (strip_ascii (if truthy v then py_str rp v else '''')) in
      if length digest \<noteq> 64 \<or> list_ex (\<lambda>c. \<not> is_hex c) digest
      then Inl (Exn RuntimeAuthorityError ''account_id_sha256 must be a SHA-256 hex digest'')
      else Inr digest)"

text \<open>
  What \<open>uuid.UUID(s)\<close> accepts: without the prefixes, the braces around and the hyphens, 32
  characters that \<open>int(s, 16)\<close> reads as a number that is not negative.
\<close>

fun remove_all :: "string \<Rightarrow> string \<Rightarrow> string" where
  "remove_all p [] = []"
| "remove_all p (c # s) =
     (if p \<noteq> [] \<and> take (length p) (c # s) = p then remove_all p (drop (length p - 1) s)
      else c # remove_all p s)"

definition strip_braces :: "string \<Rightarrow> string" where
  "strip_braces s =
     (let brace = (\<lambda>c. c = CHR ''{'' \<or> c = CHR ''}'') in
      rev (dropWhile brace (rev (dropWhile brace s))))"

text \<open>Hexadecimal digits with single underscores between them; the flag: the last one was a digit.\<close>

fun hex_run :: "bool \<Rightarrow> string \<Rightarrow> bool" where
  "hex_run d [] = d"
| "hex_run d (c # cs) =
     (if is_hex (to_lower c) then hex_run True cs else d \<and> c = CHR ''_'' \<and> hex_run False cs)"

definition hex_number :: "string \<Rightarrow> bool" where
  "hex_number s =
     (let t = strip_ascii s;
          neg = (t \<noteq> [] \<and> hd t = CHR ''-'');
          u = (if t \<noteq> [] \<and> (hd t = CHR ''-'' \<or> hd t = CHR ''+'') then tl t else t);
          v = (if take 2 u = ''0x'' \<or> take 2 u = ''0X'' then
                 (if take 1 (drop 2 u) = ''_'' then drop 3 u else drop 2 u) else u)
      in hex_run False v \<and> (neg \<longrightarrow> list_all (\<lambda>c. c = CHR ''0'' \<or> c = CHR ''_'') v))"

definition uuid_ok :: "string \<Rightarrow> bool" where
  "uuid_ok s =
     (let h = remove_all ''-'' (strip_braces (remove_all ''uuid:'' (remove_all ''urn:'' s))) in
      length h = 32 \<and> hex_number h)"

definition require_uuid :: "string \<Rightarrow> string \<Rightarrow> unit pyres" where
  "require_uuid label s =
     bindR (raise_if (s = []) (Exn RuntimeAuthorityError (label @ '' must be a non-empty string''))) (\<lambda>_.
     raise_if (\<not> uuid_ok s) (Exn RuntimeAuthorityError (label @ '' is not a valid UUID'')))"

section \<open>The record\<close>

record AccountAuthority =
  aa_schema_version :: int
  aa_authority_id :: string
  aa_account_key :: string
  aa_environment :: string
  aa_account_type :: int
  aa_account_id_sha256 :: string
  aa_coordination_db_path :: string
  aa_coordination_db_uuid :: string

text \<open>The constructor's checks; \<open>absolute\<close> is \<open>Path(s).is_absolute()\<close>.\<close>

definition check_AccountAuthority ::
  "(pyval \<Rightarrow> string) \<Rightarrow> (string \<Rightarrow> bool) \<Rightarrow> AccountAuthority \<Rightarrow> AccountAuthority pyres" where
  "check_AccountAuthority rp absolute a =
     bindR (raise_if (aa_schema_version a \<le> 0)
       (Exn RuntimeAuthorityError ''authority schema_version must be a positive int'')) (\<lambda>_.
     bindR (require_uuid ''authority_id'' (aa_authority_id a)) (\<lambda>_.
     bindR (require_account_key (PyStr (aa_account_key a))) (\<lambda>_.
     bindR (require_environment (PyStr (aa_environment a))) (\<lambda>_.
     bindR (require_account_type (PyInt (aa_account_type a))) (\<lambda>_.
     bindR (require_account_id_sha256 rp (PyStr (aa_account_id_sha256 a))) (\<lambda>_.
     bindR (raise_if (aa_coordination_db_path a = [])
       (Exn RuntimeAuthorityError ''coordination_db_path must be a non-empty string'')) (\<lambda>_.
     bindR (raise_if (\<not> absolute (aa_coordination_db_path a))
       (Exn RuntimeAuthorityError ''coordination_db_path must be absolute'')) (\<lambda>_.
     bindR (require_uuid ''coordination_db_uuid'' (aa_coordination_db_uuid a)) (\<lambda>_.
     Inr a)))))))))"

definition to_payload :: "AccountAuthority \<Rightarrow> pydict" where
  "to_payload a =
     [(''schema_version'', PyInt (aa_schema_version a)),
      (''authority_id'', PyStr (aa_authority_id a)),
      (''account_key'', PyStr (aa_account_key a)),
      (''environment'', PyStr (aa_environment a)),
      (''account_type'', PyInt (aa_account_type a)),
      (''account_id_sha256'', PyStr (aa_account_id_sha256 a)),
      (''coordination_db_path'', PyStr (aa_coordination_db_path a)),
      (''coordination_db_uuid'', PyStr (aa_coordination_db_uuid a))]"

definition authority_fields :: "string list" where
  "authority_fields = [''schema_version'', ''authority_id'', ''account_key'', ''environment'', ''account_type'',
     ''account_id_sha256'', ''coordination_db_path'', ''coordination_db_uuid'']"

definition malformed_authority :: "'a pyres \<Rightarrow> 'a pyres" where
  "malformed_authority r =
     (case r of
        Inl e \<Rightarrow>
          if isinstance_exn e KeyError \<or> isinstance_exn e TypeError \<or> isinstance_exn e ValueError
          then Inl (Exn RuntimeAuthorityError ''authority payload is malformed'') else Inl e
      | Inr x \<Rightarrow> Inr x)"

definition from_payload ::
  "(pyval \<Rightarrow> string) \<Rightarrow> (string \<Rightarrow> bool) \<Rightarrow> pyval \<Rightarrow> AccountAuthority pyres" where
  "from_payload rp absolute v =
     (case as_dict v of
        None \<Rightarrow> Inl (Exn RuntimeAuthorityError ''authority payload must be a JSON object'')
      | Some d \<Rightarrow>
          bindR (raise_if (set (map fst d) \<noteq> set authority_fields)
            (Exn RuntimeAuthorityError ''authority payload fields do not match the schema'')) (\<lambda>_.
          malformed_authority
            (bindR (py_int (pyget d ''schema_version'')) (\<lambda>version.
             bindR (py_int (pyget d ''account_type'')) (\<lambda>account_type.
             check_AccountAuthority rp absolute
               \<lparr>aa_schema_version = version, aa_authority_id = py_str rp (pyget d ''authority_id''),
                aa_account_key = py_str rp (pyget d ''account_key''),
                aa_environment = py_str rp (pyget d ''environment''), aa_account_type = account_type,
                aa_account_id_sha256 = py_str rp (pyget d ''account_id_sha256''),
                aa_coordination_db_path = py_str rp (pyget d ''coordination_db_path''),
                aa_coordination_db_uuid = py_str rp (pyget d ''coordination_db_uuid'')\<rparr>)))))"

section \<open>The store\<close>

text \<open>
  The file at an authority path: absent, a JSON value (\<open>sort_keys\<close> and \<open>indent\<close> only change its
  text), text that is no JSON, or bytes that are no UTF-8.
\<close>

datatype authority_file =
    NoAuthority
  | AuthorityJson pyval
  | AuthorityNotJson
  | AuthorityNotUtf8

text \<open>
  The state: the world, the authority files, and for each path of a database whether the file exists
  and the committed database.
\<close>

record 'w authority_state =
  aworld :: 'w
  authority_files :: "string \<Rightarrow> authority_file"
  databases :: "string \<Rightarrow> bool \<times> coordination_db"

text \<open>
  What the store uses of the system: the mutex on a lock file, SQLite on a database file,
  \<open>str(Path(root) / name)\<close>, \<open>str(Path(v).expanduser().resolve())\<close>, \<open>is_absolute\<close>, \<open>uuid4\<close>, the calls
  on the authority file (\<open>exists\<close>, \<open>read_text\<close>, \<open>mkdir\<close> of its directory, writing and syncing the
  temporary file, \<open>os.replace\<close>), SHA-256 and \<open>repr\<close>.
\<close>

record 'w authority_env =
  authority_mutex :: "string \<Rightarrow> 'w mutex_env"
  authority_db :: "string \<Rightarrow> 'w coord_env"
  join_root :: "string \<Rightarrow> string"
  resolve_path :: "pyval \<Rightarrow> ('w, string) pyact"
  is_absolute :: "string \<Rightarrow> bool"
  uuid4 :: "('w, string) pyact"
  stat_authority :: "string \<Rightarrow> ('w, unit) pyact"
  read_authority_text :: "string \<Rightarrow> ('w, unit) pyact"
  make_authority_parent :: "string \<Rightarrow> ('w, unit) pyact"
  write_authority_temporary :: "string \<Rightarrow> ('w, unit) pyact"
  replace_authority :: "string \<Rightarrow> 'w \<Rightarrow> replace_outcome \<times> 'w"
  hash256 :: "string \<Rightarrow> string"
  repr_of :: "pyval \<Rightarrow> string"

type_synonym ('w, 'a) authority_act = "('w authority_state, 'a) pyact"

definition on_aworld :: "('w, 'a) pyact \<Rightarrow> ('w, 'a) authority_act" where
  "on_aworld m = (\<lambda>s. case m (aworld s) of (r, w) \<Rightarrow> (r, s\<lparr>aworld := w\<rparr>))"

definition on_lock :: "bool \<Rightarrow> ('w mutex_state, 'a) pyact \<Rightarrow> ('w, 'a) authority_act" where
  "on_lock own m =
     (\<lambda>s. case m \<lparr>mx_world = aworld s, mx_owned = own\<rparr> of (r, x) \<Rightarrow> (r, s\<lparr>aworld := mx_world x\<rparr>))"

definition on_database :: "string \<Rightarrow> ('w, 'a) coord_act \<Rightarrow> ('w, 'a) authority_act" where
  "on_database p m =
     (\<lambda>s. case databases s p of (present, d) \<Rightarrow>
        (case m \<lparr>cworld = aworld s, db_exists = present, committed = d, working = d\<rparr> of
           (r, c) \<Rightarrow>
             (r, s\<lparr>aworld := cworld c, databases := (databases s)(p := (db_exists c, committed c))\<rparr>)))"

definition authority_path :: "'w authority_env \<Rightarrow> pyval \<Rightarrow> string pyres" where
  "authority_path env key =
     bindR (require_account_key key) (\<lambda>k. Inr (join_root env (k @ ''.authority.json'')))"

definition lock_path :: "'w authority_env \<Rightarrow> pyval \<Rightarrow> string pyres" where
  "lock_path env key =
     bindR (require_account_key key) (\<lambda>k. Inr (join_root env (k @ ''.authority.lock'')))"

definition default_coordination_db_path :: "'w authority_env \<Rightarrow> pyval \<Rightarrow> string pyres" where
  "default_coordination_db_path env key =
     bindR (require_account_key key) (\<lambda>k. Inr (join_root env (k @ ''.coordination.db'')))"

section \<open>Reading, verifying and writing\<close>

definition read_authority ::
  "'w authority_env \<Rightarrow> string \<Rightarrow> string \<Rightarrow> ('w, AccountAuthority option) authority_act" where
  "read_authority env p key =
     bindM (on_aworld (stat_authority env p)) (\<lambda>_.
     bindM (getM (\<lambda>s. authority_files s p)) (\<lambda>file.
     if file = NoAuthority then returnM None
     else
       bindM
         (tryM (on_aworld (read_authority_text env p))
            (\<lambda>e. if isinstance_exn e OSError
                 then Some (raiseM (Exn RuntimeAuthorityError
                        (''account Runtime Authority is corrupt or unreadable: '' @ p)))
                 else None)) (\<lambda>_.
       case file of
         AuthorityJson v \<Rightarrow>
           bindM (liftR (from_payload (repr_of env) (is_absolute env) v)) (\<lambda>a.
           bindM (raiseM_if (aa_account_key a \<noteq> key)
             (Exn RuntimeAuthorityError
                ''account Runtime Authority identity does not match the requested account_key'')) (\<lambda>_.
           returnM (Some a)))
       | AuthorityNotUtf8 \<Rightarrow> raiseM (Exn ValueError ''UnicodeDecodeError'')
       | _ \<Rightarrow> raiseM (Exn RuntimeAuthorityError
                (''account Runtime Authority is corrupt or unreadable: '' @ p)))))"

definition verify_authority ::
  "'w authority_env \<Rightarrow> AccountAuthority \<Rightarrow> string \<Rightarrow> string \<Rightarrow> int \<Rightarrow> string \<Rightarrow> pyval
    \<Rightarrow> ('w, unit) authority_act" where
  "verify_authority env a key environment' account_type digest db_path =
     bindM (raiseM_if (aa_account_key a \<noteq> key)
       (Exn RuntimeAuthorityError ''authority account_key mismatch with the runtime account'')) (\<lambda>_.
     bindM (raiseM_if
       (aa_environment a \<noteq> environment' \<or> aa_account_type a \<noteq> account_type
        \<or> aa_account_id_sha256 a \<noteq> digest)
       (Exn RuntimeAuthorityError
          ''authority environment/account identity does not match the runtime account binding'')) (\<lambda>_.
     if db_path = PyNone then returnM ()
     else
       bindM (on_aworld (resolve_path env db_path)) (\<lambda>intended.
       bindM (on_aworld (resolve_path env (PyStr (aa_coordination_db_path a)))) (\<lambda>certified.
       raiseM_if (intended \<noteq> certified)
         (Exn RuntimeAuthorityError
            ''intended coordination DB path does not match the Authority-certified canonical path'')))))"

definition replace_authority_file :: "'w authority_env \<Rightarrow> string \<Rightarrow> pyval \<Rightarrow> ('w, unit) authority_act" where
  "replace_authority_file env p v =
     (\<lambda>s. case replace_authority env p (aworld s) of
        (Replaced, w) \<Rightarrow>
          (Inr (), s\<lparr>aworld := w, authority_files := (authority_files s)(p := AuthorityJson v)\<rparr>)
      | (ReplaceRaised e done', w) \<Rightarrow>
          (Inl e, if done'
                  then s\<lparr>aworld := w, authority_files := (authority_files s)(p := AuthorityJson v)\<rparr>
                  else s\<lparr>aworld := w\<rparr>))"

definition write_authority_atomic ::
  "'w authority_env \<Rightarrow> string \<Rightarrow> AccountAuthority \<Rightarrow> ('w, unit) authority_act" where
  "write_authority_atomic env p a =
     bindM (on_aworld (make_authority_parent env p)) (\<lambda>_.
     bindM (on_aworld (write_authority_temporary env p)) (\<lambda>_.
     replace_authority_file env p (PyDict (to_payload a))))"

section \<open>Bootstrap and resolve\<close>

text \<open>The constructor of \<open>CoordinationDbIdentity\<close> in \<open>coordination.py\<close>.\<close>

definition mk_CoordinationDbIdentity :: "int \<Rightarrow> string \<Rightarrow> string \<Rightarrow> string \<Rightarrow> identity_row pyres" where
  "mk_CoordinationDbIdentity version key db_uuid authority_id =
     bindR (raise_if (version \<le> 0)
       (Exn CoordinationError ''identity schema_version must be a positive int'')) (\<lambda>_.
     bindR (plain_non_empty (PyStr key) ''account_key'') (\<lambda>_.
     bindR (plain_non_empty (PyStr db_uuid) ''db_uuid'') (\<lambda>_.
     bindR (plain_non_empty (PyStr authority_id) ''authority_id'') (\<lambda>_.
     Inr \<lparr>ci_account_key = key, ci_db_uuid = db_uuid, ci_authority_id = authority_id,
          ci_schema_version = version\<rparr>))))"

definition bootstrap_authority ::
  "'w authority_env \<Rightarrow> string \<Rightarrow> string \<Rightarrow> int \<Rightarrow> string \<Rightarrow> pyval \<Rightarrow> ('w, AccountAuthority) authority_act" where
  "bootstrap_authority env key environment' account_type digest db_path =
     bindM (if db_path \<noteq> PyNone then on_aworld (resolve_path env db_path)
            else liftR (default_coordination_db_path env (PyStr key))) (\<lambda>p.
     bindM (raiseM_if (\<not> is_absolute env p)
       (Exn RuntimeAuthorityError ''coordination_db_path must be absolute'')) (\<lambda>_.
     bindM (on_aworld (uuid4 env)) (\<lambda>authority_id.
     bindM (on_aworld (uuid4 env)) (\<lambda>db_uuid.
     bindM (liftR (mk_CoordinationDbIdentity 1 key db_uuid authority_id)) (\<lambda>identity.
     bindM (on_database p (create (authority_db env p) identity)) (\<lambda>_.
     bindM (liftR (check_AccountAuthority (repr_of env) (is_absolute env)
       \<lparr>aa_schema_version = 1, aa_authority_id = authority_id, aa_account_key = key,
        aa_environment = environment', aa_account_type = account_type, aa_account_id_sha256 = digest,
        aa_coordination_db_path = p, aa_coordination_db_uuid = db_uuid\<rparr>)) (\<lambda>a.
     bindM (liftR (authority_path env (PyStr key))) (\<lambda>f.
     bindM (write_authority_atomic env f a) (\<lambda>_.
     returnM a)))))))))"

text \<open>What a call of \<open>resolve\<close> asks for.\<close>

record authority_request =
  rq_account_key :: pyval
  rq_environment :: pyval
  rq_account_type :: pyval
  rq_account_id_sha256 :: pyval
  rq_coordination_db_path :: pyval
  rq_bootstrap :: bool

definition resolve_locked ::
  "'w authority_env \<Rightarrow> string \<Rightarrow> string \<Rightarrow> int \<Rightarrow> string \<Rightarrow> pyval \<Rightarrow> bool
    \<Rightarrow> ('w, AccountAuthority) authority_act" where
  "resolve_locked env key environment' account_type digest db_path bootstrap =
     bindM (liftR (authority_path env (PyStr key))) (\<lambda>f.
     bindM (read_authority env f key) (\<lambda>found.
       case found of
         Some a \<Rightarrow>
           bindM (verify_authority env a key environment' account_type digest db_path) (\<lambda>_. returnM a)
       | None \<Rightarrow>
           bindM (raiseM_if (\<not> bootstrap)
             (Exn RuntimeAuthorityError
                ''account Runtime Authority is missing; explicit bootstrap required'')) (\<lambda>_.
           bootstrap_authority env key environment' account_type digest db_path)))"

definition resolve_authority ::
  "'w authority_env \<Rightarrow> nat \<Rightarrow> authority_request \<Rightarrow> ('w, AccountAuthority) authority_act" where
  "resolve_authority env fuel q =
     bindM (liftR (require_account_key (rq_account_key q))) (\<lambda>key.
     bindM (liftR (require_environment (rq_environment q))) (\<lambda>environment'.
     bindM (liftR (require_account_type (rq_account_type q))) (\<lambda>account_type.
     bindM (liftR (require_account_id_sha256 (repr_of env) (rq_account_id_sha256 q))) (\<lambda>digest.
     bindM (liftR (account_key_from_binding_identity (hash256 env) (repr_of env)
       (PyStr environment') (PyInt account_type) (PyStr digest))) (\<lambda>derived.
     bindM (raiseM_if (derived \<noteq> key)
       (Exn RuntimeAuthorityError
          ''account_key is inconsistent with the given environment/account_type/account_id identity tuple'')) (\<lambda>_.
     bindM (liftR (lock_path env (PyStr key))) (\<lambda>l.
     let lock = (authority_mutex env l)\<lparr>timeout_seconds := Finite 10, poll_seconds := float_lit (1 / 10)\<rparr> in
     bindM (on_lock False (acquire lock fuel)) (\<lambda>_.
     finallyM
       (resolve_locked env key environment' account_type digest (rq_coordination_db_path q) (rq_bootstrap q))
       (on_lock True (release lock))))))))))"

section \<open>The round trip of a record\<close>

lemma check_AccountAuthority_Inr: "check_AccountAuthority rp absolute a = Inr b \<Longrightarrow> b = a"
  by (simp add: check_AccountAuthority_def bindR_eq_Inr)

lemma keys_of_to_payload: "set (map fst (to_payload a)) = set authority_fields"
  by (simp add: to_payload_def authority_fields_def)

lemma keys_eq_if_dget_eq: "dget d = dget d' \<Longrightarrow> set (map fst d) = set (map fst d')"
  by (metis dom_map_of_conv_image_fst list.set_map)

lemma from_payload_to_payload:
  assumes "check_AccountAuthority rp absolute a = Inr b" and "dget d = dget (to_payload a)"
  shows "from_payload rp absolute (PyDict d) = Inr a"
proof -
  have "set (map fst d) = set authority_fields"
    using keys_eq_if_dget_eq [OF assms(2)] keys_of_to_payload by metis
  moreover have "pyget d k = pyget (to_payload a) k" for k
    by (simp add: pyget_def assms(2))
  moreover have "check_AccountAuthority rp absolute a = Inr a"
    using assms(1) check_AccountAuthority_Inr [OF assms(1)] by simp
  ultimately show ?thesis
    by (cases a) (simp add: from_payload_def malformed_authority_def pyget_def to_payload_def)
qed

section \<open>What an operation may change\<close>

definition same_files :: "'w authority_state \<Rightarrow> 'w authority_state \<Rightarrow> bool" where
  "same_files s s' \<longleftrightarrow> authority_files s' = authority_files s"

definition only_file :: "string \<Rightarrow> 'w authority_state \<Rightarrow> 'w authority_state \<Rightarrow> bool" where
  "only_file f s s' \<longleftrightarrow> (\<forall>p. p \<noteq> f \<longrightarrow> authority_files s' p = authority_files s p)"

definition same_store :: "'w authority_state \<Rightarrow> 'w authority_state \<Rightarrow> bool" where
  "same_store s s' \<longleftrightarrow> authority_files s' = authority_files s \<and> databases s' = databases s"

interpretation sf: step_preorder same_files
  by unfold_locales (simp_all add: same_files_def)

interpretation onf: step_preorder "only_file f"
  by unfold_locales (simp_all add: only_file_def)

interpretation sst: step_preorder same_store
  by unfold_locales (simp_all add: same_store_def)

lemma keeps_mono: "keeps R m \<Longrightarrow> (\<And>s s'. R s s' \<Longrightarrow> R' s s') \<Longrightarrow> keeps R' m"
  by (auto simp: keeps_def)

lemma same_store_files: "same_store s s' \<Longrightarrow> same_files s s'"
  by (simp add: same_store_def same_files_def)

lemma same_files_only: "same_files s s' \<Longrightarrow> only_file f s s'"
  by (simp add: same_files_def only_file_def)

lemma keeps_on_aworld: "keeps same_store (on_aworld m)"
  by (auto simp: keeps_def on_aworld_def same_store_def split: prod.splits)

lemma keeps_on_lock: "keeps same_store (on_lock own m)"
  by (auto simp: keeps_def on_lock_def same_store_def split: prod.splits)

lemma keeps_on_database: "keeps same_files (on_database p m)"
  by (auto simp: keeps_def on_database_def same_files_def split: prod.splits)

lemma keeps_replace_authority_file: "keeps (only_file f) (replace_authority_file env f v)"
  by (auto simp: keeps_def replace_authority_file_def only_file_def
      split: prod.splits replace_outcome.splits)

lemma keeps_read_authority: "keeps same_store (read_authority env f key)"
  unfolding read_authority_def
  by (auto intro!: sst.keeps_intros keeps_on_aworld split: if_splits authority_file.split)

lemma keeps_verify_authority: "keeps same_store (verify_authority env a key e t g p)"
  unfolding verify_authority_def by (auto intro!: sst.keeps_intros keeps_on_aworld)

lemmas keeps_on_aworld_files = keeps_mono [OF keeps_on_aworld same_store_files]
lemmas keeps_on_aworld_only = keeps_mono [OF keeps_on_aworld_files same_files_only]
lemmas keeps_on_database_only = keeps_mono [OF keeps_on_database same_files_only]

lemma keeps_write_authority: "keeps (only_file f) (write_authority_atomic env f a)"
  unfolding write_authority_atomic_def
  by (auto intro!: onf.keeps_intros keeps_on_aworld_only keeps_replace_authority_file)

lemma authority_path_key: "authority_path env (PyStr key) = Inr f \<Longrightarrow> f = join_root env (key @ ''.authority.json'')"
  by (auto simp: authority_path_def bindR_eq_Inr require_account_key_def split: if_splits)

lemma keeps_bootstrap:
  "keeps (only_file (join_root env (key @ ''.authority.json''))) (bootstrap_authority env key e t g p)"
proof -
  let ?f = "join_root env (key @ ''.authority.json'')"
  have written: "keeps (only_file ?f)
      (bindM (liftR (authority_path env (PyStr key))) (\<lambda>f.
       bindM (write_authority_atomic env f a) (\<lambda>_. returnM a)))" for a
  proof (cases "authority_path env (PyStr key)")
    case (Inl x)
    then show ?thesis by (simp add: bindM_def liftR_def keeps_def only_file_def)
  next
    case (Inr f)
    then have "f = ?f" by (rule authority_path_key)
    moreover have "keeps (only_file f) (bindM (write_authority_atomic env f a) (\<lambda>_. returnM a))"
      by (rule onf.keeps_bindM [OF keeps_write_authority onf.keeps_returnM])
    ultimately show ?thesis using Inr by (simp add: bindM_def liftR_def)
  qed
  show ?thesis unfolding bootstrap_authority_def
    by (intro written onf.keeps_bindM onf.keeps_if onf.keeps_raiseM_if onf.keeps_liftR
        keeps_on_aworld_only keeps_on_database_only)
qed

text \<open>What \<open>read_authority\<close> answers, and that an existing file is never taken for a missing one.\<close>

lemma read_authority_missing:
  "read_authority env f key s = (Inr None, s') \<Longrightarrow> authority_files s f = NoAuthority"
  by (auto simp: read_authority_def bindM_def getM_def on_aworld_def returnM_def liftR_def raiseM_def
      raiseM_if_def split: prod.splits sum.splits if_splits authority_file.splits)

lemma read_authority_found:
  assumes "read_authority env f key s = (Inr (Some a), s')"
  shows "\<exists>v. authority_files s f = AuthorityJson v
           \<and> from_payload (repr_of env) (is_absolute env) v = Inr a \<and> aa_account_key a = key"
  using assms
  by (auto simp: read_authority_def bindM_def getM_def on_aworld_def returnM_def liftR_def raiseM_def
      raiseM_if_def split: prod.splits sum.splits if_splits authority_file.splits)

text \<open>The file of \<open>key\<close> holds the record \<open>a\<close>.\<close>

definition holds_authority :: "'w authority_env \<Rightarrow> 'w authority_state \<Rightarrow> string \<Rightarrow> AccountAuthority \<Rightarrow> bool" where
  "holds_authority env s key a \<longleftrightarrow>
     (\<exists>v. authority_files s (join_root env (key @ ''.authority.json'')) = AuthorityJson v
        \<and> from_payload (repr_of env) (is_absolute env) v = Inr a)"

lemma write_authority_holds:
  assumes "write_authority_atomic env f a s = (Inr x, s')"
  shows "authority_files s' f = AuthorityJson (PyDict (to_payload a))"
  using assms
  by (auto simp: write_authority_atomic_def bindM_def on_aworld_def replace_authority_file_def
      split: prod.splits sum.splits replace_outcome.splits)

lemma triple_skip: "triple (\<lambda>_. True) m (\<lambda>_ _. True) (\<lambda>_. True)"
  by (rule tripleI) simp_all

lemma bootstrap_holds:
  assumes "bootstrap_authority env key e t g p s = (Inr a, s')"
  shows "holds_authority env s' key a"
proof -
  let ?T = "\<lambda>_ :: 'a authority_state. True"
  have last: "triple ?T
      (bindM (liftR (check_AccountAuthority (repr_of env) (is_absolute env) b)) (\<lambda>a.
       bindM (liftR (authority_path env (PyStr key))) (\<lambda>f.
       bindM (write_authority_atomic env f a) (\<lambda>_. returnM a))))
      (\<lambda>a s. holds_authority env s key a) ?T" for b
  proof (rule tripleI)
    fix s s' :: "'a authority_state" and a
    assume "bindM (liftR (check_AccountAuthority (repr_of env) (is_absolute env) b)) (\<lambda>a.
       bindM (liftR (authority_path env (PyStr key))) (\<lambda>f.
       bindM (write_authority_atomic env f a) (\<lambda>_. returnM a))) s = (Inr a, s')"
    then obtain f x where checked: "check_AccountAuthority (repr_of env) (is_absolute env) b = Inr a"
      and path: "authority_path env (PyStr key) = Inr f"
      and wrote: "write_authority_atomic env f a s = (Inr x, s')"
      by (auto simp: bindM_def liftR_def returnM_def split: prod.splits sum.splits)
    have "check_AccountAuthority (repr_of env) (is_absolute env) a = Inr a"
      using checked check_AccountAuthority_Inr [OF checked] by simp
    then have "from_payload (repr_of env) (is_absolute env) (PyDict (to_payload a)) = Inr a"
      by (rule from_payload_to_payload) simp
    then show "holds_authority env s' key a"
      using write_authority_holds [OF wrote] authority_path_key [OF path]
      by (auto simp: holds_authority_def)
  qed simp
  have "triple ?T (bootstrap_authority env key e t g p) (\<lambda>a s. holds_authority env s key a) ?T"
    unfolding bootstrap_authority_def
    by (intro last triple_bindM [OF triple_skip])
  from tripleD_Inr [OF this _ assms] show ?thesis by simp
qed

section \<open>One call of \<open>resolve\<close>\<close>

text \<open>The part of \<open>resolve\<close> under the lock, and the rest, which changes no file and no database.\<close>

lemma resolve_authority_cases:
  assumes "resolve_authority env fuel q s = (r, s')"
  obtains (refused) e where "r = Inl e" and "same_store s s'"
  | (locked) key e t g s1 r1 s2 where "rq_account_key q = PyStr key" and "same_store s s1"
      and "resolve_locked env key e t g (rq_coordination_db_path q) (rq_bootstrap q) s1 = (r1, s2)"
      and "same_store s2 s'" and "r = r1 \<or> (\<exists>x. r = Inl x)"
proof -
  have key: "rq_account_key q = PyStr k" if "require_account_key (rq_account_key q) = Inr k" for k
    using that by (cases "rq_account_key q") (auto simp: require_account_key_def nonempty_str_def split: if_splits)
  show ?thesis
    using assms
    by (auto simp: resolve_authority_def bindM_def liftR_def raiseM_if_def raiseM_def returnM_def
        finallyM_def Let_def same_store_def
        split: sum.splits prod.splits if_splits
        dest!: key keepsD [OF keeps_on_lock] intro: that)
qed

definition keeps_existing :: "'w authority_state \<Rightarrow> 'w authority_state \<Rightarrow> bool" where
  "keeps_existing s s' \<longleftrightarrow>
     (\<forall>p. authority_files s p \<noteq> NoAuthority \<longrightarrow> authority_files s' p = authority_files s p)"

lemma resolve_locked_found:
  assumes "authority_files s (join_root env (key @ ''.authority.json'')) \<noteq> NoAuthority"
    and "resolve_locked env key e t g p b s = (r, s')"
  shows "same_store s s'"
proof (cases "authority_path env (PyStr key)")
  case (Inl x)
  then show ?thesis using assms(2) by (simp add: resolve_locked_def bindM_def liftR_def same_store_def)
next
  case (Inr f)
  then have f: "f = join_root env (key @ ''.authority.json'')" by (rule authority_path_key)
  obtain r1 s1 where read: "read_authority env f key s = (r1, s1)" by fastforce
  then have s1: "same_store s s1" by (rule keepsD [OF keeps_read_authority])
  show ?thesis
  proof (cases r1)
    case (Inl x)
    then show ?thesis using assms(2) s1 Inr read by (simp add: resolve_locked_def bindM_def liftR_def)
  next
    case (Inr found)
    then obtain a where "found = Some a"
      using read_authority_missing [of env f key s s1] read f assms(1) by (cases found) auto
    then have "bindM (verify_authority env a key e t g p) (\<lambda>_. returnM a) s1 = (r, s')"
      using assms(2) \<open>authority_path env (PyStr key) = Inr f\<close> read Inr
      by (simp add: resolve_locked_def bindM_def liftR_def)
    then have "same_store s1 s'"
      by (rule keepsD [OF sst.keeps_bindM [OF keeps_verify_authority sst.keeps_returnM]])
    with s1 show ?thesis by (rule sst.R_trans)
  qed
qed

lemma resolve_locked_only:
  "keeps (only_file (join_root env (key @ ''.authority.json''))) (resolve_locked env key e t g p b)"
  unfolding resolve_locked_def
  by (auto intro!: onf.keeps_intros keeps_bootstrap keeps_mono [OF keeps_read_authority]
      keeps_mono [OF keeps_verify_authority] split: option.split
      simp: same_store_def only_file_def)

lemma resolve_locked_keeps_existing:
  assumes "resolve_locked env key e t g p b s = (r, s')"
  shows "keeps_existing s s'"
proof (cases "authority_files s (join_root env (key @ ''.authority.json'')) = NoAuthority")
  case True
  then show ?thesis using keepsD [OF resolve_locked_only assms]
    unfolding keeps_existing_def only_file_def by metis
next
  case False
  then show ?thesis using resolve_locked_found [OF _ assms]
    by (auto simp: keeps_existing_def same_store_def)
qed

lemma resolve_locked_holds:
  assumes "resolve_locked env key e t g p b s = (Inr a, s')"
  shows "holds_authority env s' key a"
proof -
  obtain f where path: "authority_path env (PyStr key) = Inr f"
    using assms by (auto simp: resolve_locked_def bindM_def liftR_def split: sum.splits)
  obtain found s1 where read: "read_authority env f key s = (Inr found, s1)"
    using assms path by (auto simp: resolve_locked_def bindM_def liftR_def split: sum.splits prod.splits)
  show ?thesis
  proof (cases found)
    case None
    then have "bootstrap_authority env key e t g p s1 = (Inr a, s')"
      using assms path read
      by (auto simp: resolve_locked_def bindM_def liftR_def raiseM_if_def raiseM_def returnM_def
          split: if_splits)
    then show ?thesis by (rule bootstrap_holds)
  next
    case (Some a')
    then have verify: "bindM (verify_authority env a' key e t g p) (\<lambda>_. returnM a') s1 = (Inr a, s')"
      using assms path read by (simp add: resolve_locked_def bindM_def liftR_def)
    then have "a' = a" by (auto simp: bindM_def returnM_def split: sum.splits prod.splits)
    moreover have "same_store s1 s'"
      by (rule keepsD [OF sst.keeps_bindM [OF keeps_verify_authority sst.keeps_returnM] verify])
    ultimately show ?thesis
      using read_authority_found [of env f key s a' s1] read Some authority_path_key [OF path]
        keepsD [OF keeps_read_authority read]
      by (auto simp: holds_authority_def same_store_def)
  qed
qed

section \<open>The database that a bootstrap creates\<close>

lemma triple_sql: "(\<And>s w. P s \<Longrightarrow> P (s\<lparr>cworld := w\<rparr>)) \<Longrightarrow> triple P (sql m) (\<lambda>_. P) (\<lambda>_. True)"
  by (auto simp: triple_def wp_def sql_def split: prod.splits sum.splits)

lemma triple_select:
  "(\<And>s w. P s \<Longrightarrow> P (s\<lparr>cworld := w\<rparr>))
    \<Longrightarrow> triple P (select env f) (\<lambda>x s. P s \<and> x = f (working s)) (\<lambda>_. True)"
  unfolding select_def by (rule triple_bindM [OF triple_sql triple_getM]) simp_all

definition certifies :: "identity_row \<Rightarrow> coordination_db \<Rightarrow> bool" where
  "certifies row d \<longleftrightarrow> coordination_identity d = [row]"

lemma check_db_identity_sound:
  "triple db_exists (check_db_identity env row)
     (\<lambda>_ s. db_exists s \<and> certifies row (working s)) (\<lambda>_. True)"
proof -
  have rows: "triple (\<lambda>s. db_exists s \<and> length (coordination_identity (working s)) = 1)
      (bindM (select env coordination_identity) (\<lambda>rows. case rows of
         [] \<Rightarrow> raiseM e
       | r # _ \<Rightarrow> raiseM_if (r \<noteq> row) e')) (\<lambda>_ s. db_exists s \<and> certifies row (working s)) (\<lambda>_. True)"
    for e e'
    by (rule triple_bindM [OF triple_select])
      (auto simp: certifies_def length_Suc_conv intro!: tripleI split: list.splits
        simp: raiseM_def raiseM_if_def returnM_def split: if_splits)
  show ?thesis unfolding check_db_identity_def
    by (rule triple_bindM [OF triple_select triple_bindM [OF triple_raiseM_if rows]]) auto
qed

lemma commit_sound:
  "triple (\<lambda>s. db_exists s \<and> certifies row (working s)) (commit env)
     (\<lambda>_ s. db_exists s \<and> certifies row (committed s)) (\<lambda>_. True)"
  by (auto simp: triple_def wp_def commit_def split: prod.splits commit_outcome.splits)

lemma triple_exists: "keeps (\<lambda>s s'. db_exists s \<longrightarrow> db_exists s') m \<Longrightarrow> triple db_exists m (\<lambda>_. db_exists) (\<lambda>_. True)"
  by (auto simp: keeps_def intro!: tripleI)

definition still_exists :: "'w coord_state \<Rightarrow> 'w coord_state \<Rightarrow> bool" where
  "still_exists s s' \<longleftrightarrow> (db_exists s \<longrightarrow> db_exists s')"

interpretation sx: step_preorder still_exists
  by unfold_locales (simp_all add: still_exists_def)

lemma still_exists_sql: "keeps still_exists (sql m)"
  by (auto simp: keeps_def sql_def still_exists_def split: prod.splits)

lemma still_exists_modify: "(\<And>s. db_exists (f s) = db_exists s) \<Longrightarrow> keeps still_exists (modifyM f)"
  by (simp add: keeps_modifyM still_exists_def)

lemma still_exists_begin: "keeps still_exists (begin_immediate env)"
  unfolding begin_immediate_def by (intro sx.keeps_bindM still_exists_sql still_exists_modify) simp

lemma still_exists_meta: "keeps still_exists (ensure_meta env b)"
  unfolding ensure_meta_def select_def execute_def
  by (auto intro!: sx.keeps_intros still_exists_sql still_exists_modify split: list.split)

lemmas keeps_db_exists =
  triple_exists [OF keeps_mono [OF still_exists_sql]]
  triple_exists [OF keeps_mono [OF still_exists_begin]]
  triple_exists [OF keeps_mono [OF still_exists_meta]]

lemma initialize_certifies:
  "triple (\<lambda>_. True) (initialize env (Some row))
     (\<lambda>_ s. db_exists s \<and> certifies row (committed s)) (\<lambda>_. True)"
proof -
  let ?C = "\<lambda>_ s. db_exists s \<and> certifies row (committed s)"
  have body: "triple db_exists
      (bindM (sql (sql_statement env)) (\<lambda>_. bindM (begin_immediate env) (\<lambda>_.
       bindM (sql (sql_statement env)) (\<lambda>_. bindM (ensure_meta env True) (\<lambda>_.
       bindM (check_db_identity env row) (\<lambda>_. commit env)))))) ?C (\<lambda>_. True)"
    by (rule triple_bindM [OF keeps_db_exists(1) triple_bindM [OF keeps_db_exists(2)
          triple_bindM [OF keeps_db_exists(1) triple_bindM [OF keeps_db_exists(3)
          triple_bindM [OF check_db_identity_sound commit_sound]]]]])
      (simp_all add: still_exists_def)
  have handled: "triple db_exists (tryM
      (bindM (sql (sql_statement env)) (\<lambda>_. bindM (begin_immediate env) (\<lambda>_.
       bindM (sql (sql_statement env)) (\<lambda>_. bindM (ensure_meta env True) (\<lambda>_.
       bindM (check_db_identity env row) (\<lambda>_. commit env))))))
      (\<lambda>e. if isinstance_exn e PyException
           then Some (bindM (sql (sql_rollback env)) (\<lambda>_. raiseM e)) else None)) ?C (\<lambda>_. True)"
    by (rule triple_tryM [OF body])
      (auto intro: triple_bindM [OF triple_skip triple_raiseM] split: if_splits)
  have closed: "triple db_exists (finallyM (tryM
      (bindM (sql (sql_statement env)) (\<lambda>_. bindM (begin_immediate env) (\<lambda>_.
       bindM (sql (sql_statement env)) (\<lambda>_. bindM (ensure_meta env True) (\<lambda>_.
       bindM (check_db_identity env row) (\<lambda>_. commit env))))))
      (\<lambda>e. if isinstance_exn e PyException
           then Some (bindM (sql (sql_rollback env)) (\<lambda>_. raiseM e)) else None))
      (sql (sql_close env))) ?C (\<lambda>_. True)"
    by (rule triple_finallyM [OF handled triple_skip triple_sql]) simp
  have connected: "triple (\<lambda>_. True) (connect env) (\<lambda>_. db_exists) (\<lambda>_. True)"
    by (auto simp: connect_def intro!: tripleI split: prod.splits sum.splits)
  show ?thesis unfolding initialize_def option.case
    by (rule triple_tryM [OF triple_bindM [OF triple_skip triple_bindM [OF triple_skip
          triple_bindM [OF connected closed]]]])
      (auto intro: triple_raiseM split: if_splits)
qed

lemma create_certifies:
  assumes "create env row c = (Inr x, c')"
  shows "\<not> db_exists c \<and> db_exists c' \<and> certifies row (committed c')"
proof
  show "\<not> db_exists c"
    using assms by (auto simp: create_def bindM_def getM_def raiseM_if_def raiseM_def returnM_def split: if_splits)
  have "triple (\<lambda>_. True) (create env row) (\<lambda>_ s. db_exists s \<and> certifies row (committed s)) (\<lambda>_. True)"
    unfolding create_def
    by (rule triple_bindM [OF triple_skip triple_bindM [OF triple_skip triple_bindM [OF triple_skip
          triple_bindM [OF triple_skip initialize_certifies]]]])
  from tripleD_Inr [OF this _ assms] show "db_exists c' \<and> certifies row (committed c')" by simp
qed

definition identity_of :: "AccountAuthority \<Rightarrow> identity_row" where
  "identity_of a =
     \<lparr>ci_account_key = aa_account_key a, ci_db_uuid = aa_coordination_db_uuid a,
      ci_authority_id = aa_authority_id a, ci_schema_version = 1\<rparr>"

text \<open>At the path \<open>p\<close> there is a database with just this identity.\<close>

definition database_certifies :: "'w authority_state \<Rightarrow> string \<Rightarrow> identity_row \<Rightarrow> bool" where
  "database_certifies s p row \<longleftrightarrow> fst (databases s p) \<and> certifies row (snd (databases s p))"

definition same_databases :: "'w authority_state \<Rightarrow> 'w authority_state \<Rightarrow> bool" where
  "same_databases s s' \<longleftrightarrow> databases s' = databases s"

interpretation sd: step_preorder same_databases
  by unfold_locales (simp_all add: same_databases_def)

lemma same_store_databases: "same_store s s' \<Longrightarrow> same_databases s s'"
  by (simp add: same_store_def same_databases_def)

lemmas keeps_on_aworld_databases = keeps_mono [OF keeps_on_aworld same_store_databases]

lemma keeps_write_databases: "keeps same_databases (write_authority_atomic env f a)"
proof -
  have "keeps same_databases (replace_authority_file env f v)" for v
    by (auto simp: keeps_def replace_authority_file_def same_databases_def
        split: prod.splits replace_outcome.splits)
  then show ?thesis unfolding write_authority_atomic_def
    by (intro sd.keeps_bindM keeps_on_aworld_databases)
qed

lemma on_database_create:
  assumes "on_database p (create env row) s = (Inr x, s')"
  shows "\<not> fst (databases s p) \<and> database_certifies s' p row"
  using assms
  by (auto simp: on_database_def database_certifies_def split: prod.splits dest!: create_certifies)

lemma mk_identity: "mk_CoordinationDbIdentity v k u i = Inr row
  \<Longrightarrow> row = \<lparr>ci_account_key = k, ci_db_uuid = u, ci_authority_id = i, ci_schema_version = v\<rparr>"
  by (auto simp: mk_CoordinationDbIdentity_def bindR_eq_Inr)

lemma bootstrap_certifies:
  assumes "bootstrap_authority env key e t g p s = (Inr a, s')"
  shows "aa_account_key a = key \<and> \<not> fst (databases s (aa_coordination_db_path a))
       \<and> database_certifies s' (aa_coordination_db_path a) (identity_of a)"
proof -
  let ?D = "\<lambda>s'. databases s' = databases s"
  let ?Q = "\<lambda>a s'. aa_account_key a = key \<and> \<not> fst (databases s (aa_coordination_db_path a))
       \<and> database_certifies s' (aa_coordination_db_path a) (identity_of a)"
  have world: "triple ?D (on_aworld m) (\<lambda>_. ?D) (\<lambda>_. True)" for m :: "('a, 'c) pyact"
    by (rule triple_conseq [OF triple_keeps [of ?D ?D]])
      (auto simp: keeps_def dest!: keepsD [OF keeps_on_aworld] simp: same_store_def)
  have last: "triple ?D
      (bindM (liftR (mk_CoordinationDbIdentity 1 key db_uuid authority_id)) (\<lambda>identity.
       bindM (on_database p (create (authority_db env p) identity)) (\<lambda>_.
       bindM (liftR (check_AccountAuthority (repr_of env) (is_absolute env)
         \<lparr>aa_schema_version = 1, aa_authority_id = authority_id, aa_account_key = key,
          aa_environment = e, aa_account_type = t, aa_account_id_sha256 = g,
          aa_coordination_db_path = p, aa_coordination_db_uuid = db_uuid\<rparr>)) (\<lambda>a.
       bindM (liftR (authority_path env (PyStr key))) (\<lambda>f.
       bindM (write_authority_atomic env f a) (\<lambda>_. returnM a)))))) ?Q (\<lambda>_. True)"
    (is "triple ?D (?last p db_uuid authority_id) ?Q _") for p db_uuid authority_id
  proof (rule tripleI)
    fix s1 s2 :: "'a authority_state" and b
    assume D: "?D s1" and run: "?last p db_uuid authority_id s1 = (Inr b, s2)"
    obtain row x s1' f y where row: "mk_CoordinationDbIdentity 1 key db_uuid authority_id = Inr row"
      and created: "on_database p (create (authority_db env p) row) s1 = (Inr x, s1')"
      and checked: "check_AccountAuthority (repr_of env) (is_absolute env)
         \<lparr>aa_schema_version = 1, aa_authority_id = authority_id, aa_account_key = key,
          aa_environment = e, aa_account_type = t, aa_account_id_sha256 = g,
          aa_coordination_db_path = p, aa_coordination_db_uuid = db_uuid\<rparr> = Inr b"
      and wrote: "write_authority_atomic env f b s1' = (Inr y, s2)"
      using run by (auto simp: bindM_def liftR_def returnM_def split: prod.splits sum.splits)
    have "databases s2 = databases s1'"
      using keepsD [OF keeps_write_databases wrote] by (simp add: same_databases_def)
    then show "?Q b s2"
      using on_database_create [OF created] check_AccountAuthority_Inr [OF checked] mk_identity [OF row] D
      by (simp add: database_certifies_def identity_of_def)
  qed simp
  have "triple ?D (bootstrap_authority env key e t g p) ?Q (\<lambda>_. True)"
    unfolding bootstrap_authority_def
    by (rule triple_bindM [OF triple_if [OF world triple_lift] triple_bindM [OF triple_check
          triple_bindM [OF world triple_bindM [OF world last]]]]) simp_all
  from tripleD_Inr [OF this _ assms] show ?thesis by simp
qed

lemma resolve_locked_created:
  assumes "resolve_locked env key e t g p b s = (Inr a, s')"
    and "authority_files s (join_root env (key @ ''.authority.json'')) = NoAuthority"
  shows "\<exists>s1. databases s1 = databases s \<and> bootstrap_authority env key e t g p s1 = (Inr a, s')"
proof -
  obtain f where path: "authority_path env (PyStr key) = Inr f"
    using assms by (auto simp: resolve_locked_def bindM_def liftR_def split: sum.splits)
  obtain found s1 where read: "read_authority env f key s = (Inr found, s1)"
    using assms path by (auto simp: resolve_locked_def bindM_def liftR_def split: sum.splits prod.splits)
  have "found = None"
    using read_authority_found [of env f key s _ s1] read assms(2) authority_path_key [OF path]
    by (cases found) auto
  moreover have "databases s1 = databases s"
    using keepsD [OF keeps_read_authority read] by (simp add: same_store_def)
  ultimately show ?thesis
    using assms(1) path read
    by (auto simp: resolve_locked_def bindM_def liftR_def raiseM_if_def raiseM_def returnM_def
        split: if_splits)
qed

lemma holds_authority_same_files:
  "authority_files s' = authority_files s \<Longrightarrow> holds_authority env s' key a = holds_authority env s key a"
  by (simp add: holds_authority_def)

lemma resolve_holds:
  assumes "resolve_authority env fuel q s = (Inr a, s')"
  shows "\<exists>key. rq_account_key q = PyStr key \<and> holds_authority env s' key a"
  using assms
proof (cases rule: resolve_authority_cases)
  case (locked key e t g s1 r1 s2)
  from locked(5) have "r1 = Inr a" by simp
  with locked(3) have "holds_authority env s2 key a" by (simp add: resolve_locked_holds)
  then have "holds_authority env s' key a"
    using locked(4) by (simp add: same_store_def holds_authority_def)
  with locked(1) show ?thesis by blast
qed simp

lemma resolve_keeps_existing:
  assumes "resolve_authority env fuel q s = (r, s')"
  shows "keeps_existing s s'"
  using assms
proof (cases rule: resolve_authority_cases)
  case refused
  then show ?thesis by (simp add: keeps_existing_def same_store_def)
next
  case (locked key e t g s1 r1 s2)
  from resolve_locked_keeps_existing [OF locked(3)] show ?thesis
    using locked(2,4) by (simp add: keeps_existing_def same_store_def)
qed

text \<open>
  A run: calls of \<open>resolve\<close> by any processes, one after the other under the lock, each with its answer;
  between the calls databases and the world may change in any way.
\<close>

inductive authority_run ::
  "'w authority_env \<Rightarrow> nat \<Rightarrow> 'w authority_state \<Rightarrow> (authority_request \<times> AccountAuthority pyres) list
    \<Rightarrow> 'w authority_state \<Rightarrow> bool" where
  run_start: "authority_run env fuel s [] s"
| run_resolve: "authority_run env fuel s tr s' \<Longrightarrow> resolve_authority env fuel q s' = (r, s'')
    \<Longrightarrow> authority_run env fuel s (tr @ [(q, r)]) s''"
| run_other: "authority_run env fuel s tr s' \<Longrightarrow> authority_files s'' = authority_files s'
    \<Longrightarrow> authority_run env fuel s tr s''"

lemma holds_keeps_existing:
  "holds_authority env s key a \<Longrightarrow> keeps_existing s s' \<Longrightarrow> holds_authority env s' key a"
  by (fastforce simp: holds_authority_def keeps_existing_def)

lemma authority_run_holds:
  assumes "authority_run env fuel s tr s'" and "(q, Inr a) \<in> set tr"
  shows "\<exists>key. rq_account_key q = PyStr key \<and> holds_authority env s' key a"
  using assms
proof (induction arbitrary: q a rule: authority_run.induct)
  case (run_start env fuel s)
  then show ?case by simp
next
  case (run_resolve env fuel s tr s' q' r s'')
  show ?case
  proof (cases "(q, Inr a) \<in> set tr")
    case True
    with run_resolve.IH obtain key where "rq_account_key q = PyStr key" "holds_authority env s' key a"
      by blast
    then show ?thesis
      using holds_keeps_existing resolve_keeps_existing [OF run_resolve.hyps(2)] by blast
  next
    case False
    then have "resolve_authority env fuel q s' = (Inr a, s'')" using run_resolve by auto
    then show ?thesis by (rule resolve_holds)
  qed
next
  case (run_other env fuel s tr s' s'')
  then show ?case using holds_authority_same_files by metis
qed

lemma holds_authority_unique:
  "holds_authority env s key a \<Longrightarrow> holds_authority env s key b \<Longrightarrow> a = b"
  by (auto simp: holds_authority_def)

lemma bindM_eq_Inr:
  "bindM m f s = (Inr x, s') \<longleftrightarrow> (\<exists>y s1. m s = (Inr y, s1) \<and> f y s1 = (Inr x, s'))"
  by (auto simp: bindM_def split: prod.splits sum.splits)

text \<open>
  A process that ends between the creation of the database and the write of the authority leaves the
  account without authority: \<open>resolve\<close> with the default path never returns again.
\<close>

lemma half_bootstrap_blocks:
  assumes "authority_files s (join_root env (key @ ''.authority.json'')) = NoAuthority"
    and "fst (databases s (join_root env (key @ ''.coordination.db'')))"
    and "rq_account_key q = PyStr key" and "rq_coordination_db_path q = PyNone"
  shows "\<exists>e. fst (resolve_authority env fuel q s) = Inl e"
proof (rule ccontr)
  assume "\<not> ?thesis"
  then obtain a s' where run: "resolve_authority env fuel q s = (Inr a, s')"
    by (metis prod.collapse sum.exhaust)
  from run show False
  proof (cases rule: resolve_authority_cases)
    case (locked key' e t g s1 r1 s2)
    then have locked_run: "resolve_locked env key e t g PyNone (rq_bootstrap q) s1 = (Inr a, s2)"
      using assms(3,4) by auto
    obtain s3 where s3: "databases s3 = databases s1"
      and boot: "bootstrap_authority env key e t g PyNone s3 = (Inr a, s2)"
      using resolve_locked_created [OF locked_run] assms(1) locked(2) by (auto simp: same_store_def)
    have "aa_coordination_db_path a = join_root env (key @ ''.coordination.db'')"
      using boot
      by (auto simp: bootstrap_authority_def bindM_eq_Inr liftR_def default_coordination_db_path_def
          bindR_eq_Inr require_account_key_def returnM_def dest!: check_AccountAuthority_Inr split: if_splits)
    then show ?thesis
      using bootstrap_certifies [OF boot] assms(2) s3 locked(2) by (simp add: same_store_def)
  qed simp
qed

end
