(* ===== verification/Authority_Properties.thy ===== *)
theory Authority_Properties
  imports Account_Authority Coordinated_Properties
begin

text \<open>
  The properties of the authority of an account (\<open>authority.py\<close>), with a small environment in which the
  calls of the system succeed.
\<close>

section \<open>A concrete environment\<close>

fun replace_file_k :: "string \<Rightarrow> pyval \<Rightarrow> 'w authority_state \<Rightarrow> replace_outcome \<times> 'w
  \<Rightarrow> (exn + unit) \<times> 'w authority_state" where
  "replace_file_k p v s (Replaced, w) =
     (Inr (), s\<lparr>aworld := w, authority_files := (authority_files s)(p := AuthorityJson v)\<rparr>)"
| "replace_file_k p v s (ReplaceRaised e True, w) =
     (Inl e, s\<lparr>aworld := w, authority_files := (authority_files s)(p := AuthorityJson v)\<rparr>)"
| "replace_file_k p v s (ReplaceRaised e False, w) = (Inl e, s\<lparr>aworld := w\<rparr>)"

lemma replace_authority_file_code [code]:
  "replace_authority_file env p v s = replace_file_k p v s (replace_authority env p (aworld s))"
proof (cases "replace_authority env p (aworld s)")
  case (Pair c w)
  then show ?thesis
    by (cases "(p, v, s, c, w)" rule: replace_file_k.cases) (simp_all add: replace_authority_file_def)
qed

lemma on_aworld_code [code]: "on_aworld m s = put_k (\<lambda>w. s\<lparr>aworld := w\<rparr>) (m (aworld s))"
  by (auto simp: on_aworld_def split: prod.split)

lemma on_lock_code [code]:
  "on_lock own m s = put_k (\<lambda>x. s\<lparr>aworld := mx_world x\<rparr>) (m \<lparr>mx_world = aworld s, mx_owned = own\<rparr>)"
  by (auto simp: on_lock_def split: prod.split)

lemma on_database_code [code]:
  "on_database p m s =
     put_k (\<lambda>c. s\<lparr>aworld := cworld c, databases := (databases s)(p := (db_exists c, committed c))\<rparr>)
       (m \<lparr>cworld = aworld s, db_exists = fst (databases s p), committed = snd (databases s p),
           working = snd (databases s p)\<rparr>)"
  by (auto simp: on_database_def split: prod.split)

lemma mx_code [code]: "mx m s = put_k (\<lambda>w. s\<lparr>mx_world := w\<rparr>) (m (mx_world s))"
  by (auto simp: mx_def split: prod.split)

lemmas mutex_at [code] = lock_loop.simps [THEN fun_cong] fun_cong [OF acquire_def] fun_cong [OF release_def]
lemmas identity_at [code] = fun_cong [OF ensure_meta_def] fun_cong [OF check_db_identity_def]
  fun_cong [OF initialize_def] fun_cong [OF create_def]
lemmas read_authority_at [code] = fun_cong [OF read_authority_def]
lemmas verify_authority_at [code] = fun_cong [OF verify_authority_def]
lemmas write_authority_at [code] = fun_cong [OF write_authority_atomic_def]
lemmas bootstrap_authority_at [code] = fun_cong [OF bootstrap_authority_def]
lemmas resolve_locked_at [code] = fun_cong [OF resolve_locked_def]
lemmas resolve_authority_at [code] = fun_cong [OF resolve_authority_def]

text \<open>The world counts the UUIDs; paths are absolute when they start with a slash.\<close>

definition example_authority_env :: "nat authority_env" where
  "example_authority_env =
     \<lparr>authority_mutex = (\<lambda>_. quiet_mutex), authority_db = (\<lambda>_. counting_sql),
      join_root = (\<lambda>name. ''/core/'' @ name), resolve_path = (\<lambda>v. returnM (the_str v)),
      is_absolute = (\<lambda>p. take 1 p = ''/''),
      uuid4 = (\<lambda>n. (Inr (''00000000-0000-4000-8000-00000000000'' @ nat_repr n), n + 1)),
      stat_authority = (\<lambda>_. returnM ()), read_authority_text = (\<lambda>_. returnM ()),
      make_authority_parent = (\<lambda>_. returnM ()), write_authority_temporary = (\<lambda>_. returnM ()),
      replace_authority = (\<lambda>_ w. (Replaced, w)), hash256 = (\<lambda>s. ''h'' @ take 4 (drop 19 s)),
      repr_of = (\<lambda>_. [])\<rparr>"

definition example_authority_request :: authority_request where
  "example_authority_request =
     \<lparr>rq_account_key = PyStr ''hsimu'', rq_environment = PyStr ''simulation'', rq_account_type = PyInt 2,
      rq_account_id_sha256 = PyStr zero_digest, rq_coordination_db_path = PyNone, rq_bootstrap = True\<rparr>"

definition no_authorities :: "nat authority_state" where
  "no_authorities =
     \<lparr>aworld = 1, authority_files = (\<lambda>_. NoAuthority), databases = (\<lambda>_. (False, empty_db))\<rparr>"

definition example_authority :: AccountAuthority where
  "example_authority =
     \<lparr>aa_schema_version = 1, aa_authority_id = ''00000000-0000-4000-8000-000000000001'',
      aa_account_key = ''hsimu'', aa_environment = ''simulation'', aa_account_type = 2,
      aa_account_id_sha256 = zero_digest, aa_coordination_db_path = ''/core/hsimu.coordination.db'',
      aa_coordination_db_uuid = ''00000000-0000-4000-8000-000000000002''\<rparr>"

lemma example_bootstrap:
  "fst (resolve_authority example_authority_env 1 example_authority_request no_authorities)
     = Inr example_authority"
  by code_simp

lemma example_resolve_again:
  "fst (resolve_authority example_authority_env 1 (example_authority_request\<lparr>rq_bootstrap := False\<rparr>)
     (snd (resolve_authority example_authority_env 1 example_authority_request no_authorities)))
     = Inr example_authority"
  by code_simp

section \<open>Properties\<close>

text \<open>
  C39: reading back what was written gives the same authority: for every record that passed the checks
  of the constructor, and for every dictionary with the entries of its payload in any order,
  \<open>from_payload\<close> returns the record.
\<close>

theorem authority_payload_roundtrip:
  assumes "check_AccountAuthority rp absolute a = Inr a" and "dget d = dget (to_payload a)"
  shows "from_payload rp absolute (PyDict d) = Inr a"
  using assms by (rule from_payload_to_payload)

theorem authority_payload_roundtrip_witness:
  "from_payload (\<lambda>_. []) (\<lambda>p. take 1 p = ''/'') (PyDict (rev (to_payload example_authority)))
     = Inr example_authority"
proof (rule authority_payload_roundtrip)
  show "check_AccountAuthority (\<lambda>_. []) (\<lambda>p. take 1 p = ''/'') example_authority = Inr example_authority"
    by code_simp
  show "dget (rev (to_payload example_authority)) = dget (to_payload example_authority)"
    by (rule ext) (simp add: to_payload_def example_authority_def)
qed

text \<open>
  C37: an account has one authority.  Over any run of calls of \<open>resolve\<close>, by any processes, with
  failures and interruptions and with any change of databases between the calls, all calls for one
  account key that return, return the same record.
\<close>

theorem authority_is_unique:
  assumes "authority_run env fuel s tr s'"
    and "(q, Inr a) \<in> set tr" and "(q', Inr b) \<in> set tr" and "rq_account_key q' = rq_account_key q"
  shows "a = b"
proof -
  from authority_run_holds [OF assms(1,2)] obtain key where "rq_account_key q = PyStr key"
    and "holds_authority env s' key a" by blast
  moreover from authority_run_holds [OF assms(1,3)] obtain key' where "rq_account_key q' = PyStr key'"
    and "holds_authority env s' key' b" by blast
  ultimately show ?thesis using assms(4) holds_authority_unique by simp
qed

theorem authority_is_unique_witness:
  "\<exists>a b. fst (resolve_authority example_authority_env 1 example_authority_request no_authorities) = Inr a
     \<and> fst (resolve_authority example_authority_env 1 (example_authority_request\<lparr>rq_bootstrap := False\<rparr>)
         (snd (resolve_authority example_authority_env 1 example_authority_request no_authorities))) = Inr b
     \<and> a = b"
proof -
  let ?q = "example_authority_request" and ?q' = "example_authority_request\<lparr>rq_bootstrap := False\<rparr>"
  let ?s1 = "snd (resolve_authority example_authority_env 1 ?q no_authorities)"
  let ?s2 = "snd (resolve_authority example_authority_env 1 ?q' ?s1)"
  have first: "resolve_authority example_authority_env 1 ?q no_authorities = (Inr example_authority, ?s1)"
    using example_bootstrap by (metis prod.collapse)
  have second: "resolve_authority example_authority_env 1 ?q' ?s1 = (Inr example_authority, ?s2)"
    using example_resolve_again by (metis prod.collapse)
  have run: "authority_run example_authority_env 1 no_authorities
      ([] @ [(?q, Inr example_authority)] @ [(?q', Inr example_authority)]) ?s2"
    unfolding append_assoc [symmetric]
    by (rule run_resolve [OF run_resolve [OF run_start first] second])
  have "example_authority = example_authority"
    by (rule authority_is_unique [OF run, of ?q _ ?q']) simp_all
  with example_bootstrap example_resolve_again show ?thesis by blast
qed

text \<open>
  C38: when \<open>resolve\<close> creates the authority of an account, the database at the path it names did not
  exist before, exists now, holds exactly the identity the authority certifies, and the authority file
  holds the record that is returned.
\<close>

theorem bootstrap_certifies_database:
  assumes "resolve_authority env fuel q s = (Inr a, s')"
    and "authority_files s (join_root env (aa_account_key a @ ''.authority.json'')) = NoAuthority"
    and "rq_account_key q = PyStr (aa_account_key a)"
  shows "\<not> fst (databases s (aa_coordination_db_path a))
       \<and> database_certifies s' (aa_coordination_db_path a) (identity_of a)
       \<and> holds_authority env s' (aa_account_key a) a"
  using assms(1)
proof (cases rule: resolve_authority_cases)
  case (locked key e t g s1 r1 s2)
  then have locked_run: "resolve_locked env key e t g (rq_coordination_db_path q) (rq_bootstrap q) s1 = (Inr a, s2)"
    and key: "key = aa_account_key a" using assms(3) by auto
  then obtain s3 where "databases s3 = databases s1"
    and "bootstrap_authority env key e t g (rq_coordination_db_path q) s3 = (Inr a, s2)"
    using resolve_locked_created [OF locked_run] assms(2) locked(2) by (auto simp: same_store_def)
  with bootstrap_certifies [of env key e t g "rq_coordination_db_path q" s3 a s2]
  have "\<not> fst (databases s3 (aa_coordination_db_path a))"
    and "database_certifies s2 (aa_coordination_db_path a) (identity_of a)" by simp_all
  then show ?thesis
    using \<open>databases s3 = databases s1\<close> resolve_locked_holds [OF locked_run] locked(2,4) key
    by (simp add: same_store_def database_certifies_def holds_authority_def)
qed simp

theorem bootstrap_certifies_database_witness:
  "\<exists>s'. resolve_authority example_authority_env 1 example_authority_request no_authorities
       = (Inr example_authority, s')
     \<and> database_certifies s' ''/core/hsimu.coordination.db'' (identity_of example_authority)"
proof -
  let ?s = "snd (resolve_authority example_authority_env 1 example_authority_request no_authorities)"
  have run: "resolve_authority example_authority_env 1 example_authority_request no_authorities
      = (Inr example_authority, ?s)"
    using example_bootstrap by (metis prod.collapse)
  moreover have "database_certifies ?s (aa_coordination_db_path example_authority) (identity_of example_authority)"
    using bootstrap_certifies_database [OF run]
    by (simp add: no_authorities_def example_authority_request_def example_authority_def)
  ultimately show ?thesis by (simp add: example_authority_def) blast
qed

end
