(* ===== verification/Qmt_Callbacks.thy ===== *)
theory Qmt_Callbacks
  imports Qmt_Adapter
begin

text \<open>
  \<open>miniqmt/callbacks.py\<close>: the callbacks that the library calls in its own threads.  Each turns the
  library's object into an immutable observation and hands it to \<open>emit\<close>.
\<close>

datatype qmt_event =
    QmtOrderObserved int string int int int string
  | QmtTradeObserved int string int pyfloat
  | QmtBrokerDisconnected string
  | QmtAccountStatusObserved string int int
  | QmtOrderErrorObserved "int option" "int option" string
  | QmtCancelErrorObserved "int option" "int option" string
  | QmtCallbackMalformed string string

text \<open>
  \<open>emit\<close> as the constructor got it, \<open>str\<close> of the values without a plain text, and the text
  \<open>type(exc).__name__: exc\<close> of an exception.
\<close>

record ('w, 'a) callback_env =
  emit :: "qmt_event \<Rightarrow> ('w, 'a) pyact"
  callback_repr :: "pyval \<Rightarrow> string"
  describe :: "exn \<Rightarrow> string"

definition check_bridge :: "bool \<Rightarrow> unit pyres" where
  "check_bridge emit_callable = raise_if (\<not> emit_callable) (Exn TypeError ''emit must be callable'')"

definition optional_int :: "pyval \<Rightarrow> int option pyres" where
  "optional_int v =
     (if v = PyNone then Inr None
      else case py_int v of
          Inl e \<Rightarrow> if isinstance_exn e TypeError \<or> isinstance_exn e ValueError then Inr None else Inl e
        | Inr n \<Rightarrow> Inr (Some n))"

definition convert_and_emit :: "('w, 'a) callback_env \<Rightarrow> string \<Rightarrow> qmt_event pyres \<Rightarrow> ('w, 'a) pyact" where
  "convert_and_emit env name event =
     (case event of
        Inl e \<Rightarrow>
          if isinstance_exn e PyException then emit env (QmtCallbackMalformed name (describe env e))
          else raiseM e
      | Inr ev \<Rightarrow> emit env ev)"

definition order_event :: "(pyval \<Rightarrow> string) \<Rightarrow> py_object \<Rightarrow> qmt_event pyres" where
  "order_event rp order =
     bindR (int_attr order ''order_id'') (\<lambda>order_id.
     bindR (str_attr rp order ''stock_code'') (\<lambda>stock_code.
     bindR (int_attr order ''order_status'') (\<lambda>order_status.
     bindR (int_attr order ''order_volume'') (\<lambda>order_volume.
     bindR (int_attr order ''traded_volume'') (\<lambda>traded_volume.
     Inr (QmtOrderObserved order_id stock_code order_status order_volume traded_volume
       (text_attr rp order ''order_remark'')))))))"

definition trade_event :: "(pyval \<Rightarrow> string) \<Rightarrow> py_object \<Rightarrow> qmt_event pyres" where
  "trade_event rp trade =
     bindR (int_attr trade ''order_id'') (\<lambda>order_id.
     bindR (str_attr rp trade ''stock_code'') (\<lambda>stock_code.
     bindR (int_attr trade ''traded_volume'') (\<lambda>traded_volume.
     bindR (float_attr trade ''traded_price'') (\<lambda>traded_price.
     Inr (QmtTradeObserved order_id stock_code traded_volume traded_price)))))"

definition account_status_event :: "(pyval \<Rightarrow> string) \<Rightarrow> py_object \<Rightarrow> qmt_event pyres" where
  "account_status_event rp status =
     bindR (str_attr rp status ''account_id'') (\<lambda>account_id.
     bindR (int_attr status ''account_type'') (\<lambda>account_type.
     bindR (int_attr status ''status'') (\<lambda>code.
     Inr (QmtAccountStatusObserved account_id account_type code))))"

definition on_stock_order :: "('w, 'a) callback_env \<Rightarrow> py_object \<Rightarrow> ('w, 'a) pyact" where
  "on_stock_order env order = convert_and_emit env ''on_stock_order'' (order_event (callback_repr env) order)"

definition on_stock_trade :: "('w, 'a) callback_env \<Rightarrow> py_object \<Rightarrow> ('w, 'a) pyact" where
  "on_stock_trade env trade = convert_and_emit env ''on_stock_trade'' (trade_event (callback_repr env) trade)"

definition on_disconnected :: "('w, 'a) callback_env \<Rightarrow> ('w, 'a) pyact" where
  "on_disconnected env = emit env (QmtBrokerDisconnected ''disconnected'')"

definition on_account_status :: "('w, 'a) callback_env \<Rightarrow> py_object \<Rightarrow> ('w, 'a) pyact" where
  "on_account_status env status =
     convert_and_emit env ''on_account_status'' (account_status_event (callback_repr env) status)"

definition error_fields :: "('w, 'a) callback_env \<Rightarrow> py_object \<Rightarrow> (int option \<times> int option \<times> string) pyres" where
  "error_fields env error =
     bindR (optional_int (getattr_default error ''order_id'' PyNone)) (\<lambda>order_id.
     bindR (optional_int (getattr_default error ''error_id'' PyNone)) (\<lambda>error_id.
     Inr (order_id, error_id, text_attr (callback_repr env) error ''error_msg'')))"

definition on_order_error :: "('w, 'a) callback_env \<Rightarrow> py_object \<Rightarrow> ('w, 'a) pyact" where
  "on_order_error env error =
     bindM (liftR (error_fields env error)) (\<lambda>(order_id, error_id, msg).
     emit env (QmtOrderErrorObserved order_id error_id msg))"

definition on_cancel_error :: "('w, 'a) callback_env \<Rightarrow> py_object \<Rightarrow> ('w, 'a) pyact" where
  "on_cancel_error env error =
     bindM (liftR (error_fields env error)) (\<lambda>(order_id, error_id, msg).
     emit env (QmtCancelErrorObserved order_id error_id msg))"

text \<open>A call of one of the callbacks.\<close>

datatype callback =
    StockOrder py_object
  | StockTrade py_object
  | Disconnected
  | AccountStatus py_object
  | OrderError py_object
  | CancelError py_object

fun run_callback :: "('w, 'a) callback_env \<Rightarrow> callback \<Rightarrow> ('w, 'a) pyact" where
  "run_callback env (StockOrder x) = on_stock_order env x"
| "run_callback env (StockTrade x) = on_stock_trade env x"
| "run_callback env Disconnected = on_disconnected env"
| "run_callback env (AccountStatus x) = on_account_status env x"
| "run_callback env (OrderError x) = on_order_error env x"
| "run_callback env (CancelError x) = on_cancel_error env x"

section \<open>Every callback emits one event\<close>

lemma py_int_Inl: "py_int v = Inl e \<Longrightarrow> exn_kind e \<in> {TypeError, ValueError, OverflowError}"
  by (cases v rule: py_int.cases) (auto split: option.splits)

lemma py_float_Inl: "py_float v = Inl e \<Longrightarrow> exn_kind e \<in> {TypeError, ValueError, OverflowError}"
  by (cases v rule: py_float.cases) (auto simp: float_of_int_def split: option.splits pyfloat.splits)

lemma attr_Inl:
  "int_attr x name = Inl e \<Longrightarrow> isinstance_exn e PyException"
  "float_attr x name = Inl e \<Longrightarrow> isinstance_exn e PyException"
  "str_attr rp x name = Inl e \<Longrightarrow> isinstance_exn e PyException"
  by (auto simp: int_attr_def float_attr_def str_attr_def getattr_def bindR_eq_Inl isinstance_PyException
      split: option.splits dest: py_int_Inl py_float_Inl)

lemma event_Inl:
  "order_event rp x = Inl e \<Longrightarrow> isinstance_exn e PyException"
  "trade_event rp x = Inl e \<Longrightarrow> isinstance_exn e PyException"
  "account_status_event rp x = Inl e \<Longrightarrow> isinstance_exn e PyException"
  by (auto simp: order_event_def trade_event_def account_status_event_def bindR_eq_Inl dest: attr_Inl)

lemma convert_and_emit_emits:
  assumes "\<forall>e. r = Inl e \<longrightarrow> isinstance_exn e PyException"
  shows "convert_and_emit env name r
    = emit env (case r of Inl e \<Rightarrow> QmtCallbackMalformed name (describe env e) | Inr ev \<Rightarrow> ev)"
  using assms by (simp add: convert_and_emit_def split: sum.split)

lemma optional_int_infinite [simp]:
  "optional_int (PyFloat PosInf) = Inl (Exn OverflowError ''OverflowError'')"
  "optional_int (PyFloat NegInf) = Inl (Exn OverflowError ''OverflowError'')"
  by (simp_all add: optional_int_def)

lemma optional_int_Inr: "v \<notin> {PyFloat PosInf, PyFloat NegInf} \<Longrightarrow> \<exists>i. optional_int v = Inr i"
  by (cases v rule: py_int.cases) (auto simp: optional_int_def split: option.split)

text \<open>An infinite number as the id of an error report, which no JSON number of the library denotes.\<close>

definition infinite_id :: "py_object \<Rightarrow> bool" where
  "infinite_id x = list_ex (\<lambda>name. getattr_default x name PyNone \<in> {PyFloat PosInf, PyFloat NegInf})
     [''order_id'', ''error_id'']"

fun overflows :: "callback \<Rightarrow> bool" where
  "overflows (OrderError x) = infinite_id x"
| "overflows (CancelError x) = infinite_id x"
| "overflows _ = False"

lemma error_fields_cases:
  "(infinite_id x \<and> error_fields env x = Inl (Exn OverflowError ''OverflowError''))
    \<or> (\<not> infinite_id x \<and> (\<exists>i j m. error_fields env x = Inr (i, j, m)))"
proof (cases "infinite_id x")
  case True
  consider "getattr_default x ''order_id'' PyNone \<in> {PyFloat PosInf, PyFloat NegInf}"
    | i where "optional_int (getattr_default x ''order_id'' PyNone) = Inr i"
        and "getattr_default x ''error_id'' PyNone \<in> {PyFloat PosInf, PyFloat NegInf}"
    using True optional_int_Inr [of "getattr_default x ''order_id'' PyNone"]
    by (auto simp: infinite_id_def)
  then show ?thesis using True by cases (auto simp: error_fields_def)
next
  case False
  then show ?thesis
    using optional_int_Inr [of "getattr_default x ''order_id'' PyNone"]
      optional_int_Inr [of "getattr_default x ''error_id'' PyNone"]
    by (auto simp: error_fields_def infinite_id_def)
qed

text \<open>
  C40: every call of a callback hands exactly one event to \<open>emit\<close> and does nothing else, whatever object
  the library passes; conversions that fail become a report of the malformed payload.  The exception: a
  report of an error whose id is an infinite float raises \<open>OverflowError\<close> into the library's thread and
  emits nothing.
\<close>

theorem callback_emits_once:
  "if overflows c then run_callback env c = raiseM (Exn OverflowError ''OverflowError'')
   else \<exists>ev. run_callback env c = emit env ev"
proof (cases c)
  case (StockOrder x)
  then show ?thesis using convert_and_emit_emits [of "order_event (callback_repr env) x"] event_Inl(1) [of "callback_repr env" x] by (auto simp: on_stock_order_def)
next
  case (StockTrade x)
  then show ?thesis using convert_and_emit_emits [of "trade_event (callback_repr env) x"] event_Inl(2) [of "callback_repr env" x] by (auto simp: on_stock_trade_def)
next
  case Disconnected
  then show ?thesis by (auto simp: on_disconnected_def)
next
  case (AccountStatus x)
  then show ?thesis using convert_and_emit_emits [of "account_status_event (callback_repr env) x"] event_Inl(3) [of "callback_repr env" x] by (auto simp: on_account_status_def)
next
  case (OrderError x)
  then show ?thesis using error_fields_cases [of x env]
    by (auto simp: on_order_error_def bindM_def liftR_def raiseM_def)
next
  case (CancelError x)
  then show ?thesis using error_fields_cases [of x env]
    by (auto simp: on_cancel_error_def bindM_def liftR_def raiseM_def)
qed

end
