(* ===== verification/Qmt_Binding.thy ===== *)
theory Qmt_Binding
  imports Qmt_Adapter Runtime_Gate
begin

text \<open>
  \<open>miniqmt/binding.py\<close>: the file that ties a runtime to one securities account and one QMT
  directory by fingerprints, and the search for that account among those that the library reports.
\<close>

section \<open>Fingerprints\<close>

definition account_id_fingerprint :: "(string \<Rightarrow> string) \<Rightarrow> pyval \<Rightarrow> string pyres" where
  "account_id_fingerprint sha v =
     (if \<not> nonempty_str v then Inl (Exn AccountBindingError ''account_id must be a non-empty string'')
      else Inr (sha (the_str v)))"

text \<open>\<open>canonical\<close> is \<open>os.path.normcase(str(Path(path).expanduser().resolve()))\<close>.\<close>

definition qmt_path_fingerprint :: "(string \<Rightarrow> string) \<Rightarrow> (string \<Rightarrow> string) \<Rightarrow> string \<Rightarrow> string" where
  "qmt_path_fingerprint sha canonical path = sha (canonical path)"

definition validate_sha256 :: "(pyval \<Rightarrow> string) \<Rightarrow> string \<Rightarrow> pyval \<Rightarrow> string pyres" where
  "validate_sha256 rp label v =
     (let digest = map to_lower (strip_ascii (if truthy v then py_str rp v else '''')) in
      if length digest \<noteq> 64 \<or> list_ex (\<lambda>c. \<not> is_hex c) digest
      then Inl (Exn AccountBindingError (''invalid '' @ label)) else Inr digest)"

section \<open>The binding\<close>

record QmtAccountBinding =
  qb_environment :: string
  qb_account_type :: int
  qb_account_id_sha256 :: string
  qb_qmt_path_sha256 :: string

definition mk_QmtAccountBinding ::
  "(pyval \<Rightarrow> string) \<Rightarrow> pyval \<Rightarrow> pyval \<Rightarrow> pyval \<Rightarrow> pyval \<Rightarrow> QmtAccountBinding pyres" where
  "mk_QmtAccountBinding rp env account_type account path =
     bindR (in_environments env) (\<lambda>known.
     bindR (raise_if (\<not> known) (Exn AccountBindingError ''environment must be simulation or live'')) (\<lambda>_.
     bindR (raise_if (\<not> is_int account_type)
       (Exn AccountBindingError ''account_type must be a plain int'')) (\<lambda>_.
     bindR (validate_sha256 rp ''account_id_sha256'' account) (\<lambda>account_digest.
     bindR (validate_sha256 rp ''qmt_path_sha256'' path) (\<lambda>path_digest.
     Inr \<lparr>qb_environment = the_str env, qb_account_type = the_int account_type,
          qb_account_id_sha256 = account_digest, qb_qmt_path_sha256 = path_digest\<rparr>)))))"

definition create_binding ::
  "(string \<Rightarrow> string) \<Rightarrow> (string \<Rightarrow> string) \<Rightarrow> (pyval \<Rightarrow> string) \<Rightarrow> pyval \<Rightarrow> pyval \<Rightarrow> pyval \<Rightarrow> string
    \<Rightarrow> QmtAccountBinding pyres" where
  "create_binding sha canonical rp env account_type account_id path =
     bindR (account_id_fingerprint sha account_id) (\<lambda>account.
     mk_QmtAccountBinding rp env account_type (PyStr account)
       (PyStr (qmt_path_fingerprint sha canonical path)))"

definition binding_payload :: "QmtAccountBinding \<Rightarrow> pydict" where
  "binding_payload b =
     [(''schema_version'', PyInt 1), (''environment'', PyStr (qb_environment b)),
      (''account_type'', PyInt (qb_account_type b)),
      (''account_id_sha256'', PyStr (qb_account_id_sha256 b)),
      (''qmt_path_sha256'', PyStr (qb_qmt_path_sha256 b))]"

text \<open>\<open>make_dir\<close> creates the directory, \<open>write_text\<close> writes the JSON text of a value.\<close>

definition write_binding ::
  "('w, unit) pyact \<Rightarrow> (pyval \<Rightarrow> ('w, unit) pyact) \<Rightarrow> QmtAccountBinding \<Rightarrow> ('w, unit) pyact" where
  "write_binding make_dir write_text b =
     bindM make_dir (\<lambda>_. write_text (PyDict (binding_payload b)))"

definition BINDING_FIELDS :: "string list" where
  "BINDING_FIELDS = [''schema_version'', ''environment'', ''account_type'', ''account_id_sha256'',
     ''qmt_path_sha256'']"

text \<open>
  What reading a file and \<open>json.loads\<close> come to: a value, text that is no JSON, or bytes that are no
  UTF-8; the read itself may raise.
\<close>

datatype json_text = JsonValue pyval | NotJson | NotUtf8

definition load_json :: "exn \<Rightarrow> ('w, json_text) pyact \<Rightarrow> ('w, pyval) pyact" where
  "load_json unreadable read_text =
     bindM (tryM read_text (\<lambda>e. if isinstance_exn e OSError then Some (raiseM unreadable) else None)) (\<lambda>t.
     case t of
       JsonValue v \<Rightarrow> returnM v
     | NotJson \<Rightarrow> raiseM unreadable
     | NotUtf8 \<Rightarrow> raiseM (Exn ValueError ''UnicodeDecodeError''))"

text \<open>The checks of \<open>load_account_binding\<close> on the value that was read.\<close>

definition parse_binding ::
  "(string \<Rightarrow> string) \<Rightarrow> (string \<Rightarrow> string) \<Rightarrow> (pyval \<Rightarrow> string) \<Rightarrow> string \<Rightarrow> string \<Rightarrow> pyval
    \<Rightarrow> QmtAccountBinding pyres" where
  "parse_binding sha canonical rp env path v =
     (case as_dict v of
        None \<Rightarrow> Inl (Exn AccountBindingError ''account binding must be a JSON object'')
      | Some d \<Rightarrow>
          bindR (raise_if (set (map fst d) \<noteq> set BINDING_FIELDS)
            (Exn AccountBindingError ''account binding fields do not match strict schema'')) (\<lambda>_.
          bindR (raise_if (\<not> py_eq_int (pyget d ''schema_version'') 1)
            (Exn AccountBindingError ''account binding schema mismatch'')) (\<lambda>_.
          bindR (raise_if (dget d ''account_id'' \<noteq> None \<or> dget d ''qmt_path'' \<noteq> None)
            (Exn AccountBindingError ''plaintext account/path is forbidden in binding'')) (\<lambda>_.
          bindR (mk_QmtAccountBinding rp (PyStr (py_str rp (pyget d ''environment'')))
            (pyget d ''account_type'') (pyget d ''account_id_sha256'') (pyget d ''qmt_path_sha256'')) (\<lambda>b.
          bindR (raise_if (qb_environment b \<noteq> env)
            (Exn AccountBindingError ''account binding environment mismatch'')) (\<lambda>_.
          bindR (raise_if (qb_qmt_path_sha256 b \<noteq> qmt_path_fingerprint sha canonical path)
            (Exn AccountBindingError ''QMT path fingerprint mismatch'')) (\<lambda>_.
          Inr b)))))))"

definition load_account_binding ::
  "(string \<Rightarrow> string) \<Rightarrow> (string \<Rightarrow> string) \<Rightarrow> (pyval \<Rightarrow> string) \<Rightarrow> ('w, json_text) pyact
    \<Rightarrow> string \<Rightarrow> string \<Rightarrow> ('w, QmtAccountBinding) pyact" where
  "load_account_binding sha canonical rp read_text env path =
     bindM (raiseM_if (env \<notin> {''simulation'', ''live''})
       (Exn AccountBindingError ''environment must be simulation or live'')) (\<lambda>_.
     bindM (load_json (Exn AccountBindingError ''account binding is unreadable'') read_text) (\<lambda>v.
     liftR (parse_binding sha canonical rp env path v)))"

section \<open>The bound account\<close>

record BoundQmtAccount =
  bound_account_id :: string
  bound_account_type :: int
  bound_account :: pyval

text \<open>\<open>strict_non_none_query\<close>: the argument counts the attempts that are left.\<close>

primrec non_none_query :: "('w, unit) pyact \<Rightarrow> string \<Rightarrow> ('w, query_value) pyact \<Rightarrow> nat \<Rightarrow> ('w, query_value) pyact" where
  "non_none_query pause label fn 0 = raiseM (Exn AccountBindingError (label @ '' remained ambiguous''))"
| "non_none_query pause label fn (Suc left) =
     bindM (tryM fn (\<lambda>e. if isinstance_exn e PyException then Some (returnM QNone) else None)) (\<lambda>v.
     case v of
       QNone \<Rightarrow>
         bindM (if 0 < left then pause else returnM ()) (\<lambda>_.
         non_none_query pause label fn left)
     | _ \<Rightarrow> returnM v)"

definition strict_non_none_query ::
  "('w, unit) pyact \<Rightarrow> string \<Rightarrow> ('w, query_value) pyact \<Rightarrow> pyval \<Rightarrow> ('w, query_value) pyact" where
  "strict_non_none_query pause label fn tries =
     bindM (raiseM_if (\<not> pos_int tries) (Exn AccountBindingError ''query attempts must be positive'')) (\<lambda>_.
     non_none_query pause label fn (nat (the_int tries)))"

text \<open>\<open>except (TypeError, ValueError, AttributeError)\<close> with a result of its own.\<close>

definition on_malformed :: "'a \<Rightarrow> 'a pyres \<Rightarrow> 'a pyres" where
  "on_malformed x r =
     (case r of
        Inl e \<Rightarrow>
          if isinstance_exn e TypeError \<or> isinstance_exn e ValueError \<or> isinstance_exn e AttributeError
          then Inr x else Inl e
      | Inr y \<Rightarrow> Inr y)"

text \<open>One turn of the loop over the reported accounts: the identity that it adds, if any.\<close>

definition candidate_account ::
  "(string \<Rightarrow> string) \<Rightarrow> (pyval \<Rightarrow> string) \<Rightarrow> QmtAccountBinding \<Rightarrow> int \<Rightarrow> py_object \<Rightarrow> (string \<times> int) option pyres" where
  "candidate_account sha rp b security_account_type info =
     bindR (on_malformed None
       (bindR (str_attr rp info ''account_id'') (\<lambda>i.
        bindR (int_attr info ''account_type'') (\<lambda>t. Inr (Some (i, t)))))) (\<lambda>identity.
     case identity of
       None \<Rightarrow> Inr None
     | Some (i, t) \<Rightarrow>
         if t \<noteq> security_account_type then Inr None
         else
           bindR (account_id_fingerprint sha (PyStr i)) (\<lambda>digest.
           Inr (if digest = qb_account_id_sha256 b then Some (i, t) else None)))"

text \<open>\<open>_status_matches\<close>, whose conditions are tested in turn.\<close>

definition status_matches ::
  "(pyval \<Rightarrow> string) \<Rightarrow> string \<Rightarrow> int \<Rightarrow> int \<Rightarrow> py_object \<Rightarrow> bool pyres" where
  "status_matches rp i t code status =
     on_malformed False
       (bindR (str_attr rp status ''account_id'') (\<lambda>i'.
        if i' \<noteq> i then Inr False
        else
          bindR (int_attr status ''account_type'') (\<lambda>t'.
          if t' \<noteq> t then Inr False
          else bindR (int_attr status ''status'') (\<lambda>code'. Inr (code' = code)))))"

definition filterR :: "('a \<Rightarrow> bool pyres) \<Rightarrow> 'a list \<Rightarrow> 'a list pyres" where
  "filterR p xs =
     bindR (mapR (\<lambda>x. bindR (p x) (\<lambda>b. Inr (if b then [x] else []))) xs) (\<lambda>yss. Inr (concat yss))"

text \<open>What the search uses of the trader.\<close>

record 'w account_env =
  query_account_infos :: "('w, query_value) pyact"
  query_account_status :: "('w, query_value) pyact"
  stock_account :: "string \<Rightarrow> ('w, pyval) pyact"
  account_pause :: "('w, unit) pyact"
  account_sha :: "string \<Rightarrow> string"
  account_repr :: "pyval \<Rightarrow> string"

definition select_bound_account ::
  "'w account_env \<Rightarrow> QmtAccountBinding \<Rightarrow> pyval \<Rightarrow> pyval \<Rightarrow> pyval \<Rightarrow> ('w, BoundQmtAccount) pyact" where
  "select_bound_account env b security_type ok tries =
     bindM (raiseM_if (\<not> is_int security_type \<or> \<not> is_int ok)
       (Exn AccountBindingError ''QMT account constants must be plain ints'')) (\<lambda>_.
     bindM (raiseM_if (qb_account_type b \<noteq> the_int security_type)
       (Exn AccountBindingError ''binding account_type is not the expected securities type'')) (\<lambda>_.
     bindM (strict_non_none_query (account_pause env) ''query_account_infos'' (query_account_infos env) tries) (\<lambda>infos.
     bindM (strict_non_none_query (account_pause env) ''query_account_status'' (query_account_status env) tries) (\<lambda>statuses.
     case (infos, statuses) of
       (QList infos', QList statuses') \<Rightarrow>
         bindM (liftR (mapR (candidate_account (account_sha env) (account_repr env) b (the_int security_type)) infos'))
           (\<lambda>found.
         case List.map_filter id found of
           [(i, t)] \<Rightarrow>
             bindM (liftR (filterR (status_matches (account_repr env) i (the_int security_type) (the_int ok)) statuses'))
               (\<lambda>healthy.
             bindM (raiseM_if (length healthy \<noteq> 1)
               (Exn AccountBindingError ''bound account is not uniquely healthy'')) (\<lambda>_.
             bindM (stock_account env i) (\<lambda>account.
             returnM \<lparr>bound_account_id = i, bound_account_type = t, bound_account = account\<rparr>)))
         | _ \<Rightarrow> raiseM (Exn AccountBindingError ''bound account discovery is not unique''))
     | _ \<Rightarrow> raiseM (Exn AccountBindingError ''account discovery returned unexpected types'')))))"

definition verify_bound_account_healthy ::
  "'w account_env \<Rightarrow> BoundQmtAccount \<Rightarrow> int \<Rightarrow> int \<Rightarrow> pyval \<Rightarrow> ('w, unit) pyact" where
  "verify_bound_account_healthy env bound security_type ok tries =
     bindM (strict_non_none_query (account_pause env) ''query_account_status'' (query_account_status env) tries) (\<lambda>statuses.
     case statuses of
       QList statuses' \<Rightarrow>
         bindM (liftR (filterR (status_matches (account_repr env) (bound_account_id bound) security_type ok) statuses'))
           (\<lambda>matches.
         raiseM_if (length matches \<noteq> 1) (Exn AccountBindingError ''bound account is not healthy''))
     | _ \<Rightarrow> raiseM (Exn AccountBindingError ''account status query returned unexpected type''))"

section \<open>What a binding guarantees\<close>

text \<open>\<open>hexdigest()\<close> gives lower-case digits without white space.\<close>

definition hex_digests :: "(string \<Rightarrow> string) \<Rightarrow> bool" where
  "hex_digests sha \<longleftrightarrow> (\<forall>x. map to_lower (strip_ascii (sha x)) = sha x)"

lemma validate_sha256_digest:
  "hex_digests sha \<Longrightarrow> validate_sha256 rp label (PyStr (sha x)) = Inr d \<Longrightarrow> d = sha x"
  by (auto simp: validate_sha256_def hex_digests_def Let_def split: if_splits)
    (metis strip_ascii_def dropWhile.simps(1) rev.simps(1))

lemma mk_QmtAccountBinding_Inr:
  assumes "hex_digests sha"
    and "mk_QmtAccountBinding rp env t (PyStr (sha x)) (PyStr (sha y)) = Inr b"
  shows "qb_environment b \<in> {''simulation'', ''live''}" and "env = PyStr (qb_environment b)"
    and "t = PyInt (qb_account_type b)" and "qb_account_id_sha256 b = sha x"
    and "qb_qmt_path_sha256 b = sha y"
proof -
  obtain known where known: "in_environments env = Inr known" "known" and t: "is_int t"
    and v: "validate_sha256 rp ''account_id_sha256'' (PyStr (sha x)) = Inr (qb_account_id_sha256 b)"
      "validate_sha256 rp ''qmt_path_sha256'' (PyStr (sha y)) = Inr (qb_qmt_path_sha256 b)"
    and e: "qb_environment b = the_str env" "qb_account_type b = the_int t"
    using assms(2) by (auto simp: mk_QmtAccountBinding_def bindR_eq_Inr)
  show "qb_account_id_sha256 b = sha x" "qb_qmt_path_sha256 b = sha y"
    using v validate_sha256_digest [OF assms(1)] by blast+
  show "env = PyStr (qb_environment b)" "qb_environment b \<in> {''simulation'', ''live''}"
    using known e(1) by (auto simp: in_environments_def split: pyval.splits)
  show "t = PyInt (qb_account_type b)" using t e(2) by (cases t) simp_all
qed

text \<open>
  A binding that was created and written is read back unchanged for its environment and its
  directory, whatever the order of the entries in the file.
\<close>

theorem binding_roundtrip:
  assumes "hex_digests sha" and "create_binding sha canonical rp env t i path = Inr b"
    and "dget d = dget (binding_payload b)"
  shows "parse_binding sha canonical rp (qb_environment b) path (PyDict d) = Inr b"
proof -
  obtain account where account: "account_id_fingerprint sha i = Inr account"
    and made: "mk_QmtAccountBinding rp env t (PyStr account) (PyStr (qmt_path_fingerprint sha canonical path)) = Inr b"
    using assms(2) by (auto simp: create_binding_def bindR_eq_Inr)
  from account have "account = sha (the_str i)" by (auto simp: account_id_fingerprint_def split: if_splits)
  note made = made [unfolded this qmt_path_fingerprint_def]
  note b = mk_QmtAccountBinding_Inr [OF assms(1) made]
  have "set (map fst d) = set (map fst (binding_payload b))"
    using assms(3) by (metis dom_map_of_conv_image_fst list.set_map)
  then have keys: "set (map fst d) = set BINDING_FIELDS" by (simp add: binding_payload_def BINDING_FIELDS_def)
  have get: "pyget d k = pyget (binding_payload b) k" for k by (simp add: pyget_def assms(3))
  have plain: "dget d ''account_id'' = None" "dget d ''qmt_path'' = None"
    by (simp_all add: assms(3) binding_payload_def)
  have fields: "pyget d ''schema_version'' = PyInt 1" "pyget d ''environment'' = env"
    "pyget d ''account_type'' = t" "pyget d ''account_id_sha256'' = PyStr (sha (the_str i))"
    "pyget d ''qmt_path_sha256'' = PyStr (sha (canonical path))"
    by (simp_all only: get) (simp_all add: pyget_def binding_payload_def b)
  have "PyStr (py_str rp env) = env" by (simp add: b(2))
  then show ?thesis
    using keys made b by (simp add: parse_binding_def plain fields qmt_path_fingerprint_def)
qed

theorem binding_roundtrip_witness:
  "\<exists>b. create_binding (\<lambda>_. replicate 64 (CHR ''a'')) id (\<lambda>_. []) (PyStr ''live'') (PyInt 2)
         (PyStr ''1000'') ''/qmt'' = Inr b
     \<and> parse_binding (\<lambda>_. replicate 64 (CHR ''a'')) id (\<lambda>_. []) ''live'' ''/qmt''
         (PyDict (rev (binding_payload b))) = Inr b"
proof -
  let ?sha = "\<lambda>_ :: string. replicate 64 (CHR ''a'')"
  let ?b = "\<lparr>qb_environment = ''live'', qb_account_type = 2,
    qb_account_id_sha256 = replicate 64 (CHR ''a''), qb_qmt_path_sha256 = replicate 64 (CHR ''a'')\<rparr>"
  have created: "create_binding ?sha id (\<lambda>_. []) (PyStr ''live'') (PyInt 2) (PyStr ''1000'') ''/qmt'' = Inr ?b"
    by code_simp
  have "map to_lower (strip_ascii (replicate 64 (CHR ''a''))) = replicate 64 (CHR ''a'')" by code_simp
  then have "hex_digests ?sha" by (simp add: hex_digests_def)
  moreover have "dget (rev (binding_payload ?b)) = dget (binding_payload ?b)"
    by (rule ext) (simp add: binding_payload_def)
  ultimately show ?thesis using binding_roundtrip [OF _ created] created by fastforce
qed

section \<open>The account that is selected\<close>

text \<open>The library reports the identity \<open>(i, t)\<close>, with the fingerprint of the binding.\<close>

definition reports_account ::
  "'w account_env \<Rightarrow> QmtAccountBinding \<Rightarrow> string \<Rightarrow> int \<Rightarrow> py_object \<Rightarrow> bool" where
  "reports_account env b i t info \<longleftrightarrow>
     str_attr (account_repr env) info ''account_id'' = Inr i \<and> int_attr info ''account_type'' = Inr t
     \<and> account_sha env i = qb_account_id_sha256 b"

text \<open>The library reports the account \<open>i\<close> with the type \<open>t\<close> and the status \<open>code\<close>.\<close>

definition reports_status :: "'w account_env \<Rightarrow> string \<Rightarrow> int \<Rightarrow> int \<Rightarrow> py_object \<Rightarrow> bool" where
  "reports_status env i t code status \<longleftrightarrow>
     str_attr (account_repr env) status ''account_id'' = Inr i \<and> int_attr status ''account_type'' = Inr t
     \<and> int_attr status ''status'' = Inr code"

lemma on_malformed_Inr: "on_malformed x r = Inr y \<Longrightarrow> r = Inr y \<or> (y = x \<and> (\<exists>e. r = Inl e))"
  by (auto simp: on_malformed_def split: sum.splits if_splits)

lemma candidate_account_Inr:
  assumes "candidate_account (account_sha env) (account_repr env) b t info = Inr c"
  shows "c = Some (i, t') \<longleftrightarrow> t' = t \<and> reports_account env b i t info"
proof -
  let ?id = "bindR (str_attr (account_repr env) info ''account_id'') (\<lambda>i.
        bindR (int_attr info ''account_type'') (\<lambda>t. Inr (Some (i, t))))"
  obtain identity where identity: "on_malformed None ?id = Inr identity"
    using assms by (auto simp: candidate_account_def bindR_eq_Inr)
  show ?thesis
  proof (cases identity)
    case None
    then have "c = None" using assms identity by (simp add: candidate_account_def)
    moreover have "\<exists>e. ?id = Inl e" using on_malformed_Inr [OF identity] None by (auto simp: bindR_eq_Inr)
    then have "\<not> reports_account env b i t info" by (auto simp: reports_account_def)
    ultimately show ?thesis by simp
  next
    case (Some p)
    then obtain j u where p: "identity = Some (j, u)" by (cases p) simp
    then have attrs: "str_attr (account_repr env) info ''account_id'' = Inr j" "int_attr info ''account_type'' = Inr u"
      using on_malformed_Inr [OF identity] by (auto simp: bindR_eq_Inr)
    then show ?thesis
      using assms identity p
      by (auto simp: candidate_account_def reports_account_def account_id_fingerprint_def bindR_eq_Inr
          split: if_splits)
  qed
qed

lemma status_matches_Inr:
  "status_matches (account_repr env) i t code status = Inr m \<Longrightarrow> m = reports_status env i t code status"
  by (auto simp: status_matches_def reports_status_def bindR_eq_Inr bindR_eq_Inl dest!: on_malformed_Inr
      split: if_splits)

lemma filterR_Inr: "filterR p xs = Inr ys \<Longrightarrow> (\<And>x b. p x = Inr b \<Longrightarrow> b = q x) \<Longrightarrow> ys = filter q xs"
proof (induction xs arbitrary: ys)
  case (Cons x xs)
  from Cons.prems obtain b zss where "p x = Inr b" and ys: "ys = (if b then [x] else []) @ concat zss"
    and "mapR (\<lambda>x. bindR (p x) (\<lambda>b. Inr (if b then [x] else []))) xs = Inr zss"
    by (auto simp: filterR_def bindR_eq_Inr split: if_splits)
  moreover from this Cons.IH [OF _ Cons.prems(2)] have "concat zss = filter q xs"
    by (simp add: filterR_def bindR_eq_Inr)
  ultimately show ?case using Cons.prems(2) by auto
qed (simp add: filterR_def)

lemma mapR_map_filter:
  "mapR f xs = Inr ys \<Longrightarrow> length (List.map_filter id ys) = length (filter (\<lambda>x. \<exists>p. f x = Inr (Some p)) xs)
     \<and> set (List.map_filter id ys) = {p. \<exists>x \<in> set xs. f x = Inr (Some p)}"
proof (induction xs arbitrary: ys)
  case (Cons x xs)
  from Cons.prems obtain c zs where "f x = Inr c" "mapR f xs = Inr zs" "ys = c # zs" by (auto simp: bindR_eq_Inr)
  with Cons.IH show ?case by (cases c) (auto simp: List.map_filter_def)
qed (simp add: List.map_filter_def)

text \<open>
  C15: the account that a runtime works with is the bound one.  When \<open>select_bound_account\<close> returns, the
  library reported exactly one account of the securities type with the fingerprint of the binding, it
  reported exactly one status of that account that is healthy, and the result is this account, of the
  type of the binding.
\<close>

theorem selected_account_is_bound:
  assumes "select_bound_account env b t ok tries w = (Inr a, w')"
  shows "\<exists>infos statuses w1 w2.
      strict_non_none_query (account_pause env) ''query_account_infos'' (query_account_infos env) tries w
        = (Inr (QList infos), w1)
    \<and> strict_non_none_query (account_pause env) ''query_account_status'' (query_account_status env) tries w1
        = (Inr (QList statuses), w2)
    \<and> length (filter (\<lambda>x. \<exists>i. reports_account env b i (the_int t) x) infos) = 1
    \<and> (\<exists>x \<in> set infos. reports_account env b (bound_account_id a) (bound_account_type a) x)
    \<and> length (filter (reports_status env (bound_account_id a) (bound_account_type a) (the_int ok)) statuses) = 1
    \<and> bound_account_type a = qb_account_type b \<and> qb_account_type b = the_int t"
proof -
  let ?f = "candidate_account (account_sha env) (account_repr env) b (the_int t)"
  obtain infos statuses w1 w2 found i t' healthy where
    q: "strict_non_none_query (account_pause env) ''query_account_infos'' (query_account_infos env) tries w
        = (Inr (QList infos), w1)"
      "strict_non_none_query (account_pause env) ''query_account_status'' (query_account_status env) tries w1
        = (Inr (QList statuses), w2)"
    and found: "mapR ?f infos = Inr found" "List.map_filter id found = [(i, t')]"
    and healthy: "filterR (status_matches (account_repr env) i (the_int t) (the_int ok)) statuses = Inr healthy"
      "length healthy = 1"
    and type: "qb_account_type b = the_int t"
    and a: "bound_account_id a = i" "bound_account_type a = t'"
    using assms unfolding select_bound_account_def
    by (auto simp: bindM_def raiseM_if_def raiseM_def returnM_def liftR_def
        split: if_splits sum.splits prod.splits query_value.splits list.splits)
  have only: "?f x = Inr (Some (j, u)) \<longleftrightarrow> (u = the_int t \<and> reports_account env b j (the_int t) x \<and> isOk (?f x))" for x j u
  proof (cases "?f x")
    case (Inr c)
    then show ?thesis using candidate_account_Inr [OF Inr, of j u] by auto
  qed simp
  have ok: "isOk (?f x)" if "x \<in> set infos" for x
    using found(1) \<open>x \<in> set infos\<close> mapR_nth [OF found(1)] by (auto simp: in_set_conv_nth isOk_iff)
  have "filter (\<lambda>x. \<exists>p. ?f x = Inr (Some p)) infos = filter (\<lambda>x. \<exists>i. reports_account env b i (the_int t) x) infos"
    by (rule filter_cong [OF refl]) (use only ok in auto)
  then have one: "length (filter (\<lambda>x. \<exists>i. reports_account env b i (the_int t) x) infos) = 1"
    using mapR_map_filter [OF found(1)] found(2) by simp
  have "\<exists>x \<in> set infos. ?f x = Inr (Some (i, t'))"
    using mapR_map_filter [OF found(1)] found(2) by auto
  then have "t' = the_int t" "\<exists>x \<in> set infos. reports_account env b i (the_int t) x"
    using only by auto
  moreover have "healthy = filter (reports_status env i (the_int t) (the_int ok)) statuses"
    by (rule filterR_Inr [OF healthy(1)]) (rule status_matches_Inr)
  ultimately show ?thesis using q one healthy(2) type a by auto
qed

definition example_account_env :: "unit account_env" where
  "example_account_env =
     \<lparr>query_account_infos = returnM (QList
        [[''account_id'' \<mapsto> PyStr ''9'', ''account_type'' \<mapsto> PyInt 3],
         [''account_id'' \<mapsto> PyInt 1000, ''account_type'' \<mapsto> PyStr ''2'']]),
      query_account_status = returnM (QList
        [[''account_id'' \<mapsto> PyStr ''1000'', ''account_type'' \<mapsto> PyInt 2, ''status'' \<mapsto> PyInt 0], Map.empty]),
      stock_account = (\<lambda>i. returnM (PyStr i)), account_pause = returnM (), account_sha = id,
      account_repr = (\<lambda>_. [])\<rparr>"

definition example_binding :: QmtAccountBinding where
  "example_binding =
     \<lparr>qb_environment = ''simulation'', qb_account_type = 2, qb_account_id_sha256 = ''1000'',
      qb_qmt_path_sha256 = ''p''\<rparr>"

lemma example_selection:
  "select_bound_account example_account_env example_binding (PyInt 2) (PyInt 0) (PyInt 3) ()
     = (Inr \<lparr>bound_account_id = ''1000'', bound_account_type = 2, bound_account = PyStr ''1000''\<rparr>, ())"
  by code_simp

theorem selected_account_is_bound_witness:
  "\<exists>infos w1. strict_non_none_query (returnM ()) ''query_account_infos''
       (query_account_infos example_account_env) (PyInt 3) () = (Inr (QList infos), w1)
     \<and> length (filter (\<lambda>x. \<exists>i. reports_account example_account_env example_binding i 2 x) infos) = 1"
  using selected_account_is_bound [OF example_selection]
  by (auto simp: example_account_env_def)

end
