(* ===== verification/Runtime_Config.thy ===== *)
theory Runtime_Config
  imports Qmt_Binding
begin

text \<open>
  \<open>MiniQmtRuntimeConfig\<close> of \<open>miniqmt/runtime.py\<close>: the configuration of a runtime, its checks and its
  strict reader.
\<close>

record MiniQmtRuntimeConfig =
  rc_environment :: string
  rc_qmt_path :: string
  rc_binding_path :: string
  rc_journal_path :: string
  rc_lock_path :: string
  rc_strategy_name :: string
  rc_live_trading_enabled :: bool
  rc_confirmation_token_sha256 :: string
  rc_session_id :: "int option"
  rc_query_attempts :: int
  rc_query_delay_seconds :: pyval
  rc_event_queue_size :: int
  rc_runtime_lock_mode :: string
  rc_session_id_pool_start :: int
  rc_session_id_pool_size :: int
  rc_session_id_attempts :: int

text \<open>The keyword arguments, before they are checked.\<close>

record runtime_config_arguments =
  ra_environment :: pyval
  ra_qmt_path :: pyval
  ra_binding_path :: pyval
  ra_journal_path :: pyval
  ra_lock_path :: pyval
  ra_strategy_name :: pyval
  ra_live_trading_enabled :: pyval
  ra_confirmation_token_sha256 :: pyval
  ra_session_id :: pyval
  ra_query_attempts :: pyval
  ra_query_delay_seconds :: pyval
  ra_event_queue_size :: pyval
  ra_runtime_lock_mode :: pyval
  ra_session_id_pool_start :: pyval
  ra_session_id_pool_size :: pyval
  ra_session_id_attempts :: pyval

text \<open>\<open>expand s\<close> is \<open>str(Path(s).expanduser())\<close>, which may raise; a value that is no path raises.\<close>

definition path_of :: "(string \<Rightarrow> string pyres) \<Rightarrow> pyval \<Rightarrow> string pyres" where
  "path_of expand v = (case v of PyStr s \<Rightarrow> expand s | _ \<Rightarrow> Inl (Exn TypeError ''TypeError''))"

definition in_lock_modes :: "pyval \<Rightarrow> bool pyres" where
  "in_lock_modes v =
     (case v of
        PyStr s \<Rightarrow> Inr (s \<in> {''exclusive'', ''shared''})
      | PyList _ \<Rightarrow> Inl (Exn TypeError ''unhashable'')
      | PyDict _ \<Rightarrow> Inl (Exn TypeError ''unhashable'')
      | _ \<Rightarrow> Inr False)"

definition positive :: "string \<Rightarrow> pyval \<Rightarrow> int pyres" where
  "positive name v =
     (if \<not> pos_int v then Inl (Exn RuntimeConfigurationError (name @ '' must be positive'')) else Inr (the_int v))"

definition mk_MiniQmtRuntimeConfig ::
  "(string \<Rightarrow> string pyres) \<Rightarrow> runtime_config_arguments \<Rightarrow> MiniQmtRuntimeConfig pyres" where
  "mk_MiniQmtRuntimeConfig expand a =
     bindR (in_environments (ra_environment a)) (\<lambda>known.
     bindR (raise_if (\<not> known)
       (Exn RuntimeConfigurationError ''environment must be simulation or live'')) (\<lambda>_.
     bindR (path_of expand (ra_qmt_path a)) (\<lambda>qmt_path.
     bindR (path_of expand (ra_binding_path a)) (\<lambda>binding_path.
     bindR (path_of expand (ra_journal_path a)) (\<lambda>journal_path.
     bindR (path_of expand (ra_lock_path a)) (\<lambda>lock_path.
     bindR (raise_if (\<not> nonempty_str (ra_strategy_name a))
       (Exn RuntimeConfigurationError ''strategy_name must be non-empty'')) (\<lambda>_.
     bindR (raise_if (\<not> is_bool (ra_live_trading_enabled a))
       (Exn RuntimeConfigurationError ''live_trading_enabled must be bool'')) (\<lambda>_.
     bindR (raise_if (ra_session_id a \<noteq> PyNone \<and> \<not> pos_int (ra_session_id a))
       (Exn RuntimeConfigurationError ''session_id must be a positive int or None'')) (\<lambda>_.
     bindR (positive ''query_attempts'' (ra_query_attempts a)) (\<lambda>query_tries.
     bindR (raise_if (\<not> is_number (ra_query_delay_seconds a))
       (Exn RuntimeConfigurationError ''query_delay_seconds must be numeric'')) (\<lambda>_.
     bindR (py_float (ra_query_delay_seconds a)) (\<lambda>delay.
     bindR (raise_if (flt delay (Finite 0))
       (Exn RuntimeConfigurationError ''query_delay_seconds cannot be negative'')) (\<lambda>_.
     bindR (positive ''event_queue_size'' (ra_event_queue_size a)) (\<lambda>queue_bound.
     bindR (in_lock_modes (ra_runtime_lock_mode a)) (\<lambda>mode_known.
     bindR (raise_if (\<not> mode_known)
       (Exn RuntimeConfigurationError ''runtime_lock_mode must be exactly exclusive or shared'')) (\<lambda>_.
     bindR (positive ''session_id_pool_start'' (ra_session_id_pool_start a)) (\<lambda>start.
     bindR (positive ''session_id_pool_size'' (ra_session_id_pool_size a)) (\<lambda>pool.
     bindR (positive ''session_id_attempts'' (ra_session_id_attempts a)) (\<lambda>id_tries.
     bindR (raise_if (2147483647 < start + pool - 1)
       (Exn RuntimeConfigurationError ''session id pool exceeds signed 32-bit range'')) (\<lambda>_.
     bindR (mk_RuntimeGateConfig (ra_environment a) (ra_live_trading_enabled a) (ra_confirmation_token_sha256 a)) (\<lambda>_.
     Inr \<lparr>rc_environment = the_str (ra_environment a), rc_qmt_path = qmt_path, rc_binding_path = binding_path,
          rc_journal_path = journal_path, rc_lock_path = lock_path,
          rc_strategy_name = the_str (ra_strategy_name a),
          rc_live_trading_enabled = truthy (ra_live_trading_enabled a),
          rc_confirmation_token_sha256 = the_str (ra_confirmation_token_sha256 a),
          rc_session_id = (if ra_session_id a = PyNone then None else Some (the_int (ra_session_id a))),
          rc_query_attempts = query_tries, rc_query_delay_seconds = ra_query_delay_seconds a,
          rc_event_queue_size = queue_bound, rc_runtime_lock_mode = the_str (ra_runtime_lock_mode a),
          rc_session_id_pool_start = start, rc_session_id_pool_size = pool,
          rc_session_id_attempts = id_tries\<rparr>)))))))))))))))))))))"

section \<open>The reader\<close>

definition RUNTIME_REQUIRED_FIELDS :: "string list" where
  "RUNTIME_REQUIRED_FIELDS = [''schema_version'', ''environment'', ''qmt_path'', ''binding_path'',
     ''journal_path'', ''lock_path'', ''strategy_name'']"

definition RUNTIME_OPTIONAL_FIELDS :: "string list" where
  "RUNTIME_OPTIONAL_FIELDS = [''live_trading_enabled'', ''confirmation_token_sha256'', ''session_id'',
     ''query_attempts'', ''query_delay_seconds'', ''event_queue_size'', ''runtime_lock_mode'',
     ''session_id_pool_start'', ''session_id_pool_size'', ''session_id_attempts'']"

text \<open>An optional entry, with the default of the constructor.\<close>

definition entry_or :: "pydict \<Rightarrow> string \<Rightarrow> pyval \<Rightarrow> pyval" where
  "entry_or d k v = (case dget d k of None \<Rightarrow> v | Some x \<Rightarrow> x)"

definition DEFAULT_QUERY_DELAY :: pyval where
  "DEFAULT_QUERY_DELAY = PyFloat (float_lit (15 / 100))"

definition config_arguments :: "pydict \<Rightarrow> runtime_config_arguments" where
  "config_arguments d =
     \<lparr>ra_environment = pyget d ''environment'', ra_qmt_path = pyget d ''qmt_path'',
      ra_binding_path = pyget d ''binding_path'', ra_journal_path = pyget d ''journal_path'',
      ra_lock_path = pyget d ''lock_path'', ra_strategy_name = pyget d ''strategy_name'',
      ra_live_trading_enabled = entry_or d ''live_trading_enabled'' (PyBool False),
      ra_confirmation_token_sha256 = entry_or d ''confirmation_token_sha256'' (PyStr ''''),
      ra_session_id = entry_or d ''session_id'' PyNone,
      ra_query_attempts = entry_or d ''query_attempts'' (PyInt 3),
      ra_query_delay_seconds = entry_or d ''query_delay_seconds'' DEFAULT_QUERY_DELAY,
      ra_event_queue_size = entry_or d ''event_queue_size'' (PyInt 1024),
      ra_runtime_lock_mode = entry_or d ''runtime_lock_mode'' (PyStr ''exclusive''),
      ra_session_id_pool_start = entry_or d ''session_id_pool_start'' (PyInt 100000000),
      ra_session_id_pool_size = entry_or d ''session_id_pool_size'' (PyInt 1000),
      ra_session_id_attempts = entry_or d ''session_id_attempts'' (PyInt 32)\<rparr>"

text \<open>
  A path of the file: expanded, and joined to the file's directory when it is relative.  \<open>absolute\<close> is
  \<open>is_absolute()\<close> and \<open>join\<close> the join to the directory.
\<close>

definition config_path ::
  "(string \<Rightarrow> string pyres) \<Rightarrow> (string \<Rightarrow> bool) \<Rightarrow> (string \<Rightarrow> string) \<Rightarrow> (pyval \<Rightarrow> string) \<Rightarrow> pyval \<Rightarrow> string pyres" where
  "config_path expand absolute join rp v =
     bindR (expand (py_str rp v)) (\<lambda>p. Inr (if absolute p then p else join p))"

definition config_of_payload ::
  "(string \<Rightarrow> string pyres) \<Rightarrow> (string \<Rightarrow> bool) \<Rightarrow> (string \<Rightarrow> string) \<Rightarrow> (pyval \<Rightarrow> string) \<Rightarrow> pyval
    \<Rightarrow> MiniQmtRuntimeConfig pyres" where
  "config_of_payload expand absolute join rp v =
     (case as_dict v of
        None \<Rightarrow> Inl (Exn RuntimeConfigurationError ''runtime config must be a JSON object'')
      | Some d \<Rightarrow>
          bindR (raise_if (pyget d ''coordination_path'' \<noteq> PyNone)
            (Exn RuntimeConfigurationError
               ''coordination_path is not a production shared-runtime configuration field'')) (\<lambda>_.
          bindR (raise_if (pyget d ''authority_root'' \<noteq> PyNone)
            (Exn RuntimeConfigurationError
               ''authority_root is not a production runtime configuration field'')) (\<lambda>_.
          bindR (raise_if (\<not> set RUNTIME_REQUIRED_FIELDS \<subseteq> set (map fst d)
              \<or> \<not> set (map fst d) \<subseteq> set (RUNTIME_REQUIRED_FIELDS @ RUNTIME_OPTIONAL_FIELDS))
            (Exn RuntimeConfigurationError ''runtime config fields do not match strict schema'')) (\<lambda>_.
          bindR (raise_if (\<not> py_eq_int (pyget d ''schema_version'') 1)
            (Exn RuntimeConfigurationError ''runtime config schema_version mismatch'')) (\<lambda>_.
          bindR (mapR (\<lambda>k. config_path expand absolute join rp (pyget d k))
            [''qmt_path'', ''binding_path'', ''journal_path'', ''lock_path'']) (\<lambda>ps.
          mk_MiniQmtRuntimeConfig expand
            (config_arguments d\<lparr>ra_qmt_path := PyStr (ps ! 0), ra_binding_path := PyStr (ps ! 1),
               ra_journal_path := PyStr (ps ! 2), ra_lock_path := PyStr (ps ! 3)\<rparr>)))))))"

definition config_from_json ::
  "(string \<Rightarrow> string pyres) \<Rightarrow> (string \<Rightarrow> bool) \<Rightarrow> (string \<Rightarrow> string) \<Rightarrow> (pyval \<Rightarrow> string)
    \<Rightarrow> ('w, json_text) pyact \<Rightarrow> ('w, MiniQmtRuntimeConfig) pyact" where
  "config_from_json expand absolute join rp read_text =
     bindM (load_json (Exn RuntimeConfigurationError ''runtime config is unreadable'') read_text) (\<lambda>v.
     liftR (config_of_payload expand absolute join rp v))"

section \<open>What a configuration guarantees\<close>

definition gate_config_of :: "MiniQmtRuntimeConfig \<Rightarrow> RuntimeGateConfig pyres" where
  "gate_config_of c =
     mk_RuntimeGateConfig (PyStr (rc_environment c)) (PyBool (rc_live_trading_enabled c))
       (PyStr (rc_confirmation_token_sha256 c))"

definition allocator_of :: "MiniQmtRuntimeConfig \<Rightarrow> allocator pyres" where
  "allocator_of c =
     mk_allocator (PyInt (rc_session_id_pool_start c)) (PyInt (rc_session_id_pool_size c))
       (PyInt (rc_session_id_attempts c))"

definition wf_runtime_config :: "MiniQmtRuntimeConfig \<Rightarrow> bool" where
  "wf_runtime_config c \<longleftrightarrow>
     rc_environment c \<in> {''simulation'', ''live''} \<and> rc_strategy_name c \<noteq> []
     \<and> (\<forall>i. rc_session_id c = Some i \<longrightarrow> 0 < i) \<and> 0 < rc_query_attempts c \<and> 0 < rc_event_queue_size c
     \<and> rc_runtime_lock_mode c \<in> {''exclusive'', ''shared''}
     \<and> 0 < rc_session_id_pool_start c \<and> 0 < rc_session_id_pool_size c \<and> 0 < rc_session_id_attempts c
     \<and> rc_session_id_pool_start c + rc_session_id_pool_size c - 1 \<le> 2147483647
     \<and> isOk (gate_config_of c)"

lemma in_environments_True: "in_environments v = Inr True \<Longrightarrow> v = PyStr (the_str v) \<and> the_str v \<in> {''simulation'', ''live''}"
  by (cases v) (auto simp: in_environments_def)

lemma in_lock_modes_True: "in_lock_modes v = Inr True \<Longrightarrow> the_str v \<in> {''exclusive'', ''shared''}"
  by (cases v) (auto simp: in_lock_modes_def)

lemma positive_Inr: "positive name v = Inr n \<longleftrightarrow> v = PyInt n \<and> 0 < n"
  by (cases v) (auto simp: positive_def pos_int_def)

lemma gate_arguments:
  "mk_RuntimeGateConfig e l t = Inr g \<Longrightarrow> e = PyStr (the_str e) \<and> l = PyBool (truthy l) \<and> t = PyStr (the_str t)"
proof -
  assume ok: "mk_RuntimeGateConfig e l t = Inr g"
  then have "in_environments e = Inr True" "is_bool l" "\<exists>d. strip_lower t = Inr d"
    by (auto simp: mk_RuntimeGateConfig_def bindR_eq_Inr)
  then show ?thesis using in_environments_True
    by (cases l; cases t) (auto simp: strip_lower_def)
qed

lemma mk_MiniQmtRuntimeConfig_wf:
  assumes "mk_MiniQmtRuntimeConfig expand a = Inr c"
  shows "wf_runtime_config c"
proof -
  have e: "in_environments (ra_environment a) = Inr True" "rc_environment c = the_str (ra_environment a)"
    and l: "in_lock_modes (ra_runtime_lock_mode a) = Inr True" "rc_runtime_lock_mode c = the_str (ra_runtime_lock_mode a)"
    and n: "nonempty_str (ra_strategy_name a)" "rc_strategy_name c = the_str (ra_strategy_name a)"
    and i: "ra_session_id a = PyNone \<or> pos_int (ra_session_id a)"
      "rc_session_id c = (if ra_session_id a = PyNone then None else Some (the_int (ra_session_id a)))"
    and p: "0 < rc_query_attempts c" "0 < rc_event_queue_size c" "0 < rc_session_id_pool_start c"
      "0 < rc_session_id_pool_size c" "0 < rc_session_id_attempts c"
      "rc_session_id_pool_start c + rc_session_id_pool_size c - 1 \<le> 2147483647"
    and g: "\<exists>g. mk_RuntimeGateConfig (ra_environment a) (ra_live_trading_enabled a) (ra_confirmation_token_sha256 a) = Inr g"
      "rc_live_trading_enabled c = truthy (ra_live_trading_enabled a)"
      "rc_confirmation_token_sha256 c = the_str (ra_confirmation_token_sha256 a)"
    using assms by (auto simp: mk_MiniQmtRuntimeConfig_def bindR_eq_Inr positive_Inr)
  have "isOk (gate_config_of c)"
    using g e gate_arguments by (fastforce simp: gate_config_of_def isOk_iff)
  then show ?thesis
    using e l n i p in_environments_True [OF e(1)] in_lock_modes_True [OF l(1)]
    by (auto simp: wf_runtime_config_def nonempty_str_def pos_int_def split: pyval.splits)
qed

lemma allocator_of_wf: "wf_runtime_config c \<Longrightarrow> isOk (allocator_of c)"
  by (simp add: wf_runtime_config_def allocator_of_def mk_allocator_def pos_int_def)

text \<open>
  C16: whatever the file holds, a configuration that \<open>from_json\<close> accepts is well formed: the constructors
  of the gate and of the session ids, which \<open>connect\<close> calls later, do not raise on it, and the file
  named no coordination database and no authority root.
\<close>

theorem config_from_json_sound:
  assumes "config_of_payload expand absolute join rp v = Inr c"
  shows "wf_runtime_config c \<and> isOk (gate_config_of c) \<and> isOk (allocator_of c)
    \<and> (\<exists>d. v = PyDict d \<and> dget d ''coordination_path'' = None \<and> dget d ''authority_root'' = None)"
proof -
  obtain d where v: "as_dict v = Some d"
    and keys: "set (map fst d) \<subseteq> set (RUNTIME_REQUIRED_FIELDS @ RUNTIME_OPTIONAL_FIELDS)"
    and made: "\<exists>a. mk_MiniQmtRuntimeConfig expand a = Inr c"
    using assms by (auto simp: config_of_payload_def bindR_eq_Inr split: option.splits)
  have "\<exists>d. v = PyDict d \<and> dget d ''coordination_path'' = None \<and> dget d ''authority_root'' = None"
  proof (intro exI conjI)
    show "v = PyDict d" using v by (cases v) simp_all
    have "k \<notin> fst ` set d" if "k \<in> {''coordination_path'', ''authority_root''}" for k
      using keys that by (auto simp: RUNTIME_REQUIRED_FIELDS_def RUNTIME_OPTIONAL_FIELDS_def)
    then show "dget d ''coordination_path'' = None" "dget d ''authority_root'' = None"
      by (simp_all add: map_of_eq_None_iff)
  qed
  moreover from made have "wf_runtime_config c" using mk_MiniQmtRuntimeConfig_wf by blast
  ultimately show ?thesis using allocator_of_wf by (simp add: wf_runtime_config_def)
qed

definition example_config_payload :: pydict where
  "example_config_payload =
     [(''schema_version'', PyInt 1), (''environment'', PyStr ''simulation''), (''qmt_path'', PyStr ''/qmt''),
      (''binding_path'', PyStr ''binding.json''), (''journal_path'', PyStr ''journal.json''),
      (''lock_path'', PyStr ''lock''), (''strategy_name'', PyStr ''s1''),
      (''runtime_lock_mode'', PyStr ''shared'')]"

theorem config_from_json_sound_witness:
  "\<exists>c. config_of_payload Inr (\<lambda>p. take 1 p = ''/'') (\<lambda>p. ''/etc/'' @ p) (\<lambda>_. []) (PyDict example_config_payload) = Inr c
     \<and> rc_binding_path c = ''/etc/binding.json'' \<and> isOk (allocator_of c)"
proof -
  have "(case config_of_payload Inr (\<lambda>p. take 1 p = ''/'') (\<lambda>p. ''/etc/'' @ p) (\<lambda>_. []) (PyDict example_config_payload)
     of Inl e \<Rightarrow> None | Inr c \<Rightarrow> Some (rc_binding_path c)) = Some ''/etc/binding.json''" by code_simp
  then obtain c where "config_of_payload Inr (\<lambda>p. take 1 p = ''/'') (\<lambda>p. ''/etc/'' @ p) (\<lambda>_. [])
      (PyDict example_config_payload) = Inr c" and "rc_binding_path c = ''/etc/binding.json''"
    by (auto split: sum.splits)
  then show ?thesis using config_from_json_sound by blast
qed

end
