(* ===== verification/Runtime_World.thy ===== *)
theory Runtime_World
  imports Runtime_Config Qmt_Callbacks Event_Queue Coordinated_Session Session_World
begin

text \<open>
  \<open>miniqmt/runtime.py\<close>, first part: what the objects of a runtime share.  The state of the adapter
  (\<open>adapter_state\<close>) has as its world a \<open>hub\<close>: the event queue, the signals, the gate and everything
  outside.  Sessions run on this state; after every call to the outside the callbacks that have
  arrived are handled.
\<close>

section \<open>State\<close>

text \<open>
  \<open>signals\<close> and the gate of \<open>connect\<close>; \<open>hub_runtime\<close> is \<open>holder.get("runtime")\<close>, known by its bound
  account id.  \<open>orders_sent\<close> is a ghost field: the symbol, type, quantity and remark of every call of
  \<open>order_stock\<close>, newest first.
\<close>

record 'v hub =
  outer :: 'v
  hub_queue :: "qmt_event event_queue"
  signal_transport :: bool
  signal_account :: bool
  hub_gate :: gate
  hub_runtime :: "string option"
  orders_sent :: "(string \<times> int \<times> int \<times> string) list"

type_synonym 'v rworld = "'v hub adapter_state"

text \<open>
  The library: the trader's methods (those that the code looks up with \<open>getattr(\<dots>, None)\<close> may be
  missing), and what has arrived since the last call: events, and \<open>None\<close> for an event that found the
  queue full.
\<close>

record 'v runtime_library = "'v account_env" +
  make_trader :: "int \<Rightarrow> ('v, unit) pyact"
  register_callback :: "('v, unit) pyact option"
  trader_start :: "('v, unit) pyact"
  trader_connect :: "('v, pyval) pyact"
  trader_subscribe :: "pyval \<Rightarrow> ('v, pyval) pyact"
  trader_unsubscribe :: "(pyval \<Rightarrow> ('v, unit) pyact) option"
  trader_stop :: "('v, unit) pyact option"
  lib_order_stock :: "pyval \<Rightarrow> string \<Rightarrow> int \<Rightarrow> int \<Rightarrow> int \<Rightarrow> pyfloat \<Rightarrow> string \<Rightarrow> string \<Rightarrow> ('v, pyval) pyact"
  lib_cancel_order_stock :: "pyval \<Rightarrow> int \<Rightarrow> ('v, pyval) pyact"
  lib_query_stock_order :: "pyval \<Rightarrow> int \<Rightarrow> ('v, query_value) pyact"
  lib_query_stock_orders :: "pyval \<Rightarrow> ('v, query_value) pyact"
  lib_query_stock_asset :: "pyval \<Rightarrow> ('v, query_value) pyact"
  lib_query_stock_positions :: "pyval \<Rightarrow> ('v, query_value) pyact"
  lib_query_stock_trades :: "pyval \<Rightarrow> ('v, query_value) pyact"
  arrivals :: "'v \<Rightarrow> qmt_event option list \<times> 'v"

text \<open>
  What a runtime is made of: its configuration, the library and its constants, the project's handler
  of observations, and the files, the clock, the lock, the guard and the hooks of the session (the
  broker fields of \<open>rt_base\<close> are not used); the lock of the library's path and the locks of the session
  ids.
\<close>

record 'v runtime_setup =
  rt_config :: MiniQmtRuntimeConfig
  rt_library :: "'v runtime_library"
  rt_order_config :: QmtOrderConfig
  security_account_type :: int
  account_status_ok :: int
  observation_handler :: "(qmt_event \<Rightarrow> ('v, unit) pyact) option"
  rt_base :: "'v session_env"
  rt_path_mutex :: "'v mutex_env"
  rt_id_mutex :: "int \<Rightarrow> 'v mutex_env"

definition on_outer :: "('v, 'a) pyact \<Rightarrow> ('v hub, 'a) pyact" where
  "on_outer m = (\<lambda>h. case m (outer h) of (r, w) \<Rightarrow> (r, h\<lparr>outer := w\<rparr>))"

definition on_gate :: "(gate, 'a) pyact \<Rightarrow> ('v hub, 'a) pyact" where
  "on_gate m = (\<lambda>h. case m (hub_gate h) of (r, g) \<Rightarrow> (r, h\<lparr>hub_gate := g\<rparr>))"

definition set_signals :: "bool \<Rightarrow> bool \<Rightarrow> ('v hub, unit) pyact" where
  "set_signals t a = modifyM (\<lambda>h. h\<lparr>signal_transport := t, signal_account := a\<rparr>)"

section \<open>The handler of the event queue\<close>

definition handle_disconnected :: "('v rworld, unit) pyact" where
  "handle_disconnected =
     bindM (on_broker (set_signals False False)) (\<lambda>_.
     bindM (on_broker (on_gate gate_revoke)) (\<lambda>_.
     bindM (getM (\<lambda>s. hub_runtime (broker_world s))) (\<lambda>runtime.
     if runtime \<noteq> None then mark_disconnected else returnM ())))"

definition handle_account_status ::
  "'v runtime_setup \<Rightarrow> string \<Rightarrow> int \<Rightarrow> int \<Rightarrow> ('v rworld, unit) pyact" where
  "handle_account_status setup account account_type status =
     bindM (getM (\<lambda>s. hub_runtime (broker_world s))) (\<lambda>runtime.
     if runtime = Some account
       \<and> (account_type \<noteq> security_account_type setup \<or> status \<noteq> account_status_ok setup)
     then
       bindM (on_broker (modifyM (\<lambda>h. h\<lparr>signal_account := False\<rparr>))) (\<lambda>_.
       bindM (on_broker (on_gate gate_revoke)) (\<lambda>_.
       mark_recovery_required))
     else returnM ())"

definition observe :: "'v runtime_setup \<Rightarrow> qmt_event \<Rightarrow> ('v rworld, unit) pyact" where
  "observe setup event =
     (case observation_handler setup of
        None \<Rightarrow> returnM ()
      | Some h \<Rightarrow> on_broker (on_outer (h event)))"

definition handle_callback :: "'v runtime_setup \<Rightarrow> qmt_event \<Rightarrow> ('v rworld, unit) pyact" where
  "handle_callback setup event =
     (case event of
        QmtCallbackMalformed name msg \<Rightarrow>
          raiseM (Exn EventQueueUnhealthy (''malformed broker callback '' @ name @ '': '' @ msg))
      | QmtBrokerDisconnected _ \<Rightarrow> bindM handle_disconnected (\<lambda>_. observe setup event)
      | QmtAccountStatusObserved account t status \<Rightarrow>
          bindM (handle_account_status setup account t status) (\<lambda>_. observe setup event)
      | _ \<Rightarrow> observe setup event)"

text \<open>
  An event that arrives: only a running queue takes it, and an exception of the handler, like an
  overflow, puts the queue into its failed state.
\<close>

definition fail_queue :: "exn \<Rightarrow> 'v rworld \<Rightarrow> 'v rworld" where
  "fail_queue e s = s\<lparr>broker_world := (broker_world s)\<lparr>hub_queue := queue_fail e (hub_queue (broker_world s))\<rparr>\<rparr>"

definition consume :: "'v runtime_setup \<Rightarrow> qmt_event \<Rightarrow> 'v rworld \<Rightarrow> 'v rworld" where
  "consume setup event s =
     (case handle_callback setup event s of (Inr _, s') \<Rightarrow> s' | (Inl e, s') \<Rightarrow> fail_queue e s')"

definition receive :: "'v runtime_setup \<Rightarrow> qmt_event option \<Rightarrow> 'v rworld \<Rightarrow> 'v rworld" where
  "receive setup a s =
     (if \<not> queue_healthy (hub_queue (broker_world s)) then s
      else case a of
        None \<Rightarrow> fail_queue (Exn EventQueueUnhealthy ''event queue overflow'') s
      | Some event \<Rightarrow> consume setup event s)"

definition put_outer :: "'v \<Rightarrow> 'v rworld \<Rightarrow> 'v rworld" where
  "put_outer w s = s\<lparr>broker_world := (broker_world s)\<lparr>outer := w\<rparr>\<rparr>"

definition deliver :: "'v runtime_setup \<Rightarrow> 'v rworld \<Rightarrow> 'v rworld" where
  "deliver setup s =
     (case arrivals (rt_library setup) (outer (broker_world s)) of
        (arrived, w) \<Rightarrow> foldl (\<lambda>s a. receive setup a s) (put_outer w s) arrived)"

text \<open>A call that leaves the runtime's own code, after which the consumer runs.\<close>

definition call :: "'v runtime_setup \<Rightarrow> ('v rworld, 'a) pyact \<Rightarrow> ('v rworld, 'a) pyact" where
  "call setup m = (\<lambda>s. case m s of (r, s') \<Rightarrow> (r, deliver setup s'))"

definition external :: "'v runtime_setup \<Rightarrow> ('v, 'a) pyact \<Rightarrow> ('v rworld, 'a) pyact" where
  "external setup m = call setup (on_broker (on_outer m))"

section \<open>The adapter of the runtime\<close>

definition send_order ::
  "'v runtime_setup \<Rightarrow> BoundQmtAccount \<Rightarrow> string \<Rightarrow> int \<Rightarrow> int \<Rightarrow> int \<Rightarrow> pyfloat \<Rightarrow> string \<Rightarrow> string
    \<Rightarrow> ('v hub, pyval) pyact" where
  "send_order setup bound smb order_type q ptype price strategy remark =
     bindM (modifyM (\<lambda>h. h\<lparr>orders_sent := (smb, order_type, q, remark) # orders_sent h\<rparr>)) (\<lambda>_.
     on_outer (lib_order_stock (rt_library setup) (bound_account bound) smb order_type q ptype price strategy remark))"

definition runtime_health :: "'v hub \<Rightarrow> bool" where
  "runtime_health h = (queue_healthy (hub_queue h) \<and> signal_transport h \<and> signal_account h)"

definition runtime_qmt_env :: "'v runtime_setup \<Rightarrow> BoundQmtAccount \<Rightarrow> 'v hub qmt_env" where
  "runtime_qmt_env setup bound =
     (let lib = rt_library setup; account = bound_account bound in
      \<lparr>order_config = rt_order_config setup, qmt_strategy_name = rc_strategy_name (rt_config setup),
       query_attempts = nat (rc_query_attempts (rt_config setup)), order_stock = send_order setup bound,
       cancel_order_stock = (\<lambda>i. on_outer (lib_cancel_order_stock lib account i)),
       query_stock_order = (\<lambda>i. on_outer (lib_query_stock_order lib account i)),
       query_stock_orders = on_outer (lib_query_stock_orders lib account),
       query_stock_asset = on_outer (lib_query_stock_asset lib account),
       query_stock_positions = on_outer (lib_query_stock_positions lib account),
       query_stock_trades = on_outer (lib_query_stock_trades lib account),
       query_sleep = on_outer (account_pause lib),
       health_probe = Some (getM (\<lambda>h. PyBool (runtime_health h))),
       order_gate = Some (getM (\<lambda>h. PyBool (execution_allowed (hub_gate h)))),
       text_of = account_repr lib\<rparr>)"

text \<open>The searches for the account, with callbacks handled after every query.\<close>

definition runtime_account_env :: "'v runtime_setup \<Rightarrow> 'v rworld account_env" where
  "runtime_account_env setup =
     (let lib = rt_library setup in
      \<lparr>query_account_infos = external setup (query_account_infos lib),
       query_account_status = external setup (query_account_status lib),
       stock_account = (\<lambda>i. external setup (stock_account lib i)),
       account_pause = external setup (account_pause lib), account_sha = account_sha lib,
       account_repr = account_repr lib\<rparr>)"

section \<open>The sessions of the runtime\<close>

definition runtime_mutex_env :: "'v runtime_setup \<Rightarrow> 'v mutex_env \<Rightarrow> 'v rworld mutex_env" where
  "runtime_mutex_env setup m =
     \<lparr>timeout_seconds = timeout_seconds m, poll_seconds = poll_seconds m,
      make_lock_parent = external setup (make_lock_parent m),
      open_lock_file = external setup (open_lock_file m), monotonic = external setup (monotonic m),
      try_lock = external setup (try_lock m), sleep_for = (\<lambda>t. external setup (sleep_for m t)),
      write_owner = external setup (write_owner m), unlock = external setup (unlock m),
      close_handle = external setup (close_handle m)\<rparr>"

definition runtime_session_env :: "'v runtime_setup \<Rightarrow> BoundQmtAccount \<Rightarrow> 'v rworld session_env" where
  "runtime_session_env setup bound =
     (let b = rt_base setup; q = runtime_qmt_env setup bound in
      \<lparr>execution_id = rc_strategy_name (rt_config setup), now = external setup (now b),
       read_file = external setup (read_file b), make_parent = external setup (make_parent b),
       write_temporary = external setup (write_temporary b),
       os_replace = (\<lambda>s. case os_replace b (outer (broker_world s)) of
          (c, w) \<Rightarrow> (c, deliver setup (put_outer w s))),
       sleep = external setup (sleep b), remove_temporary = external setup (remove_temporary b),
       mutex = runtime_mutex_env setup (mutex b), lock_fuel = lock_fuel b, sha256 = sha256 b,
       source_files = (\<lambda>s. source_files b (outer (broker_world s))), package_dir = package_dir b,
       py_repr = py_repr b,
       place_order = (\<lambda>r. call setup (bindM (adapter_place_order q r) (\<lambda>n. returnM (PyInt n)))),
       cancel_order = (\<lambda>i. call setup (adapter_cancel_order q i)),
       query_order = (\<lambda>i. call setup (adapter_query_order q i)),
       query_orders = call setup (adapter_query_orders q), execution_healthy = call setup (adapter_healthy q),
       verify_session = external setup (verify_session b),
       verify_request = (\<lambda>r. external setup (verify_request b r)),
       before_submit_coordination = (\<lambda>_. returnM ()),
       before_broker_submit = (\<lambda>r. external setup (before_broker_submit b r)),
       before_broker_cancel = (\<lambda>i. external setup (before_broker_cancel b i))\<rparr>)"

text \<open>
  What the shared mode adds: the account's key, the coordinator's SQLite, the estimator and the hook of
  the project, and the coordinator operations of other processes.
\<close>

record 'v shared_setup =
  sh_account_key :: string
  sh_coordinator :: "'v coord_env"
  sh_estimator :: "(ExecutionRequest \<Rightarrow> BrokerAsset \<Rightarrow> ('v, CashRequirementEstimate) pyact) option"
  sh_hook :: "(ExecutionRequest \<Rightarrow> ('v, unit) pyact) option"
  sh_others :: "'v \<Rightarrow> ('v coord_env \<times> coord_op) list"

definition runtime_coord_env :: "'v runtime_setup \<Rightarrow> 'v coord_env \<Rightarrow> 'v rworld coord_env" where
  "runtime_coord_env setup c =
     \<lparr>sql_connect = external setup (sql_connect c), sql_created = (\<lambda>s. sql_created c (outer (broker_world s))),
      sql_begin = external setup (sql_begin c),
      sql_statement = external setup (sql_statement c),
      sql_commit = (\<lambda>s. case sql_commit c (outer (broker_world s)) of
         (q, w) \<Rightarrow> (q, deliver setup (put_outer w s))),
      sql_rollback = external setup (sql_rollback c), sql_close = external setup (sql_close c),
      sql_sum = sql_sum c\<rparr>"

definition runtime_coordinated_env ::
  "'v runtime_setup \<Rightarrow> 'v shared_setup \<Rightarrow> BoundQmtAccount \<Rightarrow> 'v rworld coordinated_env" where
  "runtime_coordinated_env setup sh bound =
     \<lparr>base = runtime_session_env setup bound, account_key = sh_account_key sh,
      coordinator = runtime_coord_env setup (sh_coordinator sh),
      query_asset = call setup (adapter_query_asset (runtime_qmt_env setup bound)),
      cash_estimator = map_option (\<lambda>f r a. external setup (f r a)) (sh_estimator sh),
      project_before_broker_submit = map_option (\<lambda>f r. external setup (f r)) (sh_hook sh),
      others = (\<lambda>s. map (\<lambda>(c, oper). (runtime_coord_env setup c, oper)) (sh_others sh (outer (broker_world s))))\<rparr>"

end
