(* ===== verification/Runtime_Sessions.thy ===== *)
theory Runtime_Sessions
  imports Runtime_World
begin

text \<open>
  What the operations of a session can do to a runtime: they, and the callbacks that are handled in
  the meantime, never turn the ability to trade back on, and without it no order is sent.
\<close>

section \<open>The ability to trade\<close>

definition can_trade :: "'v rworld \<Rightarrow> bool" where
  "can_trade s \<longleftrightarrow>
     transport_connected s \<and> recovery_ready s \<and> runtime_health (broker_world s)
     \<and> execution_allowed (hub_gate (broker_world s))"

definition gate_lowered :: "gate \<Rightarrow> gate \<Rightarrow> bool" where
  "gate_lowered g g' \<longleftrightarrow> gate_config g' = gate_config g \<and> (confirmed g' \<longrightarrow> confirmed g)"

text \<open>Every condition of trading holds afterwards only if it held before.\<close>

definition lowered :: "'v rworld \<Rightarrow> 'v rworld \<Rightarrow> bool" where
  "lowered s s' \<longleftrightarrow>
     (transport_connected s' \<longrightarrow> transport_connected s) \<and> (recovery_ready s' \<longrightarrow> recovery_ready s)
     \<and> (queue_healthy (hub_queue (broker_world s')) \<longrightarrow> queue_healthy (hub_queue (broker_world s)))
     \<and> (signal_transport (broker_world s') \<longrightarrow> signal_transport (broker_world s))
     \<and> (signal_account (broker_world s') \<longrightarrow> signal_account (broker_world s))
     \<and> gate_lowered (hub_gate (broker_world s)) (hub_gate (broker_world s'))"

definition quiet :: "'v rworld \<Rightarrow> 'v rworld \<Rightarrow> bool" where
  "quiet s s' \<longleftrightarrow>
     lowered s s' \<and> (\<not> can_trade s \<longrightarrow> orders_sent (broker_world s') = orders_sent (broker_world s))"

lemma gate_lowered_allowed: "gate_lowered g g' \<Longrightarrow> execution_allowed g' \<Longrightarrow> execution_allowed g"
  by (auto simp: gate_lowered_def execution_allowed_def split: if_splits)

lemma lowered_can_trade: "lowered s s' \<Longrightarrow> can_trade s' \<Longrightarrow> can_trade s"
  by (auto simp: lowered_def can_trade_def runtime_health_def intro: gate_lowered_allowed)

lemma lowered_refl: "lowered s s"
  by (simp add: lowered_def gate_lowered_def)

lemma lowered_trans: "lowered s t \<Longrightarrow> lowered t u \<Longrightarrow> lowered s u"
  by (auto simp: lowered_def gate_lowered_def)

lemma quietD: "quiet s s' \<Longrightarrow> \<not> can_trade s \<Longrightarrow> \<not> can_trade s'"
  by (auto simp: quiet_def dest: lowered_can_trade)

interpretation lo: step_preorder lowered
  by unfold_locales (fact lowered_refl, rule lowered_trans)

interpretation qt: step_preorder quiet
proof
  show "quiet s s" for s by (simp add: quiet_def lowered_refl)
  show "quiet s u" if st: "quiet s t" and tu: "quiet t u" for s t u
    using st tu quietD [OF st] lowered_trans by (simp add: quiet_def) blast
qed

text \<open>A step that only lowers and sends nothing.\<close>

definition silent :: "'v rworld \<Rightarrow> 'v rworld \<Rightarrow> bool" where
  "silent s s' \<longleftrightarrow> lowered s s' \<and> orders_sent (broker_world s') = orders_sent (broker_world s)"

interpretation sl: step_preorder silent
proof
  show "silent s s" for s by (simp add: silent_def lowered_refl)
  show "silent s u" if st: "silent s t" and tu: "silent t u" for s t u
    using st tu lowered_trans by (auto simp: silent_def)
qed

lemma silent_quiet: "silent s s' \<Longrightarrow> quiet s s'"
  by (simp add: silent_def quiet_def)

lemma keeps_silent_quiet: "keeps silent m \<Longrightarrow> keeps quiet m"
  unfolding keeps_def by (blast intro: silent_quiet)

section \<open>Callbacks\<close>

lemma silent_hub: "(\<And>h r h'. m h = (r, h') \<Longrightarrow>
      (queue_healthy (hub_queue h') \<longrightarrow> queue_healthy (hub_queue h))
    \<and> (signal_transport h' \<longrightarrow> signal_transport h) \<and> (signal_account h' \<longrightarrow> signal_account h)
    \<and> gate_lowered (hub_gate h) (hub_gate h') \<and> orders_sent h' = orders_sent h)
  \<Longrightarrow> keeps silent (on_broker m)"
  by (fastforce simp: keeps_def silent_def lowered_def on_broker_def split: prod.splits)

lemma silent_outer: "keeps silent (on_broker (on_outer m))"
  by (rule silent_hub) (auto simp: on_outer_def gate_lowered_def split: prod.splits)

lemma gate_revoke_lowers: "gate_revoke g = (r, g') \<Longrightarrow> gate_lowered g g'"
  by (auto simp: gate_revoke_def bindM_def getM_def modifyM_def returnM_def gate_lowered_def split: if_splits)

lemma silent_revoke: "keeps silent (on_broker (on_gate gate_revoke))"
  by (rule silent_hub) (auto simp: on_gate_def split: prod.splits dest: gate_revoke_lowers)

lemma silent_lower_flags:
  "keeps silent mark_disconnected" "keeps silent mark_recovery_required"
  "keeps silent (on_broker (set_signals False False))"
  "keeps silent (on_broker (modifyM (\<lambda>h. h\<lparr>signal_account := False\<rparr>)))"
  by (auto simp: keeps_def silent_def lowered_def mark_disconnected_def mark_recovery_required_def
      modifyM_def set_signals_def on_broker_def gate_lowered_def)

lemma silent_observe: "keeps silent (observe setup event)"
  unfolding observe_def by (auto intro: sl.keeps_returnM silent_outer split: option.split)

lemma silent_handle_callback: "keeps silent (handle_callback setup event)"
  unfolding handle_callback_def handle_disconnected_def handle_account_status_def
  by (auto intro!: sl.keeps_bindM sl.keeps_raiseM sl.keeps_getM sl.keeps_returnM silent_observe
      silent_lower_flags silent_revoke split: qmt_event.split)

lemma silent_fail_queue: "silent s (fail_queue e s)"
  by (simp add: fail_queue_def silent_def lowered_def gate_lowered_def queue_healthy_def queue_fail_def)

lemma silent_consume: "silent s (consume setup event s)"
proof -
  obtain r s' where run: "handle_callback setup event s = (r, s')" by fastforce
  have first: "silent s s'" by (rule keepsD [OF silent_handle_callback run])
  show ?thesis using run first sl.R_trans [OF first silent_fail_queue]
    by (simp add: consume_def split: sum.split)
qed

lemma silent_receive: "silent s (receive setup a s)"
  by (simp add: receive_def sl.R_refl silent_fail_queue silent_consume split: option.split)

lemma silent_put_outer: "silent s (put_outer w s)"
  by (simp add: silent_def lowered_def gate_lowered_def put_outer_def)

lemma silent_foldl: "silent s (foldl (\<lambda>s a. receive setup a s) s arrived)"
proof (induction arrived arbitrary: s)
  case Nil
  then show ?case by (simp add: sl.R_refl)
next
  case (Cons e events)
  show ?case using sl.R_trans [OF silent_receive Cons] by simp
qed

lemma silent_deliver: "silent s (deliver setup s)"
  unfolding deliver_def by (auto intro: sl.R_trans [OF silent_put_outer silent_foldl] split: prod.splits)

lemma keeps_call:
  assumes "keeps R m" and "\<And>s t. R s t \<Longrightarrow> R s (deliver setup t)"
  shows "keeps R (call setup m)"
  using assms by (auto simp: keeps_def call_def split: prod.splits)

lemma silent_call: "keeps silent m \<Longrightarrow> keeps silent (call setup m)"
  by (rule keeps_call, assumption) (rule sl.R_trans [OF _ silent_deliver])

lemma quiet_call: "keeps quiet m \<Longrightarrow> keeps quiet (call setup m)"
  by (rule keeps_call, assumption) (rule qt.R_trans [OF _ silent_quiet [OF silent_deliver]])

lemma silent_external: "keeps silent (external setup m)"
  unfolding external_def by (rule silent_call [OF silent_outer])

lemmas quiet_external = keeps_silent_quiet [OF silent_external]

section \<open>The adapter\<close>

lemma silent_probe: "(\<And>m. p = Some m \<Longrightarrow> keeps silent (on_broker m)) \<Longrightarrow> keeps silent (probe p)"
  unfolding probe_def by (auto intro!: sl.keeps_bindM sl.keeps_returnM split: option.split)

lemma silent_read_hub: "keeps silent (on_broker (getM f))"
  by (rule silent_hub) (simp add: getM_def gate_lowered_def)

lemma silent_adapter_healthy: "keeps silent (adapter_healthy (runtime_qmt_env setup bound))"
  unfolding adapter_healthy_def runtime_qmt_env_def Let_def
  by (auto intro!: sl.keeps_bindM sl.keeps_getM sl.keeps_returnM silent_probe silent_read_hub)

lemma adapter_healthy_can_trade:
  "adapter_healthy (runtime_qmt_env setup bound) s = (Inr (can_trade s), s)"
  by (auto simp: adapter_healthy_def runtime_qmt_env_def Let_def probe_def on_broker_def getM_def bindM_def
      returnM_def can_trade_def)

lemma silent_strict_query:
  assumes "keeps silent (on_broker fn)" and "query_sleep env = on_outer pause"
  shows "keeps silent (strict_query env label fn n)"
proof (induction n)
  case 0
  show ?case unfolding strict_query.simps by (rule sl.keeps_raiseM)
next
  case (Suc n)
  show ?case unfolding strict_query.simps assms(2)
    by (rule sl.keeps_bindM [OF sl.keeps_tryM [OF assms(1)]])
      (auto intro!: sl.keeps_bindM sl.keeps_returnM sl.keeps_raiseM silent_outer Suc split: if_splits query_value.split)
qed

lemma silent_adapter_queries:
  "keeps silent (adapter_query_order (runtime_qmt_env setup bound) i)"
  "keeps silent (adapter_query_orders (runtime_qmt_env setup bound))"
  "keeps silent (adapter_query_asset (runtime_qmt_env setup bound))"
  unfolding adapter_query_order_def adapter_query_orders_def adapter_query_asset_def query_list_def
  by (auto intro!: sl.keeps_bindM sl.keeps_raiseM_if sl.keeps_liftR sl.keeps_raiseM
      silent_strict_query [where pause = "account_pause (rt_library setup)"] silent_outer
      simp: runtime_qmt_env_def Let_def split: query_value.split)

lemma silent_adapter_cancel: "keeps silent (adapter_cancel_order (runtime_qmt_env setup bound) i)"
  unfolding adapter_cancel_order_def
  by (auto intro!: sl.keeps_bindM sl.keeps_raiseM_if sl.keeps_tryM sl.keeps_returnM silent_outer
      simp: runtime_qmt_env_def Let_def split: if_splits)

lemma send_order_lowered: "keeps lowered (on_broker (send_order setup bound a b c d e f g))"
  by (auto simp: keeps_def on_broker_def send_order_def bindM_def modifyM_def on_outer_def lowered_def
      gate_lowered_def split: prod.splits)

lemma call_order_stock_lowered:
  "keeps lowered (call_order_stock (runtime_qmt_env setup bound) request)"
  unfolding call_order_stock_def
  by (rule lo.keeps_bindM [OF lo.keeps_liftR]) (simp add: runtime_qmt_env_def Let_def send_order_lowered)

lemma quiet_place_order:
  "keeps quiet (bindM (adapter_place_order (runtime_qmt_env setup bound) request) (\<lambda>n. returnM (PyInt n)))"
proof -
  let ?q = "runtime_qmt_env setup bound"
  let ?send = "bindM (liftR (validate_qmt_remark (order_remark request))) (\<lambda>_.
     bindM (tryM (call_order_stock ?q request)
         (\<lambda>e. if isinstance_exn e PyException
              then Some (raiseM (Exn BrokerSubmissionAmbiguous ''MiniQMT submit raised; outcome unknown''))
              else None)) (\<lambda>result. liftR (submit_result result)))"
  have send: "keeps lowered ?send"
    by (intro lo.keeps_bindM lo.keeps_liftR lo.keeps_tryM call_order_stock_lowered)
      (auto intro: lo.keeps_raiseM split: if_splits)
  have place: "adapter_place_order ?q request s
      = (if can_trade s then ?send s
         else (Inl (Exn BrokerSubmissionRejected ''MiniQMT execution gate is not ready; order was not invoked''), s))" for s
    by (simp add: adapter_place_order_def bindM_def adapter_healthy_can_trade raiseM_if_def raiseM_def returnM_def)
  have "keeps quiet (adapter_place_order ?q request)"
    unfolding keeps_def place
    by (auto simp: quiet_def lowered_refl dest: keepsD [OF send])
  then show ?thesis by (rule qt.keeps_bindM) (rule qt.keeps_returnM)
qed

section \<open>Sessions\<close>

context session_world
begin

lemma lifted_submit_intent:
  assumes "keeps R (place_order env r)" and "keeps R (before_submit_coordination env r)"
    and "keeps R (before_broker_submit env r)" and "keeps (lifted R) self_poll"
  shows "keeps (lifted R) (submit_intent env self_poll r)"
  unfolding submit_intent_def submit_to_broker_def
  by (intro lifted_basic lw.keeps_try_elseM lifted_on_world assms lifted_record_call)
    (auto intro!: lw.keeps_bindM lifted_transition lw.keeps_raiseM lifted_snapshot split: if_splits)

end

interpretation ex: session_world quiet "runtime_session_env su bound" for su bound
proof
  fix w q w'
  assume "os_replace (runtime_session_env su bound) w = (q, w')"
  then show "quiet w w'"
    by (auto simp: runtime_session_env_def Let_def split: prod.splits
        intro: silent_quiet sl.R_trans [OF silent_put_outer silent_deliver])
qed (simp_all add: runtime_session_env_def runtime_mutex_env_def Let_def quiet_external quiet_call
    keeps_silent_quiet silent_adapter_queries silent_adapter_cancel silent_adapter_healthy)

lemma exclusive_submit_quiet:
  "keeps (lifted quiet) (session_submit (runtime_session_env setup bound) (session_poll (runtime_session_env setup bound)) r)"
  by (rule ex.lifted_submit [OF ex.lifted_submit_intent [OF _ _ _ ex.lifted_poll]])
    (simp_all add: runtime_session_env_def Let_def quiet_external quiet_call quiet_place_order qt.keeps_returnM)

end
