(* ===== verification/Runtime_Shared.thy ===== *)
theory Runtime_Shared
  imports Runtime_Sessions
begin

text \<open>
  The coordinated session of a runtime in shared mode: like the base session, its operations never
  turn the ability to trade back on.
\<close>

section \<open>Worlds below a coordinator\<close>

definition below :: "('w \<Rightarrow> 'w \<Rightarrow> bool) \<Rightarrow> 'w coord_state \<Rightarrow> 'w coord_state \<Rightarrow> bool" where
  "below R s s' \<longleftrightarrow> R (cworld s) (cworld s')"

locale coord_world = step_preorder R for R :: "'w \<Rightarrow> 'w \<Rightarrow> bool" +
  fixes cenv :: "'w coord_env"
  assumes keeps_connect: "keeps R (sql_connect cenv)"
    and keeps_begin: "keeps R (sql_begin cenv)"
    and keeps_statement: "keeps R (sql_statement cenv)"
    and keeps_commit: "sql_commit cenv w = (q, w') \<Longrightarrow> R w w'"
    and keeps_rollback: "keeps R (sql_rollback cenv)"
    and keeps_close: "keeps R (sql_close cenv)"

lemma step_preorder_below: "step_preorder R \<Longrightarrow> step_preorder (below R)"
  unfolding step_preorder_def below_def by blast

sublocale coord_world \<subseteq> bw: step_preorder "below R"
  by (rule step_preorder_below) (rule step_preorder_axioms)

context coord_world
begin

lemma below_sql: "keeps R m \<Longrightarrow> keeps (below R) (sql m)"
  by (auto simp: keeps_def below_def sql_def split: prod.splits)

lemma below_modify: "(\<And>s. cworld (f s) = cworld s) \<Longrightarrow> keeps (below R) (modifyM f)"
  by (rule keeps_modifyM) (simp add: below_def R_refl)

lemma below_select: "keeps (below R) (select cenv f)"
  unfolding select_def by (intro bw.keeps_bindM below_sql keeps_statement bw.keeps_getM)

lemma below_execute: "keeps (below R) (execute cenv f)"
  unfolding execute_def
  by (intro bw.keeps_bindM below_sql keeps_statement bw.keeps_getM bw.keeps_liftR below_modify) simp

lemma below_commit: "keeps (below R) (commit cenv)"
  by (auto simp: keeps_def below_def commit_def dest: keeps_commit split: prod.splits commit_outcome.splits)

lemma below_begin_immediate: "keeps (below R) (begin_immediate cenv)"
  unfolding begin_immediate_def by (intro bw.keeps_bindM below_sql keeps_begin below_modify) simp

lemma below_connect: "keeps (below R) (connect cenv)"
  using keeps_connect by (auto simp: keeps_def below_def connect_def split: prod.splits sum.splits)

lemma below_transaction: "keeps (below R) body \<Longrightarrow> keeps (below R) (transaction cenv msg body)"
  unfolding transaction_def begin_write_def
  by (intro bw.keeps_bindM below_connect bw.keeps_finallyM bw.keeps_tryM below_begin_immediate below_commit
      below_sql keeps_close)
    (auto intro!: bw.keeps_bindM bw.keeps_raiseM below_sql keeps_rollback split: if_splits)

lemma below_query: "keeps (below R) (query cenv msg q k)"
  unfolding query_def
  by (intro bw.keeps_bindM below_connect bw.keeps_finallyM bw.keeps_tryM below_sql keeps_statement
      bw.keeps_getM bw.keeps_liftR keeps_close)
    (auto intro: bw.keeps_raiseM split: if_splits)

lemma below_has_claim: "keeps (below R) (has_claim cenv acc eid request)"
  unfolding has_claim_def by (intro bw.keeps_bindM bw.keeps_liftR below_query)

lemma below_prepare: "keeps (below R) (prepare cenv acc eid request cash required)"
  unfolding prepare_def prepare_claim_def prepare_cash_def Let_def
  by (auto intro!: bw.keeps_bindM bw.keeps_liftR below_transaction below_select below_execute
      bw.keeps_raiseM_if bw.keeps_returnM split: option.split)

lemma below_update_finality: "keeps (below R) (update_finality cenv acc eid request fin)"
  unfolding update_finality_def
  by (auto intro!: bw.keeps_bindM bw.keeps_liftR below_transaction below_select below_execute
      bw.keeps_raiseM_if bw.keeps_returnM)

lemma below_restore: "keeps (below R) (restore cenv acc eid request required fin)"
  unfolding restore_def restore_claim_def restore_cash_def
  by (auto intro!: bw.keeps_bindM bw.keeps_liftR below_transaction below_select below_execute
      bw.keeps_raiseM_if bw.keeps_returnM below_update_finality split: option.split)

lemma below_coord_act: "keeps (below R) (coord_act cenv oper)"
  by (cases oper) (simp_all add: below_prepare below_update_finality below_restore)

end

lemma runtime_commit_silent:
  "sql_commit (runtime_coord_env su c) s = (q, s') \<Longrightarrow> silent s s'"
  by (auto simp: runtime_coord_env_def split: prod.splits intro: sl.R_trans [OF silent_put_outer silent_deliver])

interpretation cw: coord_world silent "runtime_coord_env su c" for su c
  by unfold_locales
    (simp_all add: runtime_commit_silent, simp_all add: runtime_coord_env_def silent_external)

section \<open>The shared world of a coordinated session\<close>

definition shared_rel :: "('w \<Rightarrow> 'w \<Rightarrow> bool) \<Rightarrow> 'w shared \<Rightarrow> 'w shared \<Rightarrow> bool" where
  "shared_rel R s s' \<longleftrightarrow> R (cworld (db_state s)) (cworld (db_state s'))"

lemma step_preorder_shared_rel: "step_preorder R \<Longrightarrow> step_preorder (shared_rel R)"
  unfolding step_preorder_def shared_rel_def by blast

interpretation sq: step_preorder "shared_rel quiet"
  by (rule step_preorder_shared_rel) (rule qt.step_preorder_axioms)

lemma run_coord_silent:
  assumes "\<And>c oper. (c, oper) \<in> set ops \<Longrightarrow> \<exists>c'. c = runtime_coord_env su c'"
  shows "silent (cworld s) (cworld (run_coord ops s))"
  using assms
proof (induction ops s rule: run_coord.induct)
  case (1 s)
  then show ?case by (simp add: sl.R_refl)
next
  case (2 c oper ops s)
  obtain c' where c: "c = runtime_coord_env su c'" using "2.prems" by fastforce
  have "below silent s (snd (coord_act c oper s))"
    using cw.below_coord_act [of su c' oper] unfolding c keeps_def by (metis prod.collapse)
  moreover have "silent (cworld (snd (coord_act c oper s))) (cworld (run_coord ops (snd (coord_act c oper s))))"
    by (rule "2.IH") (use "2.prems" in auto)
  ultimately show ?case unfolding below_def run_coord.simps by (rule sl.R_trans)
qed

lemma interleave_silent:
  "silent (cworld (db_state s)) (cworld (db_state (interleave (runtime_coordinated_env su sh bound) s)))"
proof -
  let ?c = "runtime_coordinated_env su sh bound"
  have "silent (cworld (db_state s)) (cworld (run_coord
      (filter (\<lambda>p. foreign (account_key ?c) (own_execution_id ?c) (snd p)) (others ?c (cworld (db_state s)))) (db_state s)))"
    by (rule run_coord_silent) (auto simp: runtime_coordinated_env_def)
  then show ?thesis by (simp add: interleave_def)
qed

lemma outside_quiet:
  assumes "keeps quiet m"
  shows "keeps (shared_rel quiet) (outside (runtime_coordinated_env su sh bound) m)"
  unfolding keeps_def
proof (intro allI impI)
  fix s r s'
  assume run: "outside (runtime_coordinated_env su sh bound) m s = (r, s')"
  obtain w where m: "m (cworld (db_state s)) = (r, w)"
    and s': "s' = interleave (runtime_coordinated_env su sh bound) (put_world w s)"
    using run by (auto simp: outside_def split: prod.splits)
  have "quiet (cworld (db_state s)) w" by (rule keepsD [OF assms m])
  moreover have "quiet w (cworld (db_state s'))"
    unfolding s' using interleave_silent [of "put_world w s"] by (auto simp: put_world_def intro: silent_quiet)
  ultimately show "shared_rel quiet s s'" unfolding shared_rel_def by (rule qt.R_trans)
qed

lemma on_db_quiet: "keeps (below silent) m \<Longrightarrow> keeps (shared_rel quiet) (on_db m)"
  unfolding keeps_def by (auto simp: shared_rel_def on_db_def below_def split: prod.splits intro: silent_quiet)

text \<open>The fields of the coordinated environment, and that all of them are quiet.\<close>

lemma coordinated_fields:
  "base (runtime_coordinated_env su sh bound) = runtime_session_env su bound"
  "coordinator (runtime_coordinated_env su sh bound) = runtime_coord_env su (sh_coordinator sh)"
  "query_asset (runtime_coordinated_env su sh bound)
     = call su (adapter_query_asset (runtime_qmt_env su bound))"
  "cash_estimator (runtime_coordinated_env su sh bound)
     = map_option (\<lambda>f r a. external su (f r a)) (sh_estimator sh)"
  "project_before_broker_submit (runtime_coordinated_env su sh bound)
     = map_option (\<lambda>f r. external su (f r)) (sh_hook sh)"
  by (simp_all add: runtime_coordinated_env_def)

lemma quiet_session_fields:
  "keeps quiet (cancel_order (runtime_session_env su bound) i)"
  "keeps quiet (query_order (runtime_session_env su bound) i)"
  "keeps quiet (query_orders (runtime_session_env su bound))"
  "keeps quiet (execution_healthy (runtime_session_env su bound))"
  "keeps quiet (verify_session (runtime_session_env su bound))"
  "keeps quiet (verify_request (runtime_session_env su bound) r)"
  "keeps quiet (before_broker_cancel (runtime_session_env su bound) i)"
  "keeps quiet (place_order (runtime_session_env su bound) r)"
  by (simp_all add: runtime_session_env_def Let_def quiet_external quiet_call keeps_silent_quiet
      silent_adapter_queries silent_adapter_cancel silent_adapter_healthy quiet_place_order)

lemma quiet_query_asset: "keeps quiet (query_asset (runtime_coordinated_env su sh bound))"
  by (simp add: coordinated_fields quiet_call keeps_silent_quiet silent_adapter_queries)

abbreviation (input) runtime_shared_env where
  "runtime_shared_env su sh bound \<equiv> shared_env (runtime_coordinated_env su sh bound)"

lemma shared_replace_quiet:
  assumes "os_replace (runtime_shared_env su sh bound) s = (q, s')"
  shows "shared_rel quiet s s'"
proof -
  obtain w where replaced: "os_replace (runtime_session_env su bound) (cworld (db_state s)) = (q, w)"
    and s': "s' = interleave (runtime_coordinated_env su sh bound) (put_world w s)"
    using assms by (auto simp: shared_env_def Let_def coordinated_fields split: prod.splits)
  have "quiet (cworld (db_state s)) w" by (rule ex.keeps_os_replace [OF replaced])
  moreover have "quiet w (cworld (db_state s'))"
    unfolding s' using interleave_silent [of "put_world w s"] by (auto simp: put_world_def intro: silent_quiet)
  ultimately show ?thesis unfolding shared_rel_def by (rule qt.R_trans)
qed

interpretation sw: session_world "shared_rel quiet" "runtime_shared_env su sh bound" for su sh bound
proof
  fix w q w'
  assume "os_replace (runtime_shared_env su sh bound) w = (q, w')"
  then show "shared_rel quiet w w'" by (rule shared_replace_quiet)
qed (simp_all add: shared_env_def shared_mutex_def Let_def coordinated_fields outside_quiet
    ex.keeps_now ex.keeps_read_file ex.keeps_make_parent ex.keeps_write_temporary ex.keeps_sleep
    ex.keeps_remove_temporary ex.keeps_make_lock_parent ex.keeps_open_lock_file ex.keeps_monotonic
    ex.keeps_try_lock ex.keeps_sleep_for ex.keeps_write_owner ex.keeps_unlock ex.keeps_close_handle
    quiet_session_fields)

lemma shared_log_call: "keeps (shared_rel quiet) (log_call r)"
  unfolding log_call_def by (rule keeps_modifyM) (simp add: shared_rel_def qt.R_refl)

lemma shared_release: "keeps (shared_rel quiet) (release_resources (runtime_coordinated_env su sh bound) r)"
  unfolding release_resources_def coordinated_fields by (rule on_db_quiet [OF cw.below_update_finality])

lemma shared_place_order: "keeps (shared_rel quiet) (place_order (runtime_shared_env su sh bound) r)"
proof -
  have "keeps (shared_rel quiet) (coordinated_place_order (runtime_coordinated_env su sh bound) r)"
    unfolding coordinated_place_order_def coordinated_fields
    by (intro sq.keeps_tryM sq.keeps_bindM shared_log_call outside_quiet quiet_session_fields)
      (auto intro!: sq.keeps_bindM shared_release sq.keeps_raiseM split: if_splits)
  then show ?thesis by (simp add: shared_env_def Let_def)
qed

lemma shared_fresh_cash:
  "keeps (shared_rel quiet) (fresh_cash (runtime_coordinated_env su sh bound) (\<lambda>r a. external su (f r a)) r)"
  unfolding fresh_cash_def
  by (intro sq.keeps_tryM sq.keeps_bindM outside_quiet quiet_query_asset quiet_external sq.keeps_liftR sq.keeps_returnM)
    (auto intro: sq.keeps_raiseM split: if_splits)

lemma shared_coordinate: "keeps (shared_rel quiet) (before_submit_coordination (runtime_shared_env su sh bound) r)"
proof -
  have hook: "before_submit_coordination (runtime_shared_env su sh bound) r
      = coordinate_before_submit (runtime_coordinated_env su sh bound) r"
    by (simp add: shared_env_def Let_def)
  show ?thesis unfolding hook coordinate_before_submit_def coordinated_fields
    by (rule sq.keeps_bindM)
      (auto intro!: sq.keeps_raiseM sq.keeps_returnM shared_fresh_cash sq.keeps_tryM on_db_quiet cw.below_prepare
        split: option.split if_splits prod.split)
qed

lemma shared_hook: "keeps (shared_rel quiet) (before_broker_submit (runtime_shared_env su sh bound) r)"
proof -
  have hook: "before_broker_submit (runtime_shared_env su sh bound) r
      = run_project_sidecar (runtime_coordinated_env su sh bound) r"
    by (simp add: shared_env_def Let_def)
  show ?thesis unfolding hook run_project_sidecar_def coordinated_fields
    by (auto intro!: sq.keeps_returnM sq.keeps_tryM outside_quiet quiet_external sq.keeps_bindM shared_release
        sq.keeps_raiseM split: option.split if_splits)
qed


section \<open>Operations of the coordinated session\<close>

lemma shared_required_cash:
  "keeps (shared_rel quiet) (required_cash_for_restore (runtime_coordinated_env su sh bound) r)"
  unfolding required_cash_for_restore_def coordinated_fields
  by (auto intro!: sq.keeps_returnM sq.keeps_raiseM sq.keeps_tryM sq.keeps_bindM outside_quiet
      quiet_query_asset [unfolded coordinated_fields] quiet_external split: option.split if_splits)

lemma shared_sync_claim: "keeps (shared_rel quiet) (sync_claim (runtime_coordinated_env su sh bound) r fin)"
  unfolding sync_claim_def Let_def coordinated_fields
  by (auto intro!: sq.keeps_if sq.keeps_try_elseM sq.keeps_bindM sq.keeps_returnM on_db_quiet
      cw.below_has_claim cw.below_update_finality cw.below_restore shared_required_cash split: if_splits)

lemma shared_sync: "keeps (lifted (shared_rel quiet)) (sync (runtime_coordinated_env su sh bound) snap)"
  unfolding sync_def durable_request_def
  by (auto intro!: sw.lw.keeps_bindM sw.lw.keeps_getM sw.lw.keeps_returnM sw.lw.keeps_liftR
      sw.lifted_journal_data sw.lifted_on_world shared_sync_claim split: option.split if_splits)

lemma shared_poll: "keeps (lifted (shared_rel quiet)) (coordinated_poll (runtime_coordinated_env su sh bound))"
  unfolding coordinated_poll_def by (intro sw.lw.keeps_bindM sw.lifted_poll shared_sync)

lemma shared_operations:
  "keeps (lifted (shared_rel quiet)) (coordinated_open (runtime_coordinated_env su sh bound))"
  "keeps (lifted (shared_rel quiet)) (coordinated_reconcile (runtime_coordinated_env su sh bound))"
  "keeps (lifted (shared_rel quiet)) (coordinated_cancel (runtime_coordinated_env su sh bound))"
  "keeps (lifted (shared_rel quiet)) (coordinated_next_cycle (runtime_coordinated_env su sh bound))"
  unfolding coordinated_open_def coordinated_reconcile_def coordinated_cancel_def coordinated_next_cycle_def
  by (intro sw.lw.keeps_bindM sw.lifted_open sw.lifted_reconcile sw.lifted_cancel sw.lifted_next_cycle
      shared_poll shared_sync)+

lemma shared_submit: "keeps (lifted (shared_rel quiet)) (coordinated_submit (runtime_coordinated_env su sh bound) r)"
  unfolding coordinated_submit_def
  by (intro sw.lw.keeps_bindM shared_sync
      sw.lifted_submit [OF sw.lifted_submit_intent [OF shared_place_order shared_coordinate shared_hook shared_poll]])

end
