(* ===== verification/Qmt_Runtime.thy ===== *)
theory Qmt_Runtime
  imports Runtime_Shared
begin

text \<open>
  \<open>MiniQmtRuntime\<close> of \<open>miniqmt/runtime.py\<close>: its operations after \<open>connect\<close>.  The session of a runtime is
  the base session or, with a coordinator, the coordinated one; the runtime calls it through the methods
  that both have (\<open>session_port\<close>).
\<close>

section \<open>The two sessions\<close>

record ('v, 's) session_port =
  port_get :: "'s \<Rightarrow> 'v rworld"
  port_put :: "'v rworld \<Rightarrow> 's \<Rightarrow> 's"
  port_open :: "('s, ExecutionSnapshot) pyact"
  port_submit :: "ExecutionRequest \<Rightarrow> ('s, ExecutionSnapshot) pyact"
  port_poll :: "('s, ExecutionSnapshot) pyact"
  port_cancel :: "('s, ExecutionSnapshot) pyact"
  port_next_cycle :: "('s, ExecutionSnapshot) pyact"
  port_reconcile :: "('s, ExecutionSnapshot) pyact"
  port_close :: "('s, unit) pyact"

definition exclusive_port ::
  "'v runtime_setup \<Rightarrow> BoundQmtAccount \<Rightarrow> ('v, 'v rworld session_state) session_port" where
  "exclusive_port su bound =
     (let env = runtime_session_env su bound in
      \<lparr>port_get = world, port_put = (\<lambda>w s. s\<lparr>world := w\<rparr>), port_open = session_open env,
       port_submit = session_submit env (session_poll env), port_poll = session_poll env,
       port_cancel = session_cancel env (session_poll env), port_next_cycle = session_next_cycle env,
       port_reconcile = session_reconcile env (session_poll env), port_close = session_close env\<rparr>)"

definition shared_port ::
  "'v runtime_setup \<Rightarrow> 'v shared_setup \<Rightarrow> BoundQmtAccount \<Rightarrow> ('v, 'v rworld shared session_state) session_port" where
  "shared_port su sh bound =
     (let env = runtime_coordinated_env su sh bound in
      \<lparr>port_get = (\<lambda>s. cworld (db_state (world s))), port_put = (\<lambda>w s. s\<lparr>world := put_world w (world s)\<rparr>),
       port_open = coordinated_open env, port_submit = coordinated_submit env,
       port_poll = coordinated_poll env, port_cancel = coordinated_cancel env,
       port_next_cycle = coordinated_next_cycle env, port_reconcile = coordinated_reconcile env,
       port_close = session_close (shared_env env)\<rparr>)"

section \<open>State\<close>

text \<open>
  The lease of the session id with what its mutex owns, and what \<open>runtime_mutex\<close> owns.
\<close>

record 's runtime_state =
  rt_session :: 's
  rt_closed :: bool
  rt_lease :: "(lease \<times> bool) option"
  rt_mutex :: "bool option"

definition on_session :: "('s, 'a) pyact \<Rightarrow> ('s runtime_state, 'a) pyact" where
  "on_session m = (\<lambda>s. case m (rt_session s) of (r, t) \<Rightarrow> (r, s\<lparr>rt_session := t\<rparr>))"

definition on_shared :: "('v, 's) session_port \<Rightarrow> ('v rworld, 'a) pyact \<Rightarrow> ('s runtime_state, 'a) pyact" where
  "on_shared p m =
     (\<lambda>s. case m (port_get p (rt_session s)) of
        (r, w) \<Rightarrow> (r, s\<lparr>rt_session := port_put p w (rt_session s)\<rparr>))"

text \<open>A statement on the objects that the consumer's thread also writes; callbacks may follow it.\<close>

definition stmt ::
  "'v runtime_setup \<Rightarrow> ('v, 's) session_port \<Rightarrow> ('v rworld, 'a) pyact \<Rightarrow> ('s runtime_state, 'a) pyact" where
  "stmt su p m = on_shared p (call su m)"

definition set_transport :: "bool \<Rightarrow> ('v rworld, unit) pyact" where
  "set_transport b = on_broker (modifyM (\<lambda>h. h\<lparr>signal_transport := b\<rparr>))"

definition set_account :: "bool \<Rightarrow> ('v rworld, unit) pyact" where
  "set_account b = on_broker (modifyM (\<lambda>h. h\<lparr>signal_account := b\<rparr>))"

section \<open>Operations\<close>

definition require_exact_zero :: "pyval \<Rightarrow> string \<Rightarrow> unit pyres" where
  "require_exact_zero v label =
     raise_if (v \<noteq> PyInt 0) (Exn RuntimeConfigurationError (label @ '' did not return exact success 0''))"

definition best_effort_stop :: "'v runtime_setup \<Rightarrow> ('v rworld, unit) pyact" where
  "best_effort_stop su =
     (case trader_stop (rt_library su) of
        None \<Rightarrow> returnM ()
      | Some m \<Rightarrow> tryM (external su m) (\<lambda>_. Some (returnM ())))"

definition require_not_closed :: "('s runtime_state, unit) pyact" where
  "require_not_closed =
     bindM (getM rt_closed) (\<lambda>c. raiseM_if c (Exn RuntimeError ''MiniQmtRuntime is closed''))"

definition verify_bound_account :: "'v runtime_setup \<Rightarrow> BoundQmtAccount \<Rightarrow> ('v rworld, unit) pyact" where
  "verify_bound_account su bound =
     verify_bound_account_healthy (runtime_account_env su) bound (security_account_type su) (account_status_ok su)
       (PyInt (rc_query_attempts (rt_config su)))"

definition runtime_open ::
  "'v runtime_setup \<Rightarrow> BoundQmtAccount \<Rightarrow> ('v, 's) session_port \<Rightarrow> ('s runtime_state, ExecutionSnapshot) pyact" where
  "runtime_open su bound p =
     bindM require_not_closed (\<lambda>_.
     bindM (on_shared p (verify_bound_account su bound)) (\<lambda>_.
     bindM (on_session (port_open p)) (\<lambda>out.
     bindM (stmt su p (set_transport True)) (\<lambda>_.
     bindM (stmt su p (set_account True)) (\<lambda>_.
     bindM (stmt su p mark_transport_connected) (\<lambda>_.
     bindM (stmt su p mark_recovery_complete) (\<lambda>_.
     returnM out)))))))"

definition confirm_gate :: "'v runtime_setup \<Rightarrow> pyval \<Rightarrow> ('v rworld, unit) pyact" where
  "confirm_gate su token = on_broker (on_gate (gate_confirm (sha256 (rt_base su)) token))"

definition runtime_confirm_live ::
  "'v runtime_setup \<Rightarrow> ('v, 's) session_port \<Rightarrow> pyval \<Rightarrow> ('s runtime_state, unit) pyact" where
  "runtime_confirm_live su p token = bindM require_not_closed (\<lambda>_. stmt su p (confirm_gate su token))"

definition runtime_submit ::
  "'v runtime_setup \<Rightarrow> ('v, 's) session_port \<Rightarrow> ExecutionRequest \<Rightarrow> ('s runtime_state, ExecutionSnapshot) pyact" where
  "runtime_submit su p request =
     bindM require_not_closed (\<lambda>_.
     bindM (raiseM_if (strategy_id request \<noteq> rc_strategy_name (rt_config su))
       (Exn RuntimeConfigurationError
          ''ExecutionRequest.strategy_id must equal the bound MiniQMT strategy_name'')) (\<lambda>_.
     on_session (port_submit p request)))"

definition runtime_poll :: "('v, 's) session_port \<Rightarrow> ('s runtime_state, ExecutionSnapshot) pyact" where
  "runtime_poll p = bindM require_not_closed (\<lambda>_. on_session (port_poll p))"

definition runtime_cancel :: "('v, 's) session_port \<Rightarrow> ('s runtime_state, ExecutionSnapshot) pyact" where
  "runtime_cancel p = bindM require_not_closed (\<lambda>_. on_session (port_cancel p))"

definition runtime_next_cycle :: "('v, 's) session_port \<Rightarrow> ('s runtime_state, ExecutionSnapshot) pyact" where
  "runtime_next_cycle p = bindM require_not_closed (\<lambda>_. on_session (port_next_cycle p))"

definition runtime_execution_healthy ::
  "'v runtime_setup \<Rightarrow> BoundQmtAccount \<Rightarrow> ('v, 's) session_port \<Rightarrow> ('s runtime_state, bool) pyact" where
  "runtime_execution_healthy su bound p = on_shared p (adapter_healthy (runtime_qmt_env su bound))"

text \<open>\<open>recover_after_disconnect\<close>: the account and the session after the reconnection, then the gate.\<close>

definition recover_account ::
  "'v runtime_setup \<Rightarrow> BoundQmtAccount \<Rightarrow> ('v, 's) session_port \<Rightarrow> ('s runtime_state, unit) pyact" where
  "recover_account su bound p =
     bindM (on_shared p (external su (trader_connect (rt_library su)))) (\<lambda>result.
     bindM (liftR (require_exact_zero result ''trader.connect'')) (\<lambda>_.
     bindM (stmt su p (set_transport True)) (\<lambda>_.
     bindM (stmt su p mark_transport_connected) (\<lambda>_.
     bindM (on_shared p (verify_bound_account su bound)) (\<lambda>_.
     bindM (on_shared p (external su (trader_subscribe (rt_library su) (bound_account bound)))) (\<lambda>result.
     bindM (liftR (require_exact_zero result ''trader.subscribe'')) (\<lambda>_.
     stmt su p (set_account True))))))))"

definition recover_session ::
  "'v runtime_setup \<Rightarrow> ('v, 's) session_port \<Rightarrow> ('s runtime_state, ExecutionSnapshot) pyact" where
  "recover_session su p =
     bindM (on_session (port_reconcile p)) (\<lambda>out.
     bindM (raiseM_if (es_state out \<in> {UNKNOWN, FAILED})
       (Exn RecoveryAmbiguous (''durable execution did not reconcile after reconnect: '' @ TradeState_value (es_state out)))) (\<lambda>_.
     bindM (on_shared p (external su (verify_session (rt_base su)))) (\<lambda>evidence.
     bindM (liftR (SessionEvidence_validate evidence)) (\<lambda>_.
     bindM (raiseM_if (\<not> truthy (se_ready evidence))
       (Exn RecoveryAmbiguous (str_or (se_reason evidence) ''session re-verification failed''))) (\<lambda>_.
     returnM out)))))"

definition recover_gate ::
  "'v runtime_setup \<Rightarrow> ('v, 's) session_port \<Rightarrow> pyval \<Rightarrow> ('s runtime_state, unit) pyact" where
  "recover_gate su p token =
     (if rc_environment (rt_config su) = ''live'' then
        if token = PyNone then
          raiseM (Exn RecoveryAmbiguous ''live reconnect requires a fresh runtime confirmation token'')
        else stmt su p (confirm_gate su token)
      else returnM ())"

definition runtime_recover ::
  "'v runtime_setup \<Rightarrow> BoundQmtAccount \<Rightarrow> ('v, 's) session_port \<Rightarrow> pyval
    \<Rightarrow> ('s runtime_state, ExecutionSnapshot) pyact" where
  "runtime_recover su bound p token =
     bindM require_not_closed (\<lambda>_.
     bindM (stmt su p (on_broker (on_gate gate_revoke))) (\<lambda>_.
     bindM (stmt su p mark_recovery_required) (\<lambda>_.
     bindM (stmt su p (set_transport False)) (\<lambda>_.
     bindM (stmt su p (set_account False)) (\<lambda>_.
     bindM (on_shared p (getM (\<lambda>w. queue_healthy (hub_queue (broker_world w))))) (\<lambda>healthy.
     bindM (raiseM_if (\<not> healthy) (Exn EventQueueUnhealthy ''callback event queue is not healthy'')) (\<lambda>_.
     bindM (recover_account su bound p) (\<lambda>_.
     bindM (recover_session su p) (\<lambda>out.
     bindM (stmt su p mark_recovery_complete) (\<lambda>_.
     bindM (recover_gate su p token) (\<lambda>_.
     returnM out)))))))))))"

text \<open>
  \<open>close\<close>.  The thread of the queue was started by \<open>connect\<close>, so \<open>join\<close> with its timeout only waits.
\<close>

definition queue_stop :: "nat \<Rightarrow> 'e event_queue \<Rightarrow> 'e event_queue" where
  "queue_stop maxsize q =
     (let q' = stop_check q in if stopping q < stopping q' then stop_put maxsize q' else q')"

definition stop_queue :: "'v runtime_setup \<Rightarrow> ('v rworld, unit) pyact" where
  "stop_queue su =
     on_broker (modifyM (\<lambda>h. h\<lparr>hub_queue := queue_stop (nat (rc_event_queue_size (rt_config su))) (hub_queue h)\<rparr>))"

definition unsubscribe_account ::
  "'v runtime_setup \<Rightarrow> BoundQmtAccount \<Rightarrow> ('v, 's) session_port \<Rightarrow> ('s runtime_state, unit) pyact" where
  "unsubscribe_account su bound p =
     (case trader_unsubscribe (rt_library su) of
        None \<Rightarrow> returnM ()
      | Some f \<Rightarrow> on_shared p (external su (f (bound_account bound))))"

text \<open>\<open>release\<close> of a mutex that is \<open>own\<close>ed, with what it owns afterwards.\<close>

definition release_owned :: "'v runtime_setup \<Rightarrow> 'v mutex_env \<Rightarrow> bool \<Rightarrow> 'v rworld \<Rightarrow> unit pyres \<times> bool \<times> 'v rworld" where
  "release_owned su m own w =
     (case release (runtime_mutex_env su m) \<lparr>mx_world = w, mx_owned = own\<rparr> of
        (r, ms) \<Rightarrow> (r, mx_owned ms, mx_world ms))"

definition release_lease :: "'v runtime_setup \<Rightarrow> ('v, 's) session_port \<Rightarrow> ('s runtime_state, unit) pyact" where
  "release_lease su p s =
     (case rt_lease s of
        None \<Rightarrow> (Inr (), s)
      | Some (l, own) \<Rightarrow>
          if released l then (Inr (), s)
          else case release_owned su (rt_id_mutex su (lease_session_id l)) own (port_get p (rt_session s)) of
            (r, own', w) \<Rightarrow>
              (r, s\<lparr>rt_session := port_put p w (rt_session s), rt_lease := Some (l\<lparr>released := isOk r\<rparr>, own')\<rparr>))"

definition release_runtime_mutex :: "'v runtime_setup \<Rightarrow> ('v, 's) session_port \<Rightarrow> ('s runtime_state, unit) pyact" where
  "release_runtime_mutex su p s =
     (case rt_mutex s of
        None \<Rightarrow> (Inr (), s)
      | Some own \<Rightarrow>
          (case release_owned su (rt_path_mutex su) own (port_get p (rt_session s)) of
             (r, own', w) \<Rightarrow> (r, s\<lparr>rt_session := port_put p w (rt_session s), rt_mutex := Some own'\<rparr>)))"

definition runtime_close ::
  "'v runtime_setup \<Rightarrow> BoundQmtAccount \<Rightarrow> ('v, 's) session_port \<Rightarrow> ('s runtime_state, unit) pyact" where
  "runtime_close su bound p =
     bindM (getM rt_closed) (\<lambda>c.
     if c then returnM ()
     else
       bindM (stmt su p (on_broker (on_gate gate_revoke))) (\<lambda>_.
       bindM (stmt su p mark_disconnected) (\<lambda>_.
       finallyM (on_session (port_close p))
         (finallyM (unsubscribe_account su bound p)
           (bindM (stmt su p (stop_queue su)) (\<lambda>_.
            bindM (on_shared p (best_effort_stop su)) (\<lambda>_.
            bindM (release_lease su p) (\<lambda>_.
            bindM (release_runtime_mutex su p) (\<lambda>_.
            modifyM (\<lambda>s. s\<lparr>rt_closed := True\<rparr>))))))))))"

section \<open>Runs\<close>

datatype runtime_op =
  R_Open | R_Submit ExecutionRequest | R_Poll | R_Cancel | R_NextCycle | R_Confirm pyval
  | R_Recover pyval | R_Close | R_Arrive "qmt_event option"

definition apply_runtime_op ::
  "'v runtime_setup \<Rightarrow> BoundQmtAccount \<Rightarrow> ('v, 's) session_port \<Rightarrow> runtime_op \<Rightarrow> 's runtime_state \<Rightarrow> 's runtime_state" where
  "apply_runtime_op su bound p oper s =
     (case oper of
        R_Open \<Rightarrow> snd (runtime_open su bound p s)
      | R_Submit r \<Rightarrow> snd (runtime_submit su p r s)
      | R_Poll \<Rightarrow> snd (runtime_poll p s)
      | R_Cancel \<Rightarrow> snd (runtime_cancel p s)
      | R_NextCycle \<Rightarrow> snd (runtime_next_cycle p s)
      | R_Confirm token \<Rightarrow> snd (runtime_confirm_live su p token s)
      | R_Recover token \<Rightarrow> snd (runtime_recover su bound p token s)
      | R_Close \<Rightarrow> snd (runtime_close su bound p s)
      | R_Arrive a \<Rightarrow> snd (on_shared p (\<lambda>w. (Inr () :: unit pyres, receive su a w)) s))"

primrec run_runtime ::
  "'v runtime_setup \<Rightarrow> BoundQmtAccount \<Rightarrow> ('v, 's) session_port \<Rightarrow> runtime_op list \<Rightarrow> 's runtime_state \<Rightarrow> 's runtime_state" where
  "run_runtime su bound p [] s = s"
| "run_runtime su bound p (oper # opers) s = run_runtime su bound p opers (apply_runtime_op su bound p oper s)"

text \<open>What the session of a runtime shares with it, and the orders that were sent.\<close>

definition rt_world :: "('v, 's) session_port \<Rightarrow> 's runtime_state \<Rightarrow> 'v rworld" where
  "rt_world p s = port_get p (rt_session s)"

definition rt_orders :: "('v, 's) session_port \<Rightarrow> 's runtime_state \<Rightarrow> (string \<times> int \<times> int \<times> string) list" where
  "rt_orders p s = orders_sent (broker_world (rt_world p s))"

section \<open>The interface to the session\<close>

definition through :: "('v, 's) session_port \<Rightarrow> ('v rworld \<Rightarrow> 'v rworld \<Rightarrow> bool) \<Rightarrow> 's \<Rightarrow> 's \<Rightarrow> bool" where
  "through p R s s' \<longleftrightarrow> R (port_get p s) (port_get p s')"

definition over :: "('v, 's) session_port \<Rightarrow> ('v rworld \<Rightarrow> 'v rworld \<Rightarrow> bool) \<Rightarrow> 's runtime_state \<Rightarrow> 's runtime_state \<Rightarrow> bool" where
  "over p R s s' \<longleftrightarrow> R (rt_world p s) (rt_world p s')"

locale runtime_session =
  fixes p :: "('v, 's) session_port"
  assumes get_put: "port_get p (port_put p w s) = w"
    and quiet_open: "keeps (through p quiet) (port_open p)"
    and quiet_submit: "keeps (through p quiet) (port_submit p r)"
    and quiet_poll: "keeps (through p quiet) (port_poll p)"
    and quiet_cancel: "keeps (through p quiet) (port_cancel p)"
    and quiet_next_cycle: "keeps (through p quiet) (port_next_cycle p)"
    and quiet_reconcile: "keeps (through p quiet) (port_reconcile p)"
    and quiet_close: "keeps (through p quiet) (port_close p)"

lemma through_lifted:
  "through (exclusive_port su bound) quiet = lifted quiet"
  "through (shared_port su sh bound) quiet = lifted (shared_rel quiet)"
  by (auto simp: fun_eq_iff through_def lifted_def shared_rel_def exclusive_port_def shared_port_def Let_def)

interpretation ep: runtime_session "exclusive_port su bound" for su bound
  by unfold_locales
    (simp_all only: through_lifted,
     simp_all add: exclusive_port_def Let_def ex.lifted_open ex.lifted_poll ex.lifted_cancel
      ex.lifted_next_cycle ex.lifted_reconcile ex.lifted_close exclusive_submit_quiet)

interpretation sp: runtime_session "shared_port su sh bound" for su sh bound
  by unfold_locales
    (simp_all only: through_lifted,
     simp_all add: shared_port_def Let_def put_world_def shared_operations shared_poll shared_submit sw.lifted_close)

end
