(* ===== verification/Runtime_Safety.thy ===== *)
theory Runtime_Safety
  imports Qmt_Runtime
begin

text \<open>
  When a runtime can send orders: not after the broker disconnected, the account became unhealthy or
  the queue failed, until it is opened or recovered; not after a recovery that failed; not after
  \<open>close\<close>, which also gives back the session id and the lock.
\<close>

section \<open>Relations on the shared objects\<close>

text \<open>Everything that trading needs except the gate.\<close>

definition ready_to_trade :: "'v rworld \<Rightarrow> bool" where
  "ready_to_trade w \<longleftrightarrow> transport_connected w \<and> recovery_ready w \<and> runtime_health (broker_world w)"

definition calm :: "'v rworld \<Rightarrow> 'v rworld \<Rightarrow> bool" where
  "calm w w' \<longleftrightarrow>
     (ready_to_trade w' \<longrightarrow> ready_to_trade w)
     \<and> (\<not> ready_to_trade w \<longrightarrow> orders_sent (broker_world w') = orders_sent (broker_world w))"

lemma can_trade_ready: "can_trade w \<longleftrightarrow> ready_to_trade w \<and> execution_allowed (hub_gate (broker_world w))"
  by (auto simp: can_trade_def ready_to_trade_def)

interpretation cm: step_preorder calm
  by unfold_locales (auto simp: calm_def)

lemma quiet_calm: "quiet w w' \<Longrightarrow> calm w w'"
  by (auto simp: quiet_def calm_def lowered_def can_trade_ready ready_to_trade_def runtime_health_def)

lemma keeps_quiet_calm: "keeps quiet m \<Longrightarrow> keeps calm m"
  unfolding keeps_def by (blast intro: quiet_calm)

lemma calm_call: "keeps calm m \<Longrightarrow> keeps calm (call su m)"
  by (rule keeps_call, assumption) (rule cm.R_trans [OF _ quiet_calm [OF silent_quiet [OF silent_deliver]]])

lemma calm_confirm: "keeps calm (confirm_gate su token)"
  by (auto simp: keeps_def calm_def confirm_gate_def on_broker_def on_gate_def ready_to_trade_def
      runtime_health_def split: prod.splits)

lemma silent_stop_queue: "keeps silent (stop_queue su)"
  unfolding stop_queue_def
  by (rule silent_hub)
    (auto simp: modifyM_def queue_stop_def stop_check_def stop_put_def queue_healthy_def gate_lowered_def Let_def
      split: if_splits)

lemma silent_best_effort_stop: "keeps silent (best_effort_stop su)"
  unfolding best_effort_stop_def
  by (auto intro!: sl.keeps_returnM sl.keeps_tryM silent_external split: option.split)

lemma silent_strict_non_none:
  "keeps silent q \<Longrightarrow> keeps silent pause \<Longrightarrow> keeps silent (strict_non_none_query pause label q tries)"
proof -
  assume q: "keeps silent q" "keeps silent pause"
  have "keeps silent (non_none_query pause label q n)" for n
    by (induction n) (auto intro!: sl.keeps_intros q split: if_splits query_value.split)
  then show "keeps silent (strict_non_none_query pause label q tries)"
    unfolding strict_non_none_query_def by (auto intro!: sl.keeps_intros)
qed

lemma silent_verify_bound: "keeps silent (verify_bound_account su bound)"
  unfolding verify_bound_account_def verify_bound_account_healthy_def
  by (auto intro!: sl.keeps_bindM sl.keeps_liftR sl.keeps_raiseM sl.keeps_raiseM_if silent_strict_non_none
      simp: runtime_account_env_def Let_def silent_external split: query_value.split)


section \<open>Runtimes\<close>

lemma step_preorder_over: "step_preorder R \<Longrightarrow> step_preorder (over p R)"
  unfolding step_preorder_def over_def by blast

interpretation oc: step_preorder "over p calm" for p
  by (rule step_preorder_over) (rule cm.step_preorder_axioms)

interpretation oq: step_preorder "over p quiet" for p
  by (rule step_preorder_over) (rule qt.step_preorder_axioms)

interpretation ms: step_preorder "lifted_mx silent"
  by (rule step_preorder_lifted_mx) (rule sl.step_preorder_axioms)

lemma over_quiet_calm: "keeps (over p quiet) m \<Longrightarrow> keeps (over p calm) m"
  unfolding keeps_def over_def by (blast intro: quiet_calm)

lemma over_session: "keeps (through p R) m \<Longrightarrow> keeps (over p R) (on_session m)"
  by (auto simp: keeps_def over_def through_def on_session_def rt_world_def split: prod.splits)

lemma over_require_not_closed: "keeps (over p quiet) require_not_closed"
  unfolding require_not_closed_def by (intro oq.keeps_intros)

lemma silent_mx: "keeps silent m \<Longrightarrow> keeps (lifted_mx silent) (mx m)"
  by (auto simp: keeps_def lifted_mx_def mx_def split: prod.splits)

lemma silent_release: "keeps (lifted_mx silent) (release (runtime_mutex_env su m))"
proof -
  have "keeps (lifted_mx silent) (modifyM (\<lambda>s :: 'a rworld mutex_state. s\<lparr>mx_owned := False\<rparr>))"
    by (rule keeps_modifyM) (simp add: lifted_mx_def sl.R_refl)
  then show ?thesis
    unfolding release_def runtime_mutex_env_def
    by (auto intro!: ms.keeps_bindM ms.keeps_getM ms.keeps_finallyM ms.keeps_returnM silent_mx silent_external)
qed

lemma release_owned_silent: "release_owned su m own w = (r, own', w') \<Longrightarrow> silent w w' \<and> \<not> own'"
  using keepsD [OF silent_release] release_not_owned
  by (fastforce simp: release_owned_def lifted_mx_def split: prod.splits)

context runtime_session
begin

lemma rt_world_put: "rt_world p (s\<lparr>rt_session := port_put p w (rt_session s)\<rparr>) = w"
  by (simp add: rt_world_def get_put)

lemma over_shared: "keeps R m \<Longrightarrow> keeps (over p R) (on_shared p m)"
  by (auto simp: keeps_def over_def on_shared_def rt_world_def get_put split: prod.splits)

lemma over_stmt_silent: "keeps silent m \<Longrightarrow> keeps (over p quiet) (stmt su p m)"
  unfolding stmt_def by (intro over_shared keeps_silent_quiet silent_call)

lemma over_shared_silent: "keeps silent m \<Longrightarrow> keeps (over p quiet) (on_shared p m)"
  by (intro over_shared keeps_silent_quiet)

lemma over_release_lease: "keeps (over p quiet) (release_lease su p)"
  by (auto simp: keeps_def over_def release_lease_def rt_world_def get_put qt.R_refl
      dest!: release_owned_silent intro: silent_quiet split: option.splits if_splits prod.splits)

lemma over_release_mutex: "keeps (over p quiet) (release_runtime_mutex su p)"
  by (auto simp: keeps_def over_def release_runtime_mutex_def rt_world_def get_put qt.R_refl
      dest!: release_owned_silent intro: silent_quiet split: option.splits prod.splits)

lemma over_close: "keeps (over p quiet) (runtime_close su bound p)"
proof -
  have "keeps (over p quiet) (unsubscribe_account su bound p)"
    unfolding unsubscribe_account_def
    by (auto intro: oq.keeps_returnM over_shared_silent silent_external split: option.split)
  moreover have "keeps (over p quiet) (modifyM (\<lambda>s. s\<lparr>rt_closed := True\<rparr>))"
    by (rule keeps_modifyM) (simp add: over_def rt_world_def qt.R_refl)
  ultimately show ?thesis unfolding runtime_close_def
    by (intro oq.keeps_intros over_stmt_silent silent_revoke silent_lower_flags over_session quiet_close
        over_shared_silent silent_stop_queue silent_best_effort_stop over_release_lease over_release_mutex)
qed

lemma over_operations:
  "keeps (over p quiet) (runtime_submit su p r)" "keeps (over p quiet) (runtime_poll p)"
  "keeps (over p quiet) (runtime_cancel p)" "keeps (over p quiet) (runtime_next_cycle p)"
  unfolding runtime_submit_def runtime_poll_def runtime_cancel_def runtime_next_cycle_def
  by (intro oq.keeps_intros over_require_not_closed over_session quiet_submit quiet_poll quiet_cancel quiet_next_cycle)+

lemma over_confirm: "keeps (over p calm) (runtime_confirm_live su p token)"
  unfolding runtime_confirm_live_def stmt_def
  by (intro oc.keeps_bindM over_quiet_calm [OF over_require_not_closed] over_shared calm_call calm_confirm)

lemma over_arrive: "keeps (over p quiet) (on_shared p (\<lambda>w. (Inr () :: unit pyres, receive su a w)))"
  by (rule over_shared) (simp add: keeps_def silent_quiet silent_receive)

end


section \<open>Events that stop trading\<close>

fun reopens :: "runtime_op \<Rightarrow> bool" where
  "reopens R_Open = True"
| "reopens (R_Recover _) = True"
| "reopens _ = False"

text \<open>The events after which a runtime on the account \<open>runtime\<close> must not send orders.\<close>

fun stops_trading :: "'v runtime_setup \<Rightarrow> string option \<Rightarrow> qmt_event option \<Rightarrow> bool" where
  "stops_trading su runtime None = True"
| "stops_trading su runtime (Some (QmtCallbackMalformed _ _)) = True"
| "stops_trading su runtime (Some (QmtBrokerDisconnected _)) = True"
| "stops_trading su runtime (Some (QmtAccountStatusObserved account t status)) =
     (runtime = Some account \<and> (t \<noteq> security_account_type su \<or> status \<noteq> account_status_ok su))"
| "stops_trading su runtime (Some _) = False"

lemma fail_queue_not_ready: "\<not> ready_to_trade (fail_queue e w)"
  by (simp add: ready_to_trade_def runtime_health_def fail_queue_def queue_fail_def queue_healthy_def)

text \<open>The signal for the account is off after the handler's own part, and stays off.\<close>

lemma account_off_not_ready: "silent w w' \<Longrightarrow> \<not> signal_account (broker_world w) \<Longrightarrow> \<not> ready_to_trade w'"
  by (auto simp: silent_def lowered_def ready_to_trade_def runtime_health_def)

lemma keeps_snd: "keeps R m \<Longrightarrow> R s (snd (m s))"
  unfolding keeps_def by (metis prod.collapse)

lemma consume_not_ready:
  assumes "handle_callback su event = bindM m (\<lambda>_. observe su event)" and "m w = (Inr (), w1)" and "\<not> signal_account (broker_world w1)"
  shows "\<not> ready_to_trade (consume su event w)"
proof -
  obtain r w' where run: "observe su event w1 = (r, w')" by fastforce
  have "\<not> ready_to_trade w'" by (rule account_off_not_ready [OF keepsD [OF silent_observe run] assms(3)])
  then show ?thesis using assms(1,2) run
    by (simp add: consume_def bindM_def fail_queue_not_ready split: sum.split)
qed

lemma revoke_step:
  "\<exists>w1. on_broker (on_gate gate_revoke) w = (Inr (), w1) \<and> hub_runtime (broker_world w1) = hub_runtime (broker_world w)
     \<and> signal_account (broker_world w1) = signal_account (broker_world w)"
  by (auto simp: on_broker_def on_gate_def gate_revoke_def bindM_def getM_def modifyM_def returnM_def
      split: prod.splits)

lemma handle_disconnected_off:
  "\<exists>w1. handle_disconnected w = (Inr (), w1) \<and> \<not> signal_account (broker_world w1)"
proof -
  let ?w = "w\<lparr>broker_world := (broker_world w)\<lparr>signal_transport := False, signal_account := False\<rparr>\<rparr>"
  have "on_broker (set_signals False False) w = (Inr (), ?w)"
    by (simp add: on_broker_def set_signals_def modifyM_def)
  moreover obtain w1 where "on_broker (on_gate gate_revoke) ?w = (Inr (), w1)" "\<not> signal_account (broker_world w1)"
    using revoke_step [of ?w] by auto
  ultimately show ?thesis
    by (simp add: handle_disconnected_def bindM_def getM_def mark_disconnected_def modifyM_def returnM_def)
qed

lemma handle_account_status_off:
  assumes "hub_runtime (broker_world w) = Some account"
    and "t \<noteq> security_account_type su \<or> status \<noteq> account_status_ok su"
  shows "\<exists>w1. handle_account_status su account t status w = (Inr (), w1) \<and> \<not> signal_account (broker_world w1)"
proof -
  let ?w = "w\<lparr>broker_world := (broker_world w)\<lparr>signal_account := False\<rparr>\<rparr>"
  have "on_broker (modifyM (\<lambda>h. h\<lparr>signal_account := False\<rparr>)) w = (Inr (), ?w)"
    by (simp add: on_broker_def modifyM_def)
  moreover obtain w1 where "on_broker (on_gate gate_revoke) ?w = (Inr (), w1)" "\<not> signal_account (broker_world w1)"
    using revoke_step [of ?w] by auto
  ultimately show ?thesis using assms
    by (simp add: handle_account_status_def bindM_def getM_def mark_recovery_required_def modifyM_def)
qed

lemma receive_stops:
  assumes "stops_trading su (hub_runtime (broker_world w)) a"
  shows "\<not> ready_to_trade (receive su a w)"
proof (cases "queue_healthy (hub_queue (broker_world w))")
  case False
  then show ?thesis by (simp add: receive_def ready_to_trade_def runtime_health_def)
next
  case True
  show ?thesis
  proof (cases a)
    case None
    then show ?thesis using True by (simp add: receive_def fail_queue_not_ready)
  next
    case (Some event)
    have "\<not> ready_to_trade (consume su event w)"
    proof (cases event)
      case (QmtCallbackMalformed name msg)
      then show ?thesis by (simp add: consume_def handle_callback_def raiseM_def fail_queue_not_ready)
    next
      case (QmtBrokerDisconnected t)
      obtain w1 where "handle_disconnected w = (Inr (), w1)" "\<not> signal_account (broker_world w1)"
        using handle_disconnected_off by blast
      moreover have "handle_callback su event = bindM handle_disconnected (\<lambda>_. observe su event)"
        by (simp add: QmtBrokerDisconnected handle_callback_def)
      ultimately show ?thesis by (metis consume_not_ready)
    next
      case (QmtAccountStatusObserved account t status)
      then have "hub_runtime (broker_world w) = Some account"
        and "t \<noteq> security_account_type su \<or> status \<noteq> account_status_ok su"
        using assms Some by auto
      from handle_account_status_off [OF this] obtain w1 where
        "handle_account_status su account t status w = (Inr (), w1)" "\<not> signal_account (broker_world w1)" by blast
      moreover have "handle_callback su event = bindM (handle_account_status su account t status) (\<lambda>_. observe su event)"
        by (simp add: QmtAccountStatusObserved handle_callback_def)
      ultimately show ?thesis by (metis consume_not_ready)
    qed (use assms Some in simp_all)
    then show ?thesis using Some True by (simp add: receive_def)
  qed
qed

context runtime_session
begin

lemmas operations_calm = keeps_snd [OF over_confirm] keeps_snd [OF over_quiet_calm [OF over_close]]
  over_operations [THEN over_quiet_calm, THEN keeps_snd] keeps_snd [OF over_quiet_calm [OF over_arrive]]

lemma apply_calm: "\<not> reopens oper \<Longrightarrow> over p calm s (apply_runtime_op su bound p oper s)"
  by (cases oper) (simp_all add: apply_runtime_op_def operations_calm)

lemma run_calm: "list_all (\<lambda>oper. \<not> reopens oper) opers \<Longrightarrow> over p calm s (run_runtime su bound p opers s)"
proof (induction opers arbitrary: s)
  case Nil
  then show ?case by (simp add: oc.R_refl)
next
  case (Cons oper opers)
  then show ?case using oc.R_trans [OF apply_calm Cons.IH] by simp
qed

lemma no_order_after_stop:
  assumes "stops_trading su (hub_runtime (broker_world (rt_world p s))) a" and "list_all (\<lambda>oper. \<not> reopens oper) opers"
  shows "rt_orders p (run_runtime su bound p (R_Arrive a # opers) s) = rt_orders p s"
proof -
  define t where "t = apply_runtime_op su bound p (R_Arrive a) s"
  have w: "rt_world p t = receive su a (rt_world p s)"
    by (simp add: t_def apply_runtime_op_def on_shared_def rt_world_def get_put)
  have "silent (rt_world p s) (rt_world p t)" unfolding w by (rule silent_receive)
  moreover have "\<not> ready_to_trade (rt_world p t)" unfolding w by (rule receive_stops) (rule assms(1))
  moreover have "over p calm t (run_runtime su bound p opers t)" by (rule run_calm) (rule assms(2))
  ultimately show ?thesis by (simp add: t_def [symmetric] rt_orders_def over_def calm_def silent_def)
qed

end


section \<open>Recovery\<close>

text \<open>The gate belongs to the runtime's environment, and in the live environment it is closed.\<close>

definition gate_of_config :: "'v runtime_setup \<Rightarrow> RuntimeGateConfig \<Rightarrow> 'v rworld \<Rightarrow> bool" where
  "gate_of_config su config w \<longleftrightarrow>
     gate_config (hub_gate (broker_world w)) = config \<and> environment config = rc_environment (rt_config su)"

definition gate_shut :: "'v runtime_setup \<Rightarrow> RuntimeGateConfig \<Rightarrow> 'v rworld \<Rightarrow> bool" where
  "gate_shut su config w \<longleftrightarrow> gate_of_config su config w
     \<and> (rc_environment (rt_config su) = ''live'' \<longrightarrow> \<not> confirmed (hub_gate (broker_world w)))"

definition unrecovered :: "'v runtime_setup \<Rightarrow> RuntimeGateConfig \<Rightarrow> 'v rworld \<Rightarrow> bool" where
  "unrecovered su config w \<longleftrightarrow> \<not> recovery_ready w \<and> gate_shut su config w"

lemma quiet_preserves:
  assumes "quiet w w'"
  shows "gate_of_config su config w \<Longrightarrow> gate_of_config su config w'" and "gate_shut su config w \<Longrightarrow> gate_shut su config w'"
    and "unrecovered su config w \<Longrightarrow> unrecovered su config w'"
  using assms
  by (auto simp: quiet_def lowered_def gate_lowered_def gate_of_config_def gate_shut_def unrecovered_def)

lemma unrecovered_cannot_trade: "unrecovered su config w \<Longrightarrow> \<not> can_trade w"
  by (simp add: unrecovered_def can_trade_def)

lemma shut_cannot_trade: "gate_shut su config w \<Longrightarrow> rc_environment (rt_config su) = ''live'' \<Longrightarrow> \<not> can_trade w"
  by (simp add: gate_shut_def gate_of_config_def can_trade_def execution_allowed_def)

lemmas deliver_preserves = quiet_preserves [OF silent_quiet [OF silent_deliver]]

lemma triple_call:
  assumes "triple P m Q E" and "\<And>x w. Q x w \<Longrightarrow> Q x (deliver su w)" and "\<And>w. E w \<Longrightarrow> E (deliver su w)"
  shows "triple P (call su m) Q E"
  by (rule tripleI)
    (auto simp: call_def split: prod.splits intro: assms(2,3) dest: tripleD_Inr [OF assms(1)] tripleD_Inl [OF assms(1)])

lemma unrecovered_raise:
  "triple (unrecovered su config) (set_transport b) (\<lambda>_. unrecovered su config) (unrecovered su config)"
  "triple (unrecovered su config) (set_account b) (\<lambda>_. unrecovered su config) (unrecovered su config)"
  "triple (unrecovered su config) mark_transport_connected (\<lambda>_. unrecovered su config) (unrecovered su config)"
  by (auto simp: triple_def wp_def set_transport_def set_account_def on_broker_def mark_transport_connected_def
      modifyM_def unrecovered_def gate_shut_def gate_of_config_def)

lemma revoke_shuts:
  "triple (gate_of_config su config) (on_broker (on_gate gate_revoke)) (\<lambda>_. gate_shut su config) (gate_shut su config)"
  by (auto simp: triple_def wp_def on_broker_def on_gate_def gate_revoke_def bindM_def getM_def modifyM_def
      returnM_def gate_shut_def gate_of_config_def split: sum.splits)

lemma require_recovery: "triple (gate_shut su config) mark_recovery_required (\<lambda>_. unrecovered su config) (unrecovered su config)"
  by (auto simp: triple_def wp_def mark_recovery_required_def modifyM_def unrecovered_def gate_shut_def gate_of_config_def)

lemma complete_recovery: "triple (unrecovered su config) mark_recovery_complete (\<lambda>_. gate_shut su config) (unrecovered su config)"
  by (auto simp: triple_def wp_def mark_recovery_complete_def bindM_def getM_def raiseM_if_def raiseM_def returnM_def
      modifyM_def unrecovered_def gate_shut_def gate_of_config_def)

text \<open>The token that the gate accepts.\<close>

definition token_of_config :: "'v runtime_setup \<Rightarrow> RuntimeGateConfig \<Rightarrow> pyval \<Rightarrow> bool" where
  "token_of_config su config token \<longleftrightarrow>
     live_trading_enabled config
     \<and> (\<exists>t. token = PyStr t \<and> t \<noteq> [] \<and> sha256 (rt_base su) t = confirmation_token_sha256 config)"

lemma gate_confirm_Inr:
  "gate_confirm sha token g = (Inr (), g') \<Longrightarrow>
     live_trading_enabled (gate_config g) \<and> (\<exists>t. token = PyStr t \<and> t \<noteq> [] \<and> sha t = confirmation_token_sha256 (gate_config g))"
  by (cases token)
    (auto simp: gate_confirm_def bindM_def getM_def raiseM_if_def raiseM_def returnM_def liftR_def token_sha256_def
      nonempty_str_def split: if_splits)

lemma gate_confirm_Inl: "gate_confirm sha token g = (Inl e, g') \<Longrightarrow> g' = g"
  by (auto simp: gate_confirm_def bindM_def getM_def raiseM_if_def raiseM_def returnM_def liftR_def modifyM_def
      split: if_splits sum.splits)

lemma gate_confirm_config: "gate_confirm sha token g = (r, g') \<Longrightarrow> gate_config g' = gate_config g"
  by (auto simp: gate_confirm_def bindM_def getM_def raiseM_if_def raiseM_def returnM_def liftR_def modifyM_def
      split: if_splits sum.splits)

lemma confirm_shut:
  "triple (gate_shut su config) (confirm_gate su token)
     (\<lambda>_ _. token_of_config su config token) (gate_shut su config)"
proof (rule tripleI)
  fix w x w'
  assume "gate_shut su config w" and "confirm_gate su token w = (Inr x, w')"
  then show "token_of_config su config token"
    by (auto simp: confirm_gate_def on_broker_def on_gate_def token_of_config_def gate_shut_def gate_of_config_def dest!: gate_confirm_Inr split: prod.splits)
next
  fix w e w'
  assume "gate_shut su config w" and "confirm_gate su token w = (Inl e, w')"
  then show "gate_shut su config w'"
    by (auto simp: confirm_gate_def on_broker_def on_gate_def gate_shut_def gate_of_config_def
        dest!: gate_confirm_Inl split: prod.splits)
qed


lemma not_closed: "triple (\<lambda>s. \<not> rt_closed s \<and> P s) require_not_closed (\<lambda>_. P) E"
  by (auto simp: triple_def wp_def require_not_closed_def bindM_def getM_def raiseM_if_def returnM_def)

lemma triple_pure_check: "(\<And>s. P s \<Longrightarrow> E s) \<Longrightarrow> triple P (raiseM_if b e) (\<lambda>_ s. P s \<and> \<not> b) E"
  by (rule triple_raiseM_if) auto

lemma triple_bind_same:
  "triple P m (\<lambda>_. P) P \<Longrightarrow> (\<And>x. triple P (f x) Q P) \<Longrightarrow> triple P (bindM m f) Q P"
  by (rule triple_bindM)

context runtime_session
begin

lemma triple_on_shared:
  assumes "triple P m Q E"
  shows "triple (\<lambda>s. P (rt_world p s)) (on_shared p m) (\<lambda>x s. Q x (rt_world p s)) (\<lambda>s. E (rt_world p s))"
  by (rule tripleI)
    (auto simp: on_shared_def rt_world_def get_put split: prod.splits
      dest: tripleD_Inr [OF assms] tripleD_Inl [OF assms])

lemma triple_stmt:
  assumes "triple P m Q E" and "\<And>x w. Q x w \<Longrightarrow> Q x (deliver su w)" and "\<And>w. E w \<Longrightarrow> E (deliver su w)"
  shows "triple (\<lambda>s. P (rt_world p s)) (stmt su p m) (\<lambda>x s. Q x (rt_world p s)) (\<lambda>s. E (rt_world p s))"
  unfolding stmt_def by (rule triple_on_shared) (rule triple_call [OF assms])

lemma revoke_returns: "\<exists>s'. stmt su p (on_broker (on_gate gate_revoke)) s = (Inr (), s')"
  using revoke_step [of "port_get p (rt_session s)"]
  by (auto simp: stmt_def on_shared_def call_def split: prod.splits)

lemma triple_unrecovered:
  "keeps (over p quiet) m \<Longrightarrow>
     triple (\<lambda>s. unrecovered su config (rt_world p s)) m (\<lambda>_ s. unrecovered su config (rt_world p s))
       (\<lambda>s. unrecovered su config (rt_world p s))"
  by (rule triple_keeps) (auto simp: keeps_def over_def dest: quiet_preserves)

lemma recover_account_unrecovered:
  "triple (\<lambda>s. unrecovered su config (rt_world p s)) (recover_account su bound p)
     (\<lambda>_ s. unrecovered su config (rt_world p s)) (\<lambda>s. unrecovered su config (rt_world p s))"
  unfolding recover_account_def
  by (intro triple_bind_same triple_lift triple_unrecovered [OF over_shared_silent] silent_external
      silent_verify_bound triple_stmt unrecovered_raise deliver_preserves)

lemma recover_session_unrecovered:
  "triple (\<lambda>s. unrecovered su config (rt_world p s)) (recover_session su p)
     (\<lambda>out s. unrecovered su config (rt_world p s) \<and> es_state out \<notin> {UNKNOWN, FAILED})
     (\<lambda>s. unrecovered su config (rt_world p s))"
  unfolding recover_session_def
proof (intro triple_bind_same [OF triple_unrecovered [OF over_session [OF quiet_reconcile]]]
    triple_bindM [OF triple_pure_check] triple_pure)
  fix out
  assume "es_state out \<notin> {UNKNOWN, FAILED}"
  then show "triple (\<lambda>s. unrecovered su config (rt_world p s))
      (bindM (on_shared p (external su (verify_session (rt_base su)))) (\<lambda>evidence.
       bindM (liftR (SessionEvidence_validate evidence)) (\<lambda>_.
       bindM (raiseM_if (\<not> truthy (se_ready evidence))
         (Exn RecoveryAmbiguous (str_or (se_reason evidence) ''session re-verification failed''))) (\<lambda>_.
       returnM out))))
      (\<lambda>out s. unrecovered su config (rt_world p s) \<and> es_state out \<notin> {UNKNOWN, FAILED})
      (\<lambda>s. unrecovered su config (rt_world p s))"
    by (intro triple_bind_same triple_lift triple_check triple_unrecovered [OF over_shared_silent]
        silent_external triple_returnM) simp_all
qed

end


context runtime_session
begin

lemma triple_bind_weaken:
  assumes "triple P m Q E'" and "\<And>s. E' s \<Longrightarrow> E s" and "\<And>x. triple (Q x) (f x) R E"
  shows "triple P (bindM m f) R E"
  by (rule triple_bindM [OF triple_conseq [OF assms(1) _ _ assms(2)] assms(3)])

lemma recover_gate_shut:
  "triple (\<lambda>s. gate_shut su config (rt_world p s)) (recover_gate su p token)
     (\<lambda>_ _. rc_environment (rt_config su) = ''live'' \<longrightarrow> token_of_config su config token)
     (\<lambda>s. \<not> can_trade (rt_world p s))"
proof (cases "rc_environment (rt_config su) = ''live''")
  case True
  have confirm: "triple (\<lambda>s. gate_shut su config (rt_world p s)) (stmt su p (confirm_gate su token))
      (\<lambda>_ _. token_of_config su config token) (\<lambda>s. gate_shut su config (rt_world p s))"
    by (rule triple_stmt [OF confirm_shut]) (auto intro: deliver_preserves)
  show ?thesis unfolding recover_gate_def using True
    by (auto intro!: triple_raiseM triple_conseq [OF confirm] dest: shut_cannot_trade)
next
  case False
  then show ?thesis unfolding recover_gate_def by (simp add: triple_returnM)
qed

lemma recover_triple:
  "triple (\<lambda>s. \<not> rt_closed s \<and> gate_of_config su config (rt_world p s)) (runtime_recover su bound p token)
     (\<lambda>out _. es_state out \<notin> {UNKNOWN, FAILED}
        \<and> (rc_environment (rt_config su) = ''live'' \<longrightarrow> token_of_config su config token))
     (\<lambda>s. \<not> can_trade (rt_world p s))"
proof -
  let ?E = "\<lambda>s. \<not> can_trade (rt_world p s)"
  let ?U = "\<lambda>s. unrecovered su config (rt_world p s)"
  let ?Q = "\<lambda>out _. es_state out \<notin> {UNKNOWN, FAILED}
      \<and> (rc_environment (rt_config su) = ''live'' \<longrightarrow> token_of_config su config token)"
  have UE: "?U s \<Longrightarrow> ?E s" for s by (rule unrecovered_cannot_trade)
  have shut: "triple (\<lambda>s. gate_of_config su config (rt_world p s)) (stmt su p (on_broker (on_gate gate_revoke)))
      (\<lambda>_ s. gate_shut su config (rt_world p s)) ?E"
  proof (rule tripleI)
    fix s x s'
    assume "gate_of_config su config (rt_world p s)" and "stmt su p (on_broker (on_gate gate_revoke)) s = (Inr x, s')"
    then show "gate_shut su config (rt_world p s')"
      using tripleD_Inr [OF triple_stmt [OF revoke_shuts]] deliver_preserves(2) by blast
  next
    fix s e s'
    assume "stmt su p (on_broker (on_gate gate_revoke)) s = (Inl e, s')"
    with revoke_returns [of su s] show "?E s'" by simp
  qed
  have required: "triple (\<lambda>s. gate_shut su config (rt_world p s)) (stmt su p mark_recovery_required) (\<lambda>_. ?U) ?U"
    by (rule triple_stmt [OF require_recovery]) (rule deliver_preserves, assumption)+
  have completed: "triple ?U (stmt su p mark_recovery_complete) (\<lambda>_ s. gate_shut su config (rt_world p s)) ?U"
    by (rule triple_stmt [OF complete_recovery]) (rule deliver_preserves, assumption)+
  have last: "triple (\<lambda>s. ?U s \<and> es_state out \<notin> {UNKNOWN, FAILED}) (bindM (stmt su p mark_recovery_complete) (\<lambda>_.
      bindM (recover_gate su p token) (\<lambda>_. returnM out))) ?Q ?E" for out
    by (intro triple_pure triple_bind_weaken [OF completed UE] triple_bindM [OF recover_gate_shut] triple_returnM) auto
  show ?thesis unfolding runtime_recover_def
    by (intro triple_bindM [OF not_closed] triple_bindM [OF shut] triple_bind_weaken [OF required UE]
        triple_bind_weaken [OF triple_stmt [OF unrecovered_raise(1)] UE]
        triple_bind_weaken [OF triple_stmt [OF unrecovered_raise(2)] UE]
        triple_bind_weaken [OF triple_unrecovered [OF over_shared_silent [OF sl.keeps_getM]] UE]
        triple_bind_weaken [OF triple_check UE] triple_bind_weaken [OF recover_account_unrecovered UE]
        triple_bind_weaken [OF recover_session_unrecovered UE] last deliver_preserves) simp_all
qed

end


context runtime_session
begin

lemma recover_cases:
  assumes "\<not> rt_closed s" and "gate_of_config su config (rt_world p s)"
  shows "case runtime_recover su bound p token s of
      (Inl e, s') \<Rightarrow> \<not> can_trade (rt_world p s')
    | (Inr out, s') \<Rightarrow> es_state out \<notin> {UNKNOWN, FAILED}
        \<and> (rc_environment (rt_config su) = ''live'' \<longrightarrow> token_of_config su config token)"
proof -
  obtain r s' where run: "runtime_recover su bound p token s = (r, s')" by fastforce
  note ok = tripleD_Inr [OF recover_triple conjI [OF assms]] and no = tripleD_Inl [OF recover_triple conjI [OF assms]]
  show ?thesis using run by (cases r) (auto dest: ok no)
qed

end

section \<open>Closing\<close>

definition shut_down :: "'v rworld \<Rightarrow> bool" where
  "shut_down w \<longleftrightarrow> \<not> transport_connected w \<and> \<not> queue_healthy (hub_queue (broker_world w))"

text \<open>What \<open>close\<close> leaves: nothing works any more and nothing is held any more.\<close>

definition ended :: "('v, 's) session_port \<Rightarrow> 's runtime_state \<Rightarrow> bool" where
  "ended p s \<longleftrightarrow>
     rt_closed s \<and> shut_down (rt_world p s) \<and> (\<forall>l own. rt_lease s = Some (l, own) \<longrightarrow> released l)
     \<and> rt_mutex s \<noteq> Some True"

text \<open>A lock whose release does not raise.\<close>

definition releasable :: "'v mutex_env \<Rightarrow> bool" where
  "releasable m \<longleftrightarrow> (\<forall>w. isOk (fst (unlock m w)) \<and> isOk (fst (close_handle m w)))"

definition releasable_locks :: "'v runtime_setup \<Rightarrow> bool" where
  "releasable_locks su \<longleftrightarrow> releasable (rt_path_mutex su) \<and> (\<forall>i. releasable (rt_id_mutex su i))"

lemma quiet_disconnected: "quiet w w' \<Longrightarrow> \<not> transport_connected w \<Longrightarrow> \<not> transport_connected w'"
  by (auto simp: quiet_def lowered_def)

lemma quiet_shut_down: "quiet w w' \<Longrightarrow> shut_down w \<Longrightarrow> shut_down w'"
  by (auto simp: quiet_def lowered_def shut_down_def)

lemma shut_down_cannot_trade: "shut_down w \<Longrightarrow> \<not> can_trade w"
  by (simp add: shut_down_def can_trade_def)

lemma external_ok: "isOk (fst (m (outer (broker_world w)))) \<Longrightarrow> isOk (fst (external su m w))"
  by (auto simp: external_def call_def on_broker_def on_outer_def split: prod.splits)

lemma mx_ok: "isOk (fst (mx m s)) = isOk (fst (m (mx_world s)))"
  by (simp add: mx_def split: prod.splits)

lemma release_owned_ok:
  assumes "releasable m" and "release_owned su m own w = (r, own', w')"
  shows "r = Inr ()"
proof -
  have ok: "isOk (fst (mx (external su (unlock m)) s))" "isOk (fst (mx (external su (close_handle m)) s))" for s
    using assms(1) by (auto simp: mx_ok releasable_def intro!: external_ok)
  have "isOk (fst (finallyM (mx (external su (unlock m))) (mx (external su (close_handle m))) s))" for s
  proof -
    obtain t where unlock: "mx (external su (unlock m)) s = (Inr (), t)"
      using ok(1) [of s] by (cases "mx (external su (unlock m)) s") (auto simp: isOk_iff)
    obtain u where "mx (external su (close_handle m)) t = (Inr (), u)"
      using ok(2) [of t] by (cases "mx (external su (close_handle m)) t") (auto simp: isOk_iff)
    with unlock show ?thesis by (simp add: finallyM_def)
  qed
  then have "isOk (fst (release (runtime_mutex_env su m) s))" for s
    by (simp add: release_def bindM_def getM_def modifyM_def returnM_def runtime_mutex_env_def)
  moreover have "r = fst (release (runtime_mutex_env su m) \<lparr>mx_world = w, mx_owned = own\<rparr>)"
    using assms(2) by (simp add: release_owned_def split: prod.splits)
  ultimately show ?thesis by (auto simp: isOk_iff)
qed

lemma release_owned_down:
  assumes "releasable m" and "release_owned su m own w = (r, own', w')"
  shows "r = Inr () \<and> \<not> own' \<and> (shut_down w \<longrightarrow> shut_down w')"
  using release_owned_ok [OF assms] release_owned_silent [OF assms(2)] quiet_shut_down [OF silent_quiet] by blast

lemma best_effort_returns: "\<exists>w'. best_effort_stop su w = (Inr (), w')"
  by (cases "\<exists>m. trader_stop (rt_library su) = Some m")
    (auto simp: best_effort_stop_def tryM_def returnM_def split: prod.split sum.split option.split)

context runtime_session
begin

lemma triple_quiet_step:
  assumes "keeps (over p quiet) m" and "\<And>w w'. quiet w w' \<Longrightarrow> P w \<Longrightarrow> P w'"
  shows "triple (\<lambda>s. P (rt_world p s)) m (\<lambda>_ s. P (rt_world p s)) (\<lambda>s. P (rt_world p s))"
  by (rule triple_keeps) (use assms(1) assms(2) in \<open>unfold keeps_def over_def, metis\<close>)

lemma stopped_triple:
  "triple (\<lambda>s. \<not> transport_connected (rt_world p s)) (stmt su p (stop_queue su))
     (\<lambda>_ s. shut_down (rt_world p s)) (\<lambda>_. False)"
proof (rule triple_stmt)
  show "triple (\<lambda>w. \<not> transport_connected w) (stop_queue su) (\<lambda>_. shut_down) (\<lambda>_. False)"
    by (auto simp: triple_def wp_def stop_queue_def on_broker_def modifyM_def shut_down_def queue_healthy_def
        queue_stop_def stop_check_def stop_put_def Let_def split: if_splits)
  show "shut_down w \<Longrightarrow> shut_down (deliver su w)" for w
    by (rule quiet_shut_down [OF silent_quiet [OF silent_deliver]])
qed

lemma final_triple:
  assumes "releasable (rt_path_mutex su)" and "\<And>i. releasable (rt_id_mutex su i)"
  shows "triple (\<lambda>s. \<not> transport_connected (rt_world p s))
    (bindM (stmt su p (stop_queue su)) (\<lambda>_.
     bindM (on_shared p (best_effort_stop su)) (\<lambda>_.
     bindM (release_lease su p) (\<lambda>_.
     bindM (release_runtime_mutex su p) (\<lambda>_.
     modifyM (\<lambda>s. s\<lparr>rt_closed := True\<rparr>)))))) (\<lambda>_. ended p) (\<lambda>_. False)"
proof (intro triple_bindM)
  show "triple (\<lambda>s. \<not> transport_connected (rt_world p s)) (stmt su p (stop_queue su))
      (\<lambda>_ s. shut_down (rt_world p s)) (\<lambda>_. False)"
    by (rule stopped_triple)
  show "triple (\<lambda>s. shut_down (rt_world p s)) (on_shared p (best_effort_stop su))
      (\<lambda>_ s. shut_down (rt_world p s)) (\<lambda>_. False)"
  proof (rule triple_on_shared, rule tripleI)
    show "shut_down w'" if "shut_down w" "best_effort_stop su w = (Inr x, w')" for w x w'
      using that keepsD [OF silent_best_effort_stop] quiet_shut_down silent_quiet by blast
    show "False" if "best_effort_stop su w = (Inl e, w')" for w e w'
      using that best_effort_returns [of su w] by simp
  qed
  show "triple (\<lambda>s. shut_down (rt_world p s)) (release_lease su p)
      (\<lambda>_ s. shut_down (rt_world p s) \<and> (\<forall>l own. rt_lease s = Some (l, own) \<longrightarrow> released l)) (\<lambda>_. False)"
    by (rule tripleI)
      (auto simp: release_lease_def rt_world_def get_put split: option.splits if_splits prod.splits
        dest!: release_owned_down [OF assms(2)])
  show "triple (\<lambda>s. shut_down (rt_world p s) \<and> (\<forall>l own. rt_lease s = Some (l, own) \<longrightarrow> released l))
      (release_runtime_mutex su p)
      (\<lambda>_ s. shut_down (rt_world p s) \<and> (\<forall>l own. rt_lease s = Some (l, own) \<longrightarrow> released l) \<and> rt_mutex s \<noteq> Some True)
      (\<lambda>_. False)"
    by (rule tripleI)
      (auto simp: release_runtime_mutex_def rt_world_def get_put split: option.splits prod.splits
        dest!: release_owned_down [OF assms(1)])
  show "triple (\<lambda>s. shut_down (rt_world p s) \<and> (\<forall>l own. rt_lease s = Some (l, own) \<longrightarrow> released l) \<and> rt_mutex s \<noteq> Some True)
      (modifyM (\<lambda>s. s\<lparr>rt_closed := True\<rparr>)) (\<lambda>_. ended p) (\<lambda>_. False)"
    by (rule triple_modifyM) (simp add: ended_def rt_world_def)
qed

end


context runtime_session
begin

lemma close_triple:
  assumes "releasable (rt_path_mutex su)" and "\<And>i. releasable (rt_id_mutex su i)"
  shows "triple (\<lambda>s. \<not> rt_closed s) (runtime_close su bound p) (\<lambda>_. ended p) (ended p)"
proof -
  let ?D = "\<lambda>s. \<not> transport_connected (rt_world p s)"
  have D: "triple ?D m (\<lambda>_. ?D) ?D" if "keeps (over p quiet) m" for m :: "('s runtime_state, unit) pyact"
    using triple_quiet_step [OF that, of "\<lambda>w. \<not> transport_connected w"] quiet_disconnected by blast
  have unsubscribe: "keeps (over p quiet) (unsubscribe_account su bound p)"
    unfolding unsubscribe_account_def
    by (auto intro: oq.keeps_returnM over_shared_silent silent_external split: option.split)
  have revoked: "triple (\<lambda>_. True) (stmt su p (on_broker (on_gate gate_revoke))) (\<lambda>_ _. True) (ended p)"
  proof (rule tripleI)
    show "ended p s'" if "stmt su p (on_broker (on_gate gate_revoke)) s = (Inl e, s')" for s e s'
      using that revoke_returns [of su s] by simp
  qed simp
  have mark: "triple (\<lambda>_. True) mark_disconnected (\<lambda>_ w. \<not> transport_connected w) (\<lambda>_. False)"
    by (simp add: triple_def wp_def mark_disconnected_def modifyM_def)
  have "triple (\<lambda>_. True) (stmt su p mark_disconnected) (\<lambda>_. ?D) (\<lambda>_. False)"
    by (rule triple_stmt [OF mark]) (use quiet_disconnected [OF silent_quiet [OF silent_deliver]] in blast)+
  then have marked: "triple (\<lambda>_. True) (stmt su p mark_disconnected) (\<lambda>_. ?D) (ended p)"
    by (rule triple_conseq) simp_all
  have finals: "triple ?D (bindM (stmt su p (stop_queue su)) (\<lambda>_. bindM (on_shared p (best_effort_stop su)) (\<lambda>_.
      bindM (release_lease su p) (\<lambda>_. bindM (release_runtime_mutex su p) (\<lambda>_.
      modifyM (\<lambda>s. s\<lparr>rt_closed := True\<rparr>)))))) (\<lambda>_. ended p) (ended p)"
    by (rule triple_conseq [OF final_triple [OF assms]]) simp_all
  have "triple (\<lambda>_. True)
       (bindM (stmt su p (on_broker (on_gate gate_revoke))) (\<lambda>_.
       bindM (stmt su p mark_disconnected) (\<lambda>_.
       finallyM (on_session (port_close p))
         (finallyM (unsubscribe_account su bound p)
           (bindM (stmt su p (stop_queue su)) (\<lambda>_. bindM (on_shared p (best_effort_stop su)) (\<lambda>_.
            bindM (release_lease su p) (\<lambda>_. bindM (release_runtime_mutex su p) (\<lambda>_.
            modifyM (\<lambda>s. s\<lparr>rt_closed := True\<rparr>)))))))))) (\<lambda>_. ended p) (ended p)"
    by (intro triple_bindM [OF revoked] triple_bindM [OF marked]
        triple_finallyM [OF D [OF over_session [OF quiet_close]]] triple_finallyM [OF D [OF unsubscribe]] finals)
  note body = this
  show ?thesis unfolding runtime_close_def
  proof (rule triple_bindM [where Q = "\<lambda>c _. \<not> c"])
    show "triple (\<lambda>s. \<not> rt_closed s) (getM rt_closed) (\<lambda>c _. \<not> c) (ended p)" by (rule triple_getM)
  qed (use body in \<open>auto simp: triple_def [of "\<lambda>_. False"]\<close>)
qed

lemma closed_for_good:
  assumes "releasable (rt_path_mutex su)" and "\<And>i. releasable (rt_id_mutex su i)" and "\<not> rt_closed s"
  shows "ended p (snd (runtime_close su bound p s))"
  by (rule triple_state [OF close_triple [OF assms(1,2)] assms(3) prod.collapse [symmetric]])

text \<open>Without an assumption on the locks: the transport is down and the queue stopped.\<close>

lemma shut_down_triple:
  "triple (\<lambda>s. \<not> rt_closed s) (runtime_close su bound p) (\<lambda>_ s. shut_down (rt_world p s))
     (\<lambda>s. shut_down (rt_world p s))"
proof -
  let ?D = "\<lambda>s. \<not> transport_connected (rt_world p s)" and ?S = "\<lambda>s. shut_down (rt_world p s)"
  have D: "triple ?D m (\<lambda>_. ?D) ?D" if "keeps (over p quiet) m" for m :: "('s runtime_state, unit) pyact"
    using triple_quiet_step [OF that, of "\<lambda>w. \<not> transport_connected w"] quiet_disconnected by blast
  have S: "triple ?S m (\<lambda>_. ?S) ?S" if "keeps (over p quiet) m" for m :: "('s runtime_state, unit) pyact"
    using triple_quiet_step [OF that, of shut_down] quiet_shut_down by blast
  have unsubscribe: "keeps (over p quiet) (unsubscribe_account su bound p)"
    unfolding unsubscribe_account_def
    by (auto intro: oq.keeps_returnM over_shared_silent silent_external split: option.split)
  have revoked: "triple (\<lambda>_. True) (stmt su p (on_broker (on_gate gate_revoke))) (\<lambda>_ _. True) ?S"
  proof (rule tripleI)
    show "?S s'" if "stmt su p (on_broker (on_gate gate_revoke)) s = (Inl e, s')" for s e s'
      using that revoke_returns [of su s] by simp
  qed simp
  have "triple (\<lambda>_. True) mark_disconnected (\<lambda>_ w. \<not> transport_connected w) (\<lambda>_. False)"
    by (simp add: triple_def wp_def mark_disconnected_def modifyM_def)
  then have "triple (\<lambda>_. True) (stmt su p mark_disconnected) (\<lambda>_. ?D) (\<lambda>_. False)"
    by (rule triple_stmt) (use quiet_disconnected [OF silent_quiet [OF silent_deliver]] in blast)+
  then have marked: "triple (\<lambda>_. True) (stmt su p mark_disconnected) (\<lambda>_. ?D) ?S"
    by (rule triple_conseq) simp_all
  have closed: "keeps (over p quiet) (modifyM (\<lambda>s. s\<lparr>rt_closed := True\<rparr>))"
    by (rule keeps_modifyM) (simp add: over_def rt_world_def qt.R_refl)
  have finals: "triple ?D (bindM (stmt su p (stop_queue su)) (\<lambda>_. bindM (on_shared p (best_effort_stop su)) (\<lambda>_.
      bindM (release_lease su p) (\<lambda>_. bindM (release_runtime_mutex su p) (\<lambda>_.
      modifyM (\<lambda>s. s\<lparr>rt_closed := True\<rparr>)))))) (\<lambda>_. ?S) ?S"
    by (rule triple_bindM [OF triple_conseq [OF stopped_triple] S])
      (auto intro!: oq.keeps_bindM over_shared_silent silent_best_effort_stop over_release_lease over_release_mutex closed)
  have "triple (\<lambda>_. True)
       (bindM (stmt su p (on_broker (on_gate gate_revoke))) (\<lambda>_.
       bindM (stmt su p mark_disconnected) (\<lambda>_.
       finallyM (on_session (port_close p))
         (finallyM (unsubscribe_account su bound p)
           (bindM (stmt su p (stop_queue su)) (\<lambda>_. bindM (on_shared p (best_effort_stop su)) (\<lambda>_.
            bindM (release_lease su p) (\<lambda>_. bindM (release_runtime_mutex su p) (\<lambda>_.
            modifyM (\<lambda>s. s\<lparr>rt_closed := True\<rparr>)))))))))) (\<lambda>_. ?S) ?S"
    by (intro triple_bindM [OF revoked] triple_bindM [OF marked]
        triple_finallyM [OF D [OF over_session [OF quiet_close]]] triple_finallyM [OF D [OF unsubscribe]] finals)
  note body = this
  show ?thesis unfolding runtime_close_def
  proof (rule triple_bindM [where Q = "\<lambda>c _. \<not> c"])
    show "triple (\<lambda>s. \<not> rt_closed s) (getM rt_closed) (\<lambda>c _. \<not> c) ?S" by (rule triple_getM)
  qed (use body in \<open>auto simp: triple_def [of "\<lambda>_. False"]\<close>)
qed

end


section \<open>A queue that does not run\<close>

text \<open>No operation starts the queue again, and without it no order is sent.\<close>

definition queue_calm :: "'v rworld \<Rightarrow> 'v rworld \<Rightarrow> bool" where
  "queue_calm w w' \<longleftrightarrow>
     (queue_healthy (hub_queue (broker_world w')) \<longrightarrow> queue_healthy (hub_queue (broker_world w)))
     \<and> (\<not> queue_healthy (hub_queue (broker_world w)) \<longrightarrow> orders_sent (broker_world w') = orders_sent (broker_world w))"

interpretation qc: step_preorder queue_calm
  by unfold_locales (auto simp: queue_calm_def)

interpretation ov: step_preorder "over p queue_calm" for p
  by (rule step_preorder_over) (rule qc.step_preorder_axioms)

lemma quiet_queue_calm: "quiet w w' \<Longrightarrow> queue_calm w w'"
  by (auto simp: quiet_def lowered_def queue_calm_def can_trade_def runtime_health_def)

lemma over_quiet_queue: "keeps (over p quiet) m \<Longrightarrow> keeps (over p queue_calm) m"
  unfolding keeps_def over_def by (blast intro: quiet_queue_calm)

lemma queue_calm_flags:
  "keeps queue_calm (set_transport b)" "keeps queue_calm (set_account b)" "keeps queue_calm mark_transport_connected"
  "keeps queue_calm mark_recovery_complete" "keeps queue_calm mark_recovery_required"
  "keeps queue_calm (confirm_gate su token)" "keeps queue_calm (on_broker (on_gate gate_revoke))"
  by (auto simp: keeps_def queue_calm_def set_transport_def set_account_def on_broker_def modifyM_def confirm_gate_def
      on_gate_def mark_transport_connected_def mark_recovery_complete_def mark_recovery_required_def bindM_def getM_def
      raiseM_if_def raiseM_def returnM_def split: prod.splits)

lemma queue_calm_call: "keeps queue_calm m \<Longrightarrow> keeps queue_calm (call su m)"
  by (rule keeps_call, assumption) (rule qc.R_trans [OF _ quiet_queue_calm [OF silent_quiet [OF silent_deliver]]])

context runtime_session
begin

lemma queue_stmt: "keeps queue_calm m \<Longrightarrow> keeps (over p queue_calm) (stmt su p m)"
  unfolding stmt_def by (intro over_shared queue_calm_call)

lemmas queue_steps = ov.keeps_bindM ov.keeps_liftR ov.keeps_raiseM ov.keeps_raiseM_if ov.keeps_returnM ov.keeps_if
  queue_stmt queue_calm_flags over_quiet_queue [OF over_require_not_closed]
  over_quiet_queue [OF over_shared_silent] silent_external silent_verify_bound sl.keeps_getM

lemma queue_calm_operations:
  "keeps (over p queue_calm) (runtime_open su bound p)" "keeps (over p queue_calm) (runtime_confirm_live su p token)"
  "keeps (over p queue_calm) (runtime_recover su bound p token)"
  unfolding runtime_open_def runtime_confirm_live_def runtime_recover_def recover_account_def recover_session_def
    recover_gate_def
  by (intro queue_steps over_quiet_queue [OF over_session [OF quiet_open]]
      over_quiet_queue [OF over_session [OF quiet_reconcile]])+

lemma queue_calm_run: "over p queue_calm s (run_runtime su bound p opers s)"
proof (induction opers arbitrary: s)
  case Nil
  then show ?case by (simp add: ov.R_refl)
next
  case (Cons oper opers)
  have "over p queue_calm s (apply_runtime_op su bound p oper s)"
    by (cases oper) (simp_all add: apply_runtime_op_def queue_calm_operations [THEN keeps_snd]
        keeps_snd [OF over_quiet_queue [OF over_close]] over_operations [THEN over_quiet_queue, THEN keeps_snd]
        keeps_snd [OF over_quiet_queue [OF over_arrive]])
  then show ?case unfolding run_runtime.simps by (rule ov.R_trans) (rule Cons)
qed

lemma after_close:
  assumes "\<not> rt_closed s"
  shows "shut_down (rt_world p (snd (runtime_close su bound p s)))
    \<and> rt_orders p (run_runtime su bound p opers (snd (runtime_close su bound p s)))
      = rt_orders p (snd (runtime_close su bound p s))"
proof
  show down: "shut_down (rt_world p (snd (runtime_close su bound p s)))"
    by (rule triple_state [OF shut_down_triple assms prod.collapse [symmetric]])
  with queue_calm_run show "rt_orders p (run_runtime su bound p opers (snd (runtime_close su bound p s)))
      = rt_orders p (snd (runtime_close su bound p s))"
    by (auto simp: over_def queue_calm_def shut_down_def rt_orders_def)
qed

end


section \<open>Trading without a recovery\<close>

text \<open>
  Two runs in which the runtime trades although nothing was recovered.  First, \<open>open\<close> of a runtime
  whose session is open already: it marks the transport as connected and the recovery as complete,
  without \<open>trader.connect\<close> and without reconciling the session.
\<close>

lemma deliver_nothing: "arrivals (rt_library su) = (\<lambda>w. ([], w)) \<Longrightarrow> deliver su w = w"
  by (simp add: deliver_def put_outer_def)

interpretation se: step_preorder "\<lambda>s s'. s' = s"
  by unfold_locales simp_all

lemma snapshot_unchanged: "session_snapshot reason s = (r, s') \<Longrightarrow> s' = s"
proof -
  have "keeps (\<lambda>s s'. s' = s) (session_snapshot reason)"
    unfolding session_snapshot_def journal_data_def require_payload_def
    by (intro se.keeps_intros) (auto intro: se.keeps_intros split: option.split)
  then show "session_snapshot reason s = (r, s') \<Longrightarrow> s' = s" by (rule keepsD)
qed

lemma open_session_unchanged:
  "is_open s \<Longrightarrow> \<not> is_closed s \<Longrightarrow> session_open env s = (r, s') \<Longrightarrow> s' = s"
  by (auto simp: session_open_def open_with_def bindM_def getM_def raiseM_if_def returnM_def dest: snapshot_unchanged)

lemma reopened_runtime_trades:
  assumes "runtime_open su bound (exclusive_port su bound) s = (Inr out, s')"
    and "is_open (rt_session s)" and "\<not> is_closed (rt_session s)" and "arrivals (rt_library su) = (\<lambda>w. ([], w))"
    and "queue_healthy (hub_queue (broker_world (world (rt_session s'))))"
    and "environment (gate_config (hub_gate (broker_world (world (rt_session s'))))) = ''simulation''"
  shows "can_trade (world (rt_session s')) \<and> machine (rt_session s') = machine (rt_session s)
    \<and> disk (rt_session s') = disk (rt_session s) \<and> trace (rt_session s') = trace (rt_session s)"
proof -
  let ?p = "exclusive_port su bound"
  obtain r w where verify: "verify_bound_account su bound (world (rt_session s)) = (r, w)" by fastforce
  define t where "t = (rt_session s)\<lparr>world := w\<rparr>"
  obtain q t' where opened: "session_open (runtime_session_env su bound) t = (q, t')" by fastforce
  have "t' = t" using opened assms(2,3) by (intro open_session_unchanged) (auto simp: t_def)
  then show ?thesis using assms(1,5,6) verify opened
    by (auto simp: runtime_open_def bindM_def require_not_closed_def getM_def raiseM_if_def raiseM_def returnM_def
        on_shared_def on_session_def exclusive_port_def Let_def stmt_def call_def deliver_nothing [OF assms(4)]
        set_transport_def set_account_def on_broker_def modifyM_def mark_transport_connected_def
        mark_recovery_complete_def t_def can_trade_def runtime_health_def execution_allowed_def split: if_splits sum.splits)
qed

text \<open>
  Second, a report that the account is unhealthy, handled after \<open>recover_after_disconnect\<close> has verified
  and subscribed the account and before it sets \<open>account_healthy\<close>: the assignment hides the report.
\<close>

lemma account_report_overwritten:
  assumes "arrivals (rt_library su) = (\<lambda>w. ([], w))" and "observation_handler su = None"
    and "queue_healthy (hub_queue (broker_world w))" and "transport_connected w" and "signal_transport (broker_world w)"
    and "hub_runtime (broker_world w) = Some account" and "status \<noteq> account_status_ok su"
    and "environment (gate_config (hub_gate (broker_world w))) = ''simulation''"
    and "receive su (Some (QmtAccountStatusObserved account t status)) w = w1"
    and "call su (set_account True) w1 = (Inr (), w2)" and "call su mark_recovery_complete w2 = (Inr (), w3)"
  shows "\<not> can_trade w1 \<and> can_trade w3"
proof -
  have "w1 = w\<lparr>broker_world := (broker_world w)\<lparr>signal_account := False\<rparr>, recovery_ready := False\<rparr>"
    using assms
    by (auto simp: receive_def consume_def handle_callback_def handle_account_status_def observe_def bindM_def getM_def
        on_broker_def modifyM_def on_gate_def gate_revoke_def returnM_def mark_recovery_required_def)
  moreover from this have "w2 = w\<lparr>broker_world := (broker_world w)\<lparr>signal_account := True\<rparr>, recovery_ready := False\<rparr>"
    using assms(10) by (auto simp: call_def deliver_nothing [OF assms(1)] set_account_def on_broker_def modifyM_def)
  moreover from this have "w3 = w2\<lparr>recovery_ready := True\<rparr>"
    using assms(4,11)
    by (auto simp: call_def deliver_nothing [OF assms(1)] mark_recovery_complete_def bindM_def getM_def raiseM_if_def
        returnM_def modifyM_def)
  ultimately show ?thesis using assms(3-8)
    by (simp add: can_trade_def runtime_health_def execution_allowed_def)
qed

end
