(* ===== verification/Runtime_Properties.thy ===== *)
theory Runtime_Properties
  imports Runtime_Safety Coordinated_Properties
begin

text \<open>
  The properties of a runtime, on both of its sessions, and two runs that show where its code lets it
  trade again although nothing was recovered.
\<close>

section \<open>An example\<close>

text \<open>
  The outside is a counter; \<open>arrived n\<close> is what has come when it stands at \<open>n\<close>, and \<open>subscribe\<close> sets
  it to 50.  \<open>connect\<close> answers \<open>conn\<close>.
\<close>

definition example_library :: "pyval \<Rightarrow> (nat \<Rightarrow> qmt_event option list) \<Rightarrow> nat runtime_library" where
  "example_library conn arrived =
     \<lparr>query_account_infos = returnM (QList []),
      query_account_status = returnM (QList
        [[''account_id'' \<mapsto> PyStr ''9'', ''account_type'' \<mapsto> PyInt 2, ''status'' \<mapsto> PyInt 0]]),
      stock_account = (\<lambda>i. returnM (PyStr i)), account_pause = returnM (), account_sha = id,
      account_repr = (\<lambda>_. []), make_trader = (\<lambda>_. returnM ()), register_callback = Some (returnM ()),
      trader_start = returnM (), trader_connect = returnM conn,
      trader_subscribe = (\<lambda>_ _. (Inr (PyInt 0), 50)), trader_unsubscribe = None,
      trader_stop = Some (raiseM (Exn PyException ''stop'')),
      lib_order_stock = (\<lambda>_ _ _ _ _ _ _ _. returnM (PyInt 101)),
      lib_cancel_order_stock = (\<lambda>_ _. returnM (PyInt 0)),
      lib_query_stock_order = (\<lambda>_ _. returnM (QObject
        [''order_id'' \<mapsto> PyInt 101, ''stock_code'' \<mapsto> PyStr ''600000.SH'', ''order_type'' \<mapsto> PyInt 23,
         ''order_volume'' \<mapsto> PyInt 100, ''traded_volume'' \<mapsto> PyInt 0, ''order_status'' \<mapsto> PyInt 50,
         ''order_remark'' \<mapsto> PyStr ''r1''])),
      lib_query_stock_orders = (\<lambda>_. returnM (QList [])), lib_query_stock_asset = (\<lambda>_. returnM QNone),
      lib_query_stock_positions = (\<lambda>_. returnM (QList [])), lib_query_stock_trades = (\<lambda>_. returnM (QList [])),
      arrivals = (\<lambda>n. (arrived n, n + 1))\<rparr>"

definition example_config :: MiniQmtRuntimeConfig where
  "example_config =
     \<lparr>rc_environment = ''simulation'', rc_qmt_path = ''/q'', rc_binding_path = ''/b'', rc_journal_path = ''/j'',
      rc_lock_path = ''/l'', rc_strategy_name = ''s1'', rc_live_trading_enabled = False,
      rc_confirmation_token_sha256 = '''', rc_session_id = None, rc_query_attempts = 1,
      rc_query_delay_seconds = PyInt 0, rc_event_queue_size = 2, rc_runtime_lock_mode = ''exclusive'',
      rc_session_id_pool_start = 1, rc_session_id_pool_size = 1, rc_session_id_attempts = 1\<rparr>"

definition example_setup :: "pyval \<Rightarrow> (nat \<Rightarrow> qmt_event option list) \<Rightarrow> nat runtime_setup" where
  "example_setup conn arrived =
     \<lparr>rt_config = example_config, rt_library = example_library conn arrived,
      rt_order_config = \<lparr>buy_order_type = 23, sell_order_type = 24, price_type = 11\<rparr>,
      security_account_type = 2, account_status_ok = 0, observation_handler = None,
      rt_base = example_env (\<lambda>_. Replaced) (returnM (example_order B_WORKING)), rt_path_mutex = quiet_mutex,
      rt_id_mutex = (\<lambda>_. quiet_mutex)\<rparr>"

definition example_account :: BoundQmtAccount where
  "example_account = \<lparr>bound_account_id = ''9'', bound_account_type = 2, bound_account = PyStr ''9''\<rparr>"

definition example_gate :: gate where
  "example_gate = new_gate \<lparr>environment = ''simulation'', live_trading_enabled = False, confirmation_token_sha256 = ''''\<rparr>"

text \<open>A runtime whose session waits for a trigger.\<close>

definition example_world :: "nat rworld" where
  "example_world =
     \<lparr>broker_world = \<lparr>outer = 0, hub_queue = new_event_queue\<lparr>q_state := Q_RUNNING\<rparr>, signal_transport = True,
        signal_account = True, hub_gate = example_gate, hub_runtime = Some ''9'', orders_sent = []\<rparr>,
      transport_connected = True, recovery_ready = True\<rparr>"

definition example_session :: "nat rworld session_state" where
  "example_session =
     \<lparr>world = example_world, disk = FileJson (PyDict ready_payload), payload = Some ready_payload,
      machine = \<lparr>state = WAIT_TRIGGER,
        facts = no_facts\<lparr>environment_verified := True, account_verified := True\<rparr>\<rparr>,
      is_open = True, is_closed = False, owned = True, trace = []\<rparr>"

definition example_runtime :: "nat rworld session_state runtime_state" where
  "example_runtime =
     \<lparr>rt_session = example_session, rt_closed = False, rt_lease = None, rt_mutex = Some True\<rparr>"

lemma example_world_trades: "can_trade example_world"
  by (simp add: can_trade_def example_world_def runtime_health_def queue_healthy_def example_gate_def new_gate_def
      execution_allowed_def)

lemma quiet_mutex_releasable: "releasable quiet_mutex"
  by (simp add: releasable_def quiet_mutex_def returnM_def)

abbreviation example_port :: "(nat, nat rworld session_state) session_port" where
  "example_port \<equiv> exclusive_port (example_setup (PyInt 0) (\<lambda>_. [])) example_account"

lemma example_rt_world: "rt_world example_port example_runtime = example_world"
  by (simp add: rt_world_def exclusive_port_def Let_def example_runtime_def example_session_def)

definition example_shared_setup :: "nat shared_setup" where
  "example_shared_setup =
     \<lparr>sh_account_key = ''A'', sh_coordinator = counting_sql,
      sh_estimator = Some (\<lambda>r a. returnM fixed_estimate), sh_hook = None, sh_others = rival\<rparr>"

definition example_shared_runtime :: "nat rworld shared session_state runtime_state" where
  "example_shared_runtime =
     \<lparr>rt_session =
        \<lparr>world = \<lparr>db_state = \<lparr>cworld = example_world, db_exists = True, committed = empty_db, working = empty_db\<rparr>,
           broker_log = []\<rparr>,
         disk = disk example_session, payload = payload example_session, machine = machine example_session,
         is_open = True, is_closed = False, owned = True, trace = []\<rparr>,
      rt_closed = False, rt_lease = Some (\<lparr>lease_session_id = 7, released = False\<rparr>, True), rt_mutex = None\<rparr>"

abbreviation example_shared_port :: "(nat, nat rworld shared session_state) session_port" where
  "example_shared_port \<equiv> shared_port (example_setup (PyInt 0) (\<lambda>_. [])) example_shared_setup example_account"

lemma example_shared_world: "rt_world example_shared_port example_shared_runtime = example_world"
  by (simp add: rt_world_def shared_port_def Let_def example_shared_runtime_def)

lemma example_orders:
  "rt_orders example_port example_runtime = []" "rt_orders example_shared_port example_shared_runtime = []"
  by (simp_all add: rt_orders_def example_rt_world example_shared_world example_world_def)

section \<open>Properties\<close>

text \<open>
  C10: no order without a recovery.  Once the broker has disconnected, the bound account is reported
  unhealthy, a callback was malformed or the queue of events overflowed, no sequence of submissions,
  polls, cancellations, next cycles, live confirmations, \<open>close\<close> and further events calls
  \<open>order_stock\<close>, in both lock modes, as long as the runtime is not opened or recovered.
\<close>

theorem no_order_until_recovered:
  assumes "list_all (\<lambda>oper. \<not> reopens oper) opers"
    and "stops_trading su (hub_runtime (broker_world (rt_world (exclusive_port su bound) s))) a"
    and "stops_trading su (hub_runtime (broker_world (rt_world (shared_port su sh bound) t))) a"
  shows "rt_orders (exclusive_port su bound) (run_runtime su bound (exclusive_port su bound) (R_Arrive a # opers) s)
      = rt_orders (exclusive_port su bound) s
    \<and> rt_orders (shared_port su sh bound) (run_runtime su bound (shared_port su sh bound) (R_Arrive a # opers) t)
      = rt_orders (shared_port su sh bound) t"
  using ep.no_order_after_stop [OF assms(2,1)] sp.no_order_after_stop [OF assms(3,1)] by (rule conjI)

theorem no_order_until_recovered_witness:
  "can_trade example_world
   \<and> list_all (\<lambda>a.
        rt_orders example_port (run_runtime (example_setup (PyInt 0) (\<lambda>_. [])) example_account example_port
          [R_Arrive a, R_Confirm (PyStr ''x''), R_Submit example_request, R_Poll] example_runtime) = []
      \<and> rt_orders example_shared_port (run_runtime (example_setup (PyInt 0) (\<lambda>_. [])) example_account example_shared_port
          [R_Arrive a, R_Confirm (PyStr ''x''), R_Submit example_request, R_Poll] example_shared_runtime) = [])
      [None, Some (QmtBrokerDisconnected ''''), Some (QmtAccountStatusObserved ''9'' 2 3)]"
unfolding list_all_iff
proof (intro conjI ballI example_world_trades)
  fix a :: "qmt_event option"
  assume "a \<in> set [None, Some (QmtBrokerDisconnected ''''), Some (QmtAccountStatusObserved ''9'' 2 3)]"
  then have a: "stops_trading (example_setup (PyInt 0) (\<lambda>_. [])) (hub_runtime (broker_world example_world)) a"
    by (auto simp: example_world_def example_setup_def)
  have "list_all (\<lambda>oper. \<not> reopens oper) [R_Confirm (PyStr ''x''), R_Submit example_request, R_Poll]" by simp
  note both = no_order_until_recovered [OF this a [folded example_rt_world] a [folded example_shared_world]]
  show "rt_orders example_port (run_runtime (example_setup (PyInt 0) (\<lambda>_. [])) example_account example_port
      [R_Arrive a, R_Confirm (PyStr ''x''), R_Submit example_request, R_Poll] example_runtime) = []"
    by (rule trans [OF conjunct1 [OF both] example_orders(1)])
  show "rt_orders example_shared_port (run_runtime (example_setup (PyInt 0) (\<lambda>_. [])) example_account example_shared_port
      [R_Arrive a, R_Confirm (PyStr ''x''), R_Submit example_request, R_Poll] example_shared_runtime) = []"
    by (rule trans [OF conjunct2 [OF both] example_orders(2)])
qed

text \<open>
  C11: a recovery is complete or leaves the runtime unable to trade.  If \<open>recover_after_disconnect\<close> of a
  runtime that is not closed raises, whatever it was that failed and whatever callbacks arrived in
  between, the runtime cannot trade.  If it returns, the durable execution is neither unknown nor
  failed and, in the live environment, the caller gave the token with the digest of the configuration.
\<close>

theorem recovery_fails_closed:
  assumes "\<not> rt_closed s" and "gate_of_config su config (rt_world (exclusive_port su bound) s)"
    and "\<not> rt_closed t" and "gate_of_config su config (rt_world (shared_port su sh bound) t)"
  shows "(case runtime_recover su bound (exclusive_port su bound) token s of
       (Inl e, s') \<Rightarrow> \<not> can_trade (rt_world (exclusive_port su bound) s')
     | (Inr out, s') \<Rightarrow> es_state out \<notin> {UNKNOWN, FAILED}
         \<and> (rc_environment (rt_config su) = ''live'' \<longrightarrow> token_of_config su config token))
    \<and> (case runtime_recover su bound (shared_port su sh bound) token t of
       (Inl e, t') \<Rightarrow> \<not> can_trade (rt_world (shared_port su sh bound) t')
     | (Inr out, t') \<Rightarrow> es_state out \<notin> {UNKNOWN, FAILED}
         \<and> (rc_environment (rt_config su) = ''live'' \<longrightarrow> token_of_config su config token))"
  by (rule conjI [OF ep.recover_cases [OF assms(1,2)] sp.recover_cases [OF assms(3,4)]])

theorem recovery_fails_closed_witness:
  "(case runtime_recover (example_setup (PyInt 1) (\<lambda>_. [])) example_account
       (exclusive_port (example_setup (PyInt 1) (\<lambda>_. [])) example_account) PyNone example_runtime of
     (Inl e, s') \<Rightarrow> \<not> can_trade (rt_world (exclusive_port (example_setup (PyInt 1) (\<lambda>_. [])) example_account) s')
   | (Inr out, s') \<Rightarrow> es_state out \<notin> {UNKNOWN, FAILED})"
proof -
  let ?su = "example_setup (PyInt 1) (\<lambda>_. [])"
  let ?config = "gate_config example_gate"
  have "\<not> rt_closed example_runtime" "\<not> rt_closed example_shared_runtime"
    by (simp_all add: example_runtime_def example_shared_runtime_def)
  moreover have "gate_of_config ?su ?config (rt_world (exclusive_port ?su example_account) example_runtime)"
    "gate_of_config ?su ?config (rt_world (shared_port ?su example_shared_setup example_account) example_shared_runtime)"
    by (simp_all add: gate_of_config_def rt_world_def exclusive_port_def shared_port_def Let_def example_runtime_def
        example_shared_runtime_def example_session_def example_world_def example_gate_def new_gate_def
        example_setup_def example_config_def)
  ultimately show ?thesis
    using conjunct1 [OF recovery_fails_closed] by (fastforce split: prod.splits sum.splits)
qed

text \<open>
  C14: \<open>close\<close> is final.  Whatever the session's \<open>close\<close>, the library's \<open>unsubscribe\<close> and its \<open>stop\<close> and
  the release of the locks do or raise: after \<open>close\<close> of a runtime that was not closed the queue is
  stopped and the transport down, and no sequence of operations on the runtime, \<open>open\<close> and
  \<open>recover_after_disconnect\<close> included, calls \<open>order_stock\<close> any more.  If the locks of the operating system
  can be released without an exception, the runtime is marked as closed as well and the session id and
  the lock of the path are given back.
\<close>

theorem close_is_final:
  assumes "\<not> rt_closed s" and "\<not> rt_closed t"
  shows "(let p = exclusive_port su bound; s' = snd (runtime_close su bound p s)
      in shut_down (rt_world p s') \<and> rt_orders p (run_runtime su bound p opers s') = rt_orders p s'
         \<and> (releasable_locks su \<longrightarrow> ended p s'))
    \<and> (let p = shared_port su sh bound; t' = snd (runtime_close su bound p t)
      in shut_down (rt_world p t') \<and> rt_orders p (run_runtime su bound p opers t') = rt_orders p t'
         \<and> (releasable_locks su \<longrightarrow> ended p t'))"
  using ep.after_close [OF assms(1)] sp.after_close [OF assms(2)]
    ep.closed_for_good [OF _ _ assms(1)] sp.closed_for_good [OF _ _ assms(2)]
  by (simp add: Let_def releasable_locks_def)

theorem close_is_final_witness:
  "(let s' = snd (runtime_close (example_setup (PyInt 0) (\<lambda>_. [])) example_account example_port example_runtime)
    in ended example_port s' \<and> rt_orders example_port (run_runtime (example_setup (PyInt 0) (\<lambda>_. [])) example_account
         example_port [R_Open, R_Recover PyNone, R_Submit example_request] s') = rt_orders example_port s')
   \<and> ended example_shared_port (snd (runtime_close (example_setup (PyInt 0) (\<lambda>_. [])) example_account
       example_shared_port example_shared_runtime))"
proof -
  have locks: "releasable_locks (example_setup (PyInt 0) (\<lambda>_. []))"
    by (simp add: releasable_locks_def example_setup_def quiet_mutex_releasable)
  have "\<not> rt_closed example_runtime" "\<not> rt_closed example_shared_runtime"
    by (simp_all add: example_runtime_def example_shared_runtime_def)
  note closed = close_is_final [OF this, unfolded Let_def]
  show ?thesis unfolding Let_def
    using locks closed by blast
qed

end
