(* ===== verification/Qmt_Connect.thy ===== *)
theory Qmt_Connect
  imports Runtime_Safety Account_Authority
begin

text \<open>
  \<open>MiniQmtRuntime.connect\<close> of \<open>miniqmt/runtime.py\<close>: first the checks, the account binding and the
  certified coordination database; then the lock, the queue, the trader, the account and the session,
  with the clean-up when any of them raises.
\<close>

section \<open>The root of the authorities\<close>

text \<open>
  \<open>default_authority_root\<close> of \<open>authority.py\<close>.  On Windows, \<open>known_folder\<close> is the call of
  \<open>SHGetKnownFolderPath\<close> with its result code and the path, and \<open>free_path\<close> the release of the path
  when there is one; elsewhere \<open>lookup\<close> reads the user database.  \<open>join\<close> joins the parts of a path.
\<close>

definition windows_known_folder_local_appdata ::
  "('v, int \<times> string) pyact \<Rightarrow> ('v, unit) pyact \<Rightarrow> ('v, string) pyact" where
  "windows_known_folder_local_appdata known_folder free_path =
     (let failed = Exn RuntimeAuthorityError
        (''Windows Known Folder lookup failed (FOLDERID_LocalAppData); cannot resolve a canonical authority root'')
      in
      finallyM
        (tryM
          (bindM known_folder (\<lambda>(hr, path). if hr \<noteq> 0 \<or> path = [] then raiseM failed else returnM path))
          (\<lambda>e. if isinstance_exn e RuntimeAuthorityError then Some (raiseM e)
               else if isinstance_exn e PyException then Some (raiseM failed) else None))
        (tryM free_path (\<lambda>e. if isinstance_exn e PyException then Some (returnM ()) else None)))"

definition posix_user_home :: "('v, string) pyact \<Rightarrow> ('v, string) pyact" where
  "posix_user_home lookup =
     bindM (tryM lookup (\<lambda>e. if isinstance_exn e PyException then Some (raiseM (Exn RuntimeAuthorityError
         ''POSIX user-database home lookup failed; cannot resolve a canonical authority root'')) else None)) (\<lambda>home.
     bindM (raiseM_if (home = []) (Exn RuntimeAuthorityError
       ''POSIX user-database home is empty; cannot resolve a canonical authority root'')) (\<lambda>_.
     returnM home))"

definition default_authority_root ::
  "(string \<Rightarrow> string list \<Rightarrow> string) \<Rightarrow> bool \<Rightarrow> ('v, int \<times> string) pyact \<Rightarrow> ('v, unit) pyact \<Rightarrow> ('v, string) pyact
    \<Rightarrow> ('v, string) pyact" where
  "default_authority_root join windows known_folder free_path lookup =
     (if windows then
        bindM (windows_known_folder_local_appdata known_folder free_path) (\<lambda>folder.
        returnM (join folder [''qmt-execution-core'', ''authority'']))
      else
        bindM (posix_user_home lookup) (\<lambda>home.
        returnM (join home [''.local'', ''share'', ''qmt-execution-core'', ''authority''])))"

text \<open>The lock file of a path of the library, below the directory for temporary files.\<close>

definition runtime_mutex_path ::
  "(string \<Rightarrow> string list \<Rightarrow> string) \<Rightarrow> (string \<Rightarrow> string) \<Rightarrow> (string \<Rightarrow> string) \<Rightarrow> string \<Rightarrow> string \<Rightarrow> string" where
  "runtime_mutex_path join sha canonical temporary qmt_path =
     join temporary [''qmt-execution-core'', ''qmt-runtime-'' @ qmt_path_fingerprint sha canonical qmt_path @ ''.lock'']"

section \<open>Before anything is acquired\<close>

text \<open>
  \<open>dependencies\<close> is \<open>None\<close> when the caller gave the four objects of the library, otherwise whether the
  imports succeed; \<open>default_root\<close> is \<open>None\<close> when the caller gave an authority, otherwise
  \<open>default_authority_root\<close>; \<open>authority_store\<close> is the store on this root.
\<close>

record 'v connect_env =
  resolve_qmt_path :: "string \<Rightarrow> ('v, string) pyact"
  is_dir :: "string \<Rightarrow> ('v, bool) pyact"
  dependencies :: "('v, bool) pyact option"
  xtconstant :: py_object
  read_binding :: "('v, json_text) pyact"
  canonical_path :: "string \<Rightarrow> string"
  default_root :: "('v, string) pyact option"
  authority_store :: "'v authority_env"
  authority_fuel :: nat
  coordinator_given :: bool

text \<open>What the first part computes.\<close>

record connect_plan =
  cp_binding :: QmtAccountBinding
  cp_account_key :: string
  cp_security_account :: int
  cp_status_ok :: int
  cp_fix_price :: int
  cp_coordinated :: bool
  cp_gate :: gate

definition exact_int_attr :: "py_object \<Rightarrow> string \<Rightarrow> int pyres" where
  "exact_int_attr obj name =
     (case getattr_default obj name PyNone of
        PyInt n \<Rightarrow> Inr n
      | _ \<Rightarrow> Inl (Exn RuntimeConfigurationError (''xtconstant.'' @ name @ '' must be a plain int'')))"

definition real_xtquant_dependencies :: "('v, bool) pyact \<Rightarrow> ('v, unit) pyact" where
  "real_xtquant_dependencies imports =
     bindM imports (\<lambda>found. raiseM_if (\<not> found)
       (Exn RuntimeConfigurationError ''xtquant is not installed; MiniQmtRuntime requires the MiniQMT environment''))"

text \<open>The coordinator of the production shared mode: the authority only verifies.\<close>

definition certified_coordinator ::
  "'v connect_env \<Rightarrow> QmtAccountBinding \<Rightarrow> string \<Rightarrow> ('v, unit) authority_act" where
  "certified_coordinator ce b key =
     bindM (case default_root ce of None \<Rightarrow> returnM () | Some m \<Rightarrow> bindM (on_aworld m) (\<lambda>_. returnM ())) (\<lambda>_.
     bindM (tryM
         (resolve_authority (authority_store ce) (authority_fuel ce)
            \<lparr>rq_account_key = PyStr key, rq_environment = PyStr (qb_environment b),
             rq_account_type = PyInt (qb_account_type b), rq_account_id_sha256 = PyStr (qb_account_id_sha256 b),
             rq_coordination_db_path = PyNone, rq_bootstrap = False\<rparr>)
         (\<lambda>e. if isinstance_exn e RuntimeAuthorityError
              then Some (raiseM (Exn RuntimeConfigurationError
                (''shared runtime requires an initialized account Runtime Authority (missing, corrupt, or identity-mismatched); ''
                 @ ''run the explicit operator bootstrap (`qmt-execution-core bootstrap-authority`) before starting strategy runtimes'')))
              else None)) (\<lambda>a.
     bindM (on_aworld (resolve_path (authority_store ce) (PyStr (aa_coordination_db_path a)))) (\<lambda>db.
     bindM (liftR (mk_CoordinationDbIdentity 1 (aa_account_key a) (aa_coordination_db_uuid a) (aa_authority_id a))) (\<lambda>identity.
     on_database db (initialize (authority_db (authority_store ce) db) (Some identity))))))"

text \<open>
  The configuration is well formed when it was constructed; with a shared lock mode a coordinator is
  there after this part, so that the test for a missing one cannot fail.
\<close>

definition connect_checks ::
  "'v connect_env \<Rightarrow> MiniQmtRuntimeConfig \<Rightarrow> ('v authority_state, connect_plan) pyact" where
  "connect_checks ce cfg =
     bindM (on_aworld (resolve_qmt_path ce (rc_qmt_path cfg))) (\<lambda>path.
     bindM (on_aworld (is_dir ce path)) (\<lambda>dir.
     bindM (raiseM_if (\<not> dir)
       (Exn RuntimeConfigurationError (''QMT userdata path does not exist: '' @ path))) (\<lambda>_.
     bindM (case dependencies ce of None \<Rightarrow> returnM () | Some imports \<Rightarrow> on_aworld (real_xtquant_dependencies imports)) (\<lambda>_.
     bindM (liftR (exact_int_attr (xtconstant ce) ''SECURITY_ACCOUNT'')) (\<lambda>security.
     bindM (liftR (exact_int_attr (xtconstant ce) ''ACCOUNT_STATUS_OK'')) (\<lambda>status_ok.
     bindM (liftR (exact_int_attr (xtconstant ce) ''FIX_PRICE'')) (\<lambda>fix_price.
     bindM (on_aworld (load_account_binding (hash256 (authority_store ce)) (canonical_path ce)
       (repr_of (authority_store ce)) (read_binding ce) (rc_environment cfg) path)) (\<lambda>b.
     bindM (liftR (account_key_from_binding_identity (hash256 (authority_store ce)) (repr_of (authority_store ce))
       (PyStr (qb_environment b)) (PyInt (qb_account_type b)) (PyStr (qb_account_id_sha256 b)))) (\<lambda>key.
     let production = (\<not> coordinator_given ce \<and> rc_runtime_lock_mode cfg = ''shared'') in
     bindM (if production then certified_coordinator ce b key else returnM ()) (\<lambda>_.
     bindM (liftR (gate_config_of cfg)) (\<lambda>gc.
     returnM \<lparr>cp_binding = b, cp_account_key = key, cp_security_account = security, cp_status_ok = status_ok,
       cp_fix_price = fix_price, cp_coordinated = (coordinator_given ce \<or> production), cp_gate = new_gate gc\<rparr>)))))))))))"

section \<open>The acquisitions\<close>

text \<open>
  The local variables of \<open>connect\<close>: the lease and the trader of the current attempt, which belong to
  the runtime (\<open>session_id_lease\<close>, \<open>trader\<close>) once \<open>cn_kept\<close> holds; and whether the queue has a thread
  that could not be started.
\<close>

record 'v connecting =
  cn_runtime :: "'v rworld runtime_state"
  cn_trader :: bool
  cn_kept :: bool
  cn_unstarted :: bool

text \<open>There is no session yet.\<close>

definition bare_port :: "('v, 'v rworld) session_port" where
  "bare_port =
     (let none = (\<lambda>n. raiseM (Exn AttributeError n)) in
      \<lparr>port_get = (\<lambda>w. w), port_put = (\<lambda>w _. w), port_open = none ''open'', port_submit = (\<lambda>_. none ''submit''),
       port_poll = none ''poll'', port_cancel = none ''cancel'', port_next_cycle = none ''next_cycle'',
       port_reconcile = none ''reconcile'', port_close = raiseM (Exn AttributeError ''close'')\<rparr>)"

definition on_runtime :: "('v rworld runtime_state, 'a) pyact \<Rightarrow> ('v connecting, 'a) pyact" where
  "on_runtime m = (\<lambda>c. case m (cn_runtime c) of (r, s) \<Rightarrow> (r, c\<lparr>cn_runtime := s\<rparr>))"

definition on_rworld :: "('v rworld, 'a) pyact \<Rightarrow> ('v connecting, 'a) pyact" where
  "on_rworld m = on_runtime (on_session m)"

definition acquire_runtime_mutex :: "'v runtime_setup \<Rightarrow> nat \<Rightarrow> ('v rworld runtime_state, unit) pyact" where
  "acquire_runtime_mutex su fuel s =
     (case acquire (runtime_mutex_env su (rt_path_mutex su)) fuel \<lparr>mx_world = rt_session s, mx_owned = False\<rparr> of
        (r, ms) \<Rightarrow> (r, s\<lparr>rt_session := mx_world ms, rt_mutex := Some (mx_owned ms)\<rparr>))"

definition start_queue :: "bool \<Rightarrow> ('v connecting, unit) pyact" where
  "start_queue thread_starts c =
     (let w = rt_session (cn_runtime c); q = hub_queue (broker_world w) in
      case queue_start thread_starts q of
        (r, q') \<Rightarrow>
          (r, c\<lparr>cn_runtime := (cn_runtime c)\<lparr>rt_session := w\<lparr>broker_world := (broker_world w)\<lparr>hub_queue := q'\<rparr>\<rparr>\<rparr>,
                cn_unstarted := (q_state q = Q_NEW \<and> \<not> thread_starts)\<rparr>))"

definition acquire_session_id :: "'v runtime_setup \<Rightarrow> nat \<Rightarrow> int \<Rightarrow> ('v rworld runtime_state, unit) pyact" where
  "acquire_session_id su fuel i s =
     (case acquire_exact (\<lambda>i. runtime_mutex_env su (rt_id_mutex su i)) fuel i (rt_session s) of
        (Inl e, w) \<Rightarrow> (Inl e, s\<lparr>rt_session := w\<rparr>)
      | (Inr l, w) \<Rightarrow> (Inr (), s\<lparr>rt_session := w, rt_lease := Some (l, True)\<rparr>))"

definition connect_trader :: "'v runtime_setup \<Rightarrow> int \<Rightarrow> ('v connecting, unit) pyact" where
  "connect_trader su i =
     bindM (on_rworld (external su (make_trader (rt_library su) i))) (\<lambda>_.
     bindM (modifyM (\<lambda>c. c\<lparr>cn_trader := True\<rparr>)) (\<lambda>_.
     bindM (case register_callback (rt_library su) of
              None \<Rightarrow> raiseM (Exn RuntimeConfigurationError ''XtQuant trader has no register_callback'')
            | Some m \<Rightarrow> on_rworld (external su m)) (\<lambda>_.
     bindM (on_rworld (external su (trader_start (rt_library su)))) (\<lambda>_.
     bindM (on_rworld (external su (trader_connect (rt_library su)))) (\<lambda>result.
     liftR (require_exact_zero result ''trader.connect''))))))"

text \<open>One round of the loop over the session ids, and its \<open>except\<close> clause.\<close>

definition attempt_session_id :: "'v runtime_setup \<Rightarrow> nat \<Rightarrow> int \<Rightarrow> ('v connecting, unit) pyact" where
  "attempt_session_id su fuel i =
     bindM (modifyM (\<lambda>c. c\<lparr>cn_trader := False, cn_runtime := (cn_runtime c)\<lparr>rt_lease := None\<rparr>\<rparr>)) (\<lambda>_.
     bindM (on_runtime (acquire_session_id su fuel i)) (\<lambda>_.
     connect_trader su i))"

definition drop_attempt :: "'v runtime_setup \<Rightarrow> ('v connecting, unit) pyact" where
  "drop_attempt su =
     bindM (getM cn_trader) (\<lambda>made.
     bindM (if made then on_rworld (best_effort_stop su) else returnM ()) (\<lambda>_.
     on_runtime (release_lease su bare_port)))"

primrec try_session_ids :: "'v runtime_setup \<Rightarrow> nat \<Rightarrow> int list \<Rightarrow> ('v connecting, unit) pyact" where
  "try_session_ids su fuel [] = returnM ()"
| "try_session_ids su fuel (i # ids) =
     try_elseM (attempt_session_id su fuel i)
       (\<lambda>e. if isinstance_exn e PyException then Some
              (bindM (drop_attempt su) (\<lambda>_.
               if rc_session_id (rt_config su) \<noteq> None then raiseM e else try_session_ids su fuel ids))
            else None)
       (\<lambda>_. modifyM (\<lambda>c. c\<lparr>cn_kept := True\<rparr>))"

definition shared_trader :: "'v runtime_setup \<Rightarrow> nat \<Rightarrow> (string \<Rightarrow> nat) \<Rightarrow> ('v connecting, unit) pyact" where
  "shared_trader su fuel seed =
     (let cfg = rt_config su in
      bindM (liftR (allocator_of cfg)) (\<lambda>a.
      bindM (liftR (case rc_session_id cfg of
               Some i \<Rightarrow> Inr [i]
             | None \<Rightarrow> candidate_ids seed a (PyStr (rc_environment cfg @ ''|'' @ rc_strategy_name cfg)))) (\<lambda>ids.
      bindM (try_session_ids su fuel ids) (\<lambda>_.
      bindM (getM cn_kept) (\<lambda>kept.
      raiseM_if (\<not> kept)
        (Exn SessionIdUnavailable ''shared runtime exhausted bounded session-id attempts''))))))"

text \<open>\<open>random\<close> is the number of \<open>secrets\<close>; a session id of the configuration is positive.\<close>

definition exclusive_trader :: "'v runtime_setup \<Rightarrow> int \<Rightarrow> ('v connecting, unit) pyact" where
  "exclusive_trader su random =
     connect_trader su (case rc_session_id (rt_config su) of Some i \<Rightarrow> i | None \<Rightarrow> random + 100000000)"

definition is_shared :: "'v runtime_setup \<Rightarrow> bool" where
  "is_shared su \<longleftrightarrow> rc_runtime_lock_mode (rt_config su) = ''shared''"

definition connect_account ::
  "'v runtime_setup \<Rightarrow> connect_plan \<Rightarrow> py_object \<Rightarrow> nat \<Rightarrow> bool \<Rightarrow> (string \<Rightarrow> nat) \<Rightarrow> int
    \<Rightarrow> ('v connecting, BoundQmtAccount \<times> QmtOrderConfig) pyact" where
  "connect_account su plan constants fuel thread_starts seed random =
     bindM (if rc_runtime_lock_mode (rt_config su) = ''exclusive''
            then on_runtime (acquire_runtime_mutex su fuel) else returnM ()) (\<lambda>_.
     bindM (start_queue thread_starts) (\<lambda>_.
     bindM (if is_shared su then shared_trader su fuel seed else exclusive_trader su random) (\<lambda>_.
     bindM (on_rworld (call su (set_transport True))) (\<lambda>_.
     bindM (on_rworld (select_bound_account (runtime_account_env su) (cp_binding plan)
       (PyInt (cp_security_account plan)) (PyInt (cp_status_ok plan)) (PyInt (rc_query_attempts (rt_config su))))) (\<lambda>bound.
     bindM (on_rworld (external su (trader_subscribe (rt_library su) (bound_account bound)))) (\<lambda>result.
     bindM (liftR (require_exact_zero result ''trader.subscribe'')) (\<lambda>_.
     bindM (on_rworld (call su (set_account True))) (\<lambda>_.
     bindM (liftR (config_from_xtconstant constants (PyInt (cp_fix_price plan)))) (\<lambda>order_cfg.
     bindM (liftR (check_adapter (PyStr (rc_strategy_name (rt_config su))) (PyInt (rc_query_attempts (rt_config su)))
       (PyBool True) (PyBool False))) (\<lambda>_.
     bindM (on_rworld (modifyM (\<lambda>w. w\<lparr>transport_connected := True, recovery_ready := False\<rparr>))) (\<lambda>_.
     bindM (if cp_coordinated plan
            then liftR (check_session_names (PyStr (cp_account_key plan)) (PyStr (rc_strategy_name (rt_config su))))
            else returnM ()) (\<lambda>_.
     bindM (on_rworld (on_broker (modifyM (\<lambda>h. h\<lparr>hub_runtime := Some (bound_account_id bound)\<rparr>)))) (\<lambda>_.
     returnM (bound, order_cfg))))))))))))))"

section \<open>The clean-up and the whole\<close>

definition connect_cleanup :: "'v runtime_setup \<Rightarrow> ('v connecting, unit) pyact" where
  "connect_cleanup su =
     bindM (on_rworld (call su (stop_queue su))) (\<lambda>_.
     bindM (getM cn_unstarted) (\<lambda>unstarted.
     bindM (raiseM_if unstarted (Exn RuntimeError ''cannot join thread before it is started'')) (\<lambda>_.
     bindM (getM (\<lambda>c. cn_trader c \<and> (cn_kept c \<or> \<not> is_shared su))) (\<lambda>has_trader.
     bindM (if has_trader then on_rworld (best_effort_stop su) else returnM ()) (\<lambda>_.
     bindM (getM cn_kept) (\<lambda>kept.
     bindM (if kept then on_runtime (release_lease su bare_port) else returnM ()) (\<lambda>_.
     on_runtime (release_runtime_mutex su bare_port))))))))"

text \<open>The runtime object on the session that \<open>start\<close> creates.\<close>

definition new_runtime :: "('v rworld \<Rightarrow> 's) \<Rightarrow> 'v connecting \<Rightarrow> 's runtime_state" where
  "new_runtime start c =
     \<lparr>rt_session = start (rt_session (cn_runtime c)), rt_closed = False, rt_lease = rt_lease (cn_runtime c),
      rt_mutex = rt_mutex (cn_runtime c)\<rparr>"

definition without_session :: "('v, 's) session_port \<Rightarrow> 's runtime_state \<Rightarrow> 'v connecting \<Rightarrow> 'v connecting" where
  "without_session p s c =
     c\<lparr>cn_runtime := \<lparr>rt_session = rt_world p s, rt_closed = rt_closed s, rt_lease = rt_lease s, rt_mutex = rt_mutex s\<rparr>\<rparr>"

definition clean_and_raise ::
  "'v runtime_setup \<Rightarrow> exn \<Rightarrow> 'v connecting \<Rightarrow> 'a pyres \<times> 'v connecting" where
  "clean_and_raise su e c =
     (if isinstance_exn e PyException
      then (case connect_cleanup su c of (Inl e', c') \<Rightarrow> (Inl e', c') | (Inr _, c') \<Rightarrow> (Inl e, c'))
      else (Inl e, c))"

text \<open>
  The result is the runtime with the setup of its adapter; the second component is what there is
  afterwards, without the session.  \<open>p\<close> is the port of the session for the setup.
\<close>

definition runtime_connect ::
  "('v runtime_setup \<Rightarrow> BoundQmtAccount \<Rightarrow> ('v, 's) session_port) \<Rightarrow> ('v rworld \<Rightarrow> 's) \<Rightarrow> bool
    \<Rightarrow> 'v runtime_setup \<Rightarrow> connect_plan \<Rightarrow> py_object \<Rightarrow> nat \<Rightarrow> bool \<Rightarrow> (string \<Rightarrow> nat) \<Rightarrow> int
    \<Rightarrow> 'v connecting \<Rightarrow> ('v runtime_setup \<times> BoundQmtAccount \<times> 's runtime_state) pyres \<times> 'v connecting" where
  "runtime_connect p start auto_open su plan constants fuel thread_starts seed random c =
     (case connect_account su plan constants fuel thread_starts seed random c of
        (Inl e, c1) \<Rightarrow> clean_and_raise su e c1
      | (Inr (bound, order_cfg), c1) \<Rightarrow>
          (let su' = su\<lparr>rt_order_config := order_cfg\<rparr>; port = p su' bound in
           if \<not> auto_open then (Inr (su', bound, new_runtime start c1), c1)
           else case runtime_open su' bound port (new_runtime start c1) of
             (Inr _, s) \<Rightarrow> (Inr (su', bound, s), without_session port s c1)
           | (Inl e, s) \<Rightarrow>
               if \<not> isinstance_exn e PyException then (Inl e, without_session port s c1)
               else case tryM (on_session (port_close port))
                   (\<lambda>e'. if isinstance_exn e' PyException then Some (returnM ()) else None) s of
                 (Inl e', s') \<Rightarrow> (Inl e', without_session port s' c1)
               | (Inr _, s') \<Rightarrow> clean_and_raise su e (without_session port s' c1)))"

text \<open>The setup that \<open>connect_checks\<close> leads to, and the state when the acquisitions begin.\<close>

definition setup_of_plan :: "'v runtime_setup \<Rightarrow> connect_plan \<Rightarrow> 'v runtime_setup" where
  "setup_of_plan su plan =
     su\<lparr>security_account_type := cp_security_account plan, account_status_ok := cp_status_ok plan\<rparr>"

definition connecting_start :: "connect_plan \<Rightarrow> 'v \<Rightarrow> 'v connecting" where
  "connecting_start plan w =
     \<lparr>cn_runtime =
        \<lparr>rt_session = new_adapter
           \<lparr>outer = w, hub_queue = new_event_queue, signal_transport = False, signal_account = False,
            hub_gate = cp_gate plan, hub_runtime = None, orders_sent = []\<rparr> False False,
         rt_closed = False, rt_lease = None, rt_mutex = None\<rparr>,
      cn_trader = False, cn_kept = False, cn_unstarted = False\<rparr>"

end
