(* ===== verification/Connect_Properties.thy ===== *)
theory Connect_Properties
  imports Qmt_Connect Runtime_Properties Authority_Properties
begin

text \<open>
  A \<open>connect\<close> that raises gives everything back, and a runtime in the live environment starts with its
  gate closed.
\<close>

section \<open>The leases during the acquisitions\<close>

definition lease_free :: "'s runtime_state \<Rightarrow> bool" where
  "lease_free s \<longleftrightarrow> (\<forall>l own. rt_lease s = Some (l, own) \<longrightarrow> released l)"



















text \<open>The thread of the queue could not be started: \<open>connect\<close> raised before it took a session id.\<close>

definition stranded :: "'v connecting \<Rightarrow> bool" where
  "stranded c \<longleftrightarrow> cn_unstarted c \<and> lease_free (cn_runtime c)"





section \<open>The clean-up\<close>

definition queue_down :: "'v connecting \<Rightarrow> bool" where
  "queue_down c \<longleftrightarrow> \<not> queue_healthy (hub_queue (broker_world (rt_session (cn_runtime c))))"


definition same_outside :: "'v connecting \<Rightarrow> 'v connecting \<Rightarrow> bool" where
  "same_outside c c' \<longleftrightarrow> rt_lease (cn_runtime c') = rt_lease (cn_runtime c) \<and> cn_kept c' = cn_kept c
     \<and> cn_unstarted c' = cn_unstarted c \<and> cn_trader c' = cn_trader c
     \<and> rt_mutex (cn_runtime c') = rt_mutex (cn_runtime c)"

lemma on_rworld_run:
  "on_rworld m c = (case m (rt_session (cn_runtime c)) of
     (r, w) \<Rightarrow> (r, c\<lparr>cn_runtime := (cn_runtime c)\<lparr>rt_session := w\<rparr>\<rparr>))"
  by (simp add: on_rworld_def on_runtime_def on_session_def split: prod.split)

lemma silent_healthy: "silent w w' \<Longrightarrow> queue_healthy (hub_queue (broker_world w')) \<Longrightarrow> queue_healthy (hub_queue (broker_world w))"
  by (auto simp: silent_def lowered_def)

lemma stop_step: "\<exists>c1. on_rworld (call su (stop_queue su)) c = (Inr (), c1) \<and> queue_down c1 \<and> same_outside c c1"
proof -
  let ?w = "rt_session (cn_runtime c)"
  define w1 where "w1 = ?w\<lparr>broker_world := (broker_world ?w)\<lparr>hub_queue :=
      queue_stop (nat (rc_event_queue_size (rt_config su))) (hub_queue (broker_world ?w))\<rparr>\<rparr>"
  have stopped: "stop_queue su ?w = (Inr (), w1)"
    by (simp add: stop_queue_def on_broker_def modifyM_def w1_def)
  have "\<not> queue_healthy (hub_queue (broker_world w1))"
    by (auto simp: w1_def queue_healthy_def queue_stop_def stop_check_def stop_put_def Let_def)
  then have "\<not> queue_healthy (hub_queue (broker_world (deliver su w1)))"
    using silent_healthy [OF silent_deliver] by blast
  with stopped show ?thesis
    by (simp add: on_rworld_run call_def queue_down_def same_outside_def)
qed





text \<open>
  With a thread that was never started, \<open>join\<close> raises: the queue is stopped and there is no session id,
  but the lock of the path is not released.
\<close>

definition half_cleaned :: "'v connecting \<Rightarrow> bool" where
  "half_cleaned c \<longleftrightarrow> queue_down c \<and> lease_free (cn_runtime c) \<and> cn_unstarted c"

lemma connect_cleanup_stranded:
  assumes "stranded c"
  shows "\<exists>c'. connect_cleanup su c = (Inl (Exn RuntimeError ''cannot join thread before it is started''), c')
    \<and> half_cleaned c' \<and> rt_mutex (cn_runtime c') = rt_mutex (cn_runtime c)"
proof -
  obtain c1 where "on_rworld (call su (stop_queue su)) c = (Inr (), c1)" "queue_down c1" "same_outside c c1"
    using stop_step by blast
  then show ?thesis using assms
    by (auto simp: connect_cleanup_def bindM_def getM_def raiseM_if_def raiseM_def stranded_def half_cleaned_def
        same_outside_def lease_free_def)
qed










section \<open>The gate of a new runtime\<close>

text \<open>A step that does not open the gate, and that sends nothing while the gate is closed.\<close>

definition gate_step :: "'v rworld \<Rightarrow> 'v rworld \<Rightarrow> bool" where
  "gate_step w w' \<longleftrightarrow>
     gate_lowered (hub_gate (broker_world w)) (hub_gate (broker_world w'))
     \<and> (\<not> execution_allowed (hub_gate (broker_world w)) \<longrightarrow> orders_sent (broker_world w') = orders_sent (broker_world w))"

interpretation gs: step_preorder gate_step
proof
  show "gate_step w w" for w by (simp add: gate_step_def gate_lowered_def)
  show "gate_step u w" if uv: "gate_step u v" and vw: "gate_step v w" for u v w
  proof -
    have "execution_allowed (hub_gate (broker_world u))" if "execution_allowed (hub_gate (broker_world v))"
      using uv that gate_lowered_allowed by (auto simp: gate_step_def)
    then show ?thesis using uv vw by (auto simp: gate_step_def gate_lowered_def)
  qed
qed

lemma quiet_gate_step: "quiet w w' \<Longrightarrow> gate_step w w'"
  by (auto simp: quiet_def lowered_def gate_step_def can_trade_def)

lemma keeps_gate_step: "keeps quiet m \<Longrightarrow> keeps gate_step m"
  unfolding keeps_def by (blast intro: quiet_gate_step)

lemmas silent_gate_step = keeps_gate_step [OF keeps_silent_quiet]

lemma gate_step_call: "keeps gate_step m \<Longrightarrow> keeps gate_step (call su m)"
  by (rule keeps_call, assumption) (rule gs.R_trans [OF _ quiet_gate_step [OF silent_quiet [OF silent_deliver]]])

lemma gate_step_flags:
  "keeps gate_step (set_transport b)" "keeps gate_step (set_account b)" "keeps gate_step mark_transport_connected"
  "keeps gate_step mark_recovery_complete"
  "keeps gate_step (on_broker (modifyM (\<lambda>h. h\<lparr>hub_runtime := x\<rparr>)))"
  "keeps gate_step (modifyM (\<lambda>w. w\<lparr>transport_connected := b, recovery_ready := b'\<rparr>))"
  by (auto simp: keeps_def gate_step_def gate_lowered_def set_transport_def set_account_def on_broker_def modifyM_def
      mark_transport_connected_def mark_recovery_complete_def bindM_def getM_def raiseM_if_def raiseM_def returnM_def)

lemma external_rt_base: "external (su\<lparr>rt_base := b\<rparr>) = external su"
proof -
  have "observe (su\<lparr>rt_base := b\<rparr>) = observe su" "handle_account_status (su\<lparr>rt_base := b\<rparr>) = handle_account_status su"
    by (simp_all add: fun_eq_iff observe_def handle_account_status_def)
  then have "handle_callback (su\<lparr>rt_base := b\<rparr>) e = handle_callback su e" for e
    by (simp only: handle_callback_def)
  then have "consume (su\<lparr>rt_base := b\<rparr>) e s = consume su e s" for e s by (simp only: consume_def)
  then have "receive (su\<lparr>rt_base := b\<rparr>) a s = receive su a s" for a s by (simp only: receive_def)
  then show ?thesis by (simp add: fun_eq_iff external_def call_def deliver_def)
qed

lemma acquire_quiet: "keeps (lifted_mx quiet) (acquire (runtime_mutex_env su m) n)"
proof -
  let ?su = "su\<lparr>rt_base := (rt_base su)\<lparr>mutex := m\<rparr>\<rparr>"
  have "keeps (lifted_mx quiet) (acquire (mutex (runtime_session_env ?su undefined)) n)" by (rule ex.lifted_acquire)
  moreover have "mutex (runtime_session_env ?su undefined) = runtime_mutex_env su m"
    by (simp add: runtime_session_env_def Let_def runtime_mutex_env_def external_rt_base)
  ultimately show ?thesis by simp
qed

definition gate_step_c :: "'v connecting \<Rightarrow> 'v connecting \<Rightarrow> bool" where
  "gate_step_c c c' \<longleftrightarrow> gate_step (rt_session (cn_runtime c)) (rt_session (cn_runtime c'))"

interpretation gc: step_preorder gate_step_c
  unfolding gate_step_c_def by unfold_locales (rule gs.R_refl, rule gs.R_trans)

lemma gate_on_rworld: "keeps gate_step m \<Longrightarrow> keeps gate_step_c (on_rworld m)"
  by (auto simp: keeps_def gate_step_c_def on_rworld_run split: prod.splits)

lemma gate_acquisitions:
  "keeps gate_step_c (on_runtime (acquire_runtime_mutex su fuel))"
  "keeps gate_step_c (on_runtime (acquire_session_id su fuel i))"
  "keeps gate_step_c (on_runtime (release_lease su bare_port))"
  "keeps gate_step_c (start_queue ts)"
proof -
  have acquired: "gate_step w (mx_world ms)"
    if "acquire (runtime_mutex_env su m) fuel \<lparr>mx_world = w, mx_owned = own\<rparr> = (r, ms)" for m w own r ms
    using keepsD [OF acquire_quiet that] by (simp add: lifted_mx_def quiet_gate_step)
  show "keeps gate_step_c (on_runtime (acquire_runtime_mutex su fuel))"
    by (auto simp: keeps_def gate_step_c_def on_runtime_def acquire_runtime_mutex_def dest: acquired split: prod.splits)
  show "keeps gate_step_c (on_runtime (acquire_session_id su fuel i))"
    by (auto simp: keeps_def gate_step_c_def on_runtime_def acquire_session_id_def acquire_exact_def gs.R_refl
        dest: acquired split: prod.splits sum.splits if_splits)
  show "keeps gate_step_c (on_runtime (release_lease su bare_port))"
    by (auto simp: keeps_def gate_step_c_def on_runtime_def release_lease_def gs.R_refl bare_port_def Let_def
        dest!: release_owned_silent intro: quiet_gate_step silent_quiet split: prod.splits option.splits if_splits)
  show "keeps gate_step_c (start_queue ts)"
    by (auto simp: keeps_def gate_step_c_def start_queue_def Let_def gate_step_def gate_lowered_def split: prod.splits)
qed

lemma gate_modify: "(\<And>c. rt_session (cn_runtime (f c)) = rt_session (cn_runtime c)) \<Longrightarrow> keeps gate_step_c (modifyM f)"
  by (rule keeps_modifyM) (simp add: gate_step_c_def gs.R_refl)

lemma gate_connect_trader: "keeps gate_step_c (connect_trader su i)"
  unfolding connect_trader_def
  by (intro gc.keeps_bindM gate_on_rworld silent_gate_step silent_external gate_modify gc.keeps_liftR)
    (auto intro: gc.keeps_raiseM gate_on_rworld silent_gate_step silent_external split: option.split)

lemma gate_try_ids: "keeps gate_step_c (try_session_ids su fuel ids)"
proof (induction ids)
  case Nil
  then show ?case by (simp add: gc.keeps_returnM)
next
  case (Cons i ids)
  have "keeps gate_step_c (attempt_session_id su fuel i)"
    unfolding attempt_session_id_def by (intro gc.keeps_bindM gate_modify gate_acquisitions gate_connect_trader) simp
  moreover have "keeps gate_step_c (drop_attempt su)"
    unfolding drop_attempt_def
    by (intro gc.keeps_bindM gc.keeps_getM gc.keeps_if gate_on_rworld silent_gate_step silent_best_effort_stop
        gc.keeps_returnM gate_acquisitions)
  moreover have "keeps gate_step_c (modifyM (\<lambda>c. c\<lparr>cn_kept := True\<rparr>))" by (rule gate_modify) simp
  ultimately show ?case unfolding try_session_ids.simps
    by (auto intro!: gc.keeps_try_elseM gc.keeps_bindM gc.keeps_raiseM Cons split: if_splits)
qed

lemma silent_select: "keeps silent (select_bound_account (runtime_account_env su) b t ok tries)"
  unfolding select_bound_account_def
  by (auto intro!: sl.keeps_bindM sl.keeps_raiseM_if sl.keeps_liftR sl.keeps_raiseM sl.keeps_returnM
      silent_strict_non_none simp: runtime_account_env_def Let_def silent_external
      split: query_value.split list.split)

lemma gate_connect_account: "keeps gate_step_c (connect_account su plan constants fuel ts seed random)"
  unfolding connect_account_def shared_trader_def exclusive_trader_def Let_def
  by (auto intro!: gc.keeps_bindM gc.keeps_liftR gc.keeps_raiseM_if gc.keeps_returnM gc.keeps_getM gate_acquisitions
      gate_connect_trader gate_try_ids gate_on_rworld gate_step_call [OF gate_step_flags(1)]
      gate_step_call [OF gate_step_flags(2)] gate_step_flags(5,6) silent_gate_step [OF silent_external]
      silent_gate_step [OF silent_select])


text \<open>The operations that can open the gate.\<close>

fun opens_gate :: "runtime_op \<Rightarrow> bool" where
  "opens_gate (R_Confirm _) = True"
| "opens_gate (R_Recover _) = True"
| "opens_gate _ = False"

interpretation og: step_preorder "over p gate_step" for p
  by (rule step_preorder_over) (rule gs.step_preorder_axioms)

lemma over_quiet_gate: "keeps (over p quiet) m \<Longrightarrow> keeps (over p gate_step) m"
  unfolding keeps_def over_def by (blast intro: quiet_gate_step)

context runtime_session
begin

lemma gate_open: "keeps (over p gate_step) (runtime_open su bound p)"
  unfolding runtime_open_def stmt_def
  by (intro og.keeps_bindM over_quiet_gate [OF over_require_not_closed] over_quiet_gate [OF over_session [OF quiet_open]]
      over_quiet_gate [OF over_shared_silent [OF silent_verify_bound]] over_shared gate_step_call gate_step_flags
      og.keeps_returnM)

lemmas operations_gate = keeps_snd [OF gate_open] keeps_snd [OF over_quiet_gate [OF over_close]]
  over_operations [THEN over_quiet_gate, THEN keeps_snd] keeps_snd [OF over_quiet_gate [OF over_arrive]]

lemma gate_run: "list_all (\<lambda>oper. \<not> opens_gate oper) opers \<Longrightarrow> over p gate_step s (run_runtime su bound p opers s)"
proof (induction opers arbitrary: s)
  case Nil
  then show ?case by (simp add: og.R_refl)
next
  case (Cons oper opers)
  have "over p gate_step s (apply_runtime_op su bound p oper s)"
    using Cons.prems by (cases oper) (simp_all add: apply_runtime_op_def operations_gate)
  then show ?case unfolding run_runtime.simps by (rule og.R_trans) (use Cons in simp)
qed

end

lemma connected_gate:
  fixes p :: "'v runtime_setup \<Rightarrow> BoundQmtAccount \<Rightarrow> ('v, 's) session_port"
  assumes contract: "\<And>su b. runtime_session (p su b)" and started: "\<And>su b w. port_get (p su b) (start w) = w"
    and run: "runtime_connect p start auto_open su plan constants fuel ts seed random c = (Inr (su', bound, s), c')"
  shows "gate_step (rt_session (cn_runtime c)) (rt_world (p su' bound) s)"
proof -
  obtain order_cfg c1 where first: "connect_account su plan constants fuel ts seed random c = (Inr (bound, order_cfg), c1)"
    and su': "su' = su\<lparr>rt_order_config := order_cfg\<rparr>"
    and s: "s = new_runtime start c1 \<or> (\<exists>r. runtime_open su' bound (p su' bound) (new_runtime start c1) = (r, s))"
    using run
    by (auto simp: runtime_connect_def clean_and_raise_def Let_def split: prod.splits sum.splits if_splits)
  have "gate_step (rt_session (cn_runtime c)) (rt_session (cn_runtime c1))"
    using keepsD [OF gate_connect_account first] by (simp add: gate_step_c_def)
  moreover have "gate_step (rt_session (cn_runtime c1)) (rt_world (p su' bound) s)"
  proof -
    have start: "rt_world (p su' bound) (new_runtime start c1) = rt_session (cn_runtime c1)"
      by (simp add: rt_world_def new_runtime_def started)
    from s show ?thesis
    proof (elim disjE exE)
      fix r
      assume "runtime_open su' bound (p su' bound) (new_runtime start c1) = (r, s)"
      from keepsD [OF runtime_session.gate_open [OF contract] this] start show ?thesis by (simp add: over_def)
    qed (use start gs.R_refl in simp)
  qed
  ultimately show ?thesis by (rule gs.R_trans)
qed

lemma gate_config_of_environment: "gate_config_of cfg = Inr config \<Longrightarrow> environment config = rc_environment cfg"
  by (auto simp: gate_config_of_def mk_RuntimeGateConfig_def bindR_eq_Inr)

lemma checked_gate:
  "connect_checks ce cfg a = (Inr plan, a') \<Longrightarrow> \<exists>config. gate_config_of cfg = Inr config \<and> cp_gate plan = new_gate config"
  by (auto simp: connect_checks_def bindM_def liftR_def returnM_def Let_def raiseM_if_def raiseM_def
      split: prod.splits sum.splits if_splits)

lemma live_connected:
  fixes p :: "'v runtime_setup \<Rightarrow> BoundQmtAccount \<Rightarrow> ('v, 's) session_port"
  assumes contract: "\<And>su b. runtime_session (p su b)" and started: "\<And>su b w. port_get (p su b) (start w) = w"
    and checks: "connect_checks ce cfg a = (Inr plan, a')" and live: "rc_environment cfg = ''live''"
    and run: "runtime_connect p start auto_open su plan constants fuel ts seed random (connecting_start plan w)
      = (Inr (su', bound, s), c')"
    and opers: "list_all (\<lambda>oper. \<not> opens_gate oper) opers"
  shows "\<not> can_trade (rt_world (p su' bound) s)
    \<and> rt_orders (p su' bound) (run_runtime su' bound (p su' bound) opers s) = []"
proof -
  obtain config where config: "gate_config_of cfg = Inr config" "cp_gate plan = new_gate config"
    using checked_gate [OF checks] by blast
  have "\<not> execution_allowed (cp_gate plan)"
    using config gate_config_of_environment [OF config(1)] live by (simp add: execution_allowed_def new_gate_def)
  moreover have "gate_step (rt_session (cn_runtime (connecting_start plan w))) (rt_world (p su' bound) s)"
    by (rule connected_gate [OF contract started run])
  ultimately have now: "\<not> execution_allowed (hub_gate (broker_world (rt_world (p su' bound) s)))"
    "rt_orders (p su' bound) s = []"
    by (auto simp: gate_step_def connecting_start_def new_adapter_def rt_orders_def dest: gate_lowered_allowed)
  have "over (p su' bound) gate_step s (run_runtime su' bound (p su' bound) opers s)"
    by (rule runtime_session.gate_run [OF contract opers])
  with now show ?thesis by (simp add: over_def gate_step_def rt_orders_def can_trade_def)
qed


section \<open>An example\<close>

definition live_config :: MiniQmtRuntimeConfig where
  "live_config =
     example_config\<lparr>rc_environment := ''live'', rc_live_trading_enabled := True,
       rc_confirmation_token_sha256 := zero_digest\<rparr>"

definition example_connect_env :: "nat connect_env" where
  "example_connect_env =
     \<lparr>resolve_qmt_path = (\<lambda>p. returnM p), is_dir = (\<lambda>_. returnM True), dependencies = Some (returnM True),
      xtconstant = [''SECURITY_ACCOUNT'' \<mapsto> PyInt 2, ''ACCOUNT_STATUS_OK'' \<mapsto> PyInt 0, ''FIX_PRICE'' \<mapsto> PyInt 11,
        ''STOCK_BUY'' \<mapsto> PyInt 23, ''STOCK_SELL'' \<mapsto> PyInt 24],
      read_binding = returnM (JsonValue (PyDict
        [(''schema_version'', PyInt 1), (''environment'', PyStr ''live''), (''account_type'', PyInt 2),
         (''account_id_sha256'', PyStr zero_digest), (''qmt_path_sha256'', PyStr zero_digest)])),
      canonical_path = id, default_root = None,
      authority_store = example_authority_env\<lparr>hash256 := (\<lambda>_. zero_digest)\<rparr>, authority_fuel = 1,
      coordinator_given = True\<rparr>"

definition example_plan :: connect_plan where
  "example_plan =
     \<lparr>cp_binding = \<lparr>qb_environment = ''live'', qb_account_type = 2, qb_account_id_sha256 = zero_digest,
        qb_qmt_path_sha256 = zero_digest\<rparr>,
      cp_account_key = zero_digest, cp_security_account = 2, cp_status_ok = 0, cp_fix_price = 11, cp_coordinated = True,
      cp_gate = new_gate \<lparr>environment = ''live'', live_trading_enabled = True, confirmation_token_sha256 = zero_digest\<rparr>\<rparr>"

lemma example_checks: "fst (connect_checks example_connect_env live_config no_authorities) = Inr example_plan"
  by code_simp



text \<open>An account that is found, and the run of \<open>connect\<close> up to its selection.\<close>

definition live_setup :: "nat runtime_setup" where
  "live_setup =
     (example_setup (PyInt 0) (\<lambda>_. []))\<lparr>rt_config := live_config,
       rt_library := (example_library (PyInt 0) (\<lambda>_. []))
         \<lparr>query_account_infos := returnM (QList [[''account_id'' \<mapsto> PyStr ''9'', ''account_type'' \<mapsto> PyInt 2]]),
          account_sha := (\<lambda>_. zero_digest), trader_subscribe := (\<lambda>_. returnM (PyInt 0)), arrivals := (\<lambda>n. ([], n))\<rparr>\<rparr>"

lemma live_quiet: "deliver live_setup w = w"
  by (rule deliver_nothing) (simp add: live_setup_def)

lemma live_call: "call live_setup m = m"
  by (simp add: call_def live_quiet fun_eq_iff split: prod.split)

lemma live_external: "external live_setup (returnM x) = returnM x"
  by (simp add: external_def live_call on_broker_def on_outer_def returnM_def fun_eq_iff)

lemma return_steps: "bindM (returnM x) f = f x" "mx (returnM x) = returnM x" "tryM (returnM x) h = returnM x"
  "liftR (Inr x) = returnM x" "raiseM_if False e = returnM ()"
  "on_session (returnM x) = returnM x" "on_runtime (returnM x) = returnM x" "on_rworld (returnM x) = returnM x"
  by (simp_all add: bindM_def mx_def tryM_def on_session_def on_runtime_def on_rworld_def returnM_def liftR_def raiseM_if_def fun_eq_iff)

lemma live_library:
  "query_account_infos (rt_library live_setup) = returnM (QList [[''account_id'' \<mapsto> PyStr ''9'', ''account_type'' \<mapsto> PyInt 2]])"
  "query_account_status (rt_library live_setup) =
     returnM (QList [[''account_id'' \<mapsto> PyStr ''9'', ''account_type'' \<mapsto> PyInt 2, ''status'' \<mapsto> PyInt 0]])"
  "stock_account (rt_library live_setup) = (\<lambda>i. returnM (PyStr i))" "account_sha (rt_library live_setup) = (\<lambda>_. zero_digest)"
  "account_repr (rt_library live_setup) = (\<lambda>_. [])" "make_trader (rt_library live_setup) = (\<lambda>_. returnM ())"
  "register_callback (rt_library live_setup) = Some (returnM ())" "trader_start (rt_library live_setup) = returnM ()"
  "trader_connect (rt_library live_setup) = returnM (PyInt 0)"
  "trader_subscribe (rt_library live_setup) = (\<lambda>_. returnM (PyInt 0))"
  by (simp_all add: live_setup_def example_library_def)

lemma live_setup_sel: "rt_config live_setup = live_config" "rt_path_mutex live_setup = quiet_mutex"
  by (simp_all add: live_setup_def example_setup_def)

lemma live_mutex: "acquire (runtime_mutex_env live_setup quiet_mutex) 1 \<lparr>mx_world = w, mx_owned = False\<rparr>
   = (Inr (), \<lparr>mx_world = w, mx_owned = True\<rparr>)"
  by (simp add: acquire_def runtime_mutex_env_def quiet_mutex_def live_external return_steps,
      simp add: bindM_def getM_def raiseM_if_def returnM_def modifyM_def tryM_def)

lemma live_trader: "exclusive_trader live_setup 0 = modifyM (\<lambda>c. c\<lparr>cn_trader := True\<rparr>)"
proof -
  have "exclusive_trader live_setup 0
      = bindM (modifyM (\<lambda>c. c\<lparr>cn_trader := True\<rparr>)) (\<lambda>_. liftR (require_exact_zero (PyInt 0) ''trader.connect''))"
    by (simp add: exclusive_trader_def connect_trader_def live_library live_external return_steps)
  then show ?thesis
    by (simp add: require_exact_zero_def raise_if_def liftR_def fun_eq_iff bindM_def modifyM_def)
qed

lemma live_select:
  "select_bound_account (runtime_account_env live_setup) (cp_binding example_plan) (PyInt 2) (PyInt 0) (PyInt 1)
     = returnM \<lparr>bound_account_id = ''9'', bound_account_type = 2, bound_account = PyStr ''9''\<rparr>"
proof -
  have env: "query_account_infos (runtime_account_env live_setup)
      = returnM (QList [[''account_id'' \<mapsto> PyStr ''9'', ''account_type'' \<mapsto> PyInt 2]])"
    "query_account_status (runtime_account_env live_setup)
      = returnM (QList [[''account_id'' \<mapsto> PyStr ''9'', ''account_type'' \<mapsto> PyInt 2, ''status'' \<mapsto> PyInt 0]])"
    "stock_account (runtime_account_env live_setup) = (\<lambda>i. returnM (PyStr i))"
    "account_sha (runtime_account_env live_setup) = (\<lambda>_. zero_digest)"
    "account_repr (runtime_account_env live_setup) = (\<lambda>_. [])"
    by (simp_all add: runtime_account_env_def Let_def live_library live_external)
  have "candidate_account (\<lambda>_. zero_digest) (\<lambda>_. []) (cp_binding example_plan) 2
      [''account_id'' \<mapsto> PyStr ''9'', ''account_type'' \<mapsto> PyInt 2] = Inr (Some (''9'', 2))" by code_simp
  moreover have "status_matches (\<lambda>_. []) ''9'' 2 0
      [''account_id'' \<mapsto> PyStr ''9'', ''account_type'' \<mapsto> PyInt 2, ''status'' \<mapsto> PyInt 0] = Inr True" by code_simp
  moreover have "qb_account_type (cp_binding example_plan) = 2" by (simp add: example_plan_def)
  ultimately show ?thesis
    by (simp add: select_bound_account_def strict_non_none_query_def env return_steps bindR_def filterR_def map_filter_simps pos_int_def)
qed

lemma live_connects:
  "\<exists>c'. connect_account live_setup example_plan (xtconstant example_connect_env) 1 True (\<lambda>_. 0) 0 (connecting_start example_plan w)
     = (Inr (\<lparr>bound_account_id = ''9'', bound_account_type = 2, bound_account = PyStr ''9''\<rparr>,
          \<lparr>buy_order_type = 23, sell_order_type = 24, price_type = 11\<rparr>), c')"
proof -
  have mutex: "on_runtime (acquire_runtime_mutex live_setup 1) c = (Inr (), c\<lparr>cn_runtime := (cn_runtime c)\<lparr>rt_mutex := Some True\<rparr>\<rparr>)"
    for c by (simp add: on_runtime_def acquire_runtime_mutex_def live_setup_sel live_mutex del: One_nat_def)
  have orders: "config_from_xtconstant (xtconstant example_connect_env) (PyInt (cp_fix_price example_plan))
      = Inr \<lparr>buy_order_type = 23, sell_order_type = 24, price_type = 11\<rparr>"
    "check_adapter (PyStr (rc_strategy_name (rt_config live_setup))) (PyInt 1)
       (PyBool True) (PyBool False) = Inr ()"
    "check_session_names (PyStr (cp_account_key example_plan)) (PyStr (rc_strategy_name (rt_config live_setup))) = Inr ()"
    unfolding live_setup_sel by code_simp+
  have plan: "cp_security_account example_plan = 2" "cp_status_ok example_plan = 0" "rc_query_attempts (rt_config live_setup) = 1"
    "rc_runtime_lock_mode (rt_config live_setup) = ''exclusive''" "\<not> is_shared live_setup"
    by (simp_all add: example_plan_def live_setup_sel live_config_def example_config_def is_shared_def)
  show ?thesis
    unfolding connect_account_def plan orders
    by (simp add: plan live_trader live_select live_library live_external live_call return_steps del: One_nat_def,
        simp add: bindM_def mutex start_queue_def connecting_start_def new_adapter_def queue_start_def new_event_queue_def
          modifyM_def returnM_def set_transport_def set_account_def on_broker_def on_rworld_run liftR_def
          require_exact_zero_def raise_if_def Let_def orders del: One_nat_def)
qed

text \<open>
  The thread of the queue cannot be started: \<open>connect\<close> raises the error of \<open>join\<close> and keeps the lock of the path.
\<close>

lemma unstarted_thread_keeps_lock:
  "\<exists>c'. runtime_connect p start auto_open live_setup example_plan constants 1 False seed random (connecting_start example_plan w)
     = (Inl (Exn RuntimeError ''cannot join thread before it is started''), c') \<and> rt_mutex (cn_runtime c') = Some True"
proof -
  have plan: "rc_runtime_lock_mode (rt_config live_setup) = ''exclusive''"
    by (simp add: live_setup_sel live_config_def example_config_def)
  let ?c = "(connecting_start example_plan w)\<lparr>cn_runtime := (cn_runtime (connecting_start example_plan w))\<lparr>rt_mutex := Some True\<rparr>\<rparr>"
  obtain e c1 where started: "start_queue False ?c = (Inl e, c1)" "isinstance_exn e PyException" "stranded c1"
    "rt_mutex (cn_runtime c1) = Some True"
    by (auto simp: start_queue_def Let_def queue_start_def connecting_start_def new_adapter_def new_event_queue_def
        stranded_def lease_free_def)
  have acquired: "on_runtime (acquire_runtime_mutex live_setup 1) (connecting_start example_plan w) = (Inr (), ?c)"
    by (simp add: on_runtime_def acquire_runtime_mutex_def live_setup_sel live_mutex connecting_start_def
        del: One_nat_def)
  have "connect_account live_setup example_plan constants 1 False seed random (connecting_start example_plan w) = (Inl e, c1)"
    unfolding connect_account_def plan by (simp only: bindM_def if_True refl acquired started(1) prod.case sum.case)
  moreover obtain c' where "connect_cleanup live_setup c1
      = (Inl (Exn RuntimeError ''cannot join thread before it is started''), c')" "rt_mutex (cn_runtime c') = Some True"
    using connect_cleanup_stranded [OF started(3)] started(4) by metis
  ultimately show ?thesis
    using started(2) by (auto simp: runtime_connect_def clean_and_raise_def)
qed

section \<open>Properties\<close>



text \<open>
  C12: a runtime in the live environment waits for the confirmation.  However \<open>connect\<close> came to return it,
  it cannot trade, and as long as neither \<open>confirm_live\<close> nor \<open>recover_after_disconnect\<close> is called, no
  sequence of operations, \<open>open\<close> included, and of callbacks sends an order, in both lock modes.
\<close>

theorem live_runtime_waits_for_confirmation:
  assumes "connect_checks ce cfg a = (Inr plan, a')" and "rc_environment cfg = ''live''"
    and "list_all (\<lambda>oper. \<not> opens_gate oper) opers"
  shows "(case runtime_connect exclusive_port (\<lambda>w. new_session w f []) auto_open su plan constants fuel ts seed random
        (connecting_start plan (aworld a')) of
      (Inl e, c') \<Rightarrow> True
    | (Inr (su', bound, s), c') \<Rightarrow> \<not> can_trade (rt_world (exclusive_port su' bound) s)
        \<and> rt_orders (exclusive_port su' bound) (run_runtime su' bound (exclusive_port su' bound) opers s) = [])
    \<and> (case runtime_connect (\<lambda>su. shared_port su sh)
        (\<lambda>w. new_session \<lparr>db_state = \<lparr>cworld = w, db_exists = True, committed = d, working = d\<rparr>, broker_log = []\<rparr> f [])
        auto_open su plan constants fuel ts seed random (connecting_start plan (aworld a')) of
      (Inl e, c') \<Rightarrow> True
    | (Inr (su', bound, s), c') \<Rightarrow> \<not> can_trade (rt_world (shared_port su' sh bound) s)
        \<and> rt_orders (shared_port su' sh bound) (run_runtime su' bound (shared_port su' sh bound) opers s) = [])"
proof (rule conjI)
  have "port_get (exclusive_port su b) (new_session w f []) = w" for su :: "'a runtime_setup" and b w
    by (simp add: exclusive_port_def Let_def new_session_def)
  from live_connected [where p = exclusive_port, OF ep.runtime_session_axioms this assms(1,2) _ assms(3)]
  show "case runtime_connect exclusive_port (\<lambda>w. new_session w f []) auto_open su plan constants fuel ts seed random
        (connecting_start plan (aworld a')) of
      (Inl e, c') \<Rightarrow> True
    | (Inr (su', bound, s), c') \<Rightarrow> \<not> can_trade (rt_world (exclusive_port su' bound) s)
        \<and> rt_orders (exclusive_port su' bound) (run_runtime su' bound (exclusive_port su' bound) opers s) = []"
    by (auto split: prod.split sum.split)
  have "port_get (shared_port su sh b)
      (new_session \<lparr>db_state = \<lparr>cworld = w, db_exists = True, committed = d, working = d\<rparr>, broker_log = []\<rparr> f []) = w"
    for su :: "'a runtime_setup" and b w
    by (simp add: shared_port_def Let_def new_session_def)
  from live_connected [where p = "\<lambda>su. shared_port su sh", OF sp.runtime_session_axioms this assms(1,2) _ assms(3)]
  show "case runtime_connect (\<lambda>su. shared_port su sh)
        (\<lambda>w. new_session \<lparr>db_state = \<lparr>cworld = w, db_exists = True, committed = d, working = d\<rparr>, broker_log = []\<rparr> f [])
        auto_open su plan constants fuel ts seed random (connecting_start plan (aworld a')) of
      (Inl e, c') \<Rightarrow> True
    | (Inr (su', bound, s), c') \<Rightarrow> \<not> can_trade (rt_world (shared_port su' sh bound) s)
        \<and> rt_orders (shared_port su' sh bound) (run_runtime su' bound (shared_port su' sh bound) opers s) = []"
    by (auto split: prod.split sum.split)
qed

theorem live_runtime_waits_for_confirmation_witness:
  "\<exists>su' bound s c'. runtime_connect exclusive_port (\<lambda>w. new_session w NoFile []) False live_setup example_plan
        (xtconstant example_connect_env) 1 True (\<lambda>_. 0) 0
        (connecting_start example_plan (aworld (snd (connect_checks example_connect_env live_config no_authorities))))
      = (Inr (su', bound, s), c')
    \<and> \<not> can_trade (rt_world (exclusive_port su' bound) s)
    \<and> rt_orders (exclusive_port su' bound)
        (run_runtime su' bound (exclusive_port su' bound) [R_Open, R_Submit example_request, R_Poll] s) = []"
proof -
  let ?a = "snd (connect_checks example_connect_env live_config no_authorities)"
  have checked: "connect_checks example_connect_env live_config no_authorities = (Inr example_plan, ?a)"
    by (metis example_checks prod.collapse)
  have live: "rc_environment live_config = ''live''" by (simp add: live_config_def)
  have opers: "list_all (\<lambda>oper. \<not> opens_gate oper) [R_Open, R_Submit example_request, R_Poll]" by simp
  obtain su' bound s c' where run: "runtime_connect exclusive_port (\<lambda>w. new_session w NoFile []) False live_setup example_plan
      (xtconstant example_connect_env) 1 True (\<lambda>_. 0) 0 (connecting_start example_plan (aworld ?a)) = (Inr (su', bound, s), c')"
    using live_connects [of "aworld ?a"] by (auto simp: runtime_connect_def Let_def)
  from conjunct1 [OF live_runtime_waits_for_confirmation [OF checked live opers, where f = NoFile and auto_open = False
      and su = live_setup and constants = "xtconstant example_connect_env" and fuel = 1 and ts = True
      and seed = "\<lambda>_. 0" and random = 0]]
  show ?thesis unfolding run by auto
qed

end
