(* ===== verification/Spec2Isabelle.thy ===== *)
theory Spec2Isabelle
  imports
    Session_Properties
    Coordination_Safety
    Coordinated_Properties
    Release_Gate
    Guarded_Session
    Event_Queue
    Qmt_Adapter
    Authority_Properties
    Qmt_Callbacks
    Qmt_Binding
    Runtime_Config
    Runtime_Properties
    Connect_Properties
begin

text \<open>
  A model of \<open>qmt_execution_core\<close>, the execution core of a trading client, and the theorems that
  make it correct.

  \<^bold>\<open>The program.\<close>  A project submits one order at a time through an execution session.  The session
  (\<open>session.py\<close>) owns a lock (\<open>mutex.py\<close>) and a crash-safe journal file (\<open>journal.py\<close>), drives a
  state machine (\<open>state_machine.py\<close>) and calls a broker; after a crash or an ambiguous answer it
  recovers from the broker's list of orders (\<open>recovery.py\<close>).  Several processes share a SQLite
  database (\<open>coordination.py\<close>) in which an execution claims its symbol and reserves cash before its
  order is sent; the claim is released when the finality of the execution (\<open>finality.py\<close>) is
  resolved.  When a session opens, it explores its own state machine (\<open>verifier.py\<close>); a release is
  checked against a model of three interleaved processes as well (\<open>formal.py\<close>).  A certificate file
  names the one database of an account (\<open>authority.py\<close>).
  The broker is reached through the trading library XtQuant (\<open>miniqmt/\<close>): an adapter translates orders,
  callbacks put the library's events on a bounded queue (\<open>event_queue.py\<close>), and a runtime
  (\<open>miniqmt/runtime.py\<close>) connects all of it: it checks that the account is the bound one
  (\<open>miniqmt/binding.py\<close>), takes a lock and a session id, opens a session on the adapter, closes its gate
  when the broker disconnects, and opens it only after a recovery.

  \<^bold>\<open>Theories: foundations.\<close>
  \<^item> \<open>Exec_Prelude\<close>: results (\<open>Inl\<close> is an exception), the state and exception monad \<open>act\<close> with
    \<open>try\<close>/\<open>except\<close>/\<open>else\<close>/\<open>finally\<close>, its rules (\<open>triple\<close>, \<open>keeps\<close>), dictionaries, and the locale
    \<open>step_preorder\<close>: what every statement keeps, every composition of statements keeps.
  \<^item> \<open>Py_Float\<close>: binary64 arithmetic over exact rationals, and the locale \<open>rounding\<close>.
  \<^item> \<open>Py_Runtime\<close>: Python values, conversions, exception classes (\<open>exceptions.py\<close>).
  \<^item> \<open>Act_Evaluation\<close>: code equations with which the simplifier evaluates concrete runs in the order
    of the program.

  \<^bold>\<open>Theories: one execution.\<close>
  \<^item> \<open>Trade_Domain\<close>: \<open>domain.py\<close>; \<open>State_Machine\<close>: \<open>state_machine.py\<close>; \<open>Execution_Finality\<close>:
    \<open>finality.py\<close>; \<open>Order_Recovery\<close>: \<open>recovery.py\<close>; \<open>Execution_Journal\<close>: \<open>journal.py\<close>, with the
    locale \<open>payload_invariant\<close> for what every write preserves; \<open>Execution_Mutex\<close>: \<open>mutex.py\<close>;
    \<open>Machine_Verifier\<close>: \<open>verifier.py\<close>; \<open>Execution_Session\<close>: \<open>session.py\<close> and the invariant of a
    session over any sequence of operations; \<open>Session_Properties\<close>: what follows from it.
  \<^item> \<open>Execution_Guards\<close>: \<open>guards.py\<close>; \<open>Guarded_Session\<close>: a session behind the limits.

  \<^bold>\<open>Theories: executions that share.\<close>
  \<^item> \<open>Cash_Requirement\<close> and \<open>Coordination\<close>: \<open>coordination.py\<close>; \<open>Coordination_Spec\<close>: the atomic
    steps that the operations of the coordinator refine; \<open>Coordination_Safety\<close>: invariant, mutual
    exclusion and the cash bound over any interleaving of the processes' operations.
  \<^item> \<open>Coordinated_Session\<close>: \<open>coordinated_session.py\<close>, the session whose hooks use the coordinator.  Its
    world holds the shared database and a log of the raw broker's calls; at every call of something
    outside, any list of operations of other executions may run on the database.  \<open>Session_World\<close>
    (locale \<open>session_world\<close>): what every call outside keeps of the world, every operation of a
    session keeps; \<open>Coordinated_Safety\<close> instantiates it with the invariant of the database and the
    claim before the side effect, and shows that \<open>_sync\<close> makes the claim follow the finality;
    \<open>Coordinated_Properties\<close>: the theorems.
  \<^item> \<open>Three_Process_Model\<close>: the global model of \<open>formal.py\<close>, three processes on the graph of the state
    machine, and its breadth-first search; \<open>Three_Process_Search\<close>: the search ends and reports the
    reachable states; \<open>Three_Process_Safety\<close>: the invariants over every interleaving;
    \<open>Three_Process_Properties\<close>: the scenarios and the theorems.  \<open>Runtime_Refinement\<close>: the check of
    \<open>formal.py\<close> that the sources emit only events of the transition table.  \<open>Release_Gate\<close>: the gate
    that runs all three verifications.
  \<^item> \<open>Account_Authority\<close>: \<open>authority.py\<close>; \<open>Authority_Properties\<close>: one authority per account over any
    run of calls, and the round trip of the file.

  \<^bold>\<open>Theories: the trading library.\<close>
  \<^item> \<open>Qmt_Adapter\<close>: \<open>miniqmt/status.py\<close> and \<open>miniqmt/adapter.py\<close>; \<open>Qmt_Callbacks\<close>:
    \<open>miniqmt/callbacks.py\<close>; \<open>Event_Queue\<close>: \<open>event_queue.py\<close> as a step relation of threads inside its
    methods; \<open>Runtime_Gate\<close>: \<open>miniqmt/runtime_gate.py\<close> and \<open>miniqmt/session_id.py\<close>; \<open>Qmt_Binding\<close>:
    \<open>miniqmt/binding.py\<close>; \<open>Runtime_Config\<close>: the configuration record of \<open>miniqmt/runtime.py\<close>.
  \<^item> \<open>Runtime_World\<close>: the objects that a runtime shares with its session and with the thread of the
    queue (the record \<open>hub\<close>: queue, signals, gate, everything outside), the callback handler and the
    environments of the two kinds of session.  \<open>Runtime_Sessions\<close> and \<open>Runtime_Shared\<close>: no operation
    of a session turns the ability to trade back on (interpretations of \<open>session_world\<close> on the base
    and on the coordinated session).
  \<^item> \<open>Qmt_Runtime\<close>: the operations of \<open>MiniQmtRuntime\<close> after \<open>connect\<close>, over the methods that both kinds of
    session have (\<open>session_port\<close>; the locale \<open>runtime_session\<close> states what the runtime relies on, and is
    interpreted on both); \<open>Runtime_Safety\<close>: when a runtime can send orders; \<open>Runtime_Properties\<close>: the
    theorems.
  \<^item> \<open>Qmt_Connect\<close>: \<open>MiniQmtRuntime.connect\<close>, with its checks, acquisitions and clean-up;
    \<open>Connect_Properties\<close>: what a failed and a successful \<open>connect\<close> leave behind.

  \<^bold>\<open>How the model reads the code.\<close>  A method is a function from the state (a record) to a result and
  a new state.  What is not under \<open>src/\<close> (the broker's library, the project's guard and hooks, the file
  system, SQLite, the clock, the hash function) is a record of functions on a world \<open>'w\<close>; each of them
  may return or raise any exception, \<open>KeyboardInterrupt\<close> included, which stands for the end of the
  process at that point.  A write of the journal replaces the file as a whole or not at all, and may be
  interrupted before or after it took effect.  Python's integers are \<open>int\<close>, its floats are binary64.
  The \<open>Protocol\<close> classes of \<open>ports.py\<close> are the function fields of these records.

  \<^bold>\<open>Concurrency.\<close>  Other processes run at the calls to the outside: any list of coordinator
  operations (\<open>others\<close>) on the shared database.  Two transactions of one operation of
  \<open>coordinated_session.py\<close> with no such call between them are not separated; what the theorems state of
  this execution's own claim and reservation does not depend on it, because operations of other
  executions leave these rows alone (\<open>foreign_rows_kept\<close> in \<open>Coordination_Safety\<close>).  The threads of one process are modelled twice.  The
  queue alone is a step relation in which any number of threads are inside its methods.  In the runtime
  the thread of the queue runs inline: after every call to the outside, and after every statement on an
  object that this thread also writes, the field \<open>arrivals\<close> of the library says which event has been
  queued by then, or that the queue has overflowed, and the handler treats it.  So a disconnection may
  come between any two such statements of an operation.  One exception is \<open>place_order\<close> of the adapter:
  from its health check to its call of \<open>order_stock\<close> it is one statement of the session, and what arrives
  in between is handled after it.

  \<^bold>\<open>What the lemmas show.\<close>  For one execution: the machine's invariants, at most one submission per
  identity (within the 10000 used identities that the journal keeps), durability before every broker call, recovery of the journal after any crash.  For several:
  exclusive symbols, the cash bound, the refinement of the atomic specification, claims that follow the
  finality.  For the verifiers: their searches end, are exact and succeed.  For the library: a rejected
  submission sent nothing, events are handled in order, live trading needs both gates, an account that
  is ready is the bound one, a configuration that was read is well formed.  For the runtime: no order
  from a disconnection to a recovery, a recovery that raises leaves the runtime unable to trade, \<open>close\<close> is final
  whatever its parts raise, and both \<open>close\<close> and a \<open>connect\<close> that raises release the session id and the
  lock when the operating system's locks can be released, except for a \<open>connect\<close> that could not start
  the thread of the queue (\<open>unstarted_thread_keeps_lock\<close> in \<open>Connect_Properties\<close>).  The lemmas named in the
  findings show where the code departs from its own documentation, for instance
  \<open>reopened_runtime_trades\<close> and \<open>account_report_overwritten\<close> in \<open>Runtime_Safety\<close>.

  \<^bold>\<open>Bounds and fuel.\<close>  The loop of the lock has fuel (\<open>lock_fuel\<close>, and an argument of \<open>connect\<close> and of
  the authority's \<open>resolve\<close>); \<open>acquire_without_timeout_ends\<close> shows that a caller whose timeout is 0
  needs one round.  What is proved of an operation with a positive timeout holds for every fuel.  The
  loops of the verifier and of the local graph are total functions with a measure; the search over three
  processes is a partial function, and \<open>verify_scenario_is_exhaustive\<close> shows that it returns.  The retry
  loop of the journal has the 20 attempts of the code.

  \<^bold>\<open>Not modelled.\<close>  The text format of the journal (the file holds an abstract JSON value), the time
  stamps of the database, the order in which \<open>sort_keys\<close> writes keys; the parser and the walk over the
  syntax trees in \<open>formal.py\<close> (\<open>_iter_function_nodes\<close>), whose result is a parameter; a switch of threads
  inside a single statement; \<open>_make_callback\<close>, which only forwards to the bridge of \<open>callbacks.py\<close>; the
  command line and the examples (\<open>cli.py\<close>), which parse arguments and print results of the operations
  above, and the re-exports of the package.
\<close>

end
